(* ===== verification/Prelude.thy ===== *)
theory Prelude
  imports Complex_Main "HOL-Library.Word"
begin

text \<open>
  Shared by every component: the transaction monad (state passing with rollback on error), the
  table operations a database transaction is made of (first row, guarded update with its count
  of affected rows, insert under unique keys), and the lemmas about them.  The collection
  \<open>tx_success\<close> holds one rule per monad operation that says when it succeeds, so that
  \<open>simp add: tx_success\<close> turns "this handler returned" into the conjunction of its guards.
\<close>

named_theorems tx_success \<open>when a transaction step returns a value\<close>

section \<open>Transactions\<close>

text \<open>
  A transaction body maps a state to an error or to a value and the next state.  The error
  carries no state: an error rolls the transaction back.
\<close>

type_synonym ('s, 'e, 'a) tx = "'s \<Rightarrow> 'e + ('a \<times> 's)"

definition tx_return :: "'a \<Rightarrow> ('s, 'e, 'a) tx" where
  "tx_return a = (\<lambda>s. Inr (a, s))"

definition tx_fail :: "'e \<Rightarrow> ('s, 'e, 'a) tx" where
  "tx_fail e = (\<lambda>s. Inl e)"

definition tx_bind :: "('s, 'e, 'a) tx \<Rightarrow> ('a \<Rightarrow> ('s, 'e, 'b) tx) \<Rightarrow> ('s, 'e, 'b) tx" where
  "tx_bind m f = (\<lambda>s. case m s of Inl e \<Rightarrow> Inl e | Inr (a, s') \<Rightarrow> f a s')"

definition tx_guard :: "bool \<Rightarrow> 'e \<Rightarrow> ('s, 'e, unit) tx" where
  "tx_guard b e = (\<lambda>s. if b then Inr ((), s) else Inl e)"

definition tx_lift :: "'e + 'a \<Rightarrow> ('s, 'e, 'a) tx" where
  "tx_lift r = (\<lambda>s. case r of Inl e \<Rightarrow> Inl e | Inr a \<Rightarrow> Inr (a, s))"

definition tx_some :: "'a option \<Rightarrow> 'e \<Rightarrow> ('s, 'e, 'a) tx" where
  "tx_some x e = (\<lambda>s. case x of None \<Rightarrow> Inl e | Some a \<Rightarrow> Inr (a, s))"

definition tx_get :: "('s \<Rightarrow> 'a) \<Rightarrow> ('s, 'e, 'a) tx" where
  "tx_get g = (\<lambda>s. Inr (g s, s))"

definition tx_put :: "('s \<Rightarrow> 's) \<Rightarrow> ('s, 'e, unit) tx" where
  "tx_put g = (\<lambda>s. Inr ((), g s))"

definition tx_map_err :: "('e \<Rightarrow> 'e) \<Rightarrow> ('s, 'e, 'a) tx \<Rightarrow> ('s, 'e, 'a) tx" where
  "tx_map_err g m = (\<lambda>s. case m s of Inl e \<Rightarrow> Inl (g e) | Inr r \<Rightarrow> Inr r)"

text \<open>\<open>tx_try\<close> handles an error of a step that leaves the state alone when it fails.\<close>

definition tx_try :: "('s, 'e, 'a) tx \<Rightarrow> ('e \<Rightarrow> ('s, 'e, 'a) tx) \<Rightarrow> ('s, 'e, 'a) tx" where
  "tx_try m h = (\<lambda>s. case m s of Inl e \<Rightarrow> h e s | Inr r \<Rightarrow> Inr r)"

text \<open>Commit on success, roll back on error.\<close>

definition run_tx :: "('s, 'e, 'a) tx \<Rightarrow> 's \<Rightarrow> ('e + 'a) \<times> 's" where
  "run_tx m s = (case m s of Inl e \<Rightarrow> (Inl e, s) | Inr (a, s') \<Rightarrow> (Inr a, s'))"

lemma tx_return_Inr [tx_success]: "tx_return a s = Inr (b, s') \<longleftrightarrow> b = a \<and> s' = s"
  by (auto simp: tx_return_def)

lemma tx_fail_Inr [tx_success]: "tx_fail e s \<noteq> Inr r"
  by (simp add: tx_fail_def)

lemma tx_bind_Inr [tx_success]:
  "tx_bind m f s = Inr (b, s') \<longleftrightarrow> (\<exists>a s1. m s = Inr (a, s1) \<and> f a s1 = Inr (b, s'))"
  by (auto simp: tx_bind_def split: sum.splits)

lemma tx_guard_Inr [tx_success]: "tx_guard b e s = Inr (u, s') \<longleftrightarrow> b \<and> s' = s"
  by (auto simp: tx_guard_def)

lemma tx_lift_Inr [tx_success]: "tx_lift r s = Inr (a, s') \<longleftrightarrow> r = Inr a \<and> s' = s"
  by (auto simp: tx_lift_def split: sum.splits)

lemma tx_some_Inr [tx_success]: "tx_some x e s = Inr (a, s') \<longleftrightarrow> x = Some a \<and> s' = s"
  by (auto simp: tx_some_def split: option.splits)

lemma tx_get_Inr [tx_success]: "tx_get g s = Inr (a, s') \<longleftrightarrow> a = g s \<and> s' = s"
  by (auto simp: tx_get_def)

lemma tx_put_Inr [tx_success]: "tx_put g s = Inr (u, s') \<longleftrightarrow> s' = g s"
  by (auto simp: tx_put_def)

lemma tx_map_err_Inr [tx_success]: "tx_map_err g m s = Inr r \<longleftrightarrow> m s = Inr r"
  by (auto simp: tx_map_err_def split: sum.splits)

lemma tx_try_Inr [tx_success]:
  "tx_try m h s = Inr r \<longleftrightarrow> m s = Inr r \<or> (\<exists>e. m s = Inl e \<and> h e s = Inr r)"
  by (auto simp: tx_try_def split: sum.splits)

lemma tx_bind_eqs [simp]:
  "tx_bind (tx_return a) f = f a"
  "tx_bind (tx_fail e) f = tx_fail e"
  "m s = Inl e \<Longrightarrow> tx_bind m f s = Inl e"
  "m s = Inr (x, s') \<Longrightarrow> tx_bind m f s = f x s'"
  by (auto simp: tx_bind_def tx_return_def tx_fail_def fun_eq_iff)

lemma tx_guard_eqs [simp]:
  "b \<Longrightarrow> tx_guard b e s = Inr ((), s)"
  "\<not> b \<Longrightarrow> tx_guard b e s = Inl e"
  by (auto simp: tx_guard_def)

lemma tx_get_eq [simp]: "tx_get g s = Inr (g s, s)"
  by (simp add: tx_get_def)

lemma run_tx_cases:
  "run_tx m s = (r, s') \<longleftrightarrow>
     (\<exists>e. m s = Inl e \<and> r = Inl e \<and> s' = s) \<or> (\<exists>a. m s = Inr (a, s') \<and> r = Inr a)"
  by (auto simp: run_tx_def split: sum.splits)

lemma run_tx_Inr: "run_tx m s = (Inr a, s') \<longleftrightarrow> m s = Inr (a, s')"
  by (auto simp: run_tx_cases)

lemma run_tx_Inl: "run_tx m s = (Inl e, s') \<longleftrightarrow> m s = Inl e \<and> s' = s"
  by (auto simp: run_tx_cases)

lemma run_tx_rollback: "fst (run_tx m s) = Inl e \<Longrightarrow> snd (run_tx m s) = s"
  by (auto simp: run_tx_def split: sum.splits)

section \<open>Tables\<close>

text \<open>
  A table is the list of its rows in insertion order.  \<open>tbl_update\<close> and \<open>tbl_count\<close> are an
  \<open>UPDATE ... WHERE\<close> and its \<open>RowsAffected\<close>; \<open>tbl_clash\<close> is a violated unique key.
\<close>

definition tbl_update :: "('r \<Rightarrow> bool) \<Rightarrow> ('r \<Rightarrow> 'r) \<Rightarrow> 'r list \<Rightarrow> 'r list" where
  "tbl_update P f rows = map (\<lambda>r. if P r then f r else r) rows"

definition tbl_count :: "('r \<Rightarrow> bool) \<Rightarrow> 'r list \<Rightarrow> nat" where
  "tbl_count P rows = length (filter P rows)"

definition tbl_clash :: "('r \<Rightarrow> 'k) \<Rightarrow> 'r \<Rightarrow> 'r list \<Rightarrow> bool" where
  "tbl_clash key r rows = list_ex (\<lambda>x. key x = key r) rows"

lemma find_Some_memD: "find P xs = Some x \<Longrightarrow> x \<in> set xs \<and> P x"
  by (induction xs) (auto split: if_splits)

lemma find_None_iff_all: "find P xs = None \<longleftrightarrow> (\<forall>x\<in>set xs. \<not> P x)"
  by (induction xs) auto

lemma find_append_last:
  "find P (xs @ [x]) = (case find P xs of Some y \<Rightarrow> Some y | None \<Rightarrow> if P x then Some x else None)"
  by (induction xs) auto

lemma find_keyI:
  "distinct (map key xs) \<Longrightarrow> x \<in> set xs \<Longrightarrow> key x = k \<Longrightarrow> find (\<lambda>r. key r = k) xs = Some x"
  by (induction xs) (auto simp: image_iff)

lemma distinct_key_eqD:
  "distinct (map key xs) \<Longrightarrow> x \<in> set xs \<Longrightarrow> y \<in> set xs \<Longrightarrow> key x = key y \<Longrightarrow> x = y"
  by (induction xs) (auto simp: image_iff)

lemma map_key_update [simp]:
  "(\<And>r. key (f r) = key r) \<Longrightarrow> map key (tbl_update P f xs) = map key xs"
  by (simp add: tbl_update_def)

lemma length_tbl_update [simp]: "length (tbl_update P f xs) = length xs"
  by (simp add: tbl_update_def)

lemma set_tbl_update:
  "set (tbl_update P f xs) = {r \<in> set xs. \<not> P r} \<union> f ` {r \<in> set xs. P r}"
  by (auto simp: tbl_update_def)

lemma tbl_update_append [simp]: "tbl_update P f (xs @ ys) = tbl_update P f xs @ tbl_update P f ys"
  by (simp add: tbl_update_def)

lemma tbl_count_append [simp]: "tbl_count P (xs @ ys) = tbl_count P xs + tbl_count P ys"
  by (simp add: tbl_count_def)

lemma tbl_count_Nil [simp]: "tbl_count P [] = 0"
  by (simp add: tbl_count_def)

lemma tbl_update_Nil [simp]: "tbl_update P f [] = []"
  by (simp add: tbl_update_def)

lemma tbl_count_Cons [simp]: "tbl_count P (x # xs) = (if P x then Suc (tbl_count P xs) else tbl_count P xs)"
  by (simp add: tbl_count_def)

lemma tbl_update_Cons [simp]: "tbl_update P f (x # xs) = (if P x then f x else x) # tbl_update P f xs"
  by (simp add: tbl_update_def)

lemma tbl_update_none: "(\<And>r. r \<in> set xs \<Longrightarrow> \<not> P r) \<Longrightarrow> tbl_update P f xs = xs"
  by (simp add: tbl_update_def map_idI)

lemma tbl_count_0_iff: "tbl_count P xs = 0 \<longleftrightarrow> (\<forall>r\<in>set xs. \<not> P r)"
  by (auto simp: tbl_count_def filter_empty_conv)

lemma tbl_count_key_le1:
  "distinct (map key xs) \<Longrightarrow> tbl_count (\<lambda>r. key r = k \<and> Q r) xs \<le> 1"
proof (induction xs)
  case (Cons x xs)
  have "tbl_count (\<lambda>r. key r = k \<and> Q r) xs = 0" if "key x = k"
    unfolding tbl_count_0_iff using Cons.prems that by (auto simp: image_iff)
  then show ?case using Cons by auto
qed simp

lemma tbl_count_key_1:
  assumes "distinct (map key xs)"
  shows "tbl_count (\<lambda>r. key r = k \<and> Q r) xs = 1 \<longleftrightarrow> (\<exists>r. find (\<lambda>r. key r = k) xs = Some r \<and> Q r)"
proof -
  have "tbl_count (\<lambda>r. key r = k \<and> Q r) xs = 1 \<longleftrightarrow> tbl_count (\<lambda>r. key r = k \<and> Q r) xs \<noteq> 0"
    using tbl_count_key_le1 [OF assms, of k Q] by linarith
  also have "\<dots> \<longleftrightarrow> (\<exists>r\<in>set xs. key r = k \<and> Q r)"
    by (auto simp: tbl_count_0_iff)
  also have "\<dots> \<longleftrightarrow> (\<exists>r. find (\<lambda>r. key r = k) xs = Some r \<and> Q r)"
  proof
    assume "\<exists>r\<in>set xs. key r = k \<and> Q r"
    then obtain r where "r \<in> set xs" "key r = k" "Q r" by blast
    then show "\<exists>r. find (\<lambda>r. key r = k) xs = Some r \<and> Q r"
      using find_keyI [OF assms, of r k] by blast
  qed (auto dest: find_Some_memD)
  finally show ?thesis .
qed

lemma find_tbl_update:
  assumes "find (\<lambda>r. key r = k) xs = Some r" "Q r" "\<And>r. key (f r) = key r"
  shows "find (\<lambda>r. key r = k) (tbl_update (\<lambda>r. key r = k \<and> Q r) f xs) = Some (f r)"
  using assms by (induction xs) (auto split: if_splits)

lemma find_tbl_update_other:
  assumes "\<And>r. key (f r) = key r" "\<And>r. P r \<Longrightarrow> key r \<noteq> k"
  shows "find (\<lambda>r. key r = k) (tbl_update P f xs) = find (\<lambda>r. key r = k) xs"
  using assms by (induction xs) auto

lemma not_clash_distinct:
  "distinct (map key xs) \<Longrightarrow> \<not> tbl_clash key r xs \<Longrightarrow> distinct (map key (xs @ [r]))"
  by (auto simp: tbl_clash_def list_ex_iff)

lemma not_clash_find: "\<not> tbl_clash key r xs \<Longrightarrow> find (\<lambda>x. key x = key r) xs = None"
  by (auto simp: tbl_clash_def list_ex_iff find_None_iff_all)

lemma tbl_clash_update [simp]:
  "(\<And>r. key (f r) = key r) \<Longrightarrow> tbl_clash key x (tbl_update P f xs) = tbl_clash key x xs"
  by (induction xs) (auto simp: tbl_clash_def)

lemma tbl_clash_append [simp]:
  "tbl_clash key x (xs @ ys) = (tbl_clash key x xs \<or> tbl_clash key x ys)"
  by (simp add: tbl_clash_def)

text \<open>The row just inserted is the one a later guarded update on its key hits.\<close>

lemma tbl_update_inserted:
  "\<not> tbl_clash key r xs \<Longrightarrow> Q r \<Longrightarrow>
   tbl_update (\<lambda>x. key x = key r \<and> Q x) f (xs @ [r]) = xs @ [f r]"
  by (auto simp: tbl_clash_def list_ex_iff intro!: tbl_update_none)

lemma tbl_count_inserted:
  "\<not> tbl_clash key r xs \<Longrightarrow> Q r \<Longrightarrow> tbl_count (\<lambda>x. key x = key r \<and> Q x) (xs @ [r]) = 1"
  by (auto simp: tbl_clash_def list_ex_iff tbl_count_0_iff)

section \<open>Options\<close>

lemma map_option_Some_iff: "map_option f x = Some y \<longleftrightarrow> (\<exists>z. x = Some z \<and> y = f z)"
  by (cases x) auto

end
