(* ===== verification/GoStrings.thy ===== *)
theory GoStrings
  imports Prelude
begin

text \<open>
  The parts of Go's \<open>strings\<close>, \<open>strconv\<close> and rune conversion that the services use, on HOL
  strings read as byte strings (\<open>length\<close> is Go's \<open>len\<close>).  White space and letter case are the
  ASCII ones: the Unicode white space outside ASCII that \<open>strings.TrimSpace\<close> also removes is not
  modelled.
\<close>

definition byte_of :: "char \<Rightarrow> nat" where
  "byte_of c = of_char c"

definition is_space :: "char \<Rightarrow> bool" where
  "is_space c = (let b = byte_of c in b = 32 \<or> (9 \<le> b \<and> b \<le> 13))"

definition trim_space :: "string \<Rightarrow> string" where
  "trim_space s = rev (dropWhile is_space (rev (dropWhile is_space s)))"

definition upper_char :: "char \<Rightarrow> char" where
  "upper_char c = (let b = byte_of c in if 97 \<le> b \<and> b \<le> 122 then char_of (b - 32) else c)"

definition lower_char :: "char \<Rightarrow> char" where
  "lower_char c = (let b = byte_of c in if 65 \<le> b \<and> b \<le> 90 then char_of (b + 32) else c)"

definition to_upper :: "string \<Rightarrow> string" where
  "to_upper s = map upper_char s"

definition to_lower :: "string \<Rightarrow> string" where
  "to_lower s = map lower_char s"

text \<open>\<open>strings.EqualFold\<close> against an upper-case ASCII literal.\<close>

definition equal_fold :: "string \<Rightarrow> string \<Rightarrow> bool" where
  "equal_fold s t = (to_upper s = to_upper t)"

definition has_prefix :: "string \<Rightarrow> string \<Rightarrow> bool" where
  "has_prefix s p = (take (length p) s = p)"

definition trim_prefix :: "string \<Rightarrow> string \<Rightarrow> string" where
  "trim_prefix s p = (if has_prefix s p then drop (length p) s else s)"

section \<open>Runes\<close>

definition cont_byte :: "char \<Rightarrow> bool" where
  "cont_byte c = (128 \<le> byte_of c \<and> byte_of c \<le> 191)"

definition byte_in :: "nat \<Rightarrow> nat \<Rightarrow> char \<Rightarrow> bool" where
  "byte_in lo hi c = (lo \<le> byte_of c \<and> byte_of c \<le> hi)"

text \<open>
  The number of bytes the first rune of a string takes: a well-formed UTF-8 sequence, or one byte
  that decodes to U+FFFD.
\<close>

fun rune_width :: "string \<Rightarrow> nat" where
  "rune_width [] = 0"
| "rune_width [a] = 1"
| "rune_width (a # b # cs) =
     (if byte_in 194 223 a then (if cont_byte b then 2 else 1)
      else if byte_in 224 239 a then
        (case cs of
           [] \<Rightarrow> 1
         | c # _ \<Rightarrow>
             if byte_in (if byte_of a = 224 then 160 else 128) (if byte_of a = 237 then 159 else 191) b
                \<and> cont_byte c then 3 else 1)
      else if byte_in 240 244 a then
        (case cs of
           c # d # _ \<Rightarrow>
             if byte_in (if byte_of a = 240 then 144 else 128) (if byte_of a = 244 then 143 else 191) b
                \<and> cont_byte c \<and> cont_byte d then 4 else 1
         | _ \<Rightarrow> 1)
      else 1)"

lemma rune_width_pos: "s \<noteq> [] \<Longrightarrow> 1 \<le> rune_width s"
  by (cases s rule: rune_width.cases) (auto split: list.splits)

lemma rune_width_le: "rune_width s \<le> length s"
  by (cases s rule: rune_width.cases) (auto split: list.splits)

function rune_count :: "string \<Rightarrow> nat" where
  "rune_count [] = 0"
| "rune_count (a # s) = Suc (rune_count (drop (rune_width (a # s) - 1) s))"
  by pat_completeness auto
termination by (relation "measure length") auto

lemma rune_count_le_length: "rune_count s \<le> length s"
proof (induction s rule: rune_count.induct)
  case (2 a s)
  then show ?case using rune_width_le [of "a # s"] by simp
qed simp

lemma rune_width_ascii: "byte_of a < 128 \<Longrightarrow> rune_width (a # s) = 1"
  by (cases s) (auto simp: byte_in_def)

lemma rune_count_ascii: "list_all (\<lambda>c. byte_of c < 128) s \<Longrightarrow> rune_count s = length s"
  by (induction s) (simp_all add: rune_width_ascii)

section \<open>Decimal digits\<close>

definition is_digit :: "char \<Rightarrow> bool" where
  "is_digit c = (48 \<le> byte_of c \<and> byte_of c \<le> 57)"

definition digit_val :: "char \<Rightarrow> nat" where
  "digit_val c = byte_of c - 48"

definition digit_char :: "nat \<Rightarrow> char" where
  "digit_char n = char_of (48 + n)"

definition digits_val :: "string \<Rightarrow> int" where
  "digits_val s = foldl (\<lambda>acc c. 10 * acc + int (digit_val c)) 0 s"

function show_nat :: "nat \<Rightarrow> string" where
  "show_nat n = (if n < 10 then [digit_char n] else show_nat (n div 10) @ [digit_char (n mod 10)])"
  by pat_completeness auto
termination by (relation "measure id") auto

declare show_nat.simps [simp del]

definition show_int :: "int \<Rightarrow> string" where
  "show_int i = (if i < 0 then ''-'' @ show_nat (nat (- i)) else show_nat (nat i))"

text \<open>\<open>strconv.ParseUint(s, 10, 64)\<close> and \<open>strconv.FormatUint(n, 10)\<close>.\<close>

definition parse_uint64 :: "string \<Rightarrow> 64 word option" where
  "parse_uint64 s =
     (if s = [] \<or> \<not> list_all is_digit s \<or> digits_val s \<ge> 2 ^ 64 then None
      else Some (word_of_int (digits_val s)))"

definition format_uint64 :: "64 word \<Rightarrow> string" where
  "format_uint64 w = show_nat (unat w)"

lemma byte_of_digit_char: "n < 10 \<Longrightarrow> byte_of (digit_char n) = 48 + n"
  by (simp add: byte_of_def digit_char_def)

lemma digit_char_props [simp]:
  "n < 10 \<Longrightarrow> is_digit (digit_char n)" "n < 10 \<Longrightarrow> digit_val (digit_char n) = n"
  by (simp_all add: is_digit_def digit_val_def byte_of_digit_char)

lemma digits_val_Nil [simp]: "digits_val [] = 0"
  by (simp add: digits_val_def)

lemma digits_val_snoc [simp]: "digits_val (s @ [c]) = 10 * digits_val s + int (digit_val c)"
  by (simp add: digits_val_def)

lemma show_nat_nonempty [simp]: "show_nat n \<noteq> []"
  by (subst show_nat.simps) simp

lemma show_nat_digits: "list_all is_digit (show_nat n)"
proof (induction n rule: show_nat.induct)
  case (1 n)
  then show ?case by (subst show_nat.simps) auto
qed

lemma digits_val_show_nat [simp]: "digits_val (show_nat n) = int n"
proof (induction n rule: show_nat.induct)
  case (1 n)
  show ?case
  proof (cases "n < 10")
    case True
    then have "digits_val (show_nat n) = digits_val ([] @ [digit_char n])"
      by (subst show_nat.simps) simp
    then show ?thesis using True by (simp only: digits_val_snoc) simp
  next
    case False
    then have "digits_val (show_nat n) = 10 * digits_val (show_nat (n div 10)) + int (n mod 10)"
      by (subst show_nat.simps) simp
    then show ?thesis using 1 [OF False] by (simp add: zdiv_int zmod_int)
  qed
qed

lemma digits_val_nonneg: "0 \<le> digits_val s"
  by (induction s rule: rev_induct) simp_all

lemma show_nat_inj: "show_nat m = show_nat n \<longleftrightarrow> m = n"
  by (metis digits_val_show_nat of_nat_eq_iff)

lemma parse_format_uint64 [simp]: "parse_uint64 (format_uint64 w) = Some w"
proof -
  have "unat w < 2 ^ 64" using unsigned_less [where 'a = nat, of w] by simp
  then have "int (unat w) < int (2 ^ 64)" by (simp only: of_nat_less_iff)
  then show ?thesis by (simp add: parse_uint64_def format_uint64_def show_nat_digits)
qed

lemma format_uint64_nonempty [simp]: "format_uint64 w \<noteq> []"
  by (simp add: format_uint64_def)

lemma format_uint64_inj: "format_uint64 a = format_uint64 b \<longleftrightarrow> a = b"
  by (metis option.inject parse_format_uint64)

lemma parse_uint64_Some:
  "parse_uint64 s = Some w \<longleftrightarrow>
     s \<noteq> [] \<and> list_all is_digit s \<and> digits_val s < 2 ^ 64 \<and> w = word_of_int (digits_val s)"
  by (auto simp: parse_uint64_def)

section \<open>Normalisation is idempotent\<close>

lemma byte_of_char_of [simp]: "n < 256 \<Longrightarrow> byte_of (char_of n) = n"
  by (simp add: byte_of_def)

lemma byte_of_less [simp]: "byte_of c < 256"
  by (simp add: byte_of_def)

lemma upper_char_idem [simp]: "upper_char (upper_char c) = upper_char c"
proof (cases "97 \<le> byte_of c \<and> byte_of c \<le> 122")
  case True
  then have "upper_char c = char_of (byte_of c - 32)" "byte_of (char_of (byte_of c - 32)) = byte_of c - 32"
    by (simp_all add: upper_char_def Let_def less_imp_diff_less)
  moreover have "\<not> 97 \<le> byte_of c - 32" using True by linarith
  ultimately show ?thesis by (simp add: upper_char_def Let_def)
next
  case False
  then have "upper_char c = c" by (auto simp: upper_char_def Let_def)
  then show ?thesis by simp
qed

lemma to_upper_idem [simp]: "to_upper (to_upper s) = to_upper s"
  by (simp add: to_upper_def)

lemma dropWhile_idem: "dropWhile P (dropWhile P xs) = dropWhile P xs"
  by (induction xs) auto

lemma rev_dropWhile_prefix: "\<exists>zs. xs = rev (dropWhile P (rev xs)) @ zs"
  by (metis rev_append rev_rev_ident takeWhile_dropWhile_id)

lemma trim_space_ends:
  assumes "trim_space s \<noteq> []"
  shows "\<not> is_space (hd (trim_space s))" and "\<not> is_space (last (trim_space s))"
proof -
  define u where "u = dropWhile is_space s"
  define t where "t = trim_space s"
  have t: "t = rev (dropWhile is_space (rev u))" by (simp add: t_def trim_space_def u_def)
  obtain zs where u: "u = t @ zs" using rev_dropWhile_prefix [of u is_space] t by auto
  have ne: "t \<noteq> []" using assms by (simp add: t_def)
  then have "hd u = hd t" "u \<noteq> []" using u by auto
  then show "\<not> is_space (hd (trim_space s))"
    using hd_dropWhile [of is_space s] unfolding u_def t_def by simp
  have "dropWhile is_space (rev u) \<noteq> []" using ne t by simp
  then have "\<not> is_space (hd (dropWhile is_space (rev u)))" by (rule hd_dropWhile)
  then show "\<not> is_space (last (trim_space s))" using t unfolding t_def by (simp add: last_rev)
qed

lemma trim_space_idem [simp]: "trim_space (trim_space s) = trim_space s"
proof (cases "trim_space s = []")
  case True
  then show ?thesis unfolding True by (simp add: trim_space_def)
next
  case False
  have "dropWhile is_space (trim_space s) = trim_space s"
    using trim_space_ends(1) [OF False] by (cases "trim_space s") auto
  moreover have "dropWhile is_space (rev (trim_space s)) = rev (trim_space s)"
    using trim_space_ends(2) [OF False] False by (cases "rev (trim_space s)") (auto simp: last_conv_nth hd_rev [symmetric])
  ultimately show ?thesis unfolding trim_space_def [of "trim_space s"] by simp
qed

section \<open>Evaluation\<close>

text \<open>Code equations on the bits of a character, so that the simplifier evaluates strings without unary numbers.\<close>

definition letter_bits :: "bool \<Rightarrow> bool \<Rightarrow> bool \<Rightarrow> bool \<Rightarrow> bool \<Rightarrow> bool" where
  "letter_bits b0 b1 b2 b3 b4 = (if b4 then \<not> b3 \<or> \<not> b2 \<and> \<not> (b1 \<and> b0) else b0 \<or> b1 \<or> b2 \<or> b3)"

definition ascii :: "char \<Rightarrow> bool" where
  "ascii c = (byte_of c < 128)"

lemma ascii_bits [code]: "ascii (Char b0 b1 b2 b3 b4 b5 b6 b7) = (\<not> b7)"
  by (cases b0; cases b1; cases b2; cases b3; cases b4; cases b5; cases b6; cases b7; simp add: ascii_def byte_of_def)

lemma is_space_bits [code]:
  "is_space (Char b0 b1 b2 b3 b4 b5 b6 b7) =
     (\<not> b7 \<and> \<not> b6 \<and> \<not> b4 \<and>
      (if b5 then \<not> b3 \<and> \<not> b2 \<and> \<not> b1 \<and> \<not> b0 else b3 \<and> (if b2 then \<not> b1 else b0 \<or> b1)))"
  by (cases b0; cases b1; cases b2; cases b3; cases b4; cases b5; cases b6; cases b7; simp add: is_space_def byte_of_def)

lemma upper_char_bits [code]:
  "upper_char (Char b0 b1 b2 b3 b4 b5 b6 b7) =
     (if \<not> b7 \<and> b6 \<and> b5 \<and> letter_bits b0 b1 b2 b3 b4 then Char b0 b1 b2 b3 b4 False True False
      else Char b0 b1 b2 b3 b4 b5 b6 b7)"
  by (cases b0; cases b1; cases b2; cases b3; cases b4; cases b5; cases b6; cases b7;
      simp add: upper_char_def byte_of_def letter_bits_def char_of_def bit_0)

lemma lower_char_bits [code]:
  "lower_char (Char b0 b1 b2 b3 b4 b5 b6 b7) =
     (if \<not> b7 \<and> b6 \<and> \<not> b5 \<and> letter_bits b0 b1 b2 b3 b4 then Char b0 b1 b2 b3 b4 True True False
      else Char b0 b1 b2 b3 b4 b5 b6 b7)"
  by (cases b0; cases b1; cases b2; cases b3; cases b4; cases b5; cases b6; cases b7;
      simp add: lower_char_def byte_of_def letter_bits_def char_of_def bit_0)

lemma cont_byte_bits [code]: "cont_byte (Char b0 b1 b2 b3 b4 b5 b6 b7) = (b7 \<and> \<not> b6)"
  by (cases b0; cases b1; cases b2; cases b3; cases b4; cases b5; cases b6; cases b7; simp add: cont_byte_def byte_of_def)

lemma is_digit_bits [code]:
  "is_digit (Char b0 b1 b2 b3 b4 b5 b6 b7) = (\<not> b7 \<and> \<not> b6 \<and> b5 \<and> b4 \<and> (b3 \<longrightarrow> \<not> b2 \<and> \<not> b1))"
  by (cases b0; cases b1; cases b2; cases b3; cases b4; cases b5; cases b6; cases b7; simp add: is_digit_def byte_of_def)

definition digit_bits :: "char \<Rightarrow> int" where
  "digit_bits c = int (digit_val c)"

lemma digit_bits_code [code]:
  "digit_bits (Char b0 b1 b2 b3 b4 b5 b6 b7) =
     (if is_digit (Char b0 b1 b2 b3 b4 b5 b6 b7)
      then (if b3 then (if b0 then 9 else 8)
            else if b2 then (if b1 then (if b0 then 7 else 6) else (if b0 then 5 else 4))
            else if b1 then (if b0 then 3 else 2) else if b0 then 1 else 0)
      else int (digit_val (Char b0 b1 b2 b3 b4 b5 b6 b7)))"
  unfolding is_digit_bits digit_bits_def
  by (cases b0; cases b1; cases b2; cases b3; cases b4; cases b5; cases b6; cases b7; simp add: digit_val_def byte_of_def)

lemma digits_val_code [code]: "digits_val s = foldl (\<lambda>acc c. 10 * acc + digit_bits c) 0 s"
  by (simp add: digits_val_def digit_bits_def)

lemma rune_width_code [code]:
  "rune_width [] = 0" "rune_width [a] = 1"
  "rune_width (a # b # cs) =
     (if ascii a then 1
      else if byte_in 194 223 a then (if cont_byte b then 2 else 1)
      else if byte_in 224 239 a then
        (case cs of
           [] \<Rightarrow> 1
         | c # _ \<Rightarrow>
             if byte_in (if byte_of a = 224 then 160 else 128) (if byte_of a = 237 then 159 else 191) b
                \<and> cont_byte c then 3 else 1)
      else if byte_in 240 244 a then
        (case cs of
           c # d # _ \<Rightarrow>
             if byte_in (if byte_of a = 240 then 144 else 128) (if byte_of a = 244 then 143 else 191) b
                \<and> cont_byte c \<and> cont_byte d then 4 else 1
         | _ \<Rightarrow> 1)
      else 1)"
  by (simp_all add: ascii_def byte_in_def)

end
