(* ===== verification/Errors.thy ===== *)
theory Errors
  imports GoStrings
begin

text \<open>
  The error values of the services and repositories.  Each \<open>var Err... = errors.New\<close> sentinel is a
  constructor of the datatype of its file; those of the package \<open>repository\<close> carry the prefix
  \<open>Repo\<close>, and those of the services are named as in the code by an abbreviation.  \<open>Wrapped e m\<close>
  is \<open>fmt.Errorf("%w: m", e)\<close> and \<open>ErrBatchFields\<close> is \<open>*BatchValidationError\<close> with its field
  map as an association list.  \<open>DbDuplicate\<close> and \<open>DbCheck\<close> are the driver's errors for a
  violated unique key and a violated CHECK constraint.
\<close>

datatype batch_error =
    BatchNotFound
  | BatchForbidden
  | BatchInvalidState
  | BatchStaleVersion
  | BatchValidation
  | BatchIdempotencyConflict
  | BatchInProgress
  | BatchEvidenceNotFound

datatype claim_error =
    ClaimForbidden
  | ClaimValidation
  | ClaimStaleVersion
  | ClaimInvalidState
  | ClaimOpportunityNotFound
  | ClaimIdempotencyConflict
  | ClaimInProgress
  | ClaimConcurrent
  | ClaimCapacity
  | ClaimLeaseUnavailable

datatype assignment_error =
    AssignmentForbidden
  | AssignmentNotFound
  | AssignmentInvalidState
  | AssignmentStaleVersion
  | AssignmentValidation
  | AssignmentIdempotencyConflict
  | AssignmentInProgress
  | AssignmentConcurrent

datatype batch_repo_error =
    RepoBatchNotFound
  | RepoCommandNotFound
  | RepoBatchConcurrency
  | RepoCommandConcurrency
  | RepoBatchActorNotEligible
  | RepoReceiptNotFound
  | RepoEvidenceNotFound
  | RepoEventOutboxNotFound
  | RepoAnalyticsNotFound
  | RepoAnalyticsSourceConflict

datatype claim_repo_error =
    RepoClaimBatchNotFound
  | RepoClaimCommandNotFound
  | RepoClaimOpportunityNotFound
  | RepoClaimPoolNotFound
  | RepoClaimConcurrency
  | RepoClaimActorNotEligible

datatype assignment_repo_error =
    RepoAssignmentBatchNotFound
  | RepoAssignmentNotFound
  | RepoAssignmentCommandNotFound
  | RepoAssignmentScopeNotFound
  | RepoAssignmentClaimNotFound
  | RepoAssignmentConcurrency
  | RepoAssignmentActorNotEligible

datatype outbox_repo_error =
    RepoOutboxEventNotFound
  | RepoOutboxLeaseLost

datatype error =
    BatchErr batch_error
  | ClaimErr claim_error
  | AssignmentErr assignment_error
  | BatchRepoErr batch_repo_error
  | ClaimRepoErr claim_repo_error
  | AssignmentRepoErr assignment_repo_error
  | OutboxRepoErr outbox_repo_error
  | ErrBatchFields "(string \<times> string) list"
  | ErrEvidenceStorage
  | ErrEvidenceIntegrity
  | DbDuplicate string
  | DbCheck string
  | PlainError string
  | Wrapped error string

abbreviation "ErrBatchNotFound \<equiv> BatchErr BatchNotFound"
abbreviation "ErrBatchForbidden \<equiv> BatchErr BatchForbidden"
abbreviation "ErrBatchInvalidState \<equiv> BatchErr BatchInvalidState"
abbreviation "ErrBatchStaleVersion \<equiv> BatchErr BatchStaleVersion"
abbreviation "ErrBatchValidation \<equiv> BatchErr BatchValidation"
abbreviation "ErrBatchIdempotencyConflict \<equiv> BatchErr BatchIdempotencyConflict"
abbreviation "ErrBatchInProgress \<equiv> BatchErr BatchInProgress"
abbreviation "ErrBatchEvidenceNotFound \<equiv> BatchErr BatchEvidenceNotFound"
abbreviation "ErrClaimForbidden \<equiv> ClaimErr ClaimForbidden"
abbreviation "ErrClaimValidation \<equiv> ClaimErr ClaimValidation"
abbreviation "ErrClaimStaleVersion \<equiv> ClaimErr ClaimStaleVersion"
abbreviation "ErrClaimInvalidState \<equiv> ClaimErr ClaimInvalidState"
abbreviation "ErrClaimOpportunityNotFound \<equiv> ClaimErr ClaimOpportunityNotFound"
abbreviation "ErrClaimIdempotencyConflict \<equiv> ClaimErr ClaimIdempotencyConflict"
abbreviation "ErrClaimInProgress \<equiv> ClaimErr ClaimInProgress"
abbreviation "ErrClaimConcurrent \<equiv> ClaimErr ClaimConcurrent"
abbreviation "ErrClaimCapacity \<equiv> ClaimErr ClaimCapacity"
abbreviation "ErrClaimLeaseUnavailable \<equiv> ClaimErr ClaimLeaseUnavailable"
abbreviation "ErrAssignmentForbidden \<equiv> AssignmentErr AssignmentForbidden"
abbreviation "ErrAssignmentNotFound \<equiv> AssignmentErr AssignmentNotFound"
abbreviation "ErrAssignmentInvalidState \<equiv> AssignmentErr AssignmentInvalidState"
abbreviation "ErrAssignmentStaleVersion \<equiv> AssignmentErr AssignmentStaleVersion"
abbreviation "ErrAssignmentValidation \<equiv> AssignmentErr AssignmentValidation"
abbreviation "ErrAssignmentIdempotencyConflict \<equiv> AssignmentErr AssignmentIdempotencyConflict"
abbreviation "ErrAssignmentInProgress \<equiv> AssignmentErr AssignmentInProgress"
abbreviation "ErrAssignmentConcurrent \<equiv> AssignmentErr AssignmentConcurrent"

text \<open>\<open>errors.Is\<close>: the error itself or one it wraps.\<close>

fun errors_is :: "error \<Rightarrow> error \<Rightarrow> bool" where
  "errors_is (Wrapped e m) t \<longleftrightarrow> Wrapped e m = t \<or> errors_is e t"
| "errors_is (ErrBatchFields fs) t \<longleftrightarrow> ErrBatchFields fs = t \<or> t = ErrBatchValidation"
| "errors_is e t \<longleftrightarrow> e = t"

text \<open>\<open>NewBatchValidationError\<close>.\<close>

definition new_batch_validation_error :: "(string \<times> string) list \<Rightarrow> error" where
  "new_batch_validation_error fields = (if fields = [] then ErrBatchValidation else ErrBatchFields fields)"

lemma new_batch_validation_error_is: "errors_is (new_batch_validation_error fs) ErrBatchValidation"
  by (simp add: new_batch_validation_error_def)

end
