(* ===== verification/Entities.thy ===== *)
theory Entities
  imports Errors "HOL-Library.Product_Lexorder" "HOL-Library.List_Lexorder" "HOL-Library.Char_ord"
begin

text \<open>
  The entities of \<open>internal/model\<close> as records, one field per column, and the database as the record
  of its tables.  An instant is the number of nanoseconds since the Unix epoch; a column of type
  \<open>decimal(12,2)\<close> of a capacity pool is held as its integral number of hundredths; the other
  decimal columns stay the strings the structs hold.
\<close>

section \<open>Enumerations\<close>

datatype batch_status =
    BatchStatusDraft | BatchStatusSubmitted | BatchStatusMatched | BatchStatusApproved
  | BatchStatusAssigned | BatchStatusCollected | BatchStatusVerified | BatchStatusRecycled
  | BatchStatusCompleted | BatchStatusFailedCollection

fun status_string :: "batch_status \<Rightarrow> string" where
  "status_string BatchStatusDraft = ''DRAFT''"
| "status_string BatchStatusSubmitted = ''SUBMITTED''"
| "status_string BatchStatusMatched = ''MATCHED''"
| "status_string BatchStatusApproved = ''APPROVED''"
| "status_string BatchStatusAssigned = ''ASSIGNED''"
| "status_string BatchStatusCollected = ''COLLECTED''"
| "status_string BatchStatusVerified = ''VERIFIED''"
| "status_string BatchStatusRecycled = ''RECYCLED''"
| "status_string BatchStatusCompleted = ''COMPLETED''"
| "status_string BatchStatusFailedCollection = ''FAILED_COLLECTION''"

datatype command_state = CommandStateInProgress | CommandStateCompleted

datatype publish_state = OutboxPending | OutboxPublished | OutboxQuarantined

fun publish_state_string :: "publish_state \<Rightarrow> string" where
  "publish_state_string OutboxPending = ''PENDING''"
| "publish_state_string OutboxPublished = ''PUBLISHED''"
| "publish_state_string OutboxQuarantined = ''QUARANTINED''"

datatype assignment_status =
    AssignmentStatusPending | AssignmentStatusAccepted | AssignmentStatusSuperseded
  | AssignmentStatusCompleted | AssignmentStatusFailed

fun assignment_status_string :: "assignment_status \<Rightarrow> string" where
  "assignment_status_string AssignmentStatusPending = ''PENDING''"
| "assignment_status_string AssignmentStatusAccepted = ''ACCEPTED''"
| "assignment_status_string AssignmentStatusSuperseded = ''SUPERSEDED''"
| "assignment_status_string AssignmentStatusCompleted = ''COMPLETED''"
| "assignment_status_string AssignmentStatusFailed = ''FAILED''"

datatype data_quality = QualityComplete | QualityPartial | QualityMissing

fun data_quality_string :: "data_quality \<Rightarrow> string" where
  "data_quality_string QualityComplete = ''COMPLETE''"
| "data_quality_string QualityPartial = ''PARTIAL''"
| "data_quality_string QualityMissing = ''MISSING''"

datatype lifecycle_stage = EvidenceLifecycleReceipt | EvidenceLifecycleTreatment

lemma status_string_inj: "status_string a = status_string b \<longleftrightarrow> a = b"
  by (cases a; cases b) simp_all

lemma assignment_status_string_inj: "assignment_status_string a = assignment_status_string b \<longleftrightarrow> a = b"
  by (cases a; cases b) simp_all

section \<open>JSON\<close>

text \<open>
  Documents are kept as trees.  \<open>JTime\<close> is the RFC 3339 text of an instant with nanoseconds
  (\<open>time.Time\<close>) and \<open>JStamp\<close> the one with exactly six fractional digits (\<open>contractTimestamp\<close>).
\<close>

datatype json =
    JNull
  | JBool bool
  | JInt int
  | JRat rat
  | JStr string
  | JTime int
  | JStamp int
  | JArr "json list"
  | JObj "(string \<times> json) list"

fun json_field :: "string \<Rightarrow> json \<Rightarrow> json option" where
  "json_field k (JObj fs) = map_of fs k"
| "json_field k _ = None"

definition json_opt :: "('a \<Rightarrow> json) \<Rightarrow> 'a option \<Rightarrow> json" where
  "json_opt f x = (case x of None \<Rightarrow> JNull | Some a \<Rightarrow> f a)"

text \<open>\<open>omitempty\<close>: the field is left out of the object when it is nil or empty.\<close>

definition json_omit_nil :: "string \<Rightarrow> ('a \<Rightarrow> json) \<Rightarrow> 'a option \<Rightarrow> (string \<times> json) list" where
  "json_omit_nil k f x = (case x of None \<Rightarrow> [] | Some a \<Rightarrow> [(k, f a)])"

definition json_omit_empty :: "string \<Rightarrow> string \<Rightarrow> (string \<times> json) list" where
  "json_omit_empty k s = (if s = [] then [] else [(k, JStr s)])"

definition contract_timestamp :: "int \<Rightarrow> json" where
  "contract_timestamp t = JStamp (t div 1000)"

section \<open>Rows\<close>

record batch =
  b_id :: string
  b_organization_id :: string
  b_created_by :: string
  b_status :: batch_status
  b_category :: "string option"
  b_quantity :: "int option"
  b_weight :: "string option"
  b_condition :: "string option"
  b_data_bearing :: bool
  b_zone :: "string option"
  b_deadline :: "int option"
  b_notes :: "string option"
  b_claim_epoch :: "64 word"
  b_claim_id :: "string option"
  b_assignment_id :: "string option"
  b_collector_scope_id :: "string option"
  b_version :: "32 word"
  b_submitted_at :: "int option"
  b_created_at :: int
  b_updated_at :: int

definition can_edit :: "batch \<Rightarrow> bool" where
  "can_edit b = (b_status b = BatchStatusDraft)"

definition can_submit :: "batch \<Rightarrow> bool" where
  "can_submit b = (b_status b = BatchStatusDraft)"

record command =
  c_id :: string
  c_actor_user_id :: "string option"
  c_service_principal :: "string option"
  c_actor_scope :: string
  c_command_name :: string
  c_idempotency_key :: string
  c_request_hash :: string
  c_batch_id :: "string option"
  c_assignment_id :: "string option"
  c_state :: command_state
  c_response_status :: "int option"
  c_response_json :: "json option"
  c_created_at :: int
  c_completed_at :: "int option"
  c_retain_until :: int

record audit =
  au_id :: string
  au_batch_id :: string
  au_command_id :: string
  au_assignment_id :: "string option"
  au_claim_id :: "string option"
  au_actor_user_id :: "string option"
  au_actor_org_id :: "string option"
  au_service_principal :: "string option"
  au_event_type :: string
  au_from_status :: batch_status
  au_to_status :: batch_status
  au_batch_version :: "32 word"
  au_sequence :: "32 word"
  au_occurred_at :: int
  au_correlation_id :: string
  au_details :: json

record outbox_event =
  o_event_id :: string
  o_batch_id :: string
  o_command_id :: string
  o_event_type :: string
  o_topic :: string
  o_schema_version :: "32 word"
  o_aggregate_version :: "32 word"
  o_sequence :: "32 word"
  o_partition_key :: string
  o_payload :: json
  o_correlation_id :: string
  o_occurred_at :: int
  o_created_at :: int
  o_state :: publish_state
  o_attempts :: "32 word"
  o_next_attempt_at :: "int option"
  o_published_at :: "int option"
  o_last_error :: "string option"

record claim =
  cl_id :: string
  cl_batch_id :: string
  cl_epoch :: "64 word"
  cl_recycler_org_id :: string
  cl_claimed_by :: string
  cl_status :: string
  cl_idempotency_key :: string
  cl_claimed_at :: int
  cl_superseded_at :: "int option"
  cl_notes :: "string option"
  cl_created_at :: int

record pool =
  p_id :: string
  p_recycler_org_id :: string
  p_total :: int
  p_reserved :: int
  p_active :: bool
  p_version :: int
  p_updated_at :: int

record reservation =
  r_id :: string
  r_batch_id :: string
  r_claim_id :: string
  r_pool_id :: string
  r_reserved_kg :: string
  r_status :: string
  r_reserved_at :: int
  r_released_at :: "int option"
  r_release_reason :: "string option"
  r_release_command_id :: "string option"
  r_version :: int

record assignment =
  a_id :: string
  a_batch_id :: string
  a_claim_id :: string
  a_recycler_org_id :: string
  a_collector_org_id :: string
  a_collector_user_id :: string
  a_collector_scope_id :: string
  a_sequence :: "64 word"
  a_claim_epoch :: "64 word"
  a_previous_id :: "string option"
  a_status :: assignment_status
  a_rejection_reason :: "string option"
  a_reassignment_reason :: "string option"
  a_assigned_at :: int
  a_responded_at :: "int option"
  a_closed_at :: "int option"
  a_closure_reason :: "string option"
  a_version :: "32 word"
  a_created_at :: int
  a_updated_at :: int

record assignment_action =
  ac_id :: string
  ac_batch_id :: string
  ac_assignment_id :: string
  ac_type :: string
  ac_actor_user_id :: "string option"
  ac_service_principal :: "string option"
  ac_reason :: "string option"
  ac_previous_id :: "string option"
  ac_from_status :: batch_status
  ac_to_status :: batch_status
  ac_assignment_version :: "32 word"
  ac_command_id :: string
  ac_occurred_at :: int
  ac_correlation_id :: string
  ac_details :: json

record handoff =
  h_id :: string
  h_batch_id :: string
  h_assignment_id :: string
  h_collector_user_id :: string
  h_collector_org_id :: string
  h_pickup_status :: string
  h_donor_name :: "string option"
  h_item_count :: "int option"
  h_verification_hash :: "string option"
  h_failure_reason :: "string option"
  h_discrepancy_reason :: "string option"
  h_notes :: "string option"
  h_pickup_at :: int
  h_recorded_at :: int
  h_collected_at :: "int option"
  h_command_id :: string
  h_correlation_id :: string
  h_created_at :: int

record receipt =
  rc_id :: string
  rc_batch_id :: string
  rc_facility_org_id :: string
  rc_verified_by :: string
  rc_category :: string
  rc_item_count :: "32 word"
  rc_weight :: string
  rc_command_id :: string
  rc_correlation_id :: string
  rc_version :: "32 word"
  rc_verified_at :: int
  rc_created_at :: int

record treatment =
  t_id :: string
  t_batch_id :: string
  t_facility_org_id :: string
  t_recorded_by :: string
  t_receipt_id :: string
  t_receipt_version :: "32 word"
  t_received_weight :: string
  t_reused :: "string option"
  t_recycled :: "string option"
  t_disposed :: "string option"
  t_unknown :: "string option"
  t_diverted :: "string option"
  t_quality :: data_quality
  t_evidence_id :: "string option"
  t_evidence_stage :: lifecycle_stage
  t_command_id :: string
  t_correlation_id :: string
  t_version :: "32 word"
  t_recorded_at :: int

record evidence =
  e_id :: string
  e_batch_id :: string
  e_organisation_id :: string
  e_uploaded_by :: string
  e_stage :: lifecycle_stage
  e_file_name :: string
  e_object_key :: string
  e_mime_type :: string
  e_size :: "64 word"
  e_sha256 :: string
  e_created_at :: int

text \<open>The metrics of an analytics run (\<open>dto.AnalyticsMetrics\<close>).\<close>

record metrics =
  mt_declared_weight :: "string option"
  mt_actual_weight :: "string option"
  mt_reused :: "string option"
  mt_recycled :: "string option"
  mt_disposed :: "string option"
  mt_unknown :: "string option"
  mt_diverted :: "string option"
  mt_declared_quantity :: "int option"
  mt_actual_count :: "int option"
  mt_category_match :: "bool option"
  mt_weight_delta :: "string option"
  mt_count_delta :: "int option"

text \<open>The persisted columns: the run and the metrics are part of the snapshot.\<close>

record analytics_result =
  ar_id :: string
  ar_batch_id :: string
  ar_source_event_id :: string
  ar_source_version :: "32 word"
  ar_facility_org_id :: string
  ar_receipt_id :: string
  ar_receipt_version :: "32 word"
  ar_treatment_id :: string
  ar_treatment_version :: "32 word"
  ar_input_hash :: string
  ar_rule_version :: string
  ar_quality :: string
  ar_received_weight :: string
  ar_reused :: "string option"
  ar_recycled :: "string option"
  ar_disposed :: "string option"
  ar_snapshot :: json
  ar_result_hash :: string
  ar_command_id :: string
  ar_correlation_id :: string
  ar_calculated_at :: int

record anomaly =
  an_id :: string
  an_batch_id :: string
  an_result_id :: string
  an_code :: string
  an_declared :: "string option"
  an_actual :: "string option"
  an_delta :: "string option"
  an_detected_at :: int

record user_row =
  u_id :: string
  u_role_code :: string
  u_organisation_id :: string
  u_status :: string

record role_row =
  ro_code :: string
  ro_allowed_type :: string
  ro_active :: bool

record organisation_row =
  org_id :: string
  org_type :: string
  org_status :: string

record collector_scope =
  s_id :: string
  s_recycler_org_id :: string
  s_collector_org_id :: string
  s_zone :: string
  s_active :: bool
  s_version :: "64 word"
  s_valid_from :: int
  s_valid_until :: "int option"

record decision_row =
  d_id :: string
  d_batch_id :: string
  d_batch_version :: "32 word"
  d_claim_epoch :: "64 word"
  d_outcome :: string

record matched_result_row =
  m_id :: string
  m_decision_id :: string
  m_batch_id :: string
  m_recycler_org_id :: string
  m_pool_id :: string
  m_category_match :: bool
  m_capability_match :: bool
  m_capacity_available :: bool
  m_zone_match :: bool
  m_deadline_viable :: bool
  m_is_matched :: bool

record profile_row =
  pf_recycler_org_id :: string
  pf_active :: bool

record capability_row =
  cp_recycler_org_id :: string
  cp_category :: string
  cp_conditions :: "string list"
  cp_data_bearing :: bool
  cp_active :: bool
  cp_pool_id :: string

record zone_row =
  z_recycler_org_id :: string
  z_zone :: string
  z_lead_minutes :: int
  z_active :: bool

record claim_match =
  cm_decision_id :: string
  cm_matched_result_id :: string
  cm_batch_id :: string
  cm_recycler_org_id :: string
  cm_pool_id :: string
  cm_batch_version :: "32 word"
  cm_claim_epoch :: "64 word"

section \<open>The database\<close>

record db =
  batches :: "batch list"
  commands :: "command list"
  audits :: "audit list"
  outbox :: "outbox_event list"
  claims :: "claim list"
  pools :: "pool list"
  reservations :: "reservation list"
  assignments :: "assignment list"
  actions :: "assignment_action list"
  handoffs :: "handoff list"
  receipts :: "receipt list"
  treatments :: "treatment list"
  evidences :: "evidence list"
  analytics :: "analytics_result list"
  anomalies :: "anomaly list"
  users :: "user_row list"
  roles :: "role_row list"
  organisations :: "organisation_row list"
  scopes :: "collector_scope list"
  decisions :: "decision_row list"
  matched_results :: "matched_result_row list"
  profiles :: "profile_row list"
  capabilities :: "capability_row list"
  zones :: "zone_row list"

type_synonym 'a dbtx = "(db, error, 'a) tx"

definition empty_db :: db where
  "empty_db = \<lparr>batches = [], commands = [], audits = [], outbox = [], claims = [], pools = [],
     reservations = [], assignments = [], actions = [], handoffs = [], receipts = [],
     treatments = [], evidences = [], analytics = [], anomalies = [], users = [], roles = [], organisations = [], scopes = [],
     decisions = [], matched_results = [], profiles = [], capabilities = [], zones = []\<rparr>"

section \<open>The environment of a call\<close>

text \<open>
  What one call draws from outside: the \<open>i\<close>-th generated identifier (\<open>uuid.NewString\<close>, of the
  service's \<open>newID\<close> and of the free function together, in the order of the code), the \<open>i\<close>-th
  reading of the service clock, the instant GORM stamps into \<open>updated_at\<close> when an update does not
  set it, the database server's own clock, the SHA-256 of the canonical JSON of a document, and what
  other sessions commit between the \<open>i\<close>-th and the next transaction of the call.
\<close>

record call_env =
  env_id :: "nat \<Rightarrow> string"
  env_clock :: "nat \<Rightarrow> int"
  env_auto_now :: int
  env_db_now :: int
  env_sha256 :: "json \<Rightarrow> string"
  env_others :: "nat \<Rightarrow> db \<Rightarrow> db"

definition second :: int where "second = 1000000000"
definition hour :: int where "hour = 3600 * second"

text \<open>The zero \<open>time.Time\<close>: the first instant of the year 1.\<close>

definition zero_time :: int where "zero_time = - 62135596800 * second"

definition truncate_us :: "int \<Rightarrow> int" where
  "truncate_us t = t - t mod 1000"

definition retain_for :: int where "retain_for = 24 * hour"

lemma truncate_us_idem [simp]: "truncate_us (truncate_us t) = truncate_us t"
  by (simp add: truncate_us_def minus_mod_eq_mult_div)

lemma truncate_us_le: "truncate_us t \<le> t"
  by (simp add: truncate_us_def)

end
