(* ===== verification/Lifecycle.thy ===== *)
theory Lifecycle
  imports Entities
begin

text \<open>
  The batch lifecycle as a step relation on the status, the abstract specification the handlers are
  shown to refine: one constructor per transition of the services and of the matcher.
\<close>

inductive lifecycle_step :: "batch_status \<Rightarrow> batch_status \<Rightarrow> bool" where
  edit: "lifecycle_step BatchStatusDraft BatchStatusDraft"
| submit: "lifecycle_step BatchStatusDraft BatchStatusSubmitted"
| matching: "lifecycle_step BatchStatusSubmitted BatchStatusMatched"
| claim: "lifecycle_step BatchStatusMatched BatchStatusApproved"
| assign: "lifecycle_step BatchStatusApproved BatchStatusAssigned"
| accept: "lifecycle_step BatchStatusAssigned BatchStatusAssigned"
| reject: "lifecycle_step BatchStatusAssigned BatchStatusApproved"
| handoff: "lifecycle_step BatchStatusAssigned BatchStatusCollected"
| fail: "lifecycle_step BatchStatusAssigned BatchStatusFailedCollection"
| recover: "lifecycle_step BatchStatusFailedCollection BatchStatusApproved"
| receipt: "lifecycle_step BatchStatusCollected BatchStatusVerified"
| treatment: "lifecycle_step BatchStatusVerified BatchStatusRecycled"
| analytics: "lifecycle_step BatchStatusRecycled BatchStatusCompleted"

code_pred lifecycle_step .

inductive_cases from_draftE: "lifecycle_step BatchStatusDraft s"
inductive_cases from_completedE: "lifecycle_step BatchStatusCompleted s"
inductive_cases to_draftE: "lifecycle_step s BatchStatusDraft"

inductive_simps lifecycle_from_simps:
  "lifecycle_step BatchStatusSubmitted s" "lifecycle_step BatchStatusMatched s"
  "lifecycle_step BatchStatusApproved s" "lifecycle_step BatchStatusAssigned s"
  "lifecycle_step BatchStatusFailedCollection s" "lifecycle_step BatchStatusCollected s"
  "lifecycle_step BatchStatusVerified s" "lifecycle_step BatchStatusRecycled s"

text \<open>How far a status is on the way to completion; collection attempts stay within one stage.\<close>

fun stage :: "batch_status \<Rightarrow> nat" where
  "stage BatchStatusDraft = 0"
| "stage BatchStatusSubmitted = 1"
| "stage BatchStatusMatched = 2"
| "stage BatchStatusApproved = 3"
| "stage BatchStatusAssigned = 3"
| "stage BatchStatusFailedCollection = 3"
| "stage BatchStatusCollected = 4"
| "stage BatchStatusVerified = 5"
| "stage BatchStatusRecycled = 6"
| "stage BatchStatusCompleted = 7"

lemma lifecycle_stage: "lifecycle_step s t \<Longrightarrow> stage s \<le> stage t \<and> stage t \<le> stage s + 1"
  by (cases rule: lifecycle_step.cases) auto

abbreviation lifecycle_path :: "batch_status \<Rightarrow> batch_status \<Rightarrow> bool" where
  "lifecycle_path \<equiv> lifecycle_step\<^sup>*\<^sup>*"

lemma lifecycle_path_stage: "lifecycle_path s t \<Longrightarrow> stage s \<le> stage t"
  by (induction rule: rtranclp_induct) (auto dest: lifecycle_stage)

lemma completed_final: "lifecycle_path BatchStatusCompleted t \<Longrightarrow> t = BatchStatusCompleted"
  by (induction rule: rtranclp_induct) (auto elim: from_completedE)

lemma never_back_to_draft: "lifecycle_path s BatchStatusDraft \<Longrightarrow> s = BatchStatusDraft"
  by (drule lifecycle_path_stage) (cases s; simp)

end
