(* ===== verification/Weights.thy ===== *)
theory Weights
  imports Entities "HOL-Library.Signed_Division"
begin

text \<open>
  Decimal weights.  A \<open>float64\<close> is the rational number it denotes; the rounding of the products and
  comparisons of the code is not modelled (their tolerance of 1e-9 is, and all constants compared
  with are those of the code).  \<open>parse_float\<close> is \<open>strconv.ParseFloat\<close> on the plain decimal syntax
  (sign, digits, point, digits) that a DECIMAL column or the weight pattern lets through; exponents,
  hexadecimal floats and the names of infinities and NaN are not modelled.  Amounts of the treatment
  and analytics services are integral hundredths (\<open>int64\<close> cents).
\<close>

section \<open>Parsing and formatting floats\<close>

definition unsigned_decimal :: "string \<Rightarrow> rat option" where
  "unsigned_decimal t =
     (let w = takeWhile is_digit t; r = dropWhile is_digit t in
      case r of
        [] \<Rightarrow> if w = [] then None else Some (of_int (digits_val w))
      | p # f \<Rightarrow>
          if p = CHR ''.'' \<and> list_all is_digit f \<and> (w \<noteq> [] \<or> f \<noteq> [])
          then Some (of_int (digits_val w) + of_int (digits_val f) / 10 ^ length f)
          else None)"

definition parse_float :: "string \<Rightarrow> rat option" where
  "parse_float s =
     (case s of
        [] \<Rightarrow> None
      | c # t \<Rightarrow>
          if c = CHR ''-'' then map_option uminus (unsigned_decimal t)
          else if c = CHR ''+'' then unsigned_decimal t
          else unsigned_decimal s)"

definition round_half_even :: "rat \<Rightarrow> int" where
  "round_half_even q =
     (let n = \<lfloor>q\<rfloor>; d = q - of_int n in
      if d < 1 / 2 then n else if d > 1 / 2 then n + 1 else if even n then n else n + 1)"

definition pad2 :: "nat \<Rightarrow> string" where
  "pad2 n = (if n < 10 then ''0'' @ show_nat n else show_nat n)"

definition show_cents :: "nat \<Rightarrow> string" where
  "show_cents n = show_nat (n div 100) @ ''.'' @ pad2 (n mod 100)"

text \<open>\<open>strconv.FormatFloat(v, 'f', 2, 64)\<close> and \<open>fmt.Sprintf("%.2f", v)\<close>.\<close>

definition format_float2 :: "rat \<Rightarrow> string" where
  "format_float2 q =
     (if q < 0 then ''-'' else []) @ show_cents (nat (round_half_even (\<bar>q\<bar> * 100)))"

text \<open>\<open>math.Abs(w*100 - math.Round(w*100)) > 1e-9\<close>, negated.\<close>

definition two_decimals :: "rat \<Rightarrow> bool" where
  "two_decimals w = (\<bar>w * 100 - of_int \<lfloor>w * 100 + 1 / 2\<rfloor>\<bar> \<le> 1 / 1000000000)"

definition normalize_stored_weight :: "string \<Rightarrow> error + string" where
  "normalize_stored_weight value =
     (case parse_float (trim_space value) of
        None \<Rightarrow> Inl (PlainError ''must be a valid decimal weight'')
      | Some parsed \<Rightarrow>
          if \<not> two_decimals parsed then Inl (PlainError ''must have exactly two decimal places'')
          else Inr (format_float2 parsed))"

text \<open>The hundredths a weight string stands for in a DECIMAL column.\<close>

definition decimal_cents :: "string \<Rightarrow> int" where
  "decimal_cents s = (case parse_float s of None \<Rightarrow> 0 | Some q \<Rightarrow> round_half_even (q * 100))"

section \<open>The weight pattern and cents\<close>

text \<open>\<open>^(?:0|[1-9][0-9]*)(?:\.[0-9]{1,2})?$\<close>\<close>

definition weight_pattern :: "string \<Rightarrow> bool" where
  "weight_pattern s =
     (let w = takeWhile is_digit s; r = dropWhile is_digit s in
      (w = ''0'' \<or> w \<noteq> [] \<and> hd w \<noteq> CHR ''0'') \<and>
      (case r of
         [] \<Rightarrow> True
       | p # f \<Rightarrow> p = CHR ''.'' \<and> list_all is_digit f \<and> 1 \<le> length f \<and> length f \<le> 2))"

definition split_point :: "string \<Rightarrow> string \<times> string option" where
  "split_point s =
     (let w = takeWhile (\<lambda>c. c \<noteq> CHR ''.'') s in
      case dropWhile (\<lambda>c. c \<noteq> CHR ''.'') s of [] \<Rightarrow> (w, None) | _ # f \<Rightarrow> (w, Some f))"

definition max_weight_whole :: int where
  "max_weight_whole = 50000000"

definition parse_treatment_cents :: "string \<Rightarrow> string \<Rightarrow> error + int" where
  "parse_treatment_cents raw field =
     (let raw = trim_space raw in
      if \<not> weight_pattern raw then
        Inl (new_batch_validation_error
          [(field, ''must be a non-negative decimal with at most two decimal places'')])
      else
        let (first, rest) = split_point raw; whole = digits_val first in
        if whole \<ge> 2 ^ 63 \<or> whole > max_weight_whole then
          Inl (new_batch_validation_error [(field, ''is outside the supported weight range'')])
        else
          let cents = whole * 100 in
          case rest of
            None \<Rightarrow> Inr cents
          | Some fraction \<Rightarrow>
              let fraction = (if length fraction = 1 then fraction @ ''0'' else fraction) in
              Inr (cents + digits_val fraction))"

text \<open>\<open>fmt.Sprintf("%d.%02d", cents/100, cents%100)\<close>: Go's division truncates.\<close>

definition show_pad2 :: "int \<Rightarrow> string" where
  "show_pad2 i = (if 0 \<le> i \<and> i < 10 then ''0'' @ show_int i else show_int i)"

definition format_treatment_cents :: "int \<Rightarrow> string" where
  "format_treatment_cents cents = show_int (cents sdiv 100) @ ''.'' @ show_pad2 (cents smod 100)"

section \<open>Digits\<close>

lemma takeWhile_all_app: "list_all P w \<Longrightarrow> \<not> P c \<Longrightarrow> takeWhile P (w @ c # f) = w"
  by (induction w) auto

lemma dropWhile_all_app: "list_all P w \<Longrightarrow> \<not> P c \<Longrightarrow> dropWhile P (w @ c # f) = c # f"
  by (induction w) auto

lemma not_digit_point [simp]: "\<not> is_digit CHR ''.''"
  by (simp add: is_digit_def byte_of_def)

lemma digit_not_point: "is_digit c \<Longrightarrow> c \<noteq> CHR ''.''"
  using not_digit_point by blast

lemma digit_not_space: "is_digit c \<Longrightarrow> \<not> is_space c"
  by (auto simp: is_digit_def is_space_def)

lemma digits_no_point: "list_all is_digit w \<Longrightarrow> list_all (\<lambda>c. c \<noteq> CHR ''.'') w"
  by (induction w) (auto simp: digit_not_point)

lemma show_nat_single: "n < 10 \<Longrightarrow> show_nat n = [digit_char n]"
  by (subst show_nat.simps) simp

lemma pad2_props:
  assumes "n < 100"
  shows "list_all is_digit (pad2 n)" "length (pad2 n) = 2" "digits_val (pad2 n) = int n"
proof -
  have z: "is_digit CHR ''0''" by (simp add: is_digit_def byte_of_def)
  show "list_all is_digit (pad2 n)" by (auto simp: pad2_def show_nat_digits z)
  have two: "show_nat n = [digit_char (n div 10), digit_char (n mod 10)]" if "\<not> n < 10"
    using that assms by (subst show_nat.simps) (simp add: show_nat_single)
  show "length (pad2 n) = 2" using two by (auto simp: pad2_def show_nat_single)
  show "digits_val (pad2 n) = int n"
  proof (cases "n < 10")
    case True
    then have "pad2 n = ([] @ [CHR ''0'']) @ [digit_char n]" by (simp add: pad2_def show_nat_single)
    then have "digits_val (pad2 n) = 10 * int (digit_val CHR ''0'') + int (digit_val (digit_char n))"
      by (simp only: digits_val_snoc) simp
    moreover have "digit_val CHR ''0'' = 0" by (simp add: digit_val_def byte_of_def)
    ultimately show ?thesis using True by simp
  qed (simp add: pad2_def)
qed

lemma hd_show_nat_pos: "0 < n \<Longrightarrow> hd (show_nat n) \<noteq> CHR ''0''"
proof (induction n rule: show_nat.induct)
  case (1 n)
  show ?case
  proof (cases "n < 10")
    case True
    have "byte_of (digit_char n) = 48 + n" using True by (rule byte_of_digit_char)
    moreover have "byte_of CHR ''0'' = 48" by (simp add: byte_of_def)
    ultimately show ?thesis using 1(2) True by (metis add_cancel_left_right list.sel(1) not_less0 show_nat_single)
  next
    case False
    then show ?thesis using 1 by (subst show_nat.simps) (simp add: hd_append)
  qed
qed

lemma show_cents_pattern: "weight_pattern (show_cents n)"
proof -
  let ?w = "show_nat (n div 100)" and ?f = "pad2 (n mod 100)"
  have w: "takeWhile is_digit (show_cents n) = ?w" "dropWhile is_digit (show_cents n) = CHR ''.'' # ?f"
    by (simp_all add: show_cents_def takeWhile_all_app dropWhile_all_app show_nat_digits)
  have "?w = ''0'' \<or> hd ?w \<noteq> CHR ''0''"
  proof (cases "n div 100 = 0")
    case True
    then show ?thesis by (simp add: show_nat_single digit_char_def)
  qed (simp add: hd_show_nat_pos)
  then show ?thesis using pad2_props [of "n mod 100"] by (simp add: weight_pattern_def w)
qed

lemma show_cents_no_trim: "trim_space (show_cents n) = show_cents n"
proof -
  obtain a b where ab: "show_nat (n div 100) = a # b" by (cases "show_nat (n div 100)") auto
  have "is_digit a" using show_nat_digits [of "n div 100"] ab by simp
  then have 1: "dropWhile is_space (show_cents n) = show_cents n"
    by (simp add: show_cents_def ab digit_not_space)
  obtain x y where xy: "rev (pad2 (n mod 100)) = x # y"
    using pad2_props(2) [of "n mod 100"] by (cases "rev (pad2 (n mod 100))") auto
  have "is_digit x" using pad2_props(1) [of "n mod 100"] xy
    by (metis list.set_intros(1) list_all_iff mod_less_divisor set_rev zero_less_numeral)
  then have "dropWhile is_space (rev (show_cents n)) = rev (show_cents n)"
    by (simp add: show_cents_def xy digit_not_space)
  then show ?thesis by (simp add: trim_space_def 1)
qed

lemma split_show_cents: "split_point (show_cents n) = (show_nat (n div 100), Some (pad2 (n mod 100)))"
  by (simp add: split_point_def show_cents_def takeWhile_all_app dropWhile_all_app
      digits_no_point show_nat_digits)

lemma format_treatment_cents_nonneg:
  "format_treatment_cents (int n) = show_cents n"
proof -
  have "int n sdiv 100 = int (n div 100)" "int n smod 100 = int (n mod 100)"
    by (simp_all add: signed_divide_int_def signed_modulo_int_def zdiv_int zmod_int sgn_if)
  then show ?thesis by (simp add: format_treatment_cents_def show_cents_def show_pad2_def pad2_def show_int_def)
qed

lemma parse_format_treatment_cents:
  assumes "0 \<le> c" "c div 100 \<le> max_weight_whole"
  shows "parse_treatment_cents (format_treatment_cents c) field = Inr c"
proof -
  obtain n where n: "c = int n" using assms(1) nonneg_int_cases by blast
  have "int (n div 100) \<le> max_weight_whole" using assms(2) by (simp add: n zdiv_int)
  moreover have "int (n div 100) * 100 + int (n mod 100) = int n" by (simp add: zdiv_int zmod_int)
  ultimately show ?thesis
    using pad2_props(2,3) [of "n mod 100"]
    by (simp add: parse_treatment_cents_def n format_treatment_cents_nonneg show_cents_no_trim
        show_cents_pattern split_show_cents max_weight_whole_def)
qed

lemma digit_val_le9: "is_digit c \<Longrightarrow> digit_val c \<le> 9"
  unfolding is_digit_def digit_val_def by linarith

lemma digits_val_bound: "list_all is_digit s \<Longrightarrow> digits_val s < 10 ^ length s"
proof (induction s rule: rev_induct)
  case (snoc c s)
  then have "digits_val s < 10 ^ length s" "int (digit_val c) \<le> 9"
    using digit_val_le9 [of c] by simp_all
  then show ?case by simp
qed simp

lemma weight_pattern_split:
  assumes "weight_pattern s"
  shows "fst (split_point s) = takeWhile is_digit s" (is ?A)
    and "case snd (split_point s) of None \<Rightarrow> True
         | Some f \<Rightarrow> list_all is_digit f \<and> 1 \<le> length f \<and> length f \<le> 2" (is ?B)
proof -
  let ?w = "takeWhile is_digit s"
  have sw: "?w @ dropWhile is_digit s = s" by (rule takeWhile_dropWhile_id)
  have wd: "list_all is_digit ?w" unfolding list_all_iff by (blast dest: set_takeWhileD)
  have "?A \<and> ?B"
  proof (cases "dropWhile is_digit s")
    case Nil
    then have "?w = s" using sw by (metis append_Nil2)
    then have "list_all (\<lambda>c. c \<noteq> CHR ''.'') s" using digits_no_point [OF wd] by metis
    then have tw: "takeWhile (\<lambda>c. c \<noteq> CHR ''.'') s = s" and dw: "dropWhile (\<lambda>c. c \<noteq> CHR ''.'') s = []"
      by (simp_all add: list_all_iff)
    have "split_point s = (s, None)" unfolding split_point_def Let_def tw dw by simp
    then show ?thesis unfolding \<open>?w = s\<close> by simp
  next
    case (Cons p f)
    then have p: "p = CHR ''.''" "list_all is_digit f" "1 \<le> length f" "length f \<le> 2"
      using assms by (auto simp: weight_pattern_def Let_def)
    then have s: "?w @ CHR ''.'' # f = s" using sw Cons by metis
    have tw: "takeWhile (\<lambda>c. c \<noteq> CHR ''.'') s = ?w"
      using takeWhile_all_app [OF digits_no_point [OF wd], of "CHR ''.''" f] unfolding s by blast
    have dw: "dropWhile (\<lambda>c. c \<noteq> CHR ''.'') s = CHR ''.'' # f"
      using dropWhile_all_app [OF digits_no_point [OF wd], of "CHR ''.''" f] unfolding s by blast
    have "split_point s = (?w, Some f)" unfolding split_point_def Let_def tw dw by simp
    then show ?thesis using p by simp
  qed
  then show ?A ?B by simp_all
qed

text \<open>Cents never leave \<open>int64\<close>: the bound on the whole part keeps the product small.\<close>

lemma parse_treatment_cents_bounds:
  assumes "parse_treatment_cents raw field = Inr c"
  shows "0 \<le> c \<and> c \<le> max_weight_whole * 100 + 99"
proof -
  define s where "s = trim_space raw"
  obtain first rest where sp: "split_point s = (first, rest)" by force
  have wp: "weight_pattern s" and wb: "digits_val first \<le> max_weight_whole"
    using assms by (auto simp: parse_treatment_cents_def Let_def sp s_def [symmetric] split: if_splits)
  show ?thesis
  proof (cases rest)
    case None
    then have "c = digits_val first * 100"
      using assms by (auto simp: parse_treatment_cents_def Let_def sp s_def [symmetric] split: if_splits)
    then show ?thesis using wb digits_val_nonneg [of first] by simp
  next
    case (Some f)
    define g where "g = (if length f = 1 then f @ ''0'' else f)"
    have f: "list_all is_digit f" "1 \<le> length f" "length f \<le> 2"
      using weight_pattern_split(2) [OF wp] by (simp_all add: sp Some)
    have "list_all is_digit g \<and> length g = 2"
      using f by (auto simp: g_def is_digit_def byte_of_def le_Suc_eq numeral_2_eq_2)
    then have "digits_val g < 10 ^ 2" using digits_val_bound [of g] by simp
    moreover have "c = digits_val first * 100 + digits_val g"
      using assms by (auto simp: parse_treatment_cents_def Let_def sp s_def [symmetric] Some g_def split: if_splits)
    ultimately show ?thesis using wb digits_val_nonneg [of first] digits_val_nonneg [of g] by simp
  qed
qed

end
