(* ===== verification/Store.thy ===== *)
theory Store
  imports Weights
begin

text \<open>
  The writes the three GORM repositories are made of, each one statement of the schema in
  \<open>database/changes\<close>: inserts under the primary and unique keys of their table, updates of
  \<open>ewaste_batches\<close>, \<open>event_outbox\<close> and \<open>recycler_capacity_pools\<close> under their CHECK constraints.
  Foreign keys, and the CHECKs of the tables written once, are not modelled: the handlers insert a
  parent row before its child.  \<open>db_wf\<close> is what the keys guarantee; a relation between the state
  before and after that every step keeps is carried through a whole transaction by the locale
  \<open>step_relation\<close>.
\<close>

section \<open>CHECK constraints\<close>

definition opt_in :: "string option \<Rightarrow> string list \<Rightarrow> bool" where
  "opt_in x vs = (case x of None \<Rightarrow> True | Some v \<Rightarrow> List.member vs v)"

definition categories :: "string list" where
  "categories = [''ICT_EQUIPMENT'', ''LARGE_APPLIANCE'', ''BATTERIES'', ''CONSUMER_ELECTRONICS'']"

definition condition_ratings :: "string list" where
  "condition_ratings = [''FUNCTIONAL'', ''REPAIRABLE'', ''END_OF_LIFE'']"

definition zone_names :: "string list" where
  "zone_names = [''NORTH'', ''SOUTH'', ''EAST'', ''WEST'', ''CENTRAL'']"

definition in_deadline_window :: "int \<Rightarrow> int \<Rightarrow> bool" where
  "in_deadline_window submitted deadline =
     (submitted + 48 * hour \<le> deadline \<and> deadline \<le> submitted + 90 * 24 * hour)"

definition check_batch_values :: "batch \<Rightarrow> bool" where
  "check_batch_values b =
     (opt_in (b_category b) categories \<and>
      (case b_quantity b of None \<Rightarrow> True | Some q \<Rightarrow> 1 \<le> q \<and> q \<le> 100000) \<and>
      (case b_weight b of None \<Rightarrow> True
       | Some w \<Rightarrow> (case parse_float w of None \<Rightarrow> False | Some v \<Rightarrow> 1 / 10 \<le> v \<and> v \<le> 50000)) \<and>
      opt_in (b_condition b) condition_ratings \<and>
      opt_in (b_zone b) zone_names \<and>
      b_claim_epoch b \<noteq> 0 \<and> b_version b \<noteq> 0 \<and>
      b_created_at b \<le> b_updated_at b \<and>
      (case b_submitted_at b of None \<Rightarrow> True | Some t \<Rightarrow> b_created_at b \<le> t))"

definition check_batch_completeness :: "batch \<Rightarrow> bool" where
  "check_batch_completeness b =
     (if b_status b = BatchStatusDraft then b_submitted_at b = None
      else b_category b \<noteq> None \<and> b_quantity b \<noteq> None \<and> b_weight b \<noteq> None \<and>
           b_condition b \<noteq> None \<and> b_zone b \<noteq> None \<and>
           (case (b_submitted_at b, b_deadline b) of
              (Some s, Some d) \<Rightarrow> in_deadline_window s d
            | _ \<Rightarrow> False))"

definition unclaimed :: "batch_status \<Rightarrow> bool" where
  "unclaimed s = (s = BatchStatusDraft \<or> s = BatchStatusSubmitted \<or> s = BatchStatusMatched)"

definition unassigned :: "batch_status \<Rightarrow> bool" where
  "unassigned s = (unclaimed s \<or> s = BatchStatusApproved)"

definition check_batch_pointers :: "batch \<Rightarrow> bool" where
  "check_batch_pointers b =
     ((b_claim_id b = None) = unclaimed (b_status b) \<and>
      (b_assignment_id b = None) = unassigned (b_status b))"

definition check_batch :: "batch \<Rightarrow> bool" where
  "check_batch b = (check_batch_values b \<and> check_batch_completeness b \<and> check_batch_pointers b)"

definition check_outbox :: "outbox_event \<Rightarrow> bool" where
  "check_outbox e =
     (o_schema_version e \<noteq> 0 \<and> o_aggregate_version e \<noteq> 0 \<and> o_sequence e \<noteq> 0 \<and>
      o_partition_key e = o_batch_id e \<and>
      (case o_state e of
         OutboxPending \<Rightarrow> o_next_attempt_at e \<noteq> None \<and> o_published_at e = None
       | OutboxPublished \<Rightarrow> o_published_at e \<noteq> None \<and> o_next_attempt_at e = None
       | OutboxQuarantined \<Rightarrow> o_published_at e = None \<and> o_next_attempt_at e = None))"

definition check_pool :: "pool \<Rightarrow> bool" where
  "check_pool p = (0 \<le> p_total p \<and> 0 \<le> p_reserved p \<and> p_reserved p \<le> p_total p \<and> 1 \<le> p_version p)"

text \<open>The CHECKs of \<open>batch_impact_metrics\<close>, \<open>batch_anomalies\<close> and \<open>batch_evidence\<close>.\<close>

definition hex64 :: "string \<Rightarrow> bool" where
  "hex64 s = (length s = 64 \<and> list_all (\<lambda>c. is_digit c \<or> List.member ''abcdef'' c) s)"

definition check_analytics :: "analytics_result \<Rightarrow> bool" where
  "check_analytics r =
     ((case (ar_reused r, ar_recycled r, ar_disposed r) of
         (None, None, None) \<Rightarrow> ar_quality r = ''MISSING''
       | (Some reused, Some recycled, Some disposed) \<Rightarrow>
           0 \<le> decimal_cents reused \<and> 0 \<le> decimal_cents recycled \<and> 0 \<le> decimal_cents disposed \<and>
           (let total = decimal_cents reused + decimal_cents recycled + decimal_cents disposed in
            ar_quality r = ''COMPLETE'' \<and> total = decimal_cents (ar_received_weight r) \<or>
            ar_quality r = ''PARTIAL'' \<and> total < decimal_cents (ar_received_weight r))
       | _ \<Rightarrow> False) \<and>
      ar_source_version r \<noteq> 0 \<and> ar_receipt_version r \<noteq> 0 \<and> ar_treatment_version r \<noteq> 0 \<and>
      hex64 (ar_input_hash r) \<and> hex64 (ar_result_hash r))"

definition anomaly_codes :: "string list" where
  "anomaly_codes =
     [''CATEGORY_MISMATCH'', ''COUNT_MISMATCH'', ''WEIGHT_MISMATCH'', ''MISSING_OUTCOME'', ''UNALLOCATED_WEIGHT'']"

definition evidence_mime_types :: "string list" where
  "evidence_mime_types = [''application/pdf'', ''image/jpeg'', ''image/png'']"

definition check_evidence_row :: "evidence \<Rightarrow> bool" where
  "check_evidence_row e =
     (List.member evidence_mime_types (e_mime_type e) \<and> 0 < e_size e \<and> e_size e \<le> 5242880 \<and>
      length (e_sha256 e) = 64 \<and> list_all (\<lambda>c. is_digit c \<or> List.member ''abcdefABCDEF'' c) (e_sha256 e))"

section \<open>Statements\<close>

definition tx_insert ::
  "(db \<Rightarrow> 'r list) \<Rightarrow> ('r list \<Rightarrow> db \<Rightarrow> db) \<Rightarrow> string \<Rightarrow> ('r list \<Rightarrow> bool) \<Rightarrow> bool \<Rightarrow> 'r \<Rightarrow> unit dbtx"
where
  "tx_insert tget tput name clash chk r =
     (\<lambda>d. if clash (tget d) then Inl (DbDuplicate name)
          else if \<not> chk then Inl (DbCheck name)
          else Inr ((), tput (tget d @ [r]) d))"

definition tx_update ::
  "(db \<Rightarrow> 'r list) \<Rightarrow> ('r list \<Rightarrow> db \<Rightarrow> db) \<Rightarrow> string \<Rightarrow> ('r \<Rightarrow> bool) \<Rightarrow> ('r \<Rightarrow> bool) \<Rightarrow> ('r \<Rightarrow> 'r) \<Rightarrow> nat dbtx"
where
  "tx_update tget tput name chk P f =
     (\<lambda>d. if list_all (\<lambda>r. P r \<longrightarrow> chk (f r)) (tget d)
          then Inr (tbl_count P (tget d), tput (tbl_update P f (tget d)) d)
          else Inl (DbCheck name))"

definition insert_batch :: "batch \<Rightarrow> unit dbtx" where
  "insert_batch b = tx_insert batches (\<lambda>rows d. d\<lparr>batches := rows\<rparr>) ''ewaste_batches'' (tbl_clash b_id b) (check_batch b) b"

definition command_key :: "command \<Rightarrow> string \<times> string \<times> string" where
  "command_key c = (c_actor_scope c, c_command_name c, c_idempotency_key c)"

definition insert_command :: "command \<Rightarrow> unit dbtx" where
  "insert_command c = tx_insert commands (\<lambda>rows d. d\<lparr>commands := rows\<rparr>) ''command_idempotency''
     (\<lambda>rows. tbl_clash c_id c rows \<or> tbl_clash command_key c rows)
     ((c_actor_user_id c = None) \<noteq> (c_service_principal c = None)) c"

definition insert_audit :: "audit \<Rightarrow> unit dbtx" where
  "insert_audit a = tx_insert audits (\<lambda>rows d. d\<lparr>audits := rows\<rparr>) ''batch_audit_events''
     (\<lambda>rows. tbl_clash au_id a rows \<or> tbl_clash (\<lambda>x. (au_command_id x, au_sequence x)) a rows)
     (au_batch_version a \<noteq> 0 \<and> au_sequence a \<noteq> 0) a"

definition insert_outbox :: "outbox_event \<Rightarrow> unit dbtx" where
  "insert_outbox e = tx_insert outbox (\<lambda>rows d. d\<lparr>outbox := rows\<rparr>) ''event_outbox''
     (\<lambda>rows. tbl_clash o_event_id e rows
        \<or> tbl_clash (\<lambda>x. (o_command_id x, o_batch_id x, o_event_type x)) e rows
        \<or> tbl_clash (\<lambda>x. (o_command_id x, o_sequence x)) e rows)
     (check_outbox e) e"

text \<open>The idempotency key of \<open>batch_claims\<close> has a case-insensitive collation.\<close>

definition claim_key :: "claim \<Rightarrow> string" where
  "claim_key c = to_upper (cl_idempotency_key c)"

definition insert_claim :: "claim \<Rightarrow> unit dbtx" where
  "insert_claim c = tx_insert claims (\<lambda>rows d. d\<lparr>claims := rows\<rparr>) ''batch_claims''
     (\<lambda>rows. tbl_clash cl_id c rows \<or> tbl_clash (\<lambda>x. (cl_batch_id x, cl_epoch x)) c rows
        \<or> tbl_clash claim_key c rows)
     (cl_epoch c \<noteq> 0) c"

definition insert_reservation :: "reservation \<Rightarrow> unit dbtx" where
  "insert_reservation r = tx_insert reservations (\<lambda>rows d. d\<lparr>reservations := rows\<rparr>) ''capacity_reservations''
     (\<lambda>rows. tbl_clash r_id r rows \<or> tbl_clash r_claim_id r rows) True r"

definition insert_assignment :: "assignment \<Rightarrow> unit dbtx" where
  "insert_assignment a = tx_insert assignments (\<lambda>rows d. d\<lparr>assignments := rows\<rparr>) ''batch_assignments''
     (\<lambda>rows. tbl_clash a_id a rows \<or> tbl_clash (\<lambda>x. (a_batch_id x, a_sequence x)) a rows
        \<or> a_closed_at a = None \<and> tbl_clash a_batch_id a (filter (\<lambda>x. a_closed_at x = None) rows))
     (a_sequence a \<noteq> 0 \<and> a_claim_epoch a \<noteq> 0 \<and> a_version a \<noteq> 0) a"

definition insert_action :: "assignment_action \<Rightarrow> unit dbtx" where
  "insert_action a = tx_insert actions (\<lambda>rows d. d\<lparr>actions := rows\<rparr>) ''assignment_actions''
     (\<lambda>rows. tbl_clash ac_id a rows
        \<or> tbl_clash (\<lambda>x. (ac_command_id x, ac_assignment_id x, ac_type x)) a rows)
     (ac_assignment_version a \<noteq> 0) a"

definition insert_handoff :: "handoff \<Rightarrow> unit dbtx" where
  "insert_handoff h = tx_insert handoffs (\<lambda>rows d. d\<lparr>handoffs := rows\<rparr>) ''batch_handoffs''
     (\<lambda>rows. tbl_clash h_id h rows \<or> tbl_clash h_assignment_id h rows \<or> tbl_clash h_command_id h rows) True h"

definition insert_receipt :: "receipt \<Rightarrow> unit dbtx" where
  "insert_receipt r = tx_insert receipts (\<lambda>rows d. d\<lparr>receipts := rows\<rparr>) ''batch_receipts''
     (\<lambda>rows. tbl_clash rc_id r rows \<or> tbl_clash rc_batch_id r rows \<or> tbl_clash rc_command_id r rows)
     (rc_version r \<noteq> 0) r"

definition insert_evidence :: "evidence \<Rightarrow> unit dbtx" where
  "insert_evidence e = tx_insert evidences (\<lambda>rows d. d\<lparr>evidences := rows\<rparr>) ''batch_evidence''
     (\<lambda>rows. tbl_clash e_id e rows \<or> tbl_clash e_object_key e rows) (check_evidence_row e) e"

definition insert_analytics :: "analytics_result \<Rightarrow> unit dbtx" where
  "insert_analytics r = tx_insert analytics (\<lambda>rows d. d\<lparr>analytics := rows\<rparr>) ''batch_impact_metrics''
     (\<lambda>rows. tbl_clash ar_id r rows \<or> tbl_clash ar_batch_id r rows \<or> tbl_clash ar_source_event_id r rows \<or>
             tbl_clash ar_command_id r rows) (check_analytics r) r"

definition insert_anomaly :: "anomaly \<Rightarrow> unit dbtx" where
  "insert_anomaly a = tx_insert anomalies (\<lambda>rows d. d\<lparr>anomalies := rows\<rparr>) ''batch_anomalies''
     (\<lambda>rows. tbl_clash an_id a rows \<or> tbl_clash (\<lambda>x. (an_result_id x, an_code x)) a rows)
     (List.member anomaly_codes (an_code a)) a"

definition insert_treatment :: "treatment \<Rightarrow> unit dbtx" where
  "insert_treatment t = tx_insert treatments (\<lambda>rows d. d\<lparr>treatments := rows\<rparr>) ''batch_treatments''
     (\<lambda>rows. tbl_clash t_id t rows \<or> tbl_clash t_batch_id t rows \<or> tbl_clash t_command_id t rows)
     (t_version t \<noteq> 0 \<and> t_receipt_version t \<noteq> 0) t"

definition update_batches :: "(batch \<Rightarrow> bool) \<Rightarrow> (batch \<Rightarrow> batch) \<Rightarrow> nat dbtx" where
  "update_batches = tx_update batches (\<lambda>rows d. d\<lparr>batches := rows\<rparr>) ''ewaste_batches'' check_batch"

definition update_commands :: "(command \<Rightarrow> bool) \<Rightarrow> (command \<Rightarrow> command) \<Rightarrow> nat dbtx" where
  "update_commands = tx_update commands (\<lambda>rows d. d\<lparr>commands := rows\<rparr>) ''command_idempotency'' (\<lambda>_. True)"

definition update_pools :: "(pool \<Rightarrow> bool) \<Rightarrow> (pool \<Rightarrow> pool) \<Rightarrow> nat dbtx" where
  "update_pools = tx_update pools (\<lambda>rows d. d\<lparr>pools := rows\<rparr>) ''recycler_capacity_pools'' check_pool"

definition update_outbox :: "(outbox_event \<Rightarrow> bool) \<Rightarrow> (outbox_event \<Rightarrow> outbox_event) \<Rightarrow> nat dbtx" where
  "update_outbox = tx_update outbox (\<lambda>rows d. d\<lparr>outbox := rows\<rparr>) ''event_outbox'' check_outbox"

definition update_assignments :: "(assignment \<Rightarrow> bool) \<Rightarrow> (assignment \<Rightarrow> assignment) \<Rightarrow> nat dbtx" where
  "update_assignments = tx_update assignments (\<lambda>rows d. d\<lparr>assignments := rows\<rparr>) ''batch_assignments'' (\<lambda>a. a_version a \<noteq> 0)"

text \<open>\<open>First\<close>: the row, or the error the repository puts for \<open>gorm.ErrRecordNotFound\<close>.\<close>

definition tx_first :: "(db \<Rightarrow> 'r list) \<Rightarrow> ('r \<Rightarrow> bool) \<Rightarrow> error \<Rightarrow> 'r dbtx" where
  "tx_first tget P e = (\<lambda>d. case find P (tget d) of None \<Rightarrow> Inl e | Some r \<Rightarrow> Inr (r, d))"

lemma tx_insert_Inr [tx_success]:
  "tx_insert tget tput name clash chk r d = Inr (u, d') \<longleftrightarrow>
     \<not> clash (tget d) \<and> chk \<and> d' = tput (tget d @ [r]) d"
  by (auto simp: tx_insert_def)

lemma tx_update_Inr [tx_success]:
  "tx_update tget tput name chk P f d = Inr (n, d') \<longleftrightarrow>
     (\<forall>r\<in>set (tget d). P r \<longrightarrow> chk (f r)) \<and> n = tbl_count P (tget d) \<and> d' = tput (tbl_update P f (tget d)) d"
  by (auto simp: tx_update_def list_all_iff)

lemma tx_first_Inr [tx_success]:
  "tx_first tget P e d = Inr (r, d') \<longleftrightarrow> find P (tget d) = Some r \<and> d' = d"
  by (auto simp: tx_first_def split: option.splits)

lemmas insert_defs =
  insert_batch_def insert_command_def insert_audit_def insert_outbox_def insert_claim_def
  insert_reservation_def insert_assignment_def insert_action_def insert_handoff_def
  insert_receipt_def insert_treatment_def insert_evidence_def insert_analytics_def insert_anomaly_def

lemmas update_defs =
  update_batches_def update_commands_def update_pools_def update_outbox_def update_assignments_def

lemma update_batches_Inr [tx_success]:
  "update_batches P f d = Inr (n, d') \<longleftrightarrow>
     (\<forall>r\<in>set (batches d). P r \<longrightarrow> check_batch (f r)) \<and> n = tbl_count P (batches d) \<and>
     d' = d\<lparr>batches := tbl_update P f (batches d)\<rparr>"
  by (simp add: update_defs tx_success)

lemma update_commands_Inr [tx_success]:
  "update_commands P f d = Inr (n, d') \<longleftrightarrow>
     n = tbl_count P (commands d) \<and> d' = d\<lparr>commands := tbl_update P f (commands d)\<rparr>"
  by (simp add: update_defs tx_success)

lemma update_pools_Inr [tx_success]:
  "update_pools P f d = Inr (n, d') \<longleftrightarrow>
     (\<forall>r\<in>set (pools d). P r \<longrightarrow> check_pool (f r)) \<and> n = tbl_count P (pools d) \<and>
     d' = d\<lparr>pools := tbl_update P f (pools d)\<rparr>"
  by (simp add: update_defs tx_success)

lemma update_outbox_Inr [tx_success]:
  "update_outbox P f d = Inr (n, d') \<longleftrightarrow>
     (\<forall>r\<in>set (outbox d). P r \<longrightarrow> check_outbox (f r)) \<and> n = tbl_count P (outbox d) \<and>
     d' = d\<lparr>outbox := tbl_update P f (outbox d)\<rparr>"
  by (simp add: update_defs tx_success)

lemma update_assignments_Inr [tx_success]:
  "update_assignments P f d = Inr (n, d') \<longleftrightarrow>
     (\<forall>r\<in>set (assignments d). P r \<longrightarrow> a_version (f r) \<noteq> 0) \<and> n = tbl_count P (assignments d) \<and>
     d' = d\<lparr>assignments := tbl_update P f (assignments d)\<rparr>"
  by (simp add: update_defs tx_success)

section \<open>What the keys and CHECKs guarantee\<close>

definition keys_wf :: "db \<Rightarrow> bool" where
  "keys_wf d =
     (distinct (map b_id (batches d)) \<and>
      distinct (map c_id (commands d)) \<and> distinct (map command_key (commands d)) \<and>
      distinct (map au_id (audits d)) \<and>
      distinct (map (\<lambda>x. (au_command_id x, au_sequence x)) (audits d)) \<and>
      distinct (map o_event_id (outbox d)) \<and>
      distinct (map (\<lambda>x. (o_command_id x, o_sequence x)) (outbox d)))"

definition claim_keys_wf :: "db \<Rightarrow> bool" where
  "claim_keys_wf d =
     (distinct (map cl_id (claims d)) \<and>
      distinct (map (\<lambda>x. (cl_batch_id x, cl_epoch x)) (claims d)) \<and>
      distinct (map claim_key (claims d)) \<and>
      distinct (map p_id (pools d)) \<and>
      distinct (map r_id (reservations d)) \<and> distinct (map r_claim_id (reservations d)))"

definition assignment_keys_wf :: "db \<Rightarrow> bool" where
  "assignment_keys_wf d =
     (distinct (map a_id (assignments d)) \<and>
      distinct (map (\<lambda>x. (a_batch_id x, a_sequence x)) (assignments d)) \<and>
      distinct (map h_assignment_id (handoffs d)))"

definition processing_keys_wf :: "db \<Rightarrow> bool" where
  "processing_keys_wf d =
     (distinct (map rc_batch_id (receipts d)) \<and> distinct (map t_batch_id (treatments d)) \<and>
      distinct (map e_id (evidences d)) \<and> distinct (map ar_batch_id (analytics d)) \<and>
      distinct (map ar_source_event_id (analytics d)))"

definition checks_wf :: "db \<Rightarrow> bool" where
  "checks_wf d =
     (list_all check_batch (batches d) \<and> list_all check_outbox (outbox d) \<and> list_all check_pool (pools d))"

definition db_wf :: "db \<Rightarrow> bool" where
  "db_wf d = (keys_wf d \<and> claim_keys_wf d \<and> assignment_keys_wf d \<and> processing_keys_wf d \<and> checks_wf d)"

lemmas db_wf_defs =
  db_wf_def keys_wf_def claim_keys_wf_def assignment_keys_wf_def processing_keys_wf_def checks_wf_def

lemma db_wf_empty: "db_wf empty_db"
  by (simp add: db_wf_defs empty_db_def)

lemma db_wf_batch_ids: "db_wf d \<Longrightarrow> distinct (map b_id (batches d))"
  by (simp add: db_wf_defs)

lemma db_wf_command_ids: "db_wf d \<Longrightarrow> distinct (map c_id (commands d))"
  by (simp add: db_wf_defs)

lemma db_wf_command_keys: "db_wf d \<Longrightarrow> distinct (map command_key (commands d))"
  by (simp add: db_wf_defs)

lemma db_wf_check_batch: "db_wf d \<Longrightarrow> b \<in> set (batches d) \<Longrightarrow> check_batch b"
  by (simp add: db_wf_defs list_all_iff)

section \<open>Relations kept by every step\<close>

definition steps :: "('s \<Rightarrow> 's \<Rightarrow> bool) \<Rightarrow> ('s, 'e, 'a) tx \<Rightarrow> bool" where
  "steps R m = (\<forall>s a s'. m s = Inr (a, s') \<longrightarrow> R s s')"

lemma stepsI: "(\<And>s a s'. m s = Inr (a, s') \<Longrightarrow> R s s') \<Longrightarrow> steps R m"
  by (auto simp: steps_def)

lemma stepsD: "steps R m \<Longrightarrow> m s = Inr (a, s') \<Longrightarrow> R s s'"
  by (auto simp: steps_def)

locale step_relation =
  fixes R :: "'s \<Rightarrow> 's \<Rightarrow> bool"
  assumes step_refl: "R s s"
    and step_trans: "R s t \<Longrightarrow> R t u \<Longrightarrow> R s u"
begin

lemma steps_return: "steps R (tx_return a)"
  by (auto simp: steps_def tx_success step_refl)

lemma steps_fail: "steps R (tx_fail e)"
  by (auto simp: steps_def tx_success)

lemma steps_guard: "steps R (tx_guard b e)"
  by (auto simp: steps_def tx_success step_refl)

lemma steps_lift: "steps R (tx_lift r)"
  by (auto simp: steps_def tx_success step_refl)

lemma steps_some: "steps R (tx_some x e)"
  by (auto simp: steps_def tx_success step_refl)

lemma steps_get: "steps R (tx_get g)"
  by (auto simp: steps_def tx_success step_refl)

lemma steps_bind: "steps R m \<Longrightarrow> (\<And>a. steps R (f a)) \<Longrightarrow> steps R (tx_bind m f)"
proof (rule stepsI)
  fix s b s'
  assume m: "steps R m" and f: "\<And>a. steps R (f a)" and "tx_bind m f s = Inr (b, s')"
  then obtain a s1 where "m s = Inr (a, s1)" "f a s1 = Inr (b, s')" by (auto simp: tx_bind_Inr)
  then show "R s s'" using step_trans stepsD [OF m] stepsD [OF f] by blast
qed

lemma steps_map_err: "steps R m \<Longrightarrow> steps R (tx_map_err g m)"
  unfolding steps_def by (metis tx_map_err_Inr)

lemma steps_try: "steps R m \<Longrightarrow> (\<And>e. steps R (h e)) \<Longrightarrow> steps R (tx_try m h)"
  unfolding steps_def by (metis tx_try_Inr)

lemma steps_if: "(b \<Longrightarrow> steps R m) \<Longrightarrow> (\<not> b \<Longrightarrow> steps R n) \<Longrightarrow> steps R (if b then m else n)"
  by simp

lemma steps_option:
  "steps R n \<Longrightarrow> (\<And>a. steps R (m a)) \<Longrightarrow> steps R (case x of None \<Rightarrow> n | Some a \<Rightarrow> m a)"
  by (cases x) auto

lemma steps_prod: "(\<And>a b. steps R (m a b)) \<Longrightarrow> steps R (case x of (a, b) \<Rightarrow> m a b)"
  by (cases x) auto

lemma steps_let: "(\<And>a. steps R (m a)) \<Longrightarrow> steps R (let a = x in m a)"
  by simp

lemmas steps_rules =
  steps_return steps_fail steps_guard steps_lift steps_some steps_get steps_bind steps_map_err
  steps_try steps_if steps_option steps_prod steps_let

lemma run_tx_steps: "steps R m \<Longrightarrow> R s (snd (run_tx m s))"
  by (auto simp: run_tx_def steps_def step_refl split: sum.splits)

end

end
