(* ===== verification/Decoding.thy ===== *)
theory Decoding
  imports Entities
begin

text \<open>
  \<open>encoding/json\<close> as the services use it on the document trees of \<open>Entities\<close>: the stored responses of
  commands and the envelopes of events are read field by field.
\<close>

section \<open>Fields\<close>

text \<open>
  \<open>json.Unmarshal\<close> into a struct field: an absent field or \<open>null\<close> leaves the zero value, a value of
  another kind is an error.
\<close>

definition as_str :: "json \<Rightarrow> string option" where
  "as_str j = (case j of JStr s \<Rightarrow> Some s | _ \<Rightarrow> None)"

definition as_int :: "json \<Rightarrow> int option" where
  "as_int j = (case j of JInt s \<Rightarrow> Some s | _ \<Rightarrow> None)"

definition as_rat :: "json \<Rightarrow> rat option" where
  "as_rat j = (case j of JRat s \<Rightarrow> Some s | _ \<Rightarrow> None)"

definition as_bool :: "json \<Rightarrow> bool option" where
  "as_bool j = (case j of JBool s \<Rightarrow> Some s | _ \<Rightarrow> None)"

definition as_time :: "json \<Rightarrow> int option" where
  "as_time j = (case j of JTime s \<Rightarrow> Some s | _ \<Rightarrow> None)"

definition str_value :: "json option \<Rightarrow> string option" where
  "str_value v = (case v of None \<Rightarrow> Some [] | Some JNull \<Rightarrow> Some [] | Some (JStr s) \<Rightarrow> Some s | _ \<Rightarrow> None)"

definition int_value :: "json option \<Rightarrow> int option" where
  "int_value v = (case v of None \<Rightarrow> Some 0 | Some JNull \<Rightarrow> Some 0 | Some (JInt i) \<Rightarrow> Some i | _ \<Rightarrow> None)"

definition ptr_value :: "(json \<Rightarrow> 'a option) \<Rightarrow> json option \<Rightarrow> 'a option option" where
  "ptr_value f v = (case v of None \<Rightarrow> Some None | Some JNull \<Rightarrow> Some None | Some w \<Rightarrow> map_option Some (f w))"

definition dec_str :: "string \<Rightarrow> json \<Rightarrow> string option" where
  "dec_str k j = str_value (json_field k j)"

definition dec_int :: "string \<Rightarrow> json \<Rightarrow> int option" where
  "dec_int k j = int_value (json_field k j)"

definition time_value :: "json option \<Rightarrow> int option" where
  "time_value v = (case v of None \<Rightarrow> Some zero_time | Some JNull \<Rightarrow> Some zero_time | Some w \<Rightarrow> as_time w)"

definition dec_time :: "string \<Rightarrow> json \<Rightarrow> int option" where
  "dec_time k j = time_value (json_field k j)"

definition dec_obj :: "(json \<Rightarrow> 'a option) \<Rightarrow> string \<Rightarrow> json \<Rightarrow> 'a option" where
  "dec_obj f k j =
     (case json_field k j of None \<Rightarrow> f (JObj []) | Some w \<Rightarrow> if w = JNull then f (JObj []) else f w)"

definition dec_ptr :: "(json \<Rightarrow> 'a option) \<Rightarrow> string \<Rightarrow> json \<Rightarrow> 'a option option" where
  "dec_ptr f k j = ptr_value f (json_field k j)"

lemma as_eqs [simp]:
  "as_str (JStr s) = Some s" "as_int (JInt i) = Some i" "as_rat (JRat q) = Some q"
  "as_bool (JBool b) = Some b" "as_time (JTime t) = Some t"
  by (simp_all add: as_str_def as_int_def as_rat_def as_bool_def as_time_def)

lemma value_eqs [simp]:
  "str_value None = Some []" "ptr_value g None = Some None"
  "str_value (Some (JStr s)) = Some s" "str_value (if s = [] then None else Some (JStr s)) = Some s"
  "int_value (Some (JInt i)) = Some i" "time_value (Some (JTime i)) = Some i"
  "ptr_value as_str (map_option JStr x) = Some x" "ptr_value as_int (map_option JInt y) = Some y"
  "ptr_value as_rat (map_option JRat q) = Some q" "ptr_value as_bool (map_option JBool c) = Some c"
  "ptr_value as_time (map_option JTime t) = Some t"
  by (simp_all add: str_value_def int_value_def time_value_def ptr_value_def split: option.splits)

lemma ptr_value_opt [simp]:
  "ptr_value as_str (Some (json_opt JStr x)) = Some x" "ptr_value as_int (Some (json_opt JInt i)) = Some i"
  "ptr_value as_rat (Some (json_opt JRat q)) = Some q" "ptr_value as_bool (Some (json_opt JBool c)) = Some c"
  by (simp_all add: ptr_value_def json_opt_def split: option.splits)

definition or_else :: "'a option \<Rightarrow> 'a option \<Rightarrow> 'a option" where
  "or_else x y = (case x of None \<Rightarrow> y | Some _ \<Rightarrow> x)"

lemma or_else_None [simp]: "or_else x None = x" "or_else None y = y"
  by (simp_all add: or_else_def split: option.splits)

lemma map_of_omit_nil:
  "map_of (json_omit_nil k f x @ fs) k' =
     (if k' = k then or_else (map_option f x) (map_of fs k') else map_of fs k')"
  by (auto simp: json_omit_nil_def or_else_def split: option.splits)

lemma map_of_omit_empty:
  "map_of (json_omit_empty k s @ fs) k' =
     (if k' = k then or_else (if s = [] then None else Some (JStr s)) (map_of fs k') else map_of fs k')"
  by (auto simp: json_omit_empty_def or_else_def)

lemma map_of_omit_nil_end:
  "map_of (json_omit_nil k f x) k' = (if k' = k then map_option f x else None)"
  by (auto simp: json_omit_nil_def split: option.splits)

lemma map_of_omit_empty_end:
  "map_of (json_omit_empty k s) k' = (if k' = k then (if s = [] then None else Some (JStr s)) else None)"
  by (auto simp: json_omit_empty_def)

lemmas map_of_omit = map_of_omit_nil map_of_omit_empty map_of_omit_nil_end map_of_omit_empty_end

definition dec_u32 :: "string \<Rightarrow> json \<Rightarrow> 32 word option" where
  "dec_u32 k j = Option.bind (dec_int k j) (\<lambda>i. if 0 \<le> i \<and> i < 2 ^ 32 then Some (word_of_int i) else None)"

lemma u32_range: "uint (w :: 32 word) < 4294967296"
  using uint_lt2p [of w] by simp

lemmas dec_defs = dec_str_def dec_int_def dec_time_def dec_ptr_def dec_obj_def

end
