(* ===== verification/BatchRepo.thy ===== *)
theory BatchRepo
  imports Store Decoding "HOL-Library.Monad_Syntax"
begin

text \<open>
  \<open>internal/repository/batch.go\<close>: the transaction of the batch, receipt and treatment services,
  method by method.  A guarded update is an \<open>UPDATE\<close> on the primary key and the guard, the check
  that one row was affected and the read of the new row; \<open>guarded_batch_update\<close> is that pattern,
  which the claim and assignment repositories use too, and \<open>optimistic_update\<close> its contract.
  The nil checks of the code have no counterpart: rows are passed as values.
\<close>

section \<open>Actors\<close>

definition actor_rows :: "string \<Rightarrow> string \<Rightarrow> string \<Rightarrow> string \<Rightarrow> db \<Rightarrow> user_row list" where
  "actor_rows role_code org_kind user organisation d =
     [u. u \<leftarrow> users d, r \<leftarrow> roles d, g \<leftarrow> organisations d,
         ro_code r = u_role_code u, org_id g = u_organisation_id u,
         u_id u = user \<and> u_organisation_id u = organisation \<and> u_status u = ''ACTIVE'' \<and>
         u_role_code u = role_code \<and> ro_active r \<and> ro_allowed_type r = org_kind \<and>
         org_id g = organisation \<and> org_type g = org_kind \<and> org_status g = ''ACTIVE'']"

definition validate_recycler_actor :: "string \<Rightarrow> string \<Rightarrow> unit dbtx" where
  "validate_recycler_actor user organisation =
     tx_bind (tx_get (actor_rows ''RECYCLER'' ''PROCESSING_FACILITY'' user organisation))
       (\<lambda>rows. tx_guard (length rows = 1) (BatchRepoErr RepoBatchActorNotEligible))"

definition validate_platform_role :: "string \<Rightarrow> string \<Rightarrow> unit dbtx" where
  "validate_platform_role user role_code =
     tx_bind (tx_get (\<lambda>d. [u. u \<leftarrow> users d, r \<leftarrow> roles d, ro_code r = u_role_code u,
         u_id u = user \<and> u_status u = ''ACTIVE'' \<and> u_role_code u = role_code \<and> ro_active r \<and>
         ro_allowed_type r = ''PLATFORM'']))
       (\<lambda>rows. tx_guard (length rows = 1) (BatchRepoErr RepoBatchActorNotEligible))"

definition validate_auditor_actor :: "string \<Rightarrow> unit dbtx" where
  "validate_auditor_actor user = validate_platform_role user ''AUDITOR''"

definition validate_admin_actor :: "string \<Rightarrow> unit dbtx" where
  "validate_admin_actor user = validate_platform_role user ''SYSTEM_ADMIN''"

definition receipt_scope_rows ::
  "string \<Rightarrow> string \<Rightarrow> string \<Rightarrow> 64 word \<Rightarrow> string \<Rightarrow> db \<Rightarrow> assignment list"
where
  "receipt_scope_rows batch claim_id assignment_id epoch organisation d =
     [a. b \<leftarrow> batches d, c \<leftarrow> claims d, a \<leftarrow> assignments d,
         Some (cl_id c) = b_claim_id b \<and> cl_batch_id c = b_id b \<and> cl_epoch c = b_claim_epoch b,
         Some (a_id a) = b_assignment_id b \<and> a_batch_id a = b_id b \<and> a_claim_id a = cl_id c \<and>
         a_claim_epoch a = b_claim_epoch b,
         b_id b = batch \<and> b_claim_id b = Some claim_id \<and> b_assignment_id b = Some assignment_id \<and>
         b_claim_epoch b = epoch \<and> cl_recycler_org_id c = organisation \<and>
         cl_status c = ''ACCEPTED'' \<and> cl_superseded_at c = None \<and>
         a_recycler_org_id a = organisation \<and>
         (a_status a = AssignmentStatusAccepted \<or> a_status a = AssignmentStatusCompleted)]"

definition validate_receipt_scope ::
  "string \<Rightarrow> string \<Rightarrow> string \<Rightarrow> 64 word \<Rightarrow> string \<Rightarrow> unit dbtx"
where
  "validate_receipt_scope batch claim_id assignment_id epoch organisation =
     tx_bind (tx_get (receipt_scope_rows batch claim_id assignment_id epoch organisation))
       (\<lambda>rows. tx_guard (length rows = 1) (BatchRepoErr RepoBatchActorNotEligible))"

section \<open>Analytics\<close>

definition encode_metrics :: "metrics \<Rightarrow> json" where
  "encode_metrics m =
     JObj [(''declared_weight_kg'', json_opt JStr (mt_declared_weight m)), (''actual_weight_kg'', json_opt JStr (mt_actual_weight m)),
           (''reused_kg'', json_opt JStr (mt_reused m)), (''recycled_kg'', json_opt JStr (mt_recycled m)),
           (''disposed_kg'', json_opt JStr (mt_disposed m)), (''unknown_kg'', json_opt JStr (mt_unknown m)),
           (''diverted_kg'', json_opt JStr (mt_diverted m)),
           (''declared_quantity'', json_opt JInt (mt_declared_quantity m)),
           (''actual_item_count'', json_opt JInt (mt_actual_count m)),
           (''category_match'', json_opt JBool (mt_category_match m)),
           (''weight_delta_kg'', json_opt JStr (mt_weight_delta m)),
           (''count_delta'', json_opt JInt (mt_count_delta m))]"

definition decode_metrics :: "json \<Rightarrow> metrics option" where
  "decode_metrics j = do {
     dw \<leftarrow> dec_ptr as_str ''declared_weight_kg'' j; aw \<leftarrow> dec_ptr as_str ''actual_weight_kg'' j;
     ru \<leftarrow> dec_ptr as_str ''reused_kg'' j; rc \<leftarrow> dec_ptr as_str ''recycled_kg'' j;
     di \<leftarrow> dec_ptr as_str ''disposed_kg'' j; un \<leftarrow> dec_ptr as_str ''unknown_kg'' j;
     dv \<leftarrow> dec_ptr as_str ''diverted_kg'' j; dq \<leftarrow> dec_ptr as_int ''declared_quantity'' j;
     ac \<leftarrow> dec_ptr as_int ''actual_item_count'' j; cm \<leftarrow> dec_ptr as_bool ''category_match'' j;
     wd \<leftarrow> dec_ptr as_str ''weight_delta_kg'' j; cd \<leftarrow> dec_ptr as_int ''count_delta'' j;
     Some \<lparr>mt_declared_weight = dw, mt_actual_weight = aw, mt_reused = ru, mt_recycled = rc, mt_disposed = di,
       mt_unknown = un, mt_diverted = dv, mt_declared_quantity = dq, mt_actual_count = ac, mt_category_match = cm,
       mt_weight_delta = wd, mt_count_delta = cd\<rparr> }"

lemma decode_encode_metrics [simp]: "decode_metrics (encode_metrics m) = Some m"
  by (simp add: decode_metrics_def encode_metrics_def dec_defs)

lemma encode_metrics_json [simp]: "encode_metrics m \<noteq> JNull"
  by (simp add: encode_metrics_def)

text \<open>The run and the metrics of a stored result, read from its snapshot.\<close>

definition hydrate_analytics_snapshot :: "analytics_result \<Rightarrow> (string \<times> json) option" where
  "hydrate_analytics_snapshot r = do {
     run \<leftarrow> dec_str ''analytics_run_id'' (ar_snapshot r); m \<leftarrow> dec_obj decode_metrics ''metrics'' (ar_snapshot r);
     Some (run, encode_metrics m) }"

definition find_analytics_result_by_source_run :: "string \<Rightarrow> string \<Rightarrow> (analytics_result \<times> json) dbtx" where
  "find_analytics_result_by_source_run source_event_id run_id =
     tx_bind (tx_first analytics (\<lambda>r. ar_source_event_id r = source_event_id) (BatchRepoErr RepoAnalyticsNotFound)) (\<lambda>r.
     case hydrate_analytics_snapshot r of
       None \<Rightarrow> tx_fail (PlainError ''repository: decode analytics snapshot'')
     | Some (run, metrics_json) \<Rightarrow>
         if run \<noteq> run_id then tx_fail (BatchRepoErr RepoAnalyticsSourceConflict) else tx_return (r, metrics_json))"

text \<open>The rank of a code: its place in the canonical order, and after all of them for any other code.\<close>

definition anomaly_rank :: "string \<Rightarrow> nat" where
  "anomaly_rank code = length (takeWhile (\<lambda>c. c \<noteq> code) anomaly_codes)"

text \<open>\<open>FIELD\<close> counts from one and gives zero for any other code.\<close>

definition sql_field :: "string \<Rightarrow> nat" where
  "sql_field code = (if List.member anomaly_codes code then anomaly_rank code + 1 else 0)"

definition find_batch_anomalies :: "string \<Rightarrow> anomaly list dbtx" where
  "find_batch_anomalies result_id =
     tx_get (\<lambda>d. sort_key (\<lambda>a. (sql_field (an_code a), to_upper (an_id a))) (filter (\<lambda>a. an_result_id a = result_id) (anomalies d)))"

definition completes :: "string \<Rightarrow> string \<Rightarrow> outbox_event \<Rightarrow> bool" where
  "completes batch_id result_id e =
     (o_batch_id e = batch_id \<and> o_event_type e = ''RequestCompleted'' \<and>
      Option.bind (json_field ''data'' (o_payload e)) (json_field ''result_id'') = Some (JStr result_id))"

definition find_request_completed_event :: "string \<Rightarrow> string \<Rightarrow> outbox_event dbtx" where
  "find_request_completed_event batch_id result_id =
     tx_bind (tx_get (\<lambda>d. sort_key o_created_at (filter (completes batch_id result_id) (outbox d)))) (\<lambda>es.
     case es of [] \<Rightarrow> tx_fail (BatchRepoErr RepoEventOutboxNotFound) | e # _ \<Rightarrow> tx_return e)"

section \<open>Rows\<close>

definition find_batch_for_update :: "string \<Rightarrow> batch dbtx" where
  "find_batch_for_update batch_id =
     tx_first batches (\<lambda>b. b_id b = batch_id) (BatchRepoErr RepoBatchNotFound)"

definition find_command :: "string \<Rightarrow> string \<Rightarrow> string \<Rightarrow> command dbtx" where
  "find_command actor_scope command_name idempotency_key =
     tx_first commands (\<lambda>c. command_key c = (actor_scope, command_name, idempotency_key))
       (BatchRepoErr RepoCommandNotFound)"

definition find_receipt :: "string \<Rightarrow> receipt dbtx" where
  "find_receipt batch_id = tx_first receipts (\<lambda>r. rc_batch_id r = batch_id) (BatchRepoErr RepoReceiptNotFound)"

definition find_evidence :: "string \<Rightarrow> string \<Rightarrow> evidence dbtx" where
  "find_evidence batch_id evidence_id =
     tx_first evidences (\<lambda>e. e_batch_id e = batch_id \<and> e_id e = evidence_id)
       (BatchRepoErr RepoEvidenceNotFound)"

definition find_outbox_event :: "string \<Rightarrow> string \<Rightarrow> string \<Rightarrow> outbox_event dbtx" where
  "find_outbox_event batch_id event_id event_type =
     tx_first outbox (\<lambda>e. o_batch_id e = batch_id \<and> o_event_id e = event_id \<and> o_event_type e = event_type)
       (BatchRepoErr RepoEventOutboxNotFound)"

definition validate_treatment_evidence :: "string \<Rightarrow> string \<Rightarrow> string \<Rightarrow> unit dbtx" where
  "validate_treatment_evidence batch_id evidence_id organisation =
     tx_bind (tx_get (\<lambda>d. tbl_count (\<lambda>e. e_id e = evidence_id \<and> e_batch_id e = batch_id \<and>
         e_organisation_id e = organisation \<and> e_stage e = EvidenceLifecycleTreatment) (evidences d)))
       (\<lambda>n. tx_guard (n = 1) (BatchRepoErr RepoEvidenceNotFound))"

definition create_batch :: "batch \<Rightarrow> unit dbtx" where
  "create_batch b = insert_batch b"

definition create_command :: "command \<Rightarrow> unit dbtx" where
  "create_command c = insert_command c"

definition create_receipt :: "receipt \<Rightarrow> unit dbtx" where
  "create_receipt r = insert_receipt r"

definition create_evidence :: "evidence \<Rightarrow> unit dbtx" where
  "create_evidence e = insert_evidence e"

definition create_analytics_result :: "analytics_result \<Rightarrow> unit dbtx" where
  "create_analytics_result r = insert_analytics r"

definition create_batch_anomaly :: "anomaly \<Rightarrow> unit dbtx" where
  "create_batch_anomaly a = insert_anomaly a"

definition create_treatment :: "treatment \<Rightarrow> unit dbtx" where
  "create_treatment t = insert_treatment t"

definition append_audit :: "audit \<Rightarrow> unit dbtx" where
  "append_audit a = insert_audit a"

definition enqueue_outbox :: "outbox_event \<Rightarrow> unit dbtx" where
  "enqueue_outbox e = insert_outbox e"

text \<open>When an insert of a command, audit or outbox row goes through.\<close>

definition command_ok :: "command \<Rightarrow> db \<Rightarrow> bool" where
  "command_ok c d =
     (\<not> tbl_clash c_id c (commands d) \<and> \<not> tbl_clash command_key c (commands d) \<and>
      (c_actor_user_id c = None) \<noteq> (c_service_principal c = None))"

definition audit_ok :: "audit \<Rightarrow> db \<Rightarrow> bool" where
  "audit_ok a d =
     (\<not> tbl_clash au_id a (audits d) \<and> \<not> tbl_clash (\<lambda>x. (au_command_id x, au_sequence x)) a (audits d) \<and>
      au_batch_version a \<noteq> 0 \<and> au_sequence a \<noteq> 0)"

definition outbox_ok :: "outbox_event \<Rightarrow> db \<Rightarrow> bool" where
  "outbox_ok e d =
     (\<not> tbl_clash o_event_id e (outbox d) \<and>
      \<not> tbl_clash (\<lambda>x. (o_command_id x, o_batch_id x, o_event_type x)) e (outbox d) \<and>
      \<not> tbl_clash (\<lambda>x. (o_command_id x, o_sequence x)) e (outbox d) \<and> check_outbox e)"

definition is_evidence_download_batch_status :: "batch_status \<Rightarrow> bool" where
  "is_evidence_download_batch_status st =
     (st = BatchStatusCollected \<or> st = BatchStatusVerified \<or> st = BatchStatusRecycled \<or> st = BatchStatusCompleted)"

text \<open>
  The download read.  The table has no \<open>validation_status\<close> column, so that the field is empty in every row
  read and the test of it never fails.
\<close>

definition read_evidence_for_download :: "string \<Rightarrow> string \<Rightarrow> string \<Rightarrow> string \<Rightarrow> string \<Rightarrow> (batch \<times> evidence) dbtx" where
  "read_evidence_for_download batch_id evidence_id user organisation role =
     tx_bind (tx_first batches (\<lambda>b. b_id b = batch_id) (BatchRepoErr RepoBatchNotFound)) (\<lambda>b.
     tx_bind (tx_guard (is_evidence_download_batch_status (b_status b)) (BatchRepoErr RepoEvidenceNotFound)) (\<lambda>_.
     tx_bind (find_evidence batch_id evidence_id) (\<lambda>e.
     tx_bind
       (if to_upper (trim_space role) = ''RECYCLER'' then
          tx_bind (validate_recycler_actor user organisation) (\<lambda>_.
          case (b_claim_id b, b_assignment_id b) of
            (Some claim_id, Some assignment_id) \<Rightarrow>
              if e_organisation_id e \<noteq> organisation then tx_fail (BatchRepoErr RepoEvidenceNotFound)
              else validate_receipt_scope (b_id b) claim_id assignment_id (b_claim_epoch b) organisation
          | _ \<Rightarrow> tx_fail (BatchRepoErr RepoEvidenceNotFound))
        else if to_upper (trim_space role) = ''AUDITOR'' then validate_auditor_actor user
        else tx_fail (BatchRepoErr RepoBatchActorNotEligible)) (\<lambda>_.
     tx_return (b, e)))))"

lemma create_command_Inr [tx_success]:
  "create_command c d = Inr (u, d') \<longleftrightarrow> command_ok c d \<and> d' = d\<lparr>commands := commands d @ [c]\<rparr>"
  by (auto simp: create_command_def insert_command_def command_ok_def tx_success)

lemma append_audit_Inr [tx_success]:
  "append_audit a d = Inr (u, d') \<longleftrightarrow> audit_ok a d \<and> d' = d\<lparr>audits := audits d @ [a]\<rparr>"
  by (auto simp: append_audit_def insert_audit_def audit_ok_def tx_success)

lemma enqueue_outbox_Inr [tx_success]:
  "enqueue_outbox e d = Inr (u, d') \<longleftrightarrow> outbox_ok e d \<and> d' = d\<lparr>outbox := outbox d @ [e]\<rparr>"
  by (auto simp: enqueue_outbox_def insert_outbox_def outbox_ok_def tx_success)

lemma create_batch_Inr [tx_success]:
  "create_batch b d = Inr (u, d') \<longleftrightarrow>
     \<not> tbl_clash b_id b (batches d) \<and> check_batch b \<and> d' = d\<lparr>batches := batches d @ [b]\<rparr>"
  by (auto simp: create_batch_def insert_batch_def tx_success)

section \<open>Guarded updates\<close>

definition guarded_batch_update ::
  "string \<Rightarrow> (batch \<Rightarrow> bool) \<Rightarrow> (batch \<Rightarrow> batch) \<Rightarrow> error \<Rightarrow> batch dbtx"
where
  "guarded_batch_update batch_id guard f e =
     tx_bind (update_batches (\<lambda>b. b_id b = batch_id \<and> guard b) f)
       (\<lambda>affected. tx_bind (tx_guard (affected = 1) e)
       (\<lambda>_. tx_first batches (\<lambda>b. b_id b = batch_id) (PlainError ''record not found'')))"

text \<open>One column of the map \<open>draftChanges\<close> builds.\<close>

datatype draft_change =
    SetCategory string | SetQuantity int | SetWeight string | SetCondition string
  | SetDataBearing bool | SetZone string | SetDeadline int | SetNotes string

fun apply_change :: "draft_change \<Rightarrow> batch \<Rightarrow> batch" where
  "apply_change (SetCategory v) b = b\<lparr>b_category := Some v\<rparr>"
| "apply_change (SetQuantity v) b = b\<lparr>b_quantity := Some v\<rparr>"
| "apply_change (SetWeight v) b = b\<lparr>b_weight := Some v\<rparr>"
| "apply_change (SetCondition v) b = b\<lparr>b_condition := Some v\<rparr>"
| "apply_change (SetDataBearing v) b = b\<lparr>b_data_bearing := v\<rparr>"
| "apply_change (SetZone v) b = b\<lparr>b_zone := Some v\<rparr>"
| "apply_change (SetDeadline v) b = b\<lparr>b_deadline := Some v\<rparr>"
| "apply_change (SetNotes v) b = b\<lparr>b_notes := Some v\<rparr>"

definition apply_changes :: "draft_change list \<Rightarrow> batch \<Rightarrow> batch" where
  "apply_changes changes b = fold apply_change changes b"

definition update_draft ::
  "int \<Rightarrow> string \<Rightarrow> string \<Rightarrow> string \<Rightarrow> 32 word \<Rightarrow> draft_change list \<Rightarrow> batch dbtx"
where
  "update_draft auto_now batch_id organization created_by expected changes =
     guarded_batch_update batch_id
       (\<lambda>b. b_organization_id b = organization \<and> b_created_by b = created_by \<and>
            b_status b = BatchStatusDraft \<and> b_version b = expected)
       (\<lambda>b. (apply_changes changes b)\<lparr>b_version := b_version b + 1, b_updated_at := auto_now\<rparr>)
       (BatchRepoErr RepoBatchConcurrency)"

definition submit_draft ::
  "int \<Rightarrow> string \<Rightarrow> string \<Rightarrow> string \<Rightarrow> 32 word \<Rightarrow> int \<Rightarrow> batch dbtx"
where
  "submit_draft auto_now batch_id organization created_by expected submitted_at =
     guarded_batch_update batch_id
       (\<lambda>b. b_organization_id b = organization \<and> b_created_by b = created_by \<and>
            b_status b = BatchStatusDraft \<and> b_version b = expected)
       (\<lambda>b. b\<lparr>b_status := BatchStatusSubmitted, b_submitted_at := Some submitted_at,
              b_version := b_version b + 1, b_updated_at := auto_now\<rparr>)
       (BatchRepoErr RepoBatchConcurrency)"

definition advance_batch :: "batch_status \<Rightarrow> batch_status \<Rightarrow> string \<Rightarrow> 32 word \<Rightarrow> int \<Rightarrow> batch dbtx" where
  "advance_batch from_status to_status batch_id expected now =
     guarded_batch_update batch_id
       (\<lambda>b. b_status b = from_status \<and> b_version b = expected)
       (\<lambda>b. b\<lparr>b_status := to_status, b_version := b_version b + 1, b_updated_at := now\<rparr>)
       (BatchRepoErr RepoBatchConcurrency)"

definition update_batch_receipt :: "string \<Rightarrow> 32 word \<Rightarrow> int \<Rightarrow> batch dbtx" where
  "update_batch_receipt = advance_batch BatchStatusCollected BatchStatusVerified"

definition update_batch_treatment :: "string \<Rightarrow> 32 word \<Rightarrow> int \<Rightarrow> batch dbtx" where
  "update_batch_treatment = advance_batch BatchStatusVerified BatchStatusRecycled"

definition update_batch_analytics :: "string \<Rightarrow> 32 word \<Rightarrow> int \<Rightarrow> batch dbtx" where
  "update_batch_analytics = advance_batch BatchStatusRecycled BatchStatusCompleted"

definition mark_completed :: "int \<Rightarrow> json \<Rightarrow> int \<Rightarrow> command \<Rightarrow> command" where
  "mark_completed status response done_at c =
     c\<lparr>c_state := CommandStateCompleted, c_response_status := Some status,
       c_response_json := Some response, c_completed_at := Some done_at\<rparr>"

definition complete_command_row :: "error \<Rightarrow> string \<Rightarrow> int \<Rightarrow> json \<Rightarrow> int \<Rightarrow> unit dbtx" where
  "complete_command_row e command_id status response done_at =
     tx_bind (update_commands (\<lambda>c. c_id c = command_id \<and> c_state c = CommandStateInProgress)
                (mark_completed status response done_at))
       (\<lambda>affected. tx_guard (affected = 1) e)"

definition complete_command :: "string \<Rightarrow> int \<Rightarrow> json \<Rightarrow> int \<Rightarrow> unit dbtx" where
  "complete_command = complete_command_row (BatchRepoErr RepoCommandConcurrency)"

section \<open>What a guarded update does\<close>

lemma apply_change_keeps [simp]:
  "b_id (apply_change c b) = b_id b" "b_status (apply_change c b) = b_status b"
  "b_version (apply_change c b) = b_version b" "b_organization_id (apply_change c b) = b_organization_id b"
  "b_created_by (apply_change c b) = b_created_by b" "b_claim_id (apply_change c b) = b_claim_id b"
  "b_assignment_id (apply_change c b) = b_assignment_id b" "b_claim_epoch (apply_change c b) = b_claim_epoch b"
  "b_submitted_at (apply_change c b) = b_submitted_at b" "b_created_at (apply_change c b) = b_created_at b"
  by (cases c; simp)+

lemma apply_changes_keeps [simp]:
  "b_id (apply_changes cs b) = b_id b" "b_status (apply_changes cs b) = b_status b"
  "b_version (apply_changes cs b) = b_version b" "b_organization_id (apply_changes cs b) = b_organization_id b"
  "b_created_by (apply_changes cs b) = b_created_by b" "b_claim_id (apply_changes cs b) = b_claim_id b"
  "b_assignment_id (apply_changes cs b) = b_assignment_id b" "b_claim_epoch (apply_changes cs b) = b_claim_epoch b"
  "b_submitted_at (apply_changes cs b) = b_submitted_at b" "b_created_at (apply_changes cs b) = b_created_at b"
  by (induction cs arbitrary: b; simp add: apply_changes_def)+

lemma guarded_batch_update_D:
  assumes "guarded_batch_update bid Q f e d = Inr (b', d')"
  shows "d' = d\<lparr>batches := tbl_update (\<lambda>b. b_id b = bid \<and> Q b) f (batches d)\<rparr>"
    and "tbl_count (\<lambda>b. b_id b = bid \<and> Q b) (batches d) = 1"
    and "\<forall>b\<in>set (batches d). b_id b = bid \<and> Q b \<longrightarrow> check_batch (f b)"
    and "find (\<lambda>b. b_id b = bid) (batches d') = Some b'"
  using assms by (auto simp: guarded_batch_update_def tx_success)

text \<open>On a table whose identifiers are distinct the row read back is the row updated.\<close>

lemma guarded_batch_update_Inr:
  assumes "distinct (map b_id (batches d))" "\<And>b. b_id (f b) = b_id b"
  shows "guarded_batch_update bid Q f e d = Inr (b', d') \<longleftrightarrow>
    (\<exists>b. find (\<lambda>b. b_id b = bid) (batches d) = Some b \<and> Q b \<and> check_batch (f b) \<and> b' = f b \<and>
         d' = d\<lparr>batches := tbl_update (\<lambda>b. b_id b = bid \<and> Q b) f (batches d)\<rparr>)"
    (is "?l \<longleftrightarrow> ?r")
proof
  assume l: ?l
  note D = guarded_batch_update_D [OF l]
  obtain b where b: "find (\<lambda>b. b_id b = bid) (batches d) = Some b" "Q b"
    using D(2) tbl_count_key_1 [OF assms(1), of bid Q] by auto
  then have "find (\<lambda>b. b_id b = bid) (batches d') = Some (f b)"
    unfolding D(1) using find_tbl_update [where key = b_id and Q = Q and f = f, OF b] assms(2) by simp
  moreover have "check_batch (f b)" using D(3) b find_Some_memD [OF b(1)] by blast
  ultimately show ?r using b D(1,4) by auto
next
  assume ?r
  then obtain b where b: "find (\<lambda>b. b_id b = bid) (batches d) = Some b" "Q b" "check_batch (f b)" "b' = f b"
    "d' = d\<lparr>batches := tbl_update (\<lambda>b. b_id b = bid \<and> Q b) f (batches d)\<rparr>" by blast
  have one: "tbl_count (\<lambda>b. b_id b = bid \<and> Q b) (batches d) = 1"
    using tbl_count_key_1 [OF assms(1), of bid Q] b by blast
  have chk: "\<forall>r\<in>set (batches d). b_id r = bid \<and> Q r \<longrightarrow> check_batch (f r)"
    using distinct_key_eqD [OF assms(1)] find_Some_memD [OF b(1)] b(3) by metis
  have "find (\<lambda>b. b_id b = bid) (batches d') = Some (f b)"
    unfolding b(5) using find_tbl_update [where key = b_id and Q = Q and f = f, OF b(1,2)] assms(2) by simp
  then show ?l unfolding guarded_batch_update_def tx_success
    using one chk b(4,5) by (auto simp: tx_success)
qed

lemma guarded_batch_update_conflict:
  assumes "distinct (map b_id (batches d))"
    and "\<And>b. find (\<lambda>b. b_id b = bid) (batches d) = Some b \<Longrightarrow> \<not> Q b"
  shows "guarded_batch_update bid Q f e d = Inl e"
proof -
  have z: "tbl_count (\<lambda>b. b_id b = bid \<and> Q b) (batches d) = 0"
    unfolding tbl_count_0_iff using find_keyI [OF assms(1)] assms(2) by blast
  then have "list_all (\<lambda>r. b_id r = bid \<and> Q r \<longrightarrow> check_batch (f r)) (batches d)"
    by (auto simp: tbl_count_0_iff list_all_iff)
  then show ?thesis
    by (simp add: guarded_batch_update_def update_defs tx_update_def tx_bind_def z)
qed

lemma guarded_batch_update_others:
  assumes "guarded_batch_update bid Q f e d = Inr (b', d')" "\<And>b. b_id (f b) = b_id b" "x \<noteq> bid"
  shows "find (\<lambda>b. b_id b = x) (batches d') = find (\<lambda>b. b_id b = x) (batches d)"
  unfolding guarded_batch_update_D(1) [OF assms(1)]
  using find_tbl_update_other [where key = b_id, of f "\<lambda>b. b_id b = bid \<and> Q b" x] assms(2,3) by auto

section \<open>The optimistic-lock contract\<close>

text \<open>
  What the handlers rely on when they update a batch: the update succeeds only on the version it
  was given, the row it returns is the one now stored and has the next version, and no other row
  changes.  From this follows that of two updates with the same expected version at most one
  succeeds.
\<close>

locale optimistic_update =
  fixes upd :: "string \<Rightarrow> 32 word \<Rightarrow> batch dbtx"
  assumes upd_expected:
      "db_wf d \<Longrightarrow> upd bid v d = Inr (b', d') \<Longrightarrow>
       \<exists>b. find (\<lambda>b. b_id b = bid) (batches d) = Some b \<and> b_version b = v \<and> b_version b' = v + 1"
    and upd_stored:
      "db_wf d \<Longrightarrow> upd bid v d = Inr (b', d') \<Longrightarrow> find (\<lambda>b. b_id b = bid) (batches d') = Some b'"
    and upd_frame:
      "upd bid v d = Inr (b', d') \<Longrightarrow> x \<noteq> bid \<Longrightarrow>
       find (\<lambda>b. b_id b = x) (batches d') = find (\<lambda>b. b_id b = x) (batches d)"
begin

lemma lost_update_conflict:
  assumes "db_wf d" "upd bid v d = Inr (b1, d1)" "db_wf d1"
  shows "\<nexists>b2 d2. upd bid v d1 = Inr (b2, d2)"
proof
  assume "\<exists>b2 d2. upd bid v d1 = Inr (b2, d2)"
  then obtain b2 d2 where "upd bid v d1 = Inr (b2, d2)" by blast
  then have "b_version b1 = v" using upd_expected [OF assms(3)] upd_stored [OF assms(1,2)] by fastforce
  moreover have "b_version b1 = v + 1" using upd_expected [OF assms(1,2)] by blast
  ultimately show False by simp
qed

end

text \<open>Every update built from \<open>guarded_batch_update\<close> with the version in its guard meets it.\<close>

lemma guarded_optimistic:
  assumes id: "\<And>bid v b. b_id (f bid v b) = b_id b"
    and ver: "\<And>bid v b. b_version (f bid v b) = b_version b + 1"
    and Q: "\<And>bid v b. Q bid v b \<Longrightarrow> b_version b = v"
  shows "optimistic_update (\<lambda>bid v. guarded_batch_update bid (Q bid v) (f bid v) e)"
proof
  fix bid v d b' d'
  assume wf: "db_wf d" and u: "guarded_batch_update bid (Q bid v) (f bid v) e d = Inr (b', d')"
  then obtain b where b: "find (\<lambda>b. b_id b = bid) (batches d) = Some b" "Q bid v b" "b' = f bid v b"
    using guarded_batch_update_Inr [OF db_wf_batch_ids [OF wf], of "f bid v"] id by auto
  then show "\<exists>b. find (\<lambda>b. b_id b = bid) (batches d) = Some b \<and> b_version b = v \<and> b_version b' = v + 1"
    using Q [OF b(2)] ver by auto
  show "find (\<lambda>b. b_id b = bid) (batches d') = Some b'"
    by (rule guarded_batch_update_D(4) [OF u])
next
  fix bid v d b' d' x
  assume "guarded_batch_update bid (Q bid v) (f bid v) e d = Inr (b', d')" "x \<noteq> bid"
  then show "find (\<lambda>b. b_id b = x) (batches d') = find (\<lambda>b. b_id b = x) (batches d)"
    using guarded_batch_update_others id by metis
qed

interpretation draft_update: optimistic_update
  "\<lambda>bid v. update_draft now bid org cb v changes" for now org cb changes
  unfolding update_draft_def by (rule guarded_optimistic) auto

interpretation submit_update: optimistic_update
  "\<lambda>bid v. submit_draft now bid org cb v t" for now org cb t
  unfolding submit_draft_def by (rule guarded_optimistic) auto

interpretation receipt_update: optimistic_update "\<lambda>bid v. update_batch_receipt bid v now" for now
  unfolding update_batch_receipt_def advance_batch_def by (rule guarded_optimistic) auto

interpretation treatment_update: optimistic_update "\<lambda>bid v. update_batch_treatment bid v now" for now
  unfolding update_batch_treatment_def advance_batch_def by (rule guarded_optimistic) auto

interpretation analytics_update: optimistic_update "\<lambda>bid v. update_batch_analytics bid v now" for now
  unfolding update_batch_analytics_def advance_batch_def by (rule guarded_optimistic) auto

section \<open>Completing a command\<close>

text \<open>Insert then complete: the row of the command is the last one and is completed.\<close>

lemma complete_command_row_Inr [tx_success]:
  "complete_command_row e cid st js t d = Inr (u, d') \<longleftrightarrow>
     tbl_count (\<lambda>c. c_id c = cid \<and> c_state c = CommandStateInProgress) (commands d) = 1 \<and>
     d' = d\<lparr>commands := tbl_update (\<lambda>c. c_id c = cid \<and> c_state c = CommandStateInProgress)
              (mark_completed st js t) (commands d)\<rparr>"
  by (auto simp: complete_command_row_def tx_success)

lemma complete_last_command:
  assumes "commands d = cs @ [c]" "\<not> tbl_clash c_id c cs" "c_id c = cid" "c_state c = CommandStateInProgress"
  shows "complete_command_row e cid st js t d = Inr (u, d') \<longleftrightarrow>
         d' = d\<lparr>commands := cs @ [mark_completed st js t c]\<rparr>"
  using tbl_update_inserted [where key = c_id and Q = "\<lambda>x. c_state x = CommandStateInProgress", OF assms(2,4)]
    tbl_count_inserted [where key = c_id and Q = "\<lambda>x. c_state x = CommandStateInProgress", OF assms(2,4)]
  by (simp add: tx_success assms(1,3))

lemma command_ok_no_clash: "command_ok c d \<Longrightarrow> \<not> tbl_clash c_id c (commands d)"
  by (simp add: command_ok_def)

end
