(* ===== verification/ClaimRepo.thy ===== *)
theory ClaimRepo
  imports BatchRepo
begin

text \<open>
  \<open>internal/repository/claim.go\<close>: the transaction of the claim service.  The pool amounts are
  hundredths of a kilogram.  \<open>FindEligibleMatch\<close> has \<open>LIMIT 1\<close> without an order; the model takes
  the first joined row in table order.
\<close>

definition claim_validate_recycler_actor :: "string \<Rightarrow> string \<Rightarrow> unit dbtx" where
  "claim_validate_recycler_actor user organisation =
     tx_bind (tx_get (actor_rows ''RECYCLER'' ''PROCESSING_FACILITY'' user organisation))
       (\<lambda>rows. tx_guard (length rows = 1) (ClaimRepoErr RepoClaimActorNotEligible))"

definition claim_find_command :: "string \<Rightarrow> string \<Rightarrow> string \<Rightarrow> command dbtx" where
  "claim_find_command actor_scope command_name idempotency_key =
     tx_first commands (\<lambda>c. command_key c = (actor_scope, command_name, idempotency_key))
       (ClaimRepoErr RepoClaimCommandNotFound)"

definition claim_key_exists :: "string \<Rightarrow> bool dbtx" where
  "claim_key_exists key =
     tx_get (\<lambda>d. tbl_count (\<lambda>c. claim_key c = to_upper key) (claims d) > 0)"

definition claim_find_batch_for_update :: "string \<Rightarrow> batch dbtx" where
  "claim_find_batch_for_update batch_id =
     tx_first batches (\<lambda>b. b_id b = batch_id) (ClaimRepoErr RepoClaimBatchNotFound)"

definition minute :: int where "minute = 60 * second"

text \<open>The joined rows of one matched result: live organisation, profile, capability, zone and pool.\<close>

definition result_supported :: "int \<Rightarrow> batch \<Rightarrow> db \<Rightarrow> matched_result_row \<Rightarrow> bool" where
  "result_supported db_now b d m =
     (list_ex (\<lambda>g. org_id g = m_recycler_org_id m \<and> org_status g = ''ACTIVE'' \<and>
                  org_type g = ''PROCESSING_FACILITY'') (organisations d) \<and>
      list_ex (\<lambda>p. pf_recycler_org_id p = m_recycler_org_id m \<and> pf_active p) (profiles d) \<and>
      list_ex (\<lambda>c. cp_recycler_org_id c = m_recycler_org_id m \<and> cp_pool_id c = m_pool_id m \<and>
                  Some (cp_category c) = b_category b \<and> cp_active c \<and>
                  (\<not> b_data_bearing b \<or> cp_data_bearing c) \<and>
                  (case b_condition b of None \<Rightarrow> False | Some v \<Rightarrow> List.member (cp_conditions c) v))
        (capabilities d) \<and>
      list_ex (\<lambda>z. z_recycler_org_id z = m_recycler_org_id m \<and> Some (z_zone z) = b_zone b \<and> z_active z \<and>
                  (case b_deadline b of None \<Rightarrow> False
                   | Some t \<Rightarrow> db_now + z_lead_minutes z * minute \<le> t))
        (zones d) \<and>
      list_ex (\<lambda>p. p_id p = m_pool_id m \<and> p_recycler_org_id p = m_recycler_org_id m \<and> p_active p \<and>
                  (case b_weight b of None \<Rightarrow> False
                   | Some w \<Rightarrow> decimal_cents w \<le> p_total p - p_reserved p))
        (pools d))"

definition eligible_matches :: "int \<Rightarrow> batch \<Rightarrow> string \<Rightarrow> db \<Rightarrow> claim_match list" where
  "eligible_matches db_now b recycler_org d =
     [\<lparr>cm_decision_id = m_decision_id m, cm_matched_result_id = m_id m, cm_batch_id = m_batch_id m,
       cm_recycler_org_id = m_recycler_org_id m, cm_pool_id = m_pool_id m,
       cm_batch_version = d_batch_version e, cm_claim_epoch = d_claim_epoch e\<rparr>.
      m \<leftarrow> matched_results d, e \<leftarrow> decisions d,
      d_id e = m_decision_id m \<and> d_batch_id e = m_batch_id m,
      m_batch_id m = b_id b \<and> m_recycler_org_id m = recycler_org \<and> m_is_matched m \<and>
      m_category_match m \<and> m_capability_match m \<and> m_capacity_available m \<and> m_zone_match m \<and>
      m_deadline_viable m \<and> d_outcome e = ''MATCHED'' \<and> d_claim_epoch e = b_claim_epoch b \<and>
      d_batch_version e = b_version b - 1 \<and> result_supported db_now b d m]"

definition find_eligible_match :: "int \<Rightarrow> batch \<Rightarrow> string \<Rightarrow> claim_match dbtx" where
  "find_eligible_match db_now b recycler_org =
     tx_bind (tx_get (eligible_matches db_now b recycler_org))
       (\<lambda>rows. case rows of
          [] \<Rightarrow> tx_fail (ClaimRepoErr RepoClaimOpportunityNotFound)
        | m # _ \<Rightarrow> if cm_matched_result_id m = [] then tx_fail (ClaimRepoErr RepoClaimOpportunityNotFound)
                   else tx_return m)"

definition lock_capacity_pool :: "string \<Rightarrow> string \<Rightarrow> pool dbtx" where
  "lock_capacity_pool pool_id recycler_org =
     tx_first pools (\<lambda>p. p_id p = pool_id \<and> p_recycler_org_id p = recycler_org)
       (ClaimRepoErr RepoClaimPoolNotFound)"

definition reserve_capacity :: "string \<Rightarrow> string \<Rightarrow> string \<Rightarrow> int \<Rightarrow> unit dbtx" where
  "reserve_capacity pool_id recycler_org weight_kg updated_at =
     tx_bind (update_pools
       (\<lambda>p. p_id p = pool_id \<and> (p_recycler_org_id p = recycler_org \<and> p_active p \<and>
            decimal_cents weight_kg \<le> p_total p - p_reserved p))
       (\<lambda>p. p\<lparr>p_reserved := p_reserved p + decimal_cents weight_kg, p_version := p_version p + 1,
              p_updated_at := updated_at\<rparr>))
     (\<lambda>affected. tx_guard (affected = 1) (ClaimRepoErr RepoClaimConcurrency))"

definition create_claim :: "claim \<Rightarrow> unit dbtx" where
  "create_claim c = insert_claim c"

definition create_reservation :: "reservation \<Rightarrow> unit dbtx" where
  "create_reservation r = insert_reservation r"

definition approve_batch :: "string \<Rightarrow> 64 word \<Rightarrow> 32 word \<Rightarrow> string \<Rightarrow> int \<Rightarrow> batch dbtx" where
  "approve_batch batch_id claim_epoch expected claim_id updated_at =
     guarded_batch_update batch_id
       (\<lambda>b. b_status b = BatchStatusMatched \<and> b_claim_id b = None \<and> b_claim_epoch b = claim_epoch \<and>
            b_version b = expected)
       (\<lambda>b. b\<lparr>b_status := BatchStatusApproved, b_claim_id := Some claim_id,
              b_version := b_version b + 1, b_updated_at := updated_at\<rparr>)
       (ClaimRepoErr RepoClaimConcurrency)"

definition claim_complete_command :: "string \<Rightarrow> int \<Rightarrow> json \<Rightarrow> int \<Rightarrow> unit dbtx" where
  "claim_complete_command = complete_command_row (ClaimRepoErr RepoClaimConcurrency)"

interpretation approval: optimistic_update "\<lambda>bid v. approve_batch bid ep v cid t" for ep cid t
  unfolding approve_batch_def by (rule guarded_optimistic) auto

lemma claim_key_exists_Inr [tx_success]:
  "claim_key_exists key d = Inr (x, d') \<longleftrightarrow> x = list_ex (\<lambda>c. claim_key c = to_upper key) (claims d) \<and> d' = d"
proof -
  have "(tbl_count (\<lambda>c. claim_key c = to_upper key) (claims d) > 0) = list_ex (\<lambda>c. claim_key c = to_upper key) (claims d)"
    using tbl_count_0_iff [of "\<lambda>c. claim_key c = to_upper key" "claims d"] by (auto simp: list_ex_iff)
  then show ?thesis by (auto simp: claim_key_exists_def tx_success)
qed

lemma find_eligible_match_Inr:
  "find_eligible_match t b org d = Inr (m, d') \<longleftrightarrow>
     d' = d \<and> cm_matched_result_id m \<noteq> [] \<and> (\<exists>ms. eligible_matches t b org d = m # ms)"
  by (auto simp: find_eligible_match_def tx_success split: list.splits if_splits)

definition claim_ok :: "claim \<Rightarrow> db \<Rightarrow> bool" where
  "claim_ok c d =
     (\<not> tbl_clash cl_id c (claims d) \<and> \<not> tbl_clash (\<lambda>x. (cl_batch_id x, cl_epoch x)) c (claims d) \<and>
      \<not> tbl_clash claim_key c (claims d) \<and> cl_epoch c \<noteq> 0)"

definition reservation_ok :: "reservation \<Rightarrow> db \<Rightarrow> bool" where
  "reservation_ok r d =
     (\<not> tbl_clash r_id r (reservations d) \<and> \<not> tbl_clash r_claim_id r (reservations d))"

lemma create_claim_Inr [tx_success]:
  "create_claim c d = Inr (u, d') \<longleftrightarrow> claim_ok c d \<and> d' = d\<lparr>claims := claims d @ [c]\<rparr>"
  by (auto simp: create_claim_def insert_claim_def claim_ok_def tx_success)

lemma create_reservation_Inr [tx_success]:
  "create_reservation r d = Inr (u, d') \<longleftrightarrow>
     reservation_ok r d \<and> d' = d\<lparr>reservations := reservations d @ [r]\<rparr>"
  by (auto simp: create_reservation_def insert_reservation_def reservation_ok_def tx_success)

lemma claim_validate_recycler_actor_Inr [tx_success]:
  "claim_validate_recycler_actor u g d = Inr (x, d') \<longleftrightarrow>
     length (actor_rows ''RECYCLER'' ''PROCESSING_FACILITY'' u g d) = 1 \<and> d' = d"
  by (auto simp: claim_validate_recycler_actor_def tx_success)

text \<open>
  A reservation fits: the pool it was taken from had the capacity, keeps its total, and no other
  pool changes.
\<close>

lemma reserve_capacity_D:
  assumes "reserve_capacity pid org w t d = Inr (u, d')"
  shows "d' = d\<lparr>pools := tbl_update (\<lambda>p. p_id p = pid \<and> (p_recycler_org_id p = org \<and> p_active p \<and>
            decimal_cents w \<le> p_total p - p_reserved p))
       (\<lambda>p. p\<lparr>p_reserved := p_reserved p + decimal_cents w, p_version := p_version p + 1,
              p_updated_at := t\<rparr>) (pools d)\<rparr>"
    and "tbl_count (\<lambda>p. p_id p = pid \<and> (p_recycler_org_id p = org \<and> p_active p \<and>
            decimal_cents w \<le> p_total p - p_reserved p)) (pools d) = 1"
  using assms by (auto simp: reserve_capacity_def tx_success)

definition pool_reserved_total :: "string \<Rightarrow> db \<Rightarrow> int" where
  "pool_reserved_total pid d = sum_list (map p_reserved (filter (\<lambda>p. p_id p = pid) (pools d)))"

lemma sum_update_one:
  assumes "tbl_count P xs = 1" "\<And>p. P p \<Longrightarrow> p_id p = pid \<and> p_id (f p) = pid \<and> p_reserved (f p) = p_reserved p + c"
  shows "sum_list (map p_reserved (filter (\<lambda>p. p_id p = pid) (tbl_update P f xs)))
       = sum_list (map p_reserved (filter (\<lambda>p. p_id p = pid) xs)) + c"
  using assms(1)
proof (induction xs)
  case (Cons x xs)
  show ?case
  proof (cases "P x")
    case True
    then have "tbl_count P xs = 0" using Cons.prems by simp
    then have "tbl_update P f xs = xs" by (intro tbl_update_none) (simp add: tbl_count_0_iff)
    then show ?thesis using True assms(2) [OF True] by simp
  qed (use Cons in simp)
qed simp

lemma reserve_capacity_adds:
  assumes "reserve_capacity pid org w t d = Inr (u, d')"
  shows "pool_reserved_total pid d' = pool_reserved_total pid d + decimal_cents w"
  unfolding reserve_capacity_D(1) [OF assms] pool_reserved_total_def
  using sum_update_one [OF reserve_capacity_D(2) [OF assms]] by simp

end
