(* ===== verification/AssignmentRepo.thy ===== *)
theory AssignmentRepo
  imports BatchRepo
begin

text \<open>
  \<open>internal/repository/assignment.go\<close>: the transaction of the assignment service.
\<close>

definition validate_collector_actor :: "string \<Rightarrow> string \<Rightarrow> unit dbtx" where
  "validate_collector_actor user organisation =
     tx_bind (tx_get (actor_rows ''COLLECTOR'' ''COLLECTION_OPERATOR'' user organisation))
       (\<lambda>rows. tx_guard (length rows = 1) (AssignmentRepoErr RepoAssignmentActorNotEligible))"

definition assignment_find_command :: "string \<Rightarrow> string \<Rightarrow> string \<Rightarrow> command dbtx" where
  "assignment_find_command actor_scope command_name key =
     tx_first commands (\<lambda>c. command_key c = (actor_scope, command_name, key))
       (AssignmentRepoErr RepoAssignmentCommandNotFound)"

definition link_command_assignment :: "string \<Rightarrow> string \<Rightarrow> unit dbtx" where
  "link_command_assignment command_id assignment_id =
     tx_bind (update_commands (\<lambda>c. c_id c = command_id \<and> c_assignment_id c = None)
                (\<lambda>c. c\<lparr>c_assignment_id := Some assignment_id\<rparr>))
       (\<lambda>affected. tx_guard (affected = 1) (AssignmentRepoErr RepoAssignmentConcurrency))"

definition assignment_complete_command :: "string \<Rightarrow> int \<Rightarrow> json \<Rightarrow> int \<Rightarrow> unit dbtx" where
  "assignment_complete_command = complete_command_row (AssignmentRepoErr RepoAssignmentConcurrency)"

definition assignment_find_batch_for_update :: "string \<Rightarrow> batch dbtx" where
  "assignment_find_batch_for_update batch_id =
     tx_first batches (\<lambda>b. b_id b = batch_id) (AssignmentRepoErr RepoAssignmentBatchNotFound)"

definition find_accepted_claim_reservation :: "batch \<Rightarrow> (claim \<times> reservation) dbtx" where
  "find_accepted_claim_reservation b =
     tx_bind (tx_some (b_claim_id b) (AssignmentRepoErr RepoAssignmentClaimNotFound))
       (\<lambda>claim_id. tx_bind
         (tx_first claims (\<lambda>c. cl_id c = claim_id \<and> cl_batch_id c = b_id b \<and>
            cl_epoch c = b_claim_epoch b \<and> cl_status c = ''ACCEPTED'')
           (AssignmentRepoErr RepoAssignmentClaimNotFound))
       (\<lambda>c. tx_bind
         (tx_first reservations (\<lambda>r. r_batch_id r = b_id b \<and> r_claim_id r = cl_id c \<and> r_status r = ''RESERVED'')
           (AssignmentRepoErr RepoAssignmentClaimNotFound))
       (\<lambda>r. tx_return (c, r))))"

definition find_collector_scope ::
  "string \<Rightarrow> string \<Rightarrow> string \<Rightarrow> string \<Rightarrow> int \<Rightarrow> collector_scope dbtx"
where
  "find_collector_scope scope_id recycler_org collector_org zone now =
     tx_first scopes (\<lambda>s. s_id s = scope_id \<and> s_recycler_org_id s = recycler_org \<and>
         s_collector_org_id s = collector_org \<and> s_zone s = zone \<and> s_active s \<and> s_valid_from s \<le> now \<and>
         (case s_valid_until s of None \<Rightarrow> True | Some u \<Rightarrow> now < u))
       (AssignmentRepoErr RepoAssignmentScopeNotFound)"

text \<open>\<open>ORDER BY assignment_sequence DESC ... First\<close>.\<close>

fun latest_by_sequence :: "assignment list \<Rightarrow> assignment option" where
  "latest_by_sequence [] = None"
| "latest_by_sequence (a # as) =
     (case latest_by_sequence as of
        None \<Rightarrow> Some a
      | Some b \<Rightarrow> if a_sequence a \<ge> a_sequence b then Some a else Some b)"

definition find_latest_assignment :: "string \<Rightarrow> assignment dbtx" where
  "find_latest_assignment batch_id =
     tx_bind (tx_get (\<lambda>d. latest_by_sequence (filter (\<lambda>a. a_batch_id a = batch_id) (assignments d))))
       (\<lambda>x. tx_some x (AssignmentRepoErr RepoAssignmentNotFound))"

definition find_assignment_for_update :: "string \<Rightarrow> assignment dbtx" where
  "find_assignment_for_update assignment_id =
     tx_first assignments (\<lambda>a. a_id a = assignment_id) (AssignmentRepoErr RepoAssignmentNotFound)"

definition create_assignment :: "assignment \<Rightarrow> unit dbtx" where
  "create_assignment a = insert_assignment a"

definition copy_assignment_columns :: "assignment \<Rightarrow> assignment \<Rightarrow> assignment" where
  "copy_assignment_columns a row =
     row\<lparr>a_status := a_status a, a_rejection_reason := a_rejection_reason a,
         a_responded_at := a_responded_at a, a_closed_at := a_closed_at a,
         a_closure_reason := a_closure_reason a, a_version := a_version a,
         a_updated_at := a_updated_at a\<rparr>"

definition update_assignment :: "assignment \<Rightarrow> unit dbtx" where
  "update_assignment a =
     tx_bind (update_assignments (\<lambda>r. a_id r = a_id a \<and> a_version r = a_version a - 1)
                (copy_assignment_columns a))
       (\<lambda>affected. tx_guard (affected = 1) (AssignmentRepoErr RepoAssignmentConcurrency))"

definition update_batch_assignment ::
  "string \<Rightarrow> 32 word \<Rightarrow> batch_status \<Rightarrow> batch_status \<Rightarrow> string option \<Rightarrow> int \<Rightarrow> batch dbtx"
where
  "update_batch_assignment batch_id expected from_status to_status assignment_id now =
     guarded_batch_update batch_id
       (\<lambda>b. b_version b = expected \<and> b_status b = from_status)
       (\<lambda>b. b\<lparr>b_status := to_status, b_assignment_id := assignment_id,
              b_version := b_version b + 1, b_updated_at := now\<rparr>)
       (AssignmentRepoErr RepoAssignmentConcurrency)"

definition create_handoff :: "handoff \<Rightarrow> unit dbtx" where
  "create_handoff h = insert_handoff h"

definition create_action :: "assignment_action \<Rightarrow> unit dbtx" where
  "create_action a = insert_action a"

interpretation assignment_update: optimistic_update
  "\<lambda>bid v. update_batch_assignment bid v src dst aid t" for src dst aid t
  unfolding update_batch_assignment_def by (rule guarded_optimistic) auto

definition assignment_ok :: "assignment \<Rightarrow> db \<Rightarrow> bool" where
  "assignment_ok a d =
     (\<not> tbl_clash a_id a (assignments d) \<and>
      \<not> tbl_clash (\<lambda>x. (a_batch_id x, a_sequence x)) a (assignments d) \<and>
      \<not> (a_closed_at a = None \<and> tbl_clash a_batch_id a (filter (\<lambda>x. a_closed_at x = None) (assignments d))) \<and>
      a_sequence a \<noteq> 0 \<and> a_claim_epoch a \<noteq> 0 \<and> a_version a \<noteq> 0)"

definition action_ok :: "assignment_action \<Rightarrow> db \<Rightarrow> bool" where
  "action_ok a d =
     (\<not> tbl_clash ac_id a (actions d) \<and>
      \<not> tbl_clash (\<lambda>x. (ac_command_id x, ac_assignment_id x, ac_type x)) a (actions d) \<and>
      ac_assignment_version a \<noteq> 0)"

definition handoff_ok :: "handoff \<Rightarrow> db \<Rightarrow> bool" where
  "handoff_ok h d =
     (\<not> tbl_clash h_id h (handoffs d) \<and> \<not> tbl_clash h_assignment_id h (handoffs d) \<and>
      \<not> tbl_clash h_command_id h (handoffs d))"

lemma create_assignment_Inr [tx_success]:
  "create_assignment a d = Inr (u, d') \<longleftrightarrow> assignment_ok a d \<and> d' = d\<lparr>assignments := assignments d @ [a]\<rparr>"
  by (auto simp: create_assignment_def insert_assignment_def assignment_ok_def tx_success)

lemma create_action_Inr [tx_success]:
  "create_action a d = Inr (u, d') \<longleftrightarrow> action_ok a d \<and> d' = d\<lparr>actions := actions d @ [a]\<rparr>"
  by (auto simp: create_action_def insert_action_def action_ok_def tx_success)

lemma create_handoff_Inr [tx_success]:
  "create_handoff h d = Inr (u, d') \<longleftrightarrow> handoff_ok h d \<and> d' = d\<lparr>handoffs := handoffs d @ [h]\<rparr>"
  by (auto simp: create_handoff_def insert_handoff_def handoff_ok_def tx_success)

lemma validate_collector_actor_Inr [tx_success]:
  "validate_collector_actor u g d = Inr (x, d') \<longleftrightarrow>
     length (actor_rows ''COLLECTOR'' ''COLLECTION_OPERATOR'' u g d) = 1 \<and> d' = d"
  by (auto simp: validate_collector_actor_def tx_success)

lemma link_command_assignment_Inr [tx_success]:
  "link_command_assignment cid aid d = Inr (u, d') \<longleftrightarrow>
     tbl_count (\<lambda>c. c_id c = cid \<and> c_assignment_id c = None) (commands d) = 1 \<and>
     d' = d\<lparr>commands := tbl_update (\<lambda>c. c_id c = cid \<and> c_assignment_id c = None)
              (\<lambda>c. c\<lparr>c_assignment_id := Some aid\<rparr>) (commands d)\<rparr>"
  by (auto simp: link_command_assignment_def tx_success)

lemma latest_by_sequence_mem: "latest_by_sequence as = Some a \<Longrightarrow> a \<in> set as"
  by (induction as arbitrary: a) (auto split: option.splits if_splits)

lemma latest_by_sequence_None: "latest_by_sequence as = None \<longleftrightarrow> as = []"
  by (induction as) (auto split: option.splits)

lemma latest_by_sequence_max: "latest_by_sequence as = Some a \<Longrightarrow> x \<in> set as \<Longrightarrow> a_sequence x \<le> a_sequence a"
proof (induction as arbitrary: a)
  case (Cons b bs)
  show ?case
  proof (cases "latest_by_sequence bs")
    case None
    then show ?thesis using Cons.prems by (simp add: latest_by_sequence_None)
  next
    case (Some c)
    then have c: "x \<in> set bs \<Longrightarrow> a_sequence x \<le> a_sequence c" by (rule Cons.IH)
    show ?thesis
    proof (cases "a_sequence c \<le> a_sequence b")
      case True
      then have "a = b" using Some Cons.prems(1) by simp
      then show ?thesis using c True Cons.prems(2) by (auto intro: order.trans)
    next
      case False
      then have "a = c" using Some Cons.prems(1) by simp
      then show ?thesis using c False Cons.prems(2) by auto
    qed
  qed
qed simp

lemma copy_assignment_columns_keeps [simp]:
  "a_id (copy_assignment_columns a r) = a_id r"
  "a_batch_id (copy_assignment_columns a r) = a_batch_id r"
  "a_sequence (copy_assignment_columns a r) = a_sequence r"
  by (simp_all add: copy_assignment_columns_def)

lemma update_assignment_D:
  assumes "update_assignment a d = Inr (u, d')"
  shows "d' = d\<lparr>assignments := tbl_update (\<lambda>r. a_id r = a_id a \<and> a_version r = a_version a - 1)
                 (copy_assignment_columns a) (assignments d)\<rparr>"
    and "tbl_count (\<lambda>r. a_id r = a_id a \<and> a_version r = a_version a - 1) (assignments d) = 1"
    and "\<exists>r\<in>set (assignments d). a_id r = a_id a"
proof -
  show 1: "d' = d\<lparr>assignments := tbl_update (\<lambda>r. a_id r = a_id a \<and> a_version r = a_version a - 1)
                 (copy_assignment_columns a) (assignments d)\<rparr>"
    and 2: "tbl_count (\<lambda>r. a_id r = a_id a \<and> a_version r = a_version a - 1) (assignments d) = 1"
    using assms by (auto simp: update_assignment_def tx_success)
  then show "\<exists>r\<in>set (assignments d). a_id r = a_id a"
    by (metis (mono_tags, lifting) tbl_count_0_iff zero_neq_one)
qed

end
