(* ===== verification/Histories.thy ===== *)
theory Histories
  imports Lifecycle ClaimRepo AssignmentRepo "HOL-Library.Sublist"
begin

text \<open>
  Relations between the database before and after that every repository operation keeps.
  \<open>core_steps\<close> is the interface the handlers need to carry such a relation through their whole
  transaction, with one law per repository write, and \<open>workflow_steps\<close> extends it by the writes of a
  claim; both are interpreted for \<open>wf_step\<close> (keys and CHECKs stay satisfied) and for
  \<open>history_step\<close> (audit, claim, reservation, handoff, receipt and treatment rows are append-only,
  event contents and the responses of completed commands never change, batches keep their owner and
  move along the lifecycle).
\<close>

locale core_steps = step_relation R for R :: "db \<Rightarrow> db \<Rightarrow> bool" +
  assumes st_create_batch: "steps R (create_batch b)"
    and st_create_command: "steps R (create_command c)"
    and st_append_audit: "steps R (append_audit a)"
    and st_enqueue_outbox: "steps R (enqueue_outbox e)"
    and st_complete: "steps R (complete_command_row err cid st js t)"
    and st_update_draft: "steps R (update_draft now bid org cb v cs)"
    and st_submit_draft: "steps R (submit_draft now bid org cb v t)"
    and st_update_batch_receipt: "steps R (update_batch_receipt bid v t)"
    and st_update_batch_treatment: "steps R (update_batch_treatment bid v t)"
    and st_update_batch_analytics: "steps R (update_batch_analytics bid v t)"
    and st_create_receipt: "steps R (create_receipt rc)"
    and st_create_treatment: "steps R (create_treatment tr)"
    and st_create_evidence: "steps R (create_evidence ev)"
    and st_create_analytics: "steps R (create_analytics_result anr)"
    and st_create_anomaly: "steps R (create_batch_anomaly anm)"
    and st_link_command: "steps R (link_command_assignment cid aid)"
    and st_create_assignment: "steps R (create_assignment asg)"
    and st_update_assignment: "steps R (update_assignment asg)"
    and st_update_batch_assignment:
      "lifecycle_step src dst \<Longrightarrow> steps R (update_batch_assignment bid v src dst aido t)"
    and st_create_handoff: "steps R (create_handoff h)"
    and st_create_action: "steps R (create_action ac)"
begin

lemma st_first: "steps R (tx_first tget P e)"
  by (auto simp: steps_def tx_success step_refl)

lemmas core_rules =
  st_create_batch st_create_command st_append_audit st_enqueue_outbox st_complete st_update_draft
  st_submit_draft st_update_batch_receipt st_update_batch_treatment st_update_batch_analytics
  st_create_receipt st_create_treatment st_create_evidence st_create_analytics st_create_anomaly st_link_command st_create_assignment st_update_assignment
  st_update_batch_assignment st_create_handoff st_create_action st_first steps_rules

end

text \<open>The writes only a claim makes: the capacity pool, the claim, its reservation, the approval.\<close>

locale workflow_steps = core_steps R for R :: "db \<Rightarrow> db \<Rightarrow> bool" +
  assumes st_reserve_capacity: "steps R (reserve_capacity pid org w t)"
    and st_create_claim: "steps R (create_claim cl)"
    and st_create_reservation: "steps R (create_reservation rv)"
    and st_approve_batch: "steps R (approve_batch bid ep v cid t)"
begin

lemmas workflow_rules = st_reserve_capacity st_create_claim st_create_reservation st_approve_batch core_rules

end

section \<open>Keys and CHECKs\<close>

definition wf_step :: "db \<Rightarrow> db \<Rightarrow> bool" where
  "wf_step d d' = (db_wf d \<longrightarrow> db_wf d')"

lemma guarded_update_wf:
  assumes "\<And>b. b_id (f b) = b_id b"
  shows "steps wf_step (guarded_batch_update bid Q f e)"
proof (rule stepsI)
  fix d b' d'
  assume u: "guarded_batch_update bid Q f e d = Inr (b', d')"
  note D = guarded_batch_update_D [OF u]
  show "wf_step d d'"
    using D(1,3) assms by (auto simp: wf_step_def db_wf_defs list_all_iff set_tbl_update)
qed

interpretation wf: workflow_steps wf_step
proof
  show "wf_step s s" for s by (simp add: wf_step_def)
  show "wf_step s t \<Longrightarrow> wf_step t u \<Longrightarrow> wf_step s u" for s t u by (simp add: wf_step_def)
  show "steps wf_step (create_batch b)" for b
    by (auto simp: steps_def wf_step_def tx_success db_wf_defs tbl_clash_def list_ex_iff)
  show "steps wf_step (create_command c)" for c
    by (auto simp: steps_def wf_step_def tx_success command_ok_def db_wf_defs tbl_clash_def list_ex_iff)
  show "steps wf_step (append_audit a)" for a
    by (auto simp: steps_def wf_step_def tx_success audit_ok_def db_wf_defs tbl_clash_def list_ex_iff)
  show "steps wf_step (enqueue_outbox e)" for e
    by (auto simp: steps_def wf_step_def tx_success outbox_ok_def db_wf_defs tbl_clash_def list_ex_iff)
  show "steps wf_step (complete_command_row err cid st js t)" for err cid st js t
    by (auto simp: steps_def wf_step_def tx_success db_wf_defs mark_completed_def command_key_def)
  show "steps wf_step (update_draft now bid org cb v cs)" for now bid org cb v cs
    unfolding update_draft_def by (rule guarded_update_wf) simp
  show "steps wf_step (submit_draft now bid org cb v t)" for now bid org cb v t
    unfolding submit_draft_def by (rule guarded_update_wf) simp
  show "steps wf_step (update_batch_receipt bid v t)" for bid v t
    unfolding update_batch_receipt_def advance_batch_def by (rule guarded_update_wf) simp
  show "steps wf_step (update_batch_treatment bid v t)" for bid v t
    unfolding update_batch_treatment_def advance_batch_def by (rule guarded_update_wf) simp
  show "steps wf_step (update_batch_analytics bid v t)" for bid v t
    unfolding update_batch_analytics_def advance_batch_def by (rule guarded_update_wf) simp
  show "steps wf_step (create_receipt rc)" for rc
    by (auto simp: steps_def wf_step_def tx_success create_receipt_def insert_receipt_def db_wf_defs tbl_clash_def list_ex_iff)
  show "steps wf_step (create_treatment tr)" for tr
    by (auto simp: steps_def wf_step_def tx_success create_treatment_def insert_treatment_def db_wf_defs tbl_clash_def list_ex_iff)
  show "steps wf_step (create_evidence ev)" for ev
    by (auto simp: steps_def wf_step_def tx_success create_evidence_def insert_evidence_def db_wf_defs tbl_clash_def list_ex_iff)
  show "steps wf_step (create_analytics_result anr)" for anr
    by (auto simp: steps_def wf_step_def tx_success create_analytics_result_def insert_analytics_def db_wf_defs tbl_clash_def list_ex_iff)
  show "steps wf_step (create_batch_anomaly anm)" for anm
    by (auto simp: steps_def wf_step_def tx_success create_batch_anomaly_def insert_anomaly_def db_wf_defs)
  show "steps wf_step (reserve_capacity pid org w t)" for pid org w t
    by (auto simp: steps_def wf_step_def tx_success reserve_capacity_def db_wf_defs list_all_iff set_tbl_update)
  show "steps wf_step (create_claim cl)" for cl
    by (auto simp: steps_def wf_step_def tx_success claim_ok_def db_wf_defs tbl_clash_def list_ex_iff)
  show "steps wf_step (create_reservation rv)" for rv
    by (auto simp: steps_def wf_step_def tx_success reservation_ok_def db_wf_defs tbl_clash_def list_ex_iff)
  show "steps wf_step (approve_batch bid ep v cid t)" for bid ep v cid t
    unfolding approve_batch_def by (rule guarded_update_wf) simp
  show "steps wf_step (link_command_assignment cid aid)" for cid aid
    by (auto simp: steps_def wf_step_def tx_success db_wf_defs command_key_def)
  show "steps wf_step (create_assignment asg)" for asg
    by (auto simp: steps_def wf_step_def tx_success assignment_ok_def db_wf_defs tbl_clash_def list_ex_iff)
  show "steps wf_step (update_assignment asg)" for asg
    by (auto simp: steps_def wf_step_def tx_success update_assignment_def db_wf_defs)
  show "steps wf_step (update_batch_assignment bid v src dst aido t)" for bid v src dst aido t
    unfolding update_batch_assignment_def by (rule guarded_update_wf) simp
  show "steps wf_step (create_handoff h)" for h
    by (auto simp: steps_def wf_step_def tx_success handoff_ok_def db_wf_defs tbl_clash_def list_ex_iff)
  show "steps wf_step (create_action ac)" for ac
    by (auto simp: steps_def wf_step_def tx_success db_wf_defs)
qed

section \<open>Histories\<close>

text \<open>\<open>kept P xs ys\<close>: the rows of \<open>xs\<close> are still the first rows of \<open>ys\<close>, changed as \<open>P\<close> allows.\<close>

definition kept :: "('r \<Rightarrow> 'r \<Rightarrow> bool) \<Rightarrow> 'r list \<Rightarrow> 'r list \<Rightarrow> bool" where
  "kept P xs ys = list_all2 P xs (take (length xs) ys)"

lemma kept_length: "kept P xs ys \<Longrightarrow> length xs \<le> length ys"
  by (auto simp: kept_def dest: list_all2_lengthD)

lemma kept_refl: "(\<And>x. P x x) \<Longrightarrow> kept P xs xs"
  by (simp add: kept_def list_all2_refl)

lemma kept_append: "(\<And>x. P x x) \<Longrightarrow> kept P xs (xs @ ys)"
  by (simp add: kept_def list_all2_refl)

lemma kept_update: "(\<And>x. P x x) \<Longrightarrow> (\<And>x. Q x \<Longrightarrow> P x (f x)) \<Longrightarrow> kept P xs (tbl_update Q f xs)"
  by (auto simp: kept_def tbl_update_def list_all2_conv_all_nth)

lemma kept_trans:
  assumes t: "\<And>x y z. P x y \<Longrightarrow> P y z \<Longrightarrow> P x z" and "kept P xs ys" "kept P ys zs"
  shows "kept P xs zs"
proof -
  have len: "length xs \<le> length ys" "length ys \<le> length zs" using assms(2,3) by (auto dest: kept_length)
  have "list_all2 P (take (length xs) ys) (take (length xs) (take (length ys) zs))"
    using assms(3) unfolding kept_def by (rule list_all2_takeI)
  then have "list_all2 P (take (length xs) ys) (take (length xs) zs)" using len by (simp add: min_def)
  then show ?thesis using assms(2) t unfolding kept_def by (blast intro: list_all2_trans)
qed

lemma kept_find:
  assumes "kept P xs ys" "find (\<lambda>r. key r = k) xs = Some x" "\<And>x y. P x y \<Longrightarrow> key y = key x"
  shows "\<exists>y. find (\<lambda>r. key r = k) ys = Some y \<and> P x y"
proof -
  have *: "list_all2 P xs zs \<Longrightarrow> find (\<lambda>r. key r = k) xs = Some x \<Longrightarrow>
        \<exists>y. find (\<lambda>r. key r = k) (zs @ ws) = Some y \<and> P x y" for zs ws
    by (induction xs zs rule: list_all2_induct) (use assms(3) in \<open>auto split: if_splits\<close>)
  show ?thesis using *[of "take (length xs) ys" "drop (length xs) ys"] assms(1,2) by (simp add: kept_def)
qed

lemma kept_eq_prefix: "kept (=) xs ys \<longleftrightarrow> prefix xs ys"
proof
  assume "kept (=) xs ys"
  then have "xs = take (length xs) ys" by (simp add: kept_def list_all2_eq)
  then show "prefix xs ys" by (metis take_is_prefix)
next
  assume "prefix xs ys"
  then obtain zs where "ys = xs @ zs" by (auto simp: prefix_def)
  then show "kept (=) xs ys" by (simp add: kept_append)
qed

definition command_kept :: "command \<Rightarrow> command \<Rightarrow> bool" where
  "command_kept c c' =
     (c_id c' = c_id c \<and> command_key c' = command_key c \<and> c_request_hash c' = c_request_hash c \<and>
      (c_state c = CommandStateCompleted \<longrightarrow>
         c_state c' = CommandStateCompleted \<and> c_response_json c' = c_response_json c \<and>
         c_response_status c' = c_response_status c))"

definition batch_kept :: "batch \<Rightarrow> batch \<Rightarrow> bool" where
  "batch_kept b b' =
     (b_id b' = b_id b \<and> b_organization_id b' = b_organization_id b \<and> b_created_by b' = b_created_by b \<and>
      b_created_at b' = b_created_at b \<and> b_claim_epoch b' = b_claim_epoch b \<and>
      lifecycle_path (b_status b) (b_status b'))"

text \<open>What an outbox row says, without its delivery columns.\<close>

definition event_content :: "outbox_event \<Rightarrow> outbox_event" where
  "event_content e =
     e\<lparr>o_state := OutboxPending, o_attempts := 0, o_next_attempt_at := None, o_published_at := None,
       o_last_error := None\<rparr>"

definition event_kept :: "outbox_event \<Rightarrow> outbox_event \<Rightarrow> bool" where
  "event_kept e e' =
     (event_content e' = event_content e \<and>
      (o_state e \<noteq> OutboxPending \<longrightarrow> o_state e' = o_state e))"

definition history_step :: "db \<Rightarrow> db \<Rightarrow> bool" where
  "history_step d d' =
     (kept batch_kept (batches d) (batches d') \<and> kept command_kept (commands d) (commands d') \<and>
      kept event_kept (outbox d) (outbox d') \<and>
      prefix (audits d) (audits d') \<and> prefix (claims d) (claims d') \<and>
      prefix (reservations d) (reservations d') \<and> prefix (handoffs d) (handoffs d') \<and>
      prefix (actions d) (actions d') \<and> prefix (receipts d) (receipts d') \<and>
      prefix (treatments d) (treatments d') \<and> prefix (evidences d) (evidences d') \<and>
      prefix (analytics d) (analytics d') \<and> prefix (anomalies d) (anomalies d'))"

lemma batch_kept_refl [simp]: "batch_kept b b" by (simp add: batch_kept_def)
lemma command_kept_refl [simp]: "command_kept c c" by (simp add: command_kept_def)
lemma event_kept_refl [simp]: "event_kept e e" by (simp add: event_kept_def)

lemma history_step_refl [simp]: "history_step d d"
  by (simp add: history_step_def kept_refl)

lemma batch_kept_trans: "batch_kept x y \<Longrightarrow> batch_kept y z \<Longrightarrow> batch_kept x z"
  by (auto simp: batch_kept_def)

lemma command_kept_trans: "command_kept x y \<Longrightarrow> command_kept y z \<Longrightarrow> command_kept x z"
  by (auto simp: command_kept_def)

lemma event_kept_trans: "event_kept x y \<Longrightarrow> event_kept y z \<Longrightarrow> event_kept x z"
  by (auto simp: event_kept_def)

lemma history_step_trans:
  assumes "history_step d e" "history_step e f"
  shows "history_step d f"
proof -
  have "kept batch_kept (batches d) (batches f)"
    using assms by (auto simp: history_step_def intro: kept_trans [OF batch_kept_trans])
  moreover have "kept command_kept (commands d) (commands f)"
    using assms by (auto simp: history_step_def intro: kept_trans [OF command_kept_trans])
  moreover have "kept event_kept (outbox d) (outbox f)"
    using assms by (auto simp: history_step_def intro: kept_trans [OF event_kept_trans])
  ultimately show ?thesis
    using assms unfolding history_step_def by (auto intro: prefix_order.trans)
qed

lemma guarded_update_history:
  assumes "\<And>b. Q b \<Longrightarrow> batch_kept b (f b)"
  shows "steps history_step (guarded_batch_update bid Q f e)"
proof (rule stepsI)
  fix d b' d'
  assume u: "guarded_batch_update bid Q f e d = Inr (b', d')"
  have "kept batch_kept (batches d) (tbl_update (\<lambda>b. b_id b = bid \<and> Q b) f (batches d))"
    by (rule kept_update) (use assms in auto)
  then show "history_step d d'"
    unfolding guarded_batch_update_D(1) [OF u] by (simp add: history_step_def kept_refl)
qed

lemmas history_simps = steps_def tx_success history_step_def kept_refl kept_append

interpretation hist: workflow_steps history_step
proof
  show "history_step s s" for s by simp
  show "history_step s t \<Longrightarrow> history_step t u \<Longrightarrow> history_step s u" for s t u by (rule history_step_trans)
  show "steps history_step (create_batch b)" for b by (auto simp: history_simps)
  show "steps history_step (create_command c)" for c by (auto simp: history_simps)
  show "steps history_step (append_audit a)" for a by (auto simp: history_simps)
  show "steps history_step (enqueue_outbox e)" for e by (auto simp: history_simps)
  show "steps history_step (complete_command_row err cid st js t)" for err cid st js t
    by (auto simp: history_simps mark_completed_def command_kept_def command_key_def intro!: kept_update)
  show "steps history_step (update_draft now bid org cb v cs)" for now bid org cb v cs
    unfolding update_draft_def by (rule guarded_update_history) (simp add: batch_kept_def)
  show "steps history_step (submit_draft now bid org cb v t)" for now bid org cb v t
    unfolding submit_draft_def
    by (rule guarded_update_history) (auto simp: batch_kept_def intro: lifecycle_step.intros)
  show "steps history_step (update_batch_receipt bid v t)" for bid v t
    unfolding update_batch_receipt_def advance_batch_def
    by (rule guarded_update_history) (auto simp: batch_kept_def intro: lifecycle_step.intros)
  show "steps history_step (update_batch_treatment bid v t)" for bid v t
    unfolding update_batch_treatment_def advance_batch_def
    by (rule guarded_update_history) (auto simp: batch_kept_def intro: lifecycle_step.intros)
  show "steps history_step (update_batch_analytics bid v t)" for bid v t
    unfolding update_batch_analytics_def advance_batch_def
    by (rule guarded_update_history) (auto simp: batch_kept_def intro: lifecycle_step.intros)
  show "steps history_step (create_receipt rc)" for rc
    by (auto simp: history_simps create_receipt_def insert_receipt_def)
  show "steps history_step (create_treatment tr)" for tr
    by (auto simp: history_simps create_treatment_def insert_treatment_def)
  show "steps history_step (create_evidence ev)" for ev
    by (auto simp: history_simps create_evidence_def insert_evidence_def)
  show "steps history_step (create_analytics_result anr)" for anr
    by (auto simp: history_simps create_analytics_result_def insert_analytics_def)
  show "steps history_step (create_batch_anomaly anm)" for anm
    by (auto simp: history_simps create_batch_anomaly_def insert_anomaly_def)
  show "steps history_step (reserve_capacity pid org w t)" for pid org w t
    by (auto simp: history_simps reserve_capacity_def)
  show "steps history_step (create_claim cl)" for cl by (auto simp: history_simps)
  show "steps history_step (create_reservation rv)" for rv by (auto simp: history_simps)
  show "steps history_step (approve_batch bid ep v cid t)" for bid ep v cid t
    unfolding approve_batch_def
    by (rule guarded_update_history) (auto simp: batch_kept_def intro: lifecycle_step.intros)
  show "steps history_step (link_command_assignment cid aid)" for cid aid
    by (auto simp: history_simps command_kept_def command_key_def intro!: kept_update)
  show "steps history_step (create_assignment asg)" for asg by (auto simp: history_simps)
  show "steps history_step (update_assignment asg)" for asg
    by (auto simp: history_simps update_assignment_def)
  show "lifecycle_step src dst \<Longrightarrow> steps history_step (update_batch_assignment bid v src dst aido t)"
    for bid v src dst aido t
    unfolding update_batch_assignment_def by (rule guarded_update_history) (auto simp: batch_kept_def)
  show "steps history_step (create_handoff h)" for h by (auto simp: history_simps)
  show "steps history_step (create_action ac)" for ac by (auto simp: history_simps)
qed

text \<open>What a history keeps of a command and of a batch.\<close>

lemma history_stored_command:
  assumes "history_step d d'" "find (\<lambda>c. command_key c = k) (commands d) = Some c"
  shows "\<exists>c'. find (\<lambda>c. command_key c = k) (commands d') = Some c' \<and> command_kept c c'"
proof -
  have "kept command_kept (commands d) (commands d')" using assms(1) by (simp add: history_step_def)
  then show ?thesis by (rule kept_find [OF _ assms(2)]) (simp add: command_kept_def)
qed

lemma history_batch:
  assumes "history_step d d'" "find (\<lambda>b. b_id b = k) (batches d) = Some b"
  shows "\<exists>b'. find (\<lambda>b. b_id b = k) (batches d') = Some b' \<and> batch_kept b b'"
proof -
  have "kept batch_kept (batches d) (batches d')" using assms(1) by (simp add: history_step_def)
  then show ?thesis by (rule kept_find [OF _ assms(2)]) (simp add: batch_kept_def)
qed

end
