(* ===== verification/Kafka.thy ===== *)
theory Kafka
  imports Decoding "HOL-Library.Monad_Syntax"
begin

text \<open>
  \<open>internal/eventbus/kafka.go\<close> and \<open>internal/matchingcontract\<close>: what the publisher checks of a persisted
  event before it writes the message, and the message itself.  The compiled JSON schemas and \<open>uuid.Parse\<close>
  are parameters: \<open>schema type body\<close> accepts a document, \<open>uuid s\<close> is the canonical text of the identifier
  \<open>s\<close>, if it is one.  A stored payload is a document tree, so it is never empty and never invalid JSON.
\<close>

section \<open>Contract documents\<close>

text \<open>\<open>Decode\<close>: an object, no key twice in an object, nesting at most 64.\<close>

fun contract_value :: "nat \<Rightarrow> json \<Rightarrow> bool" where
  "contract_value depth (JObj fs) =
     (depth \<le> 64 \<and> distinct (map fst fs) \<and> list_all (\<lambda>(k, v). contract_value (depth + 1) v) fs)"
| "contract_value depth (JArr vs) = (depth \<le> 64 \<and> list_all (contract_value (depth + 1)) vs)"
| "contract_value depth _ = (depth \<le> 64)"

definition contract_decode :: "json \<Rightarrow> json option" where
  "contract_decode j = (case j of JObj _ \<Rightarrow> if contract_value 0 j then Some j else None | _ \<Rightarrow> None)"

definition contract_names :: "string list" where
  "contract_names =
     [''MatchingInput'', ''MatchingOutput'', ''RequestSubmitted'', ''MatchingCompleted'', ''ClaimConfirmed'',
      ''CollectorAssigned'', ''CollectionCompleted'', ''CollectionFailed'', ''ReceiptVerified'',
      ''RecyclingCompleted'', ''RequestCompleted'']"

definition contract_validate :: "(string \<Rightarrow> json \<Rightarrow> bool) \<Rightarrow> string \<Rightarrow> json \<Rightarrow> bool" where
  "contract_validate schema event_type body = (List.member contract_names event_type \<and> schema event_type body)"

section \<open>Validation of a persisted event\<close>

datatype publish_error =
    InvalidEvent string
  | ErrKafkaPublisherUnavailable
  | BrokerError string

definition permanent :: "publish_error \<Rightarrow> bool" where
  "permanent e = (case e of InvalidEvent _ \<Rightarrow> True | _ \<Rightarrow> False)"

definition canonical_topic :: "string \<Rightarrow> string option" where
  "canonical_topic = map_of
     [(''RequestSubmitted'', ''ewaste.batch.events''), (''MatchingCompleted'', ''ewaste.batch.events''),
      (''ClaimConfirmed'', ''ewaste.claim.events''), (''CollectorAssigned'', ''batch.collector.assigned''),
      (''CollectionCompleted'', ''batch.collection.completed''), (''CollectionFailed'', ''batch.collection.failed''),
      (''ReceiptVerified'', ''ewaste.batch.events''), (''RecyclingCompleted'', ''ewaste.batch.events''),
      (''RequestCompleted'', ''ewaste.batch.events'')]"

definition is_processing_event :: "string \<Rightarrow> bool" where
  "is_processing_event t = (t = ''ReceiptVerified'' \<or> t = ''RecyclingCompleted'' \<or> t = ''RequestCompleted'')"

text \<open>A \<open>time.Time\<close> field accepts every RFC 3339 text; \<open>UnixMicro\<close> rounds down.\<close>

definition dec_instant :: "string \<Rightarrow> json \<Rightarrow> int option" where
  "dec_instant k j =
     (case json_field k j of
        None \<Rightarrow> Some zero_time | Some JNull \<Rightarrow> Some zero_time
      | Some (JTime t) \<Rightarrow> Some t | Some (JStamp u) \<Rightarrow> Some (u * 1000) | Some _ \<Rightarrow> None)"

definition unix_micro :: "int \<Rightarrow> int" where
  "unix_micro t = t div 1000"

record envelope =
  en_event_id :: string
  en_event_type :: string
  en_schema_version :: "32 word"
  en_command_id :: string
  en_batch_id :: string
  en_claim_epoch :: string
  en_sequence :: "32 word"
  en_occurred_at :: int
  en_correlation_id :: string

definition decode_envelope :: "json \<Rightarrow> envelope option" where
  "decode_envelope j = do {
     ei \<leftarrow> dec_str ''event_id'' j; et \<leftarrow> dec_str ''event_type'' j; sv \<leftarrow> dec_u32 ''schema_version'' j;
     ci \<leftarrow> dec_str ''command_id'' j; bi \<leftarrow> dec_str ''batch_id'' j; ce \<leftarrow> dec_str ''claim_epoch'' j;
     sq \<leftarrow> dec_u32 ''sequence_in_command'' j; oc \<leftarrow> dec_instant ''occurred_at'' j;
     co \<leftarrow> dec_str ''correlation_id'' j;
     Some \<lparr>en_event_id = ei, en_event_type = et, en_schema_version = sv, en_command_id = ci, en_batch_id = bi,
       en_claim_epoch = ce, en_sequence = sq, en_occurred_at = oc, en_correlation_id = co\<rparr> }"

text \<open>The metadata both kinds of envelope repeat.\<close>

definition envelope_agrees :: "envelope \<Rightarrow> outbox_event \<Rightarrow> bool" where
  "envelope_agrees v e =
     (en_event_id v = o_event_id e \<and> en_event_type v = o_event_type e \<and>
      en_schema_version v = o_schema_version e \<and> en_command_id v = o_command_id e \<and>
      en_batch_id v = o_batch_id e \<and> en_sequence v = o_sequence e \<and>
      en_correlation_id v = o_correlation_id e \<and>
      unix_micro (en_occurred_at v) = unix_micro (o_occurred_at e) \<and> en_claim_epoch v \<noteq> [])"

definition data_missing :: "json \<Rightarrow> bool" where
  "data_missing j = (json_field ''data'' j = None \<or> json_field ''data'' j = Some JNull)"

text \<open>The envelope of the workflow events, and the one of the processing events.\<close>

definition validate_workflow_envelope :: "outbox_event \<Rightarrow> publish_error + unit" where
  "validate_workflow_envelope e =
     (let j = o_payload e in
      case (decode_envelope j, dec_u32 ''batch_version'' j) of
        (Some v, Some version) \<Rightarrow>
          if data_missing j then Inl (InvalidEvent ''kafka event data is missing'')
          else if envelope_agrees v e \<and> version = o_aggregate_version e then Inr ()
          else Inl (InvalidEvent ''kafka payload metadata does not match outbox metadata'')
      | _ \<Rightarrow> Inl (InvalidEvent ''kafka payload is missing''))"

definition validate_processing_envelope :: "outbox_event \<Rightarrow> publish_error + unit" where
  "validate_processing_envelope e =
     (let j = o_payload e in
      case (decode_envelope j, dec_u32 ''aggregate_version'' j, dec_str ''producer'' j,
            dec_str ''aggregate_type'' j, dec_str ''aggregate_id'' j) of
        (Some v, Some version, Some producer, Some aggregate_type, Some aggregate_id) \<Rightarrow>
          if data_missing j then Inl (InvalidEvent ''kafka event data is missing'')
          else if envelope_agrees v e \<and> version = o_aggregate_version e \<and> producer \<noteq> [] \<and>
                  aggregate_type = ''EWasteBatch'' \<and> aggregate_id = o_batch_id e then Inr ()
          else Inl (InvalidEvent ''kafka processing payload metadata does not match outbox metadata'')
      | _ \<Rightarrow> Inl (InvalidEvent ''kafka payload is missing''))"

definition validate_envelope :: "outbox_event \<Rightarrow> publish_error + unit" where
  "validate_envelope e =
     (if is_processing_event (o_event_type e) then validate_processing_envelope e else validate_workflow_envelope e)"

definition validate_event ::
  "(string \<Rightarrow> json \<Rightarrow> bool) \<Rightarrow> (string \<Rightarrow> string option) \<Rightarrow> outbox_event \<Rightarrow> publish_error + unit"
where
  "validate_event schema uuid e =
     (if (case contract_decode (o_payload e) of
            None \<Rightarrow> True | Some body \<Rightarrow> \<not> contract_validate schema (o_event_type e) body) then
        Inl (InvalidEvent ''persisted event violates approved schema'')
      else if trim_space (o_topic e) = [] then Inl (InvalidEvent ''kafka topic is missing'')
      else if o_event_id e = [] \<or> o_command_id e = [] \<or> o_batch_id e = [] then
        Inl (InvalidEvent ''kafka event identifiers are incomplete'')
      else if o_partition_key e \<noteq> o_batch_id e then
        Inl (InvalidEvent ''kafka partition key must equal batch id'')
      else if canonical_topic (o_event_type e) \<noteq> Some (o_topic e) then
        Inl (InvalidEvent ''kafka event type and topic do not agree'')
      else if o_schema_version e \<noteq> 1 then Inl (InvalidEvent ''unsupported kafka schema version'')
      else if o_sequence e = 0 then Inl (InvalidEvent ''kafka event sequence must be positive'')
      else if o_correlation_id e = [] \<or> rune_count (o_correlation_id e) > 128 then
        Inl (InvalidEvent ''kafka correlation id is invalid'')
      else if \<not> list_all (\<lambda>v. uuid v = Some v) [o_event_id e, o_command_id e, o_batch_id e, o_partition_key e] then
        Inl (InvalidEvent ''kafka identifier must be a lowercase uuid'')
      else validate_envelope e)"

section \<open>The message\<close>

record kafka_message =
  km_topic :: string
  km_key :: string
  km_value :: json
  km_headers :: "(string \<times> string) list"

definition message_of :: "outbox_event \<Rightarrow> kafka_message" where
  "message_of e =
     \<lparr>km_topic = o_topic e, km_key = o_partition_key e, km_value = o_payload e,
      km_headers = [(''event_id'', o_event_id e), (''event_type'', o_event_type e),
        (''schema_version'', show_nat (nat (uint (o_schema_version e)))), (''correlation_id'', o_correlation_id e)]\<rparr>"

section \<open>What an event keeps of its routing\<close>

text \<open>
  \<open>routed e\<close>: the part of the validation that does not depend on the identifiers, the correlation identifier
  or the schemas.  The services only enqueue routed events.
\<close>

definition routed :: "outbox_event \<Rightarrow> bool" where
  "routed e =
     (contract_decode (o_payload e) = Some (o_payload e) \<and> List.member contract_names (o_event_type e) \<and>
      o_partition_key e = o_batch_id e \<and> canonical_topic (o_event_type e) = Some (o_topic e) \<and>
      o_schema_version e = 1 \<and> o_sequence e \<noteq> 0 \<and> validate_envelope e = Inr ())"

lemma canonical_topic_text: "canonical_topic t = Some u \<Longrightarrow> trim_space u \<noteq> []"
  by (auto simp: canonical_topic_def trim_space_def is_space_def byte_of_def split: if_splits)

lemma validate_routed:
  assumes "routed e" "o_event_id e \<noteq> []" "o_command_id e \<noteq> []" "o_batch_id e \<noteq> []" "o_correlation_id e \<noteq> []"
    and "rune_count (o_correlation_id e) \<le> 128" "schema (o_event_type e) (o_payload e)"
    and "uuid (o_event_id e) = Some (o_event_id e)" "uuid (o_command_id e) = Some (o_command_id e)"
    and "uuid (o_batch_id e) = Some (o_batch_id e)"
  shows "validate_event schema uuid e = Inr ()"
  using assms canonical_topic_text [of "o_event_type e" "o_topic e"]
  by (simp add: validate_event_def routed_def contract_validate_def)

lemma validate_event_routed: "validate_event schema uuid e = Inr () \<Longrightarrow> routed e"
  by (auto simp: validate_event_def routed_def contract_validate_def contract_decode_def
      split: if_splits option.splits json.splits)

end
