(* ===== verification/Commands.thy ===== *)
theory Commands
  imports Histories Kafka "HOL-Library.Monad_Syntax"
begin

text \<open>
  What every workflow command has in common: its metadata (\<open>service/batch_errors.go\<close>), the rows it
  writes besides its own change (\<open>newCommand\<close>, \<open>newAuditEvent\<close>, \<open>newOutbox\<close>), and the replay of a
  committed command from its stored response.  \<open>load_replay_with\<close> is the body that the five
  \<open>loadReplay\<close> functions of the services share up to their errors and result type; the locale
  \<open>replay_contract\<close> states the idempotency they give a handler.
\<close>

section \<open>Metadata\<close>

record actor =
  act_user_id :: string
  act_organisation_id :: string
  act_role_code :: string

record metadata =
  md_actor :: actor
  md_correlation_id :: string
  md_actor_scope :: string
  md_command_name :: string
  md_idempotency_key :: string
  md_request_hash :: string
  md_expected_version :: int

definition metadata_validate :: "metadata \<Rightarrow> error + unit" where
  "metadata_validate m =
     (if act_user_id (md_actor m) = [] \<or> act_organisation_id (md_actor m) = [] then
        Inl (Wrapped ErrBatchForbidden ''actor scope is missing'')
      else if md_correlation_id m = [] then
        Inl (Wrapped ErrBatchValidation ''correlation ID is missing'')
      else if md_actor_scope m = [] \<or> md_command_name m = [] \<or> md_idempotency_key m = [] \<or> md_request_hash m = [] then
        Inl (Wrapped ErrBatchValidation ''command replay metadata is incomplete'')
      else Inr ())"

definition canonical_actor_scope :: "actor \<Rightarrow> string" where
  "canonical_actor_scope a =
     ''user:'' @ trim_space (act_user_id a) @ ''|org:'' @ trim_space (act_organisation_id a)"

definition service_principal :: "metadata \<Rightarrow> string" where
  "service_principal m =
     (if has_prefix (md_actor_scope m) ''service:'' then trim_prefix (md_actor_scope m) ''service:'' else [])"

definition batch_canonical :: "metadata \<Rightarrow> string \<Rightarrow> json \<Rightarrow> json" where
  "batch_canonical m batch_id payload =
     JObj [(''actor_scope'', JStr (md_actor_scope m)), (''command_name'', JStr (md_command_name m)),
           (''batch_id'', JStr batch_id), (''expected_version'', JInt (md_expected_version m)),
           (''payload'', payload)]"

definition prepare_metadata :: "call_env \<Rightarrow> metadata \<Rightarrow> string \<Rightarrow> string \<Rightarrow> json \<Rightarrow> error + metadata" where
  "prepare_metadata env m command_name batch_id payload =
     (let m = m\<lparr>md_actor_scope := canonical_actor_scope (md_actor m), md_command_name := command_name\<rparr> in
      if trim_space (md_idempotency_key m) = [] then
        Inl (new_batch_validation_error [(''Idempotency-Key'', ''header is required'')])
      else if rune_count (md_idempotency_key m) > 64 then
        Inl (new_batch_validation_error [(''Idempotency-Key'', ''must not exceed 64 characters'')])
      else
        let m = m\<lparr>md_request_hash := env_sha256 env (batch_canonical m batch_id payload)\<rparr> in
        case metadata_validate m of Inl e \<Rightarrow> Inl e | Inr _ \<Rightarrow> Inr m)"

text \<open>The key rule of the claim and assignment services: 16 to 64 visible ASCII characters.\<close>

definition visible_ascii :: "char \<Rightarrow> bool" where
  "visible_ascii c = (32 < byte_of c \<and> byte_of c < 127)"

lemma visible_ascii_bits [code]:
  "visible_ascii (Char b0 b1 b2 b3 b4 b5 b6 b7) =
     (\<not> b7 \<and> (if b6 then \<not> (b5 \<and> b4 \<and> b3 \<and> b2 \<and> b1 \<and> b0) else b5 \<and> (b4 \<or> b3 \<or> b2 \<or> b1 \<or> b0)))"
  by (cases b0; cases b1; cases b2; cases b3; cases b4; cases b5; cases b6; cases b7; simp add: visible_ascii_def byte_of_def)

definition valid_key :: "string \<Rightarrow> bool" where
  "valid_key k = (16 \<le> length k \<and> length k \<le> 64 \<and> list_all visible_ascii k)"

section \<open>Rows written by every command\<close>

definition new_command :: "string \<Rightarrow> metadata \<Rightarrow> string \<Rightarrow> int \<Rightarrow> int \<Rightarrow> command" where
  "new_command new_id m batch_id now retain =
     \<lparr>c_id = new_id,
      c_actor_user_id = (if service_principal m \<noteq> [] then None else Some (act_user_id (md_actor m))),
      c_service_principal = (if service_principal m \<noteq> [] then Some (service_principal m) else None),
      c_actor_scope = md_actor_scope m, c_command_name = md_command_name m,
      c_idempotency_key = md_idempotency_key m, c_request_hash = md_request_hash m,
      c_batch_id = Some batch_id, c_assignment_id = None, c_state = CommandStateInProgress,
      c_response_status = None, c_response_json = None, c_created_at = now, c_completed_at = None,
      c_retain_until = now + retain\<rparr>"

definition new_audit_event ::
  "string \<Rightarrow> metadata \<Rightarrow> string \<Rightarrow> batch \<Rightarrow> string \<Rightarrow> batch_status \<Rightarrow> batch_status
     \<Rightarrow> (string \<times> string) list \<Rightarrow> int \<Rightarrow> audit"
where
  "new_audit_event new_id m command_id b event_type from_status to_status details occurred_at =
     \<lparr>au_id = new_id, au_batch_id = b_id b, au_command_id = command_id, au_assignment_id = None,
      au_claim_id = None,
      au_actor_user_id = (if service_principal m \<noteq> [] then None else Some (act_user_id (md_actor m))),
      au_actor_org_id = (if service_principal m \<noteq> [] then None else Some (act_organisation_id (md_actor m))),
      au_service_principal = (if service_principal m \<noteq> [] then Some (service_principal m) else None),
      au_event_type = event_type, au_from_status = from_status, au_to_status = to_status,
      au_batch_version = b_version b, au_sequence = 1, au_occurred_at = occurred_at,
      au_correlation_id = md_correlation_id m,
      au_details = JObj (map (\<lambda>(k, v). (k, JStr v)) details)\<rparr>"

definition new_outbox ::
  "string \<Rightarrow> string \<Rightarrow> batch \<Rightarrow> string \<Rightarrow> string \<Rightarrow> json \<Rightarrow> string \<Rightarrow> int \<Rightarrow> outbox_event"
where
  "new_outbox event_id command_id b event_type topic payload correlation_id now =
     \<lparr>o_event_id = event_id, o_batch_id = b_id b, o_command_id = command_id, o_event_type = event_type,
      o_topic = topic, o_schema_version = 1, o_aggregate_version = b_version b, o_sequence = 1,
      o_partition_key = b_id b, o_payload = payload, o_correlation_id = correlation_id,
      o_occurred_at = now, o_created_at = now, o_state = OutboxPending, o_attempts = 0,
      o_next_attempt_at = Some now, o_published_at = None, o_last_error = None\<rparr>"

lemma new_outbox_fields [simp]:
  "o_command_id (new_outbox eid cid b et tp pl co t) = cid"
  "o_batch_id (new_outbox eid cid b et tp pl co t) = b_id b"
  "o_partition_key (new_outbox eid cid b et tp pl co t) = b_id b"
  "o_aggregate_version (new_outbox eid cid b et tp pl co t) = b_version b"
  "o_state (new_outbox eid cid b et tp pl co t) = OutboxPending"
  "o_attempts (new_outbox eid cid b et tp pl co t) = 0"
  "o_event_id (new_outbox eid cid b et tp pl co t) = eid"
  "o_event_type (new_outbox eid cid b et tp pl co t) = et"
  "o_payload (new_outbox eid cid b et tp pl co t) = pl"
  "o_correlation_id (new_outbox eid cid b et tp pl co t) = co"
  by (simp_all add: new_outbox_def)

lemma new_command_key [simp]:
  "command_key (new_command i m bid now ret) = (md_actor_scope m, md_command_name m, md_idempotency_key m)"
  by (simp add: new_command_def command_key_def)

lemma new_command_fields [simp]:
  "c_id (new_command i m bid now ret) = i" "c_state (new_command i m bid now ret) = CommandStateInProgress"
  "c_request_hash (new_command i m bid now ret) = md_request_hash m"
  "c_batch_id (new_command i m bid now ret) = Some bid"
  by (simp_all add: new_command_def)

lemma mark_completed_fields [simp]:
  "command_key (mark_completed st js t c) = command_key c" "c_id (mark_completed st js t c) = c_id c"
  "c_request_hash (mark_completed st js t c) = c_request_hash c"
  "c_state (mark_completed st js t c) = CommandStateCompleted"
  "c_response_json (mark_completed st js t c) = Some js"
  "c_response_status (mark_completed st js t c) = Some st"
  by (simp_all add: mark_completed_def command_key_def)

section \<open>Routing of the events\<close>

text \<open>
  The two envelopes the services build are routed: decoding the payload gives back the metadata of the
  row, on the topic of the event type, whatever well-formed data the event carries.
\<close>

lemma routed_workflow:
  assumes "canonical_topic event_type = Some topic" "List.member contract_names event_type"
    and "\<not> is_processing_event event_type" "contract_value 1 (JObj data)" "unix_micro t = unix_micro now"
  shows "routed (new_outbox i c b event_type topic (JObj
     [(''event_id'', JStr i), (''event_type'', JStr event_type), (''schema_version'', JInt 1),
      (''command_id'', JStr c), (''batch_id'', JStr (b_id b)), (''batch_version'', JInt (uint (b_version b))),
      (''claim_epoch'', JStr (format_uint64 (b_claim_epoch b))), (''sequence_in_command'', JInt 1),
      (''occurred_at'', contract_timestamp t), (''correlation_id'', JStr co), (''data'', JObj data)]) co now)"
  using assms
  by (simp add: routed_def new_outbox_def contract_decode_def validate_envelope_def validate_workflow_envelope_def
      decode_envelope_def envelope_agrees_def dec_defs dec_u32_def dec_instant_def u32_range data_missing_def
      contract_timestamp_def unix_micro_def)

lemma routed_processing:
  assumes "canonical_topic event_type = Some topic" "List.member contract_names event_type"
    and "is_processing_event event_type" "contract_value 1 (JObj data)" "producer \<noteq> []" "claim_epoch \<noteq> []"
  shows "routed (new_outbox i c b event_type topic (JObj
     [(''event_id'', JStr i), (''event_type'', JStr event_type), (''schema_version'', JInt 1),
      (''producer'', JStr producer), (''aggregate_type'', JStr ''EWasteBatch''),
      (''aggregate_id'', JStr (b_id b)), (''aggregate_version'', JInt (uint (b_version b))),
      (''command_id'', JStr c), (''batch_id'', JStr (b_id b)), (''sequence_in_command'', JInt 1),
      (''claim_epoch'', JStr claim_epoch),
      (''occurred_at'', contract_timestamp now), (''correlation_id'', JStr co), (''data'', JObj data)]) co now)"
  using assms
  by (simp add: routed_def new_outbox_def contract_decode_def validate_envelope_def validate_processing_envelope_def
      decode_envelope_def envelope_agrees_def dec_defs dec_u32_def dec_instant_def u32_range data_missing_def
      contract_timestamp_def unix_micro_def)

lemma contract_value_timestamp [simp]: "contract_value n (contract_timestamp t) \<longleftrightarrow> n \<le> 64"
  by (simp add: contract_timestamp_def)

lemmas routing_defs = canonical_topic_def contract_names_def is_processing_event_def

section \<open>Replay\<close>

definition load_replay_with ::
  "command dbtx \<Rightarrow> error \<Rightarrow> error \<Rightarrow> error \<Rightarrow> error \<Rightarrow> (json \<Rightarrow> 'r option) \<Rightarrow> metadata \<Rightarrow> 'r option dbtx"
where
  "load_replay_with find_cmd not_found conflict in_progress undecodable decode m =
     tx_bind (tx_try (tx_bind find_cmd (\<lambda>c. tx_return (Some c)))
                (\<lambda>e. if errors_is e not_found then tx_return None else tx_fail e))
       (\<lambda>found. case found of
          None \<Rightarrow> tx_return None
        | Some c \<Rightarrow>
            if c_request_hash c \<noteq> md_request_hash m then tx_fail conflict
            else if c_state c \<noteq> CommandStateCompleted then tx_fail in_progress
            else (case Option.bind (c_response_json c) decode of
                    None \<Rightarrow> tx_fail undecodable
                  | Some r \<Rightarrow> tx_return (Some r)))"

definition metadata_key :: "metadata \<Rightarrow> string \<times> string \<times> string" where
  "metadata_key m = (md_actor_scope m, md_command_name m, md_idempotency_key m)"

definition stored_command :: "metadata \<Rightarrow> db \<Rightarrow> command option" where
  "stored_command m d = find (\<lambda>c. command_key c = metadata_key m) (commands d)"

text \<open>The command of \<open>m\<close> is committed with a response that decodes to \<open>r\<close>.\<close>

definition recorded :: "(json \<Rightarrow> 'r option) \<Rightarrow> metadata \<Rightarrow> 'r \<Rightarrow> db \<Rightarrow> bool" where
  "recorded decode m r d =
     (case stored_command m d of
        None \<Rightarrow> False
      | Some c \<Rightarrow> c_request_hash c = md_request_hash m \<and> c_state c = CommandStateCompleted \<and>
                  Option.bind (c_response_json c) decode = Some r)"

lemma load_replay_eq:
  assumes "find_cmd = tx_first commands (\<lambda>c. command_key c = metadata_key m) nf"
    and "errors_is nf not_found"
  shows "load_replay_with find_cmd not_found conflict in_progress undecodable decode m d =
    (case stored_command m d of
       None \<Rightarrow> Inr (None, d)
     | Some c \<Rightarrow>
         if c_request_hash c \<noteq> md_request_hash m then Inl conflict
         else if c_state c \<noteq> CommandStateCompleted then Inl in_progress
         else (case Option.bind (c_response_json c) decode of
                 None \<Rightarrow> Inl undecodable | Some r \<Rightarrow> Inr (Some r, d)))"
  unfolding assms(1) load_replay_with_def stored_command_def
  using assms(2)
  by (simp add: tx_bind_def tx_try_def tx_first_def tx_return_def tx_fail_def split: option.splits)

lemma load_replay_recorded:
  assumes "find_cmd = tx_first commands (\<lambda>c. command_key c = metadata_key m) nf" "errors_is nf not_found"
  shows "load_replay_with find_cmd not_found conflict in_progress undecodable decode m d = Inr (Some r, d')
         \<longleftrightarrow> recorded decode m r d \<and> d' = d"
  unfolding load_replay_eq [OF assms] recorded_def by (auto split: option.splits)

lemma load_replay_fresh:
  assumes "find_cmd = tx_first commands (\<lambda>c. command_key c = metadata_key m) nf" "errors_is nf not_found"
  shows "load_replay_with find_cmd not_found conflict in_progress undecodable decode m d = Inr (None, d')
         \<longleftrightarrow> stored_command m d = None \<and> d' = d"
  unfolding load_replay_eq [OF assms] by (auto split: option.splits)

lemma replay_or_fresh:
  assumes "find_cmd = tx_first commands (\<lambda>c. command_key c = metadata_key m) nf" "errors_is nf not_found"
  shows "tx_bind (load_replay_with find_cmd not_found conflict in_progress undecodable decode m)
           (\<lambda>replay. case replay of None \<Rightarrow> body | Some r \<Rightarrow> tx_return r) d = Inr (r, d') \<longleftrightarrow>
         recorded decode m r d \<and> d' = d \<or> stored_command m d = None \<and> body d = Inr (r, d')"
  (is "?l = ?r")
proof
  assume ?l
  then obtain replay d1 where
    1: "load_replay_with find_cmd not_found conflict in_progress undecodable decode m d = Inr (replay, d1)" and
    2: "(case replay of None \<Rightarrow> body | Some r \<Rightarrow> tx_return r) d1 = Inr (r, d')"
    by (auto simp: tx_bind_Inr)
  show ?r
  proof (cases replay)
    case None
    then show ?thesis using 1 2 by (auto simp: load_replay_fresh [OF assms])
  next
    case (Some x)
    then show ?thesis using 1 2 by (auto simp: load_replay_recorded [OF assms] tx_return_Inr)
  qed
next
  assume ?r
  then show ?l
    using load_replay_fresh [OF assms, of conflict in_progress undecodable decode d d]
      load_replay_recorded [OF assms, of conflict in_progress undecodable decode d r d]
    by (auto simp: tx_return_def)
qed

lemma load_replay_conflict:
  assumes "find_cmd = tx_first commands (\<lambda>c. command_key c = metadata_key m) nf" "errors_is nf not_found"
    and "stored_command m d = Some c" "c_request_hash c \<noteq> md_request_hash m"
  shows "load_replay_with find_cmd not_found conflict in_progress undecodable decode m d = Inl conflict"
  unfolding load_replay_eq [OF assms(1,2)] using assms(3,4) by simp

text \<open>A command appended and completed under its key is recorded.\<close>

lemma recorded_appended:
  assumes "stored_command m d = None" "commands d' = commands d @ [c]"
    and "command_key c = metadata_key m" "c_request_hash c = md_request_hash m"
    and "c_state c = CommandStateCompleted" "c_response_json c = Some j" "decode j = Some r"
  shows "recorded decode m r d'"
  using assms by (simp add: recorded_def stored_command_def find_append_last)

lemma recorded_unique: "recorded decode m r d \<Longrightarrow> recorded decode m r' d \<Longrightarrow> r = r'"
  by (auto simp: recorded_def split: option.splits)

lemma recorded_same_key:
  "recorded decode m r d \<Longrightarrow> metadata_key m' = metadata_key m \<Longrightarrow>
   \<exists>c. stored_command m' d = Some c \<and> c_request_hash c = md_request_hash m"
  by (auto simp: recorded_def stored_command_def split: option.splits)

lemma recorded_history:
  assumes "recorded decode m r d" "history_step d d'"
  shows "recorded decode m r d'"
proof -
  obtain c where c: "stored_command m d = Some c" "c_request_hash c = md_request_hash m"
    "c_state c = CommandStateCompleted" "Option.bind (c_response_json c) decode = Some r"
    using assms(1) by (auto simp: recorded_def split: option.splits)
  then obtain c' where "stored_command m d' = Some c'" "command_kept c c'"
    using history_stored_command [OF assms(2), of "metadata_key m" c] by (auto simp: stored_command_def)
  then show ?thesis using c by (simp add: recorded_def command_kept_def)
qed

section \<open>The outcome of a command\<close>

text \<open>
  \<open>transition m j src dst b b' es d d'\<close>: in one transaction the batch \<open>b\<close> went from \<open>src\<close> to \<open>dst\<close>
  with the next version, no other batch changed, and one command (completed, with response \<open>j\<close>),
  one audit row and the outbox events \<open>es\<close> were added, all naming the batch, its new version and
  the command, and routed if all the events before them are.
\<close>

definition command_added :: "metadata \<Rightarrow> json \<Rightarrow> command \<Rightarrow> db \<Rightarrow> db \<Rightarrow> bool" where
  "command_added m j c d d' =
     (commands d' = commands d @ [c] \<and> command_key c = metadata_key m \<and>
      c_request_hash c = md_request_hash m \<and> c_state c = CommandStateCompleted \<and>
      c_response_json c = Some j)"

definition audit_added :: "batch_status \<Rightarrow> batch_status \<Rightarrow> batch \<Rightarrow> command \<Rightarrow> db \<Rightarrow> db \<Rightarrow> bool" where
  "audit_added src dst b' c d d' =
     (\<exists>a. audits d' = audits d @ [a] \<and> au_command_id a = c_id c \<and> au_batch_id a = b_id b' \<and>
          au_from_status a = src \<and> au_to_status a = dst \<and> au_batch_version a = b_version b')"

definition events_added :: "batch \<Rightarrow> command \<Rightarrow> outbox_event list \<Rightarrow> db \<Rightarrow> db \<Rightarrow> bool" where
  "events_added b' c es d d' =
     (outbox d' = outbox d @ es \<and>
      list_all (\<lambda>e. o_command_id e = c_id c \<and> o_batch_id e = b_id b' \<and> o_partition_key e = b_id b' \<and>
                    o_aggregate_version e = b_version b' \<and> o_state e = OutboxPending \<and> o_attempts e = 0 \<and>
                    (list_all routed (outbox d) \<longrightarrow> routed e)) es)"

definition batch_moved :: "batch_status \<Rightarrow> batch_status \<Rightarrow> batch \<Rightarrow> batch \<Rightarrow> db \<Rightarrow> db \<Rightarrow> bool" where
  "batch_moved src dst b b' d d' =
     (find (\<lambda>x. b_id x = b_id b') (batches d) = Some b \<and> b_status b = src \<and> b_status b' = dst \<and>
      b_version b' = b_version b + 1 \<and>
      (\<forall>x. find (\<lambda>y. b_id y = x) (batches d') =
           (if x = b_id b' then Some b' else find (\<lambda>y. b_id y = x) (batches d))))"

definition transition ::
  "metadata \<Rightarrow> json \<Rightarrow> batch_status \<Rightarrow> batch_status \<Rightarrow> batch \<Rightarrow> batch \<Rightarrow> outbox_event list \<Rightarrow> db \<Rightarrow> db \<Rightarrow> bool"
where
  "transition m j src dst b b' es d d' =
     (\<exists>c. command_added m j c d d' \<and> audit_added src dst b' c d d' \<and> events_added b' c es d d' \<and>
          batch_moved src dst b b' d d')"

lemma transitionI:
  assumes "commands d' = commands d @ [mark_completed st j t c]" "command_key c = metadata_key m"
    and "c_request_hash c = md_request_hash m"
    and "audits d' = audits d @ [a]" "au_command_id a = c_id c" "au_batch_id a = b_id b'"
    and "au_from_status a = src" "au_to_status a = dst" "au_batch_version a = b_version b'"
    and "outbox d' = outbox d @ es"
    and "list_all (\<lambda>e. o_command_id e = c_id c \<and> o_batch_id e = b_id b' \<and> o_partition_key e = b_id b' \<and>
                    o_aggregate_version e = b_version b' \<and> o_state e = OutboxPending \<and> o_attempts e = 0 \<and>
                    (list_all routed (outbox d) \<longrightarrow> routed e)) es"
    and "batch_moved src dst b b' d d'"
  shows "transition m j src dst b b' es d d'"
  using assms unfolding transition_def command_added_def audit_added_def events_added_def
  by (intro exI [of _ "mark_completed st j t c"]) auto

lemma command_added_recorded:
  "command_added m j c d d' \<Longrightarrow> stored_command m d = None \<Longrightarrow> decode j = Some r \<Longrightarrow> recorded decode m r d'"
  by (rule recorded_appended) (auto simp: command_added_def)

lemma transition_recorded:
  "transition m j src dst b b' es d d' \<Longrightarrow> stored_command m d = None \<Longrightarrow> decode j = Some r \<Longrightarrow>
   recorded decode m r d'"
  by (auto simp: transition_def dest: command_added_recorded)

lemma batch_moved_update:
  assumes "db_wf d" "find (\<lambda>b. b_id b = bid) (batches d) = Some b" "Q b" "\<And>b. b_id (f b) = b_id b"
    and "batches d' = tbl_update (\<lambda>b. b_id b = bid \<and> Q b) f (batches d)"
    and "b_status b = src" "b_status (f b) = dst" "b_version (f b) = b_version b + 1"
  shows "batch_moved src dst b (f b) d d'"
proof -
  have id: "b_id b = bid" using find_Some_memD [OF assms(2)] by simp
  have "find (\<lambda>y. b_id y = x) (batches d') =
        (if x = b_id (f b) then Some (f b) else find (\<lambda>y. b_id y = x) (batches d))" for x
  proof (cases "x = bid")
    case True
    then show ?thesis
      using find_tbl_update [where key = b_id and Q = Q and f = f, OF assms(2,3)] assms(4,5) id by simp
  next
    case False
    then show ?thesis
      using find_tbl_update_other [where key = b_id, of f "\<lambda>b. b_id b = bid \<and> Q b" x] assms(4,5) id by simp
  qed
  then show ?thesis using assms id by (simp add: batch_moved_def)
qed

section \<open>The idempotency contract\<close>

text \<open>
  \<open>run m\<close> is the transaction of a command with prepared metadata \<open>m\<close>; \<open>admitted m d\<close> is what it
  checks before it looks for a stored command.  The contract: a success leaves the command recorded
  with its result, a recorded command is answered from its record without a write, and a key used
  with another request hash is refused.
\<close>

locale replay_contract =
  fixes run :: "metadata \<Rightarrow> 'r dbtx"
    and decode :: "json \<Rightarrow> 'r option"
    and admitted :: "metadata \<Rightarrow> db \<Rightarrow> bool"
    and conflict :: error
  assumes commit: "db_wf d \<Longrightarrow> run m d = Inr (r, d') \<Longrightarrow> recorded decode m r d'"
    and replay: "admitted m d \<Longrightarrow> recorded decode m r d \<Longrightarrow> run m d = Inr (r, d)"
    and refuse: "admitted m d \<Longrightarrow> stored_command m d = Some c \<Longrightarrow> c_request_hash c \<noteq> md_request_hash m \<Longrightarrow>
                 run m d = Inl conflict"
begin

lemma retry_same_result:
  assumes "db_wf d" "run m d = Inr (r, d1)" "admitted m d1"
  shows "run m d1 = Inr (r, d1)"
  using commit [OF assms(1,2)] replay assms(3) by blast

text \<open>The retry may come after any other commits.\<close>

lemma retry_later:
  assumes "db_wf d" "run m d = Inr (r, d1)" "history_step d1 d2" "admitted m d2"
  shows "run m d2 = Inr (r, d2)"
  using recorded_history [OF commit [OF assms(1,2)] assms(3)] replay assms(4) by blast

lemma key_reuse_conflict:
  assumes "db_wf d" "run m d = Inr (r, d1)" "admitted m' d1"
    and "metadata_key m' = metadata_key m" "md_request_hash m' \<noteq> md_request_hash m"
  shows "run m' d1 = Inl conflict"
proof -
  obtain c where "stored_command m' d1 = Some c" "c_request_hash c = md_request_hash m"
    using recorded_same_key [OF commit [OF assms(1,2)] assms(4)] by blast
  then show ?thesis using refuse [OF assms(3)] assms(5) by metis
qed

end

end
