(* ===== verification/BatchService.thy ===== *)
theory BatchService
  imports Commands "HOL-Library.AList"
begin

text \<open>
  \<open>internal/service/batch.go\<close> and \<open>batch_mapper.go\<close>: the draft and submit commands of a donor.
  \<open>create_draft\<close>, \<open>edit_draft\<close> and \<open>submit\<close> are the handlers; their transaction bodies have the
  suffix \<open>_tx\<close>.  Identifiers and clock readings are numbered in the order the code draws them.
\<close>

section \<open>Requests and views\<close>

record draft_request =
  dr_category :: "string option"
  dr_quantity :: "int option"
  dr_weight :: "rat option"
  dr_condition :: "string option"
  dr_data_bearing :: "bool option"
  dr_zone :: "string option"
  dr_deadline :: "int option"
  dr_notes :: "string option"

definition draft_request_json :: "draft_request \<Rightarrow> json" where
  "draft_request_json r =
     JObj [(''category'', json_opt JStr (dr_category r)), (''quantity'', json_opt JInt (dr_quantity r)),
           (''estimated_weight_kg'', json_opt JRat (dr_weight r)),
           (''condition_rating'', json_opt JStr (dr_condition r)),
           (''is_data_bearing'', json_opt JBool (dr_data_bearing r)), (''zone'', json_opt JStr (dr_zone r)),
           (''collection_deadline'', json_opt JTime (dr_deadline r)), (''notes'', json_opt JStr (dr_notes r))]"

record batch_view =
  bv_batch_id :: string
  bv_status :: string
  bv_version :: int
  bv_claim_epoch :: string
  bv_collector_scope_id :: string
  bv_category :: "string option"
  bv_quantity :: "int option"
  bv_weight :: "rat option"
  bv_condition :: "string option"
  bv_data_bearing :: "bool option"
  bv_zone :: "string option"
  bv_deadline :: "int option"
  bv_notes :: "string option"
  bv_created_at :: int
  bv_updated_at :: int

record batch_result =
  br_batch :: batch_view
  br_correlation_id :: string
  br_event_id :: string
  br_event_state :: string

definition value_or_empty :: "string option \<Rightarrow> string" where
  "value_or_empty x = (case x of None \<Rightarrow> [] | Some v \<Rightarrow> v)"

definition batch_to_dto :: "batch \<Rightarrow> batch_view" where
  "batch_to_dto b =
     \<lparr>bv_batch_id = b_id b, bv_status = status_string (b_status b), bv_version = uint (b_version b),
      bv_claim_epoch = (if b_claim_id b = None then [] else format_uint64 (b_claim_epoch b)),
      bv_collector_scope_id = value_or_empty (b_collector_scope_id b),
      bv_category = b_category b, bv_quantity = b_quantity b,
      bv_weight = Option.bind (b_weight b) parse_float,
      bv_condition = b_condition b, bv_data_bearing = Some (b_data_bearing b), bv_zone = b_zone b,
      bv_deadline = b_deadline b, bv_notes = b_notes b,
      bv_created_at = b_created_at b, bv_updated_at = b_updated_at b\<rparr>"

definition encode_batch_view :: "batch_view \<Rightarrow> json" where
  "encode_batch_view v =
     JObj ([(''batch_id'', JStr (bv_batch_id v)), (''status'', JStr (bv_status v)),
            (''version'', JInt (bv_version v)), (''created_at'', JTime (bv_created_at v)),
            (''updated_at'', JTime (bv_updated_at v))]
           @ json_omit_empty ''claim_epoch'' (bv_claim_epoch v)
           @ json_omit_empty ''collector_scope_id'' (bv_collector_scope_id v)
           @ json_omit_nil ''category'' JStr (bv_category v)
           @ json_omit_nil ''quantity'' JInt (bv_quantity v)
           @ json_omit_nil ''estimated_weight_kg'' JRat (bv_weight v)
           @ json_omit_nil ''condition_rating'' JStr (bv_condition v)
           @ json_omit_nil ''is_data_bearing'' JBool (bv_data_bearing v)
           @ json_omit_nil ''zone'' JStr (bv_zone v)
           @ json_omit_nil ''collection_deadline'' JTime (bv_deadline v)
           @ json_omit_nil ''notes'' JStr (bv_notes v))"

definition decode_batch_view :: "json \<Rightarrow> batch_view option" where
  "decode_batch_view j = do {
     i \<leftarrow> dec_str ''batch_id'' j; s \<leftarrow> dec_str ''status'' j; ver \<leftarrow> dec_int ''version'' j;
     ep \<leftarrow> dec_str ''claim_epoch'' j; sc \<leftarrow> dec_str ''collector_scope_id'' j;
     ca \<leftarrow> dec_ptr as_str ''category'' j; q \<leftarrow> dec_ptr as_int ''quantity'' j;
     w \<leftarrow> dec_ptr as_rat ''estimated_weight_kg'' j; co \<leftarrow> dec_ptr as_str ''condition_rating'' j;
     db \<leftarrow> dec_ptr as_bool ''is_data_bearing'' j; z \<leftarrow> dec_ptr as_str ''zone'' j;
     dl \<leftarrow> dec_ptr as_time ''collection_deadline'' j; n \<leftarrow> dec_ptr as_str ''notes'' j;
     cr \<leftarrow> dec_time ''created_at'' j; up \<leftarrow> dec_time ''updated_at'' j;
     Some \<lparr>bv_batch_id = i, bv_status = s, bv_version = ver, bv_claim_epoch = ep,
       bv_collector_scope_id = sc, bv_category = ca, bv_quantity = q, bv_weight = w,
       bv_condition = co, bv_data_bearing = db, bv_zone = z, bv_deadline = dl, bv_notes = n,
       bv_created_at = cr, bv_updated_at = up\<rparr> }"

definition encode_batch_result :: "batch_result \<Rightarrow> json" where
  "encode_batch_result r =
     JObj ([(''data'', encode_batch_view (br_batch r)), (''correlation_id'', JStr (br_correlation_id r))]
           @ json_omit_empty ''event_id'' (br_event_id r)
           @ json_omit_empty ''event_state'' (br_event_state r))"

definition decode_batch_result :: "json \<Rightarrow> batch_result option" where
  "decode_batch_result j = do {
     v \<leftarrow> dec_obj decode_batch_view ''data'' j; c \<leftarrow> dec_str ''correlation_id'' j;
     e \<leftarrow> dec_str ''event_id'' j; s \<leftarrow> dec_str ''event_state'' j;
     Some \<lparr>br_batch = v, br_correlation_id = c, br_event_id = e, br_event_state = s\<rparr> }"

lemma decode_encode_batch_view [simp]: "decode_batch_view (encode_batch_view v) = Some v"
  by (simp add: decode_batch_view_def encode_batch_view_def dec_defs map_of_omit del: map_of_append)

lemma encode_batch_view_json: "encode_batch_view v \<noteq> JNull"
  by (simp add: encode_batch_view_def)

lemma decode_encode_batch_result [simp]: "decode_batch_result (encode_batch_result r) = Some r"
  by (simp add: decode_batch_result_def encode_batch_result_def encode_batch_view_json dec_defs map_of_omit del: map_of_append)

section \<open>Authorisation and validation\<close>

definition require_donor :: "metadata \<Rightarrow> error + unit" where
  "require_donor m =
     (if act_user_id (md_actor m) = [] \<or> act_organisation_id (md_actor m) = [] then
        Inl (Wrapped ErrBatchForbidden ''actor scope is missing'')
      else if md_correlation_id m = [] then
        Inl (Wrapped ErrBatchValidation ''correlation ID is missing'')
      else if \<not> equal_fold (trim_space (act_role_code (md_actor m))) ''DONOR'' then Inl ErrBatchForbidden
      else Inr ())"

definition normalize_optional_enum :: "string option \<Rightarrow> string option" where
  "normalize_optional_enum v = map_option (\<lambda>x. to_upper (trim_space x)) v"

definition allowed_value :: "string \<Rightarrow> string list \<Rightarrow> bool" where
  "allowed_value v allowed = list_ex (\<lambda>c. v = c) allowed"

definition flag :: "bool \<Rightarrow> string \<Rightarrow> string \<Rightarrow> (string \<times> string) list \<Rightarrow> (string \<times> string) list" where
  "flag b k msg invalid = (if b then AList.update k msg invalid else invalid)"

definition disallowed :: "string option \<Rightarrow> string list \<Rightarrow> bool" where
  "disallowed v allowed = (case v of None \<Rightarrow> False | Some x \<Rightarrow> \<not> allowed_value x allowed)"

definition draft_value_fields :: "draft_request \<Rightarrow> int \<Rightarrow> (string \<times> string) list" where
  "draft_value_fields r now =
     (flag (case dr_deadline r of None \<Rightarrow> False | Some t \<Rightarrow> t < now - 365 * 24 * hour)
        ''collection_deadline'' ''deadline is too far in the past'' o
      flag (case dr_notes r of None \<Rightarrow> False | Some n \<Rightarrow> rune_count n > 500)
        ''notes'' ''must not exceed 500 characters'' o
      flag (disallowed (normalize_optional_enum (dr_zone r)) zone_names) ''zone'' ''unsupported zone'' o
      flag (disallowed (normalize_optional_enum (dr_condition r)) condition_ratings)
        ''condition_rating'' ''unsupported condition rating'' o
      flag (case dr_weight r of None \<Rightarrow> False
            | Some w \<Rightarrow> w < 1 / 10 \<or> w > 50000 \<or> \<not> two_decimals w)
        ''estimated_weight_kg''
        ''must have exactly two decimal places and be between 0.10 and 50000.00'' o
      flag (case dr_quantity r of None \<Rightarrow> False | Some q \<Rightarrow> q < 1 \<or> q > 100000)
        ''quantity'' ''must be between 1 and 100000'' o
      flag (disallowed (normalize_optional_enum (dr_category r)) categories)
        ''category'' ''unsupported category'') []"

definition draft_complete_fields :: "draft_request \<Rightarrow> (string \<times> string) list \<Rightarrow> (string \<times> string) list" where
  "draft_complete_fields r =
     flag (dr_deadline r = None) ''collection_deadline'' ''is required'' o
     flag (dr_zone r = None) ''zone'' ''is required'' o
     flag (dr_data_bearing r = None) ''is_data_bearing'' ''is required'' o
     flag (dr_condition r = None) ''condition_rating'' ''is required'' o
     flag (dr_weight r = None) ''estimated_weight_kg'' ''is required'' o
     flag (dr_quantity r = None) ''quantity'' ''is required'' o
     flag (dr_category r = None) ''category'' ''is required''"

definition validate_draft :: "draft_request \<Rightarrow> bool \<Rightarrow> int \<Rightarrow> error + unit" where
  "validate_draft r whole now =
     (let invalid = draft_value_fields r now;
          invalid = (if whole then draft_complete_fields r invalid else invalid);
          invalid = flag (case dr_deadline r of None \<Rightarrow> False
                         | Some t \<Rightarrow> whole \<and> \<not> in_deadline_window now t)
                     ''collection_deadline''
                     ''must be between 48 hours and 90 days from submission'' invalid
      in if invalid \<noteq> [] then Inl (new_batch_validation_error invalid) else Inr ())"

definition validate_stored_batch :: "batch \<Rightarrow> int \<Rightarrow> error + unit" where
  "validate_stored_batch b submitted_at =
     (case (b_category b, b_quantity b, b_weight b, b_condition b, b_zone b, b_deadline b) of
        (Some category, Some quantity, Some weight, Some rating, Some zone, Some deadline) \<Rightarrow>
          if quantity < 1 \<or> quantity > 100000 then
            Inl (new_batch_validation_error [(''quantity'', ''must be between 1 and 100000'')])
          else if \<not> allowed_value category categories then
            Inl (new_batch_validation_error [(''category'', ''unsupported category'')])
          else if \<not> allowed_value rating condition_ratings then
            Inl (new_batch_validation_error [(''condition_rating'', ''unsupported condition rating'')])
          else if \<not> allowed_value zone zone_names then
            Inl (new_batch_validation_error [(''zone'', ''unsupported zone'')])
          else
            (case normalize_stored_weight weight of
               Inl (PlainError msg) \<Rightarrow> Inl (new_batch_validation_error [(''estimated_weight_kg'', msg)])
             | Inl e \<Rightarrow> Inl e
             | Inr w \<Rightarrow>
                 let parsed = (case parse_float w of None \<Rightarrow> 0 | Some v \<Rightarrow> v) in
                 if parsed < 1 / 10 \<or> parsed > 50000 then
                   Inl (new_batch_validation_error
                     [(''estimated_weight_kg'', ''must be between 0.10 and 50000.00'')])
                 else if \<not> in_deadline_window submitted_at deadline then
                   Inl (new_batch_validation_error
                     [(''collection_deadline'', ''must be between 48 hours and 90 days from submission'')])
                 else Inr ())
      | _ \<Rightarrow> Inl (new_batch_validation_error
               [(''batch'', ''all required invalid must be completed before submission'')]))"

section \<open>Draft changes\<close>

definition opt_change :: "('a \<Rightarrow> draft_change) \<Rightarrow> 'a option \<Rightarrow> draft_change list" where
  "opt_change f x = (case x of None \<Rightarrow> [] | Some a \<Rightarrow> [f a])"

definition draft_changes :: "draft_request \<Rightarrow> draft_change list" where
  "draft_changes r =
     opt_change (\<lambda>v. SetCategory (to_upper (trim_space v))) (dr_category r) @
     opt_change SetQuantity (dr_quantity r) @
     opt_change (\<lambda>v. SetWeight (format_float2 v)) (dr_weight r) @
     opt_change (\<lambda>v. SetCondition (to_upper (trim_space v))) (dr_condition r) @
     opt_change SetDataBearing (dr_data_bearing r) @
     opt_change (\<lambda>v. SetZone (to_upper (trim_space v))) (dr_zone r) @
     opt_change SetDeadline (dr_deadline r) @
     opt_change SetNotes (dr_notes r)"

definition apply_draft_to_batch :: "batch \<Rightarrow> draft_request \<Rightarrow> batch" where
  "apply_draft_to_batch b r = apply_changes (draft_changes r) b"

definition map_repository_batch_error :: "error \<Rightarrow> error" where
  "map_repository_batch_error e =
     (if errors_is e (BatchRepoErr RepoBatchConcurrency) then ErrBatchStaleVersion else e)"

definition batch_load_replay :: "metadata \<Rightarrow> batch_result option dbtx" where
  "batch_load_replay m =
     load_replay_with (find_command (md_actor_scope m) (md_command_name m) (md_idempotency_key m))
       (BatchRepoErr RepoCommandNotFound) ErrBatchIdempotencyConflict ErrBatchInProgress
       (PlainError ''batch: decode replay response'') decode_batch_result m"

definition complete_batch_command :: "string \<Rightarrow> batch_result \<Rightarrow> int \<Rightarrow> unit dbtx" where
  "complete_batch_command command_id result now =
     complete_command command_id 200 (encode_batch_result result) now"

section \<open>The commands\<close>

definition new_draft :: "string \<Rightarrow> metadata \<Rightarrow> int \<Rightarrow> batch" where
  "new_draft batch_id m now =
     \<lparr>b_id = batch_id, b_organization_id = act_organisation_id (md_actor m),
      b_created_by = act_user_id (md_actor m), b_status = BatchStatusDraft, b_category = None,
      b_quantity = None, b_weight = None, b_condition = None, b_data_bearing = False, b_zone = None,
      b_deadline = None, b_notes = None, b_claim_epoch = 1, b_claim_id = None,
      b_assignment_id = None, b_collector_scope_id = None, b_version = 1, b_submitted_at = None,
      b_created_at = now, b_updated_at = now\<rparr>"

definition create_draft_tx :: "call_env \<Rightarrow> draft_request \<Rightarrow> metadata \<Rightarrow> batch_result dbtx" where
  "create_draft_tx env request m =
     tx_bind (batch_load_replay m) (\<lambda>replay. case replay of
       Some r \<Rightarrow> tx_return r
     | None \<Rightarrow>
         (let now = env_clock env 1;
              b = apply_draft_to_batch (new_draft (env_id env 0) m now) request;
              command = new_command (env_id env 1) m (b_id b) now retain_for;
              result = \<lparr>br_batch = batch_to_dto b, br_correlation_id = md_correlation_id m,
                        br_event_id = [], br_event_state = []\<rparr>
          in tx_bind (create_batch b) (\<lambda>_.
             tx_bind (create_command command) (\<lambda>_.
             tx_bind (append_audit (new_audit_event (env_id env 2) m (c_id command) b ''DraftSaved''
                       BatchStatusDraft BatchStatusDraft [(''operation'', ''CREATE'')] now)) (\<lambda>_.
             tx_bind (complete_batch_command (c_id command) result now) (\<lambda>_.
             tx_return result))))))"

definition create_draft :: "call_env \<Rightarrow> draft_request \<Rightarrow> metadata \<Rightarrow> db \<Rightarrow> (error + batch_result) \<times> db" where
  "create_draft env request m d =
     (case require_donor m of Inl e \<Rightarrow> (Inl e, d)
      | Inr _ \<Rightarrow> (case validate_draft request False (env_clock env 0) of Inl e \<Rightarrow> (Inl e, d)
      | Inr _ \<Rightarrow> (case prepare_metadata env m ''CreateBatchDraft'' [] (draft_request_json request) of
           Inl e \<Rightarrow> (Inl e, d)
         | Inr m \<Rightarrow> run_tx (create_draft_tx env request m) d)))"

definition owned_by_actor :: "metadata \<Rightarrow> batch \<Rightarrow> bool" where
  "owned_by_actor m b =
     (b_organization_id b = act_organisation_id (md_actor m) \<and> b_created_by b = act_user_id (md_actor m))"

definition edit_draft_tx :: "call_env \<Rightarrow> string \<Rightarrow> draft_request \<Rightarrow> metadata \<Rightarrow> batch_result dbtx" where
  "edit_draft_tx env batch_id request m =
     tx_bind (batch_load_replay m) (\<lambda>replay. case replay of
       Some r \<Rightarrow> tx_return r
     | None \<Rightarrow>
         tx_bind (find_batch_for_update batch_id) (\<lambda>b.
         tx_bind (tx_guard (owned_by_actor m b) ErrBatchForbidden) (\<lambda>_.
         tx_bind (tx_guard (can_edit b) ErrBatchInvalidState) (\<lambda>_.
         tx_bind (tx_guard (uint (b_version b) = md_expected_version m) ErrBatchStaleVersion) (\<lambda>_.
         let now = env_clock env 1;
             command = new_command (env_id env 0) m (b_id b) now retain_for in
         tx_bind (create_command command) (\<lambda>_.
         tx_bind (tx_map_err map_repository_batch_error
            (update_draft (env_auto_now env) (b_id b) (act_organisation_id (md_actor m))
              (act_user_id (md_actor m)) (word_of_int (md_expected_version m)) (draft_changes request)))
           (\<lambda>updated.
         tx_bind (append_audit (new_audit_event (env_id env 1) m (c_id command) updated ''DraftSaved''
                   BatchStatusDraft BatchStatusDraft [(''operation'', ''EDIT'')] now)) (\<lambda>_.
         let result = \<lparr>br_batch = batch_to_dto updated, br_correlation_id = md_correlation_id m,
                       br_event_id = [], br_event_state = []\<rparr> in
         tx_bind (complete_batch_command (c_id command) result now) (\<lambda>_.
         tx_return result)))))))))"

definition edit_draft ::
  "call_env \<Rightarrow> string \<Rightarrow> draft_request \<Rightarrow> metadata \<Rightarrow> db \<Rightarrow> (error + batch_result) \<times> db"
where
  "edit_draft env batch_id request m d =
     (case require_donor m of Inl e \<Rightarrow> (Inl e, d)
      | Inr _ \<Rightarrow>
         if md_expected_version m \<le> 0 then (Inl ErrBatchStaleVersion, d)
         else (case validate_draft request False (env_clock env 0) of Inl e \<Rightarrow> (Inl e, d)
      | Inr _ \<Rightarrow>
         if draft_changes request = [] then
           (Inl (new_batch_validation_error [(''request'', ''at least one editable field is required'')]), d)
         else (case prepare_metadata env m ''EditBatchDraft'' batch_id (draft_request_json request) of
           Inl e \<Rightarrow> (Inl e, d)
         | Inr m \<Rightarrow> run_tx (edit_draft_tx env batch_id request m) d)))"

definition request_submitted_payload :: "string \<Rightarrow> string \<Rightarrow> batch \<Rightarrow> string \<Rightarrow> error + json" where
  "request_submitted_payload event_id command_id b correlation_id =
     (case (b_submitted_at b, b_category b, b_quantity b, b_weight b, b_condition b, b_zone b, b_deadline b) of
        (Some submitted, Some category, Some quantity, Some weight, Some rating, Some zone, Some deadline) \<Rightarrow>
          (case normalize_stored_weight weight of
             Inl e \<Rightarrow> Inl e
           | Inr w \<Rightarrow> Inr (JObj
               [(''event_id'', JStr event_id), (''event_type'', JStr ''RequestSubmitted''),
                (''schema_version'', JInt 1), (''command_id'', JStr command_id),
                (''batch_id'', JStr (b_id b)), (''batch_version'', JInt (uint (b_version b))),
                (''claim_epoch'', JStr (format_uint64 (b_claim_epoch b))),
                (''sequence_in_command'', JInt 1), (''occurred_at'', contract_timestamp submitted),
                (''correlation_id'', JStr correlation_id),
                (''data'', JObj
                  [(''organization_id'', JStr (b_organization_id b)),
                   (''submitted_at'', contract_timestamp submitted), (''category'', JStr category),
                   (''quantity'', JInt quantity), (''estimated_weight_kg'', JStr w),
                   (''condition_rating'', JStr rating), (''is_data_bearing'', JBool (b_data_bearing b)),
                   (''zone'', JStr zone), (''collection_deadline'', contract_timestamp deadline)])]))
      | _ \<Rightarrow> Inl ErrBatchValidation)"

definition submit_commit_tx :: "call_env \<Rightarrow> metadata \<Rightarrow> batch \<Rightarrow> int \<Rightarrow> batch_result dbtx" where
  "submit_commit_tx env m b now =
     (let command = new_command (env_id env 0) m (b_id b) now retain_for in
      tx_bind (create_command command) (\<lambda>_.
      tx_bind (tx_map_err map_repository_batch_error
         (submit_draft (env_auto_now env) (b_id b) (act_organisation_id (md_actor m))
           (act_user_id (md_actor m)) (word_of_int (md_expected_version m)) now)) (\<lambda>submitted.
      let event_id = env_id env 1 in
      tx_bind (append_audit (new_audit_event (env_id env 2) m (c_id command) submitted ''RequestSubmitted''
                BatchStatusDraft BatchStatusSubmitted [(''operation'', ''SUBMIT'')] now)) (\<lambda>_.
      tx_bind (tx_lift (request_submitted_payload event_id (c_id command) submitted (md_correlation_id m)))
        (\<lambda>payload.
      tx_bind (enqueue_outbox (new_outbox event_id (c_id command) submitted ''RequestSubmitted''
                ''ewaste.batch.events'' payload (md_correlation_id m) now)) (\<lambda>_.
      let result = \<lparr>br_batch = batch_to_dto submitted, br_correlation_id = md_correlation_id m,
                    br_event_id = event_id, br_event_state = publish_state_string OutboxPending\<rparr> in
      tx_bind (complete_batch_command (c_id command) result now) (\<lambda>_.
      tx_return result)))))))"

definition submit_tx :: "call_env \<Rightarrow> string \<Rightarrow> metadata \<Rightarrow> batch_result dbtx" where
  "submit_tx env batch_id m =
     tx_bind (batch_load_replay m) (\<lambda>replay. case replay of
       Some r \<Rightarrow> tx_return r
     | None \<Rightarrow>
         tx_bind (find_batch_for_update batch_id) (\<lambda>b.
         tx_bind (tx_guard (owned_by_actor m b) ErrBatchForbidden) (\<lambda>_.
         tx_bind (tx_guard (can_submit b) ErrBatchInvalidState) (\<lambda>_.
         tx_bind (tx_guard (uint (b_version b) = md_expected_version m) ErrBatchStaleVersion) (\<lambda>_.
         let now = env_clock env 0 in
         tx_bind (tx_lift (validate_stored_batch b now)) (\<lambda>_.
         submit_commit_tx env m b now))))))"

definition submit :: "call_env \<Rightarrow> string \<Rightarrow> metadata \<Rightarrow> db \<Rightarrow> (error + batch_result) \<times> db" where
  "submit env batch_id m d =
     (case require_donor m of Inl e \<Rightarrow> (Inl e, d)
      | Inr _ \<Rightarrow>
         if md_expected_version m \<le> 0 then (Inl ErrBatchStaleVersion, d)
         else (case prepare_metadata env m ''SubmitBatch'' batch_id (JObj [(''batch_id'', JStr batch_id)]) of
           Inl e \<Rightarrow> (Inl e, d)
         | Inr m \<Rightarrow> run_tx (submit_tx env batch_id m) d))"

section \<open>What the commands do\<close>

lemma find_command_eq:
  "find_command (md_actor_scope m) (md_command_name m) (md_idempotency_key m)
   = tx_first commands (\<lambda>c. command_key c = metadata_key m) (BatchRepoErr RepoCommandNotFound)"
  by (simp add: find_command_def metadata_key_def)

lemma batch_replay_or_fresh:
  "tx_bind (batch_load_replay m) (\<lambda>replay. case replay of None \<Rightarrow> body | Some r \<Rightarrow> tx_return r) d = Inr (r, d')
   \<longleftrightarrow> recorded decode_batch_result m r d \<and> d' = d \<or> stored_command m d = None \<and> body d = Inr (r, d')"
  unfolding batch_load_replay_def by (rule replay_or_fresh [OF find_command_eq]) simp

lemma batch_load_replay_stored:
  "recorded decode_batch_result m r d \<Longrightarrow> batch_load_replay m d = Inr (Some r, d)"
  unfolding batch_load_replay_def by (subst load_replay_recorded [OF find_command_eq]) simp_all

lemma batch_load_replay_conflict:
  "stored_command m d = Some c \<Longrightarrow> c_request_hash c \<noteq> md_request_hash m \<Longrightarrow>
   batch_load_replay m d = Inl ErrBatchIdempotencyConflict"
  unfolding batch_load_replay_def by (rule load_replay_conflict [OF find_command_eq]) simp_all

lemma find_batch_for_update_Inr [tx_success]:
  "find_batch_for_update bid d = Inr (b, d') \<longleftrightarrow> find (\<lambda>b. b_id b = bid) (batches d) = Some b \<and> d' = d"
  by (simp add: find_batch_for_update_def tx_success)

lemma complete_batch_command_last:
  assumes "commands d = cs @ [c]" "\<not> tbl_clash c_id c cs" "c_id c = cid" "c_state c = CommandStateInProgress"
  shows "complete_batch_command cid r t d = Inr (u, d') \<longleftrightarrow>
         d' = d\<lparr>commands := cs @ [mark_completed 200 (encode_batch_result r) t c]\<rparr>"
  unfolding complete_batch_command_def complete_command_def by (rule complete_last_command [OF assms])

lemma new_audit_event_fields [simp]:
  "au_command_id (new_audit_event i m cid b et src dst ds t) = cid"
  "au_batch_id (new_audit_event i m cid b et src dst ds t) = b_id b"
  "au_from_status (new_audit_event i m cid b et src dst ds t) = src"
  "au_to_status (new_audit_event i m cid b et src dst ds t) = dst"
  "au_batch_version (new_audit_event i m cid b et src dst ds t) = b_version b"
  by (simp_all add: new_audit_event_def)

definition submitted_batch :: "call_env \<Rightarrow> batch \<Rightarrow> int \<Rightarrow> batch" where
  "submitted_batch env b now =
     b\<lparr>b_status := BatchStatusSubmitted, b_submitted_at := Some now, b_version := b_version b + 1,
       b_updated_at := env_auto_now env\<rparr>"

lemma routed_request:
  assumes "request_submitted_payload i c b co = Inr pl" "b_submitted_at b = Some now"
  shows "routed (new_outbox i c b ''RequestSubmitted'' ''ewaste.batch.events'' pl co now)"
  using assms unfolding request_submitted_payload_def
  by (auto simp: routing_defs split: option.splits sum.splits intro!: routed_workflow)

lemma routed_submitted:
  assumes "request_submitted_payload i c (submitted_batch env b now) co = Inr pl"
  shows "routed (new_outbox i c (submitted_batch env b now) ''RequestSubmitted'' ''ewaste.batch.events'' pl co now)"
  by (rule routed_request [OF assms]) (simp add: submitted_batch_def)

lemma submit_commit_outcome:
  assumes wf: "db_wf d" and f: "find (\<lambda>b. b_id b = bid) (batches d) = Some b"
    and dr: "b_status b = BatchStatusDraft"
    and s: "submit_commit_tx env m b now d = Inr (r, d')"
  shows "\<exists>pl. request_submitted_payload (env_id env 1) (env_id env 0) (submitted_batch env b now)
                (md_correlation_id m) = Inr pl \<and>
         transition m (encode_batch_result r) BatchStatusDraft BatchStatusSubmitted b
           (submitted_batch env b now)
           [new_outbox (env_id env 1) (env_id env 0) (submitted_batch env b now) ''RequestSubmitted''
              ''ewaste.batch.events'' pl (md_correlation_id m) now] d d' \<and>
         r = \<lparr>br_batch = batch_to_dto (submitted_batch env b now), br_correlation_id = md_correlation_id m,
              br_event_id = env_id env 1, br_event_state = ''PENDING''\<rparr>"
proof -
  let ?b = "submitted_batch env b now" and ?c = "new_command (env_id env 0) m (b_id b) now retain_for"
  have id: "b_id b = bid" using find_Some_memD [OF f] by simp
  define d1 where "d1 = d\<lparr>commands := commands d @ [?c]\<rparr>"
  have dist: "distinct (map b_id (batches d1))" using db_wf_batch_ids [OF wf] by (simp add: d1_def)
  obtain b' d2 pl where ok: "command_ok ?c d"
    and u: "submit_draft (env_auto_now env) (b_id b) (act_organisation_id (md_actor m))
           (act_user_id (md_actor m)) (word_of_int (md_expected_version m)) now d1 = Inr (b', d2)"
    and pl: "request_submitted_payload (env_id env 1) (env_id env 0) b' (md_correlation_id m) = Inr pl"
    and r: "r = \<lparr>br_batch = batch_to_dto b', br_correlation_id = md_correlation_id m,
              br_event_id = env_id env 1, br_event_state = ''PENDING''\<rparr>"
    and fin: "complete_batch_command (env_id env 0) r now (d2\<lparr>
        audits := audits d2 @ [new_audit_event (env_id env 2) m (env_id env 0) b' ''RequestSubmitted''
                BatchStatusDraft BatchStatusSubmitted [(''operation'', ''SUBMIT'')] now],
        outbox := outbox d2 @ [new_outbox (env_id env 1) (env_id env 0) b' ''RequestSubmitted''
              ''ewaste.batch.events'' pl (md_correlation_id m) now]\<rparr>) = Inr ((), d')"
    using s unfolding submit_commit_tx_def Let_def d1_def by (auto simp: tx_success)
  define Q where "Q = (\<lambda>b :: batch. b_organization_id b = act_organisation_id (md_actor m) \<and>
        b_created_by b = act_user_id (md_actor m) \<and> b_status b = BatchStatusDraft \<and>
        b_version b = word_of_int (md_expected_version m))"
  let ?f = "\<lambda>b. submitted_batch env b now"
  obtain b0 where "find (\<lambda>x. b_id x = b_id b) (batches d1) = Some b0" "Q b0" "b' = ?f b0"
    and d2: "d2 = d1\<lparr>batches := tbl_update (\<lambda>x. b_id x = b_id b \<and> Q x) ?f (batches d1)\<rparr>"
    using u guarded_batch_update_Inr [OF dist, of ?f]
    unfolding submit_draft_def submitted_batch_def Q_def by auto
  then have b': "b' = ?b" and Q: "Q b" using f id by (auto simp: d1_def)
  have "d' = d\<lparr>commands := commands d @ [mark_completed 200 (encode_batch_result r) now ?c],
      batches := batches d2,
      audits := audits d @ [new_audit_event (env_id env 2) m (env_id env 0) ?b ''RequestSubmitted''
                BatchStatusDraft BatchStatusSubmitted [(''operation'', ''SUBMIT'')] now],
      outbox := outbox d @ [new_outbox (env_id env 1) (env_id env 0) ?b ''RequestSubmitted''
              ''ewaste.batch.events'' pl (md_correlation_id m) now]\<rparr>"
    using fin complete_batch_command_last [where c = ?c and cs = "commands d"] command_ok_no_clash [OF ok]
    by (auto simp: d2 d1_def b')
  moreover have "batch_moved BatchStatusDraft BatchStatusSubmitted b ?b d d'"
    by (rule batch_moved_update [where Q = Q and f = ?f and bid = bid])
      (use wf f Q dr id in \<open>auto simp: calculation d2 d1_def submitted_batch_def\<close>)
  ultimately show ?thesis
    using pl r unfolding transition_def command_added_def audit_added_def events_added_def
    by (auto simp: b' metadata_key_def routed_submitted)
qed

definition edited_batch :: "call_env \<Rightarrow> draft_request \<Rightarrow> batch \<Rightarrow> batch" where
  "edited_batch env request b =
     (apply_draft_to_batch b request)\<lparr>b_version := b_version b + 1, b_updated_at := env_auto_now env\<rparr>"

lemma submit_tx_cases:
  "submit_tx env bid m d = Inr (r, d') \<longleftrightarrow>
     recorded decode_batch_result m r d \<and> d' = d \<or>
     stored_command m d = None \<and>
     (\<exists>b. find (\<lambda>b. b_id b = bid) (batches d) = Some b \<and> owned_by_actor m b \<and> b_status b = BatchStatusDraft \<and>
          uint (b_version b) = md_expected_version m \<and> validate_stored_batch b (env_clock env 0) = Inr () \<and>
          submit_commit_tx env m b (env_clock env 0) d = Inr (r, d'))"
  unfolding submit_tx_def batch_replay_or_fresh by (auto simp: tx_success can_submit_def Let_def)

lemma submit_tx_outcome:
  assumes "db_wf d" "submit_tx env bid m d = Inr (r, d')"
  shows "recorded decode_batch_result m r d \<and> d' = d \<or>
    stored_command m d = None \<and>
    (\<exists>b e. b_id b = bid \<and> owned_by_actor m b \<and> uint (b_version b) = md_expected_version m \<and>
         validate_stored_batch b (env_clock env 0) = Inr () \<and>
         transition m (encode_batch_result r) BatchStatusDraft BatchStatusSubmitted b
           (submitted_batch env b (env_clock env 0)) [e] d d' \<and>
         o_event_type e = ''RequestSubmitted'' \<and>
         r = \<lparr>br_batch = batch_to_dto (submitted_batch env b (env_clock env 0)),
              br_correlation_id = md_correlation_id m, br_event_id = o_event_id e,
              br_event_state = ''PENDING''\<rparr>)"
proof -
  consider "recorded decode_batch_result m r d \<and> d' = d"
    | b where "stored_command m d = None" "find (\<lambda>b. b_id b = bid) (batches d) = Some b" "owned_by_actor m b"
      "b_status b = BatchStatusDraft" "uint (b_version b) = md_expected_version m"
      "validate_stored_batch b (env_clock env 0) = Inr ()"
      "submit_commit_tx env m b (env_clock env 0) d = Inr (r, d')"
    using assms(2) unfolding submit_tx_cases by blast
  then show ?thesis
  proof cases
    case 2
    have "b_id b = bid" using find_Some_memD [OF 2(2)] by simp
    then show ?thesis using 2 submit_commit_outcome [OF assms(1) 2(2,4,7)] by fastforce
  qed blast
qed

lemma edit_draft_tx_cases:
  "edit_draft_tx env bid req m d = Inr (r, d') \<longleftrightarrow>
     recorded decode_batch_result m r d \<and> d' = d \<or>
     stored_command m d = None \<and>
     (\<exists>b b' d2. find (\<lambda>b. b_id b = bid) (batches d) = Some b \<and> owned_by_actor m b \<and> b_status b = BatchStatusDraft \<and>
        uint (b_version b) = md_expected_version m \<and>
        command_ok (new_command (env_id env 0) m (b_id b) (env_clock env 1) retain_for) d \<and>
        update_draft (env_auto_now env) (b_id b) (act_organisation_id (md_actor m)) (act_user_id (md_actor m))
          (word_of_int (md_expected_version m)) (draft_changes req)
          (d\<lparr>commands := commands d @ [new_command (env_id env 0) m (b_id b) (env_clock env 1) retain_for]\<rparr>)
          = Inr (b', d2) \<and>
        audit_ok (new_audit_event (env_id env 1) m (env_id env 0) b' ''DraftSaved'' BatchStatusDraft
           BatchStatusDraft [(''operation'', ''EDIT'')] (env_clock env 1)) d2 \<and>
        r = \<lparr>br_batch = batch_to_dto b', br_correlation_id = md_correlation_id m,
             br_event_id = [], br_event_state = []\<rparr> \<and>
        complete_batch_command (env_id env 0) r (env_clock env 1)
          (d2\<lparr>audits := audits d2 @ [new_audit_event (env_id env 1) m (env_id env 0) b' ''DraftSaved''
             BatchStatusDraft BatchStatusDraft [(''operation'', ''EDIT'')] (env_clock env 1)]\<rparr>) = Inr ((), d'))"
  unfolding edit_draft_tx_def batch_replay_or_fresh
  by (simp add: tx_success can_edit_def Let_def) blast

lemma edit_draft_tx_outcome:
  assumes wf: "db_wf d" and s: "edit_draft_tx env bid req m d = Inr (r, d')"
  shows "recorded decode_batch_result m r d \<and> d' = d \<or>
    stored_command m d = None \<and>
    (\<exists>b. b_id b = bid \<and> owned_by_actor m b \<and> uint (b_version b) = md_expected_version m \<and>
         transition m (encode_batch_result r) BatchStatusDraft BatchStatusDraft b (edited_batch env req b) [] d d' \<and>
         r = \<lparr>br_batch = batch_to_dto (edited_batch env req b), br_correlation_id = md_correlation_id m,
              br_event_id = [], br_event_state = []\<rparr>)"
proof -
  consider "recorded decode_batch_result m r d \<and> d' = d"
    | b b' d2 where "stored_command m d = None" "find (\<lambda>b. b_id b = bid) (batches d) = Some b"
      "owned_by_actor m b" "b_status b = BatchStatusDraft" "uint (b_version b) = md_expected_version m"
      "command_ok (new_command (env_id env 0) m (b_id b) (env_clock env 1) retain_for) d"
      "update_draft (env_auto_now env) (b_id b) (act_organisation_id (md_actor m)) (act_user_id (md_actor m))
          (word_of_int (md_expected_version m)) (draft_changes req)
          (d\<lparr>commands := commands d @ [new_command (env_id env 0) m (b_id b) (env_clock env 1) retain_for]\<rparr>)
          = Inr (b', d2)"
      "r = \<lparr>br_batch = batch_to_dto b', br_correlation_id = md_correlation_id m,
             br_event_id = [], br_event_state = []\<rparr>"
      "complete_batch_command (env_id env 0) r (env_clock env 1)
          (d2\<lparr>audits := audits d2 @ [new_audit_event (env_id env 1) m (env_id env 0) b' ''DraftSaved''
             BatchStatusDraft BatchStatusDraft [(''operation'', ''EDIT'')] (env_clock env 1)]\<rparr>) = Inr ((), d')"
    using s unfolding edit_draft_tx_cases by blast
  then show ?thesis
  proof cases
    case 2
    let ?c = "new_command (env_id env 0) m (b_id b) (env_clock env 1) retain_for"
    define d1 where "d1 = d\<lparr>commands := commands d @ [?c]\<rparr>"
    have id: "b_id b = bid" using find_Some_memD [OF 2(2)] by simp
    have dist: "distinct (map b_id (batches d1))" using db_wf_batch_ids [OF wf] by (simp add: d1_def)
    define Q where "Q = (\<lambda>b :: batch. b_organization_id b = act_organisation_id (md_actor m) \<and>
        b_created_by b = act_user_id (md_actor m) \<and> b_status b = BatchStatusDraft \<and>
        b_version b = word_of_int (md_expected_version m))"
    let ?f = "\<lambda>b :: batch. (apply_changes (draft_changes req) b)\<lparr>b_version := b_version b + 1, b_updated_at := env_auto_now env\<rparr>"
    have fe: "?f b = edited_batch env req b" by (simp add: edited_batch_def apply_draft_to_batch_def)
    obtain b0 where "find (\<lambda>x. b_id x = b_id b) (batches d1) = Some b0" "Q b0" "b' = ?f b0"
      and d2: "d2 = d1\<lparr>batches := tbl_update (\<lambda>x. b_id x = b_id b \<and> Q x) ?f (batches d1)\<rparr>"
      using 2(7) guarded_batch_update_Inr [OF dist, of ?f] unfolding update_draft_def Q_def d1_def by auto
    then have b': "b' = ?f b" and Q: "Q b" using 2(2) id by (auto simp: d1_def)
    have d': "d' = d\<lparr>commands := commands d @ [mark_completed 200 (encode_batch_result r) (env_clock env 1) ?c],
        batches := batches d2,
        audits := audits d @ [new_audit_event (env_id env 1) m (env_id env 0) b' ''DraftSaved''
             BatchStatusDraft BatchStatusDraft [(''operation'', ''EDIT'')] (env_clock env 1)]\<rparr>"
      using 2(9) complete_batch_command_last [where c = ?c and cs = "commands d"] command_ok_no_clash [OF 2(6)]
      by (auto simp: d2 d1_def)
    have "batch_moved BatchStatusDraft BatchStatusDraft b (?f b) d d'"
      by (rule batch_moved_update [where Q = Q and f = ?f and bid = bid])
        (use wf 2(2,4) Q id in \<open>auto simp: d' d2 d1_def\<close>)
    then have "transition m (encode_batch_result r) BatchStatusDraft BatchStatusDraft b (?f b) [] d d'"
      unfolding transition_def command_added_def audit_added_def events_added_def
      by (auto simp: d' b' metadata_key_def)
    then show ?thesis using 2(1,3,5,8) id by (auto simp: b' fe)
  qed blast
qed

definition created_batch :: "call_env \<Rightarrow> draft_request \<Rightarrow> metadata \<Rightarrow> batch" where
  "created_batch env req m = apply_draft_to_batch (new_draft (env_id env 0) m (env_clock env 1)) req"

lemma created_batch_fields [simp]:
  "b_id (created_batch env req m) = env_id env 0" "b_status (created_batch env req m) = BatchStatusDraft"
  "b_version (created_batch env req m) = 1"
  by (simp_all add: created_batch_def apply_draft_to_batch_def new_draft_def)

lemma create_draft_tx_outcome:
  assumes s: "create_draft_tx env req m d = Inr (r, d')"
  shows "recorded decode_batch_result m r d \<and> d' = d \<or>
    stored_command m d = None \<and>
    find (\<lambda>b. b_id b = env_id env 0) (batches d) = None \<and> check_batch (created_batch env req m) \<and>
    batches d' = batches d @ [created_batch env req m] \<and> outbox d' = outbox d \<and>
    (\<exists>c. command_added m (encode_batch_result r) c d d' \<and>
         audit_added BatchStatusDraft BatchStatusDraft (created_batch env req m) c d d') \<and>
    r = \<lparr>br_batch = batch_to_dto (created_batch env req m), br_correlation_id = md_correlation_id m,
         br_event_id = [], br_event_state = []\<rparr>"
proof (cases "recorded decode_batch_result m r d \<and> d' = d")
  case False
  let ?b = "created_batch env req m" and ?c = "new_command (env_id env 1) m (env_id env 0) (env_clock env 1) retain_for"
  let ?a = "new_audit_event (env_id env 2) m (env_id env 1) ?b ''DraftSaved''
             BatchStatusDraft BatchStatusDraft [(''operation'', ''CREATE'')] (env_clock env 1)"
  have n: "apply_draft_to_batch (new_draft (env_id env 0) m (env_clock env 1)) req = ?b"
    by (simp add: created_batch_def)
  have 1: "stored_command m d = None" "\<not> tbl_clash b_id ?b (batches d)" "check_batch ?b"
    "command_ok ?c (d\<lparr>batches := batches d @ [?b]\<rparr>)"
    "r = \<lparr>br_batch = batch_to_dto ?b, br_correlation_id = md_correlation_id m,
         br_event_id = [], br_event_state = []\<rparr>"
    "complete_batch_command (env_id env 1) r (env_clock env 1)
       (d\<lparr>batches := batches d @ [?b], commands := commands d @ [?c], audits := audits d @ [?a]\<rparr>) = Inr ((), d')"
    using s False unfolding create_draft_tx_def batch_replay_or_fresh Let_def n by (auto simp: tx_success)
  have "d' = d\<lparr>batches := batches d @ [?b],
      commands := commands d @ [mark_completed 200 (encode_batch_result r) (env_clock env 1) ?c],
      audits := audits d @ [?a]\<rparr>"
    using 1(6) complete_batch_command_last [where c = ?c and cs = "commands d"] command_ok_no_clash [OF 1(4)]
    by auto
  then show ?thesis
    using 1 not_clash_find [OF 1(2)] by (auto simp: command_added_def audit_added_def metadata_key_def)
qed blast

section \<open>Contracts\<close>

context core_steps
begin

lemma batch_load_replay_steps: "steps R (batch_load_replay m)"
  unfolding batch_load_replay_def load_replay_with_def find_command_def
  by (intro core_rules)

lemma create_draft_tx_steps: "steps R (create_draft_tx env req m)"
  unfolding create_draft_tx_def complete_batch_command_def complete_command_def
  by (intro core_rules batch_load_replay_steps)

lemma edit_draft_tx_steps: "steps R (edit_draft_tx env bid req m)"
  unfolding edit_draft_tx_def find_batch_for_update_def complete_batch_command_def complete_command_def
  by (intro core_rules batch_load_replay_steps)

lemma submit_tx_steps: "steps R (submit_tx env bid m)"
  unfolding submit_tx_def submit_commit_tx_def find_batch_for_update_def complete_batch_command_def
    complete_command_def
  by (intro core_rules batch_load_replay_steps)

end

interpretation create_draft_replay: replay_contract
  "create_draft_tx env req" decode_batch_result "\<lambda>_ _. True" ErrBatchIdempotencyConflict for env req
proof
  fix d m r d' c
  show "create_draft_tx env req m d = Inr (r, d') \<Longrightarrow> recorded decode_batch_result m r d'"
    by (drule create_draft_tx_outcome) (auto intro: command_added_recorded [where decode = decode_batch_result, OF _ _ decode_encode_batch_result])
  show "recorded decode_batch_result m r d \<Longrightarrow> create_draft_tx env req m d = Inr (r, d)"
    by (simp add: create_draft_tx_def batch_replay_or_fresh)
  show "stored_command m d = Some c \<Longrightarrow> c_request_hash c \<noteq> md_request_hash m \<Longrightarrow>
        create_draft_tx env req m d = Inl ErrBatchIdempotencyConflict"
    by (simp add: create_draft_tx_def batch_load_replay_conflict)
qed

interpretation edit_draft_replay: replay_contract
  "edit_draft_tx env bid req" decode_batch_result "\<lambda>_ _. True" ErrBatchIdempotencyConflict for env bid req
proof
  fix d m r d' c
  show "db_wf d \<Longrightarrow> edit_draft_tx env bid req m d = Inr (r, d') \<Longrightarrow> recorded decode_batch_result m r d'"
    by (drule (1) edit_draft_tx_outcome) (auto intro: transition_recorded [where decode = decode_batch_result, OF _ _ decode_encode_batch_result])
  show "recorded decode_batch_result m r d \<Longrightarrow> edit_draft_tx env bid req m d = Inr (r, d)"
    by (simp add: edit_draft_tx_def batch_replay_or_fresh)
  show "stored_command m d = Some c \<Longrightarrow> c_request_hash c \<noteq> md_request_hash m \<Longrightarrow>
        edit_draft_tx env bid req m d = Inl ErrBatchIdempotencyConflict"
    by (simp add: edit_draft_tx_def batch_load_replay_conflict)
qed

interpretation submit_replay: replay_contract
  "submit_tx env bid" decode_batch_result "\<lambda>_ _. True" ErrBatchIdempotencyConflict for env bid
proof
  fix d m r d' c
  show "db_wf d \<Longrightarrow> submit_tx env bid m d = Inr (r, d') \<Longrightarrow> recorded decode_batch_result m r d'"
    by (drule (1) submit_tx_outcome) (auto intro: transition_recorded [where decode = decode_batch_result, OF _ _ decode_encode_batch_result])
  show "recorded decode_batch_result m r d \<Longrightarrow> submit_tx env bid m d = Inr (r, d)"
    by (simp add: submit_tx_def batch_replay_or_fresh)
  show "stored_command m d = Some c \<Longrightarrow> c_request_hash c \<noteq> md_request_hash m \<Longrightarrow>
        submit_tx env bid m d = Inl ErrBatchIdempotencyConflict"
    by (simp add: submit_tx_def batch_load_replay_conflict)
qed

end
