(* ===== verification/ClaimService.thy ===== *)
theory ClaimService
  imports BatchService
begin

text \<open>
  \<open>internal/service/claim.go\<close>: a recycler claims a matched batch.  \<open>claim_tx\<close> is the body of the
  transaction and \<open>claim\<close> the handler around it: replay before the lease, the lease, the
  transaction, and after a failure the replay again, so that the loser of a race is answered with
  what the winner committed.  The renewal goroutine enters as its outcome (\<open>renewal\<close>): it never
  failed, it lost the lease before the commit (the transaction is cancelled), or it lost it when
  the commit had already happened.
\<close>

record claim_request =
  cq_expected_version :: int
  cq_claim_epoch :: string
  cq_notes :: "string option"

record claim_result =
  cr_batch_id :: string
  cr_status :: string
  cr_version :: int
  cr_claim_epoch :: string
  cr_claim_id :: string
  cr_reservation_id :: string
  cr_event_id :: string
  cr_event_state :: string
  cr_correlation_id :: string

definition encode_claim_result :: "claim_result \<Rightarrow> json" where
  "encode_claim_result r =
     JObj [(''batch_id'', JStr (cr_batch_id r)), (''status'', JStr (cr_status r)),
           (''version'', JInt (cr_version r)), (''claim_epoch'', JStr (cr_claim_epoch r)),
           (''claim_id'', JStr (cr_claim_id r)), (''reservation_id'', JStr (cr_reservation_id r)),
           (''event_id'', JStr (cr_event_id r)), (''event_state'', JStr (cr_event_state r)),
           (''correlation_id'', JStr (cr_correlation_id r))]"

definition decode_claim_result :: "json \<Rightarrow> claim_result option" where
  "decode_claim_result j = do {
     b \<leftarrow> dec_str ''batch_id'' j; s \<leftarrow> dec_str ''status'' j; v \<leftarrow> dec_int ''version'' j;
     ep \<leftarrow> dec_str ''claim_epoch'' j; ci \<leftarrow> dec_str ''claim_id'' j; ri \<leftarrow> dec_str ''reservation_id'' j;
     ev \<leftarrow> dec_str ''event_id'' j; es \<leftarrow> dec_str ''event_state'' j; co \<leftarrow> dec_str ''correlation_id'' j;
     Some \<lparr>cr_batch_id = b, cr_status = s, cr_version = v, cr_claim_epoch = ep, cr_claim_id = ci,
       cr_reservation_id = ri, cr_event_id = ev, cr_event_state = es, cr_correlation_id = co\<rparr> }"

lemma decode_encode_claim_result [simp]: "decode_claim_result (encode_claim_result r) = Some r"
  by (simp add: decode_claim_result_def encode_claim_result_def dec_defs)

section \<open>Checks before the transaction\<close>

definition require_recycler :: "metadata \<Rightarrow> error + unit" where
  "require_recycler m =
     (if act_user_id (md_actor m) = [] \<or> act_organisation_id (md_actor m) = [] then Inl ErrClaimForbidden
      else if \<not> equal_fold (trim_space (act_role_code (md_actor m))) ''RECYCLER'' then Inl ErrClaimForbidden
      else if md_correlation_id m = [] then Inl ErrClaimValidation
      else Inr ())"

definition validate_claim_request :: "claim_request \<Rightarrow> int \<Rightarrow> error + 64 word" where
  "validate_claim_request request expected =
     (if expected < 1 \<or> cq_expected_version request \<noteq> expected then Inl ErrClaimValidation
      else if cq_claim_epoch request = [] then Inl ErrClaimValidation
      else if \<not> list_all is_digit (cq_claim_epoch request) then Inl ErrClaimValidation
      else (case parse_uint64 (cq_claim_epoch request) of
              None \<Rightarrow> Inl ErrClaimValidation
            | Some epoch \<Rightarrow>
                if epoch = 0 then Inl ErrClaimValidation
                else if (case cq_notes request of None \<Rightarrow> False | Some n \<Rightarrow> rune_count n > 255)
                then Inl ErrClaimValidation
                else Inr epoch))"

definition prepare_claim_metadata ::
  "call_env \<Rightarrow> metadata \<Rightarrow> string \<Rightarrow> 64 word \<Rightarrow> string option \<Rightarrow> error + metadata"
where
  "prepare_claim_metadata env m batch_id epoch notes =
     (let m = m\<lparr>md_actor_scope := canonical_actor_scope (md_actor m), md_command_name := ''ClaimOpportunity''\<rparr> in
      if \<not> valid_key (md_idempotency_key m) then Inl ErrClaimValidation
      else
        let m = m\<lparr>md_request_hash := env_sha256 env (JObj
                  [(''actor_scope'', JStr (md_actor_scope m)), (''batch_id'', JStr batch_id),
                   (''expected_version'', JInt (md_expected_version m)),
                   (''claim_epoch'', JStr (format_uint64 epoch)), (''notes'', json_opt JStr notes)])\<rparr> in
        case metadata_validate m of Inl e \<Rightarrow> Inl e | Inr _ \<Rightarrow> Inr m)"

definition map_claim_repository_error :: "error \<Rightarrow> error" where
  "map_claim_repository_error e =
     (if errors_is e (ClaimRepoErr RepoClaimBatchNotFound) \<or> errors_is e (ClaimRepoErr RepoClaimOpportunityNotFound)
      then ErrClaimOpportunityNotFound
      else if errors_is e (ClaimRepoErr RepoClaimActorNotEligible) then ErrClaimForbidden
      else if errors_is e (ClaimRepoErr RepoClaimConcurrency) then ErrClaimConcurrent
      else e)"

definition claim_confirmed_payload :: "string \<Rightarrow> string \<Rightarrow> batch \<Rightarrow> claim \<Rightarrow> string \<Rightarrow> json" where
  "claim_confirmed_payload event_id command_id b c correlation_id =
     JObj [(''event_id'', JStr event_id), (''event_type'', JStr ''ClaimConfirmed''),
           (''schema_version'', JInt 1), (''command_id'', JStr command_id), (''batch_id'', JStr (b_id b)),
           (''batch_version'', JInt (uint (b_version b))),
           (''claim_epoch'', JStr (format_uint64 (b_claim_epoch b))), (''sequence_in_command'', JInt 1),
           (''occurred_at'', contract_timestamp (cl_claimed_at c)), (''correlation_id'', JStr correlation_id),
           (''data'', JObj [(''claim_id'', JStr (cl_id c)), (''recycler_org_id'', JStr (cl_recycler_org_id c)),
             (''actor_user_id'', JStr (cl_claimed_by c)), (''claimed_at'', contract_timestamp (cl_claimed_at c))])]"

lemma routed_claim_confirmed:
  "routed (new_outbox i c b ''ClaimConfirmed'' ''ewaste.claim.events''
     (claim_confirmed_payload i c b cl co) co (cl_claimed_at cl))"
  unfolding claim_confirmed_payload_def by (rule routed_workflow) (simp_all add: routing_defs)

section \<open>The transaction\<close>

definition claim_load_replay :: "metadata \<Rightarrow> claim_result option dbtx" where
  "claim_load_replay m =
     load_replay_with (claim_find_command (md_actor_scope m) (md_command_name m) (md_idempotency_key m))
       (ClaimRepoErr RepoClaimCommandNotFound) ErrClaimIdempotencyConflict ErrClaimInProgress
       (PlainError ''claim: decode replay response'') decode_claim_result m"

definition claim_resolve_replay :: "metadata \<Rightarrow> claim_result option dbtx" where
  "claim_resolve_replay m =
     tx_bind (claim_validate_recycler_actor (act_user_id (md_actor m)) (act_organisation_id (md_actor m)))
       (\<lambda>_. claim_load_replay m)"

definition new_claim :: "call_env \<Rightarrow> metadata \<Rightarrow> claim_request \<Rightarrow> 64 word \<Rightarrow> string \<Rightarrow> int \<Rightarrow> claim" where
  "new_claim env m request epoch batch_id now =
     \<lparr>cl_id = env_id env 1, cl_batch_id = batch_id, cl_epoch = epoch,
      cl_recycler_org_id = act_organisation_id (md_actor m), cl_claimed_by = act_user_id (md_actor m),
      cl_status = ''ACCEPTED'', cl_idempotency_key = md_idempotency_key m, cl_claimed_at = now,
      cl_superseded_at = None, cl_notes = cq_notes request, cl_created_at = now\<rparr>"

definition new_reservation :: "call_env \<Rightarrow> string \<Rightarrow> string \<Rightarrow> string \<Rightarrow> string \<Rightarrow> int \<Rightarrow> reservation" where
  "new_reservation env batch_id claim_id pool_id weight_kg now =
     \<lparr>r_id = env_id env 2, r_batch_id = batch_id, r_claim_id = claim_id, r_pool_id = pool_id,
      r_reserved_kg = weight_kg, r_status = ''RESERVED'', r_reserved_at = now, r_released_at = None,
      r_release_reason = None, r_release_command_id = None, r_version = 1\<rparr>"

text \<open>From the lock of the pool to the completed command.\<close>

definition claim_record_tx ::
  "call_env \<Rightarrow> metadata \<Rightarrow> batch \<Rightarrow> string \<Rightarrow> claim_match \<Rightarrow> claim \<Rightarrow> reservation \<Rightarrow> batch \<Rightarrow> int \<Rightarrow> claim_result dbtx"
where
  "claim_record_tx env m b command_id mt c rv approved now =
     (let audit = (new_audit_event (env_id env 3) m command_id approved ''ClaimConfirmed''
                     BatchStatusMatched BatchStatusApproved
                     [(''decision_id'', cm_decision_id mt), (''matched_result_id'', cm_matched_result_id mt),
                      (''reservation_id'', r_id rv), (''capacity_pool_id'', cm_pool_id mt),
                      (''result'', ''ACCEPTED'')] now)\<lparr>au_claim_id := Some (cl_id c)\<rparr>;
          event_id = env_id env 4;
          payload = claim_confirmed_payload event_id command_id approved c (md_correlation_id m);
          result = \<lparr>cr_batch_id = b_id approved, cr_status = status_string (b_status approved),
                    cr_version = uint (b_version approved),
                    cr_claim_epoch = format_uint64 (b_claim_epoch approved), cr_claim_id = cl_id c,
                    cr_reservation_id = r_id rv, cr_event_id = event_id,
                    cr_event_state = publish_state_string OutboxPending,
                    cr_correlation_id = md_correlation_id m\<rparr>
      in tx_bind (append_audit audit) (\<lambda>_.
         tx_bind (enqueue_outbox (new_outbox event_id command_id approved ''ClaimConfirmed''
                   ''ewaste.claim.events'' payload (md_correlation_id m) now)) (\<lambda>_.
         tx_bind (claim_complete_command command_id 200 (encode_claim_result result) now) (\<lambda>_.
         tx_return result))))"

definition claim_allocate_tx ::
  "call_env \<Rightarrow> claim_request \<Rightarrow> 64 word \<Rightarrow> metadata \<Rightarrow> batch \<Rightarrow> string \<Rightarrow> claim_match \<Rightarrow> claim_result dbtx"
where
  "claim_allocate_tx env request epoch m b weight mt =
     tx_bind (tx_map_err (\<lambda>_. Wrapped ErrClaimValidation ''invalid stored batch weight'')
               (tx_lift (normalize_stored_weight weight))) (\<lambda>weight_kg.
     tx_bind (lock_capacity_pool (cm_pool_id mt) (act_organisation_id (md_actor m))) (\<lambda>_.
     let now = truncate_us (env_clock env 1) in
     tx_bind (tx_map_err (\<lambda>_. ErrClaimCapacity)
        (reserve_capacity (cm_pool_id mt) (act_organisation_id (md_actor m)) weight_kg now)) (\<lambda>_.
     let c = new_claim env m request epoch (b_id b) now;
         rv = new_reservation env (b_id b) (cl_id c) (cm_pool_id mt) weight_kg now in
     tx_bind (create_claim c) (\<lambda>_.
     tx_bind (create_reservation rv) (\<lambda>_.
     tx_bind (approve_batch (b_id b) epoch (word_of_int (md_expected_version m)) (cl_id c) now) (\<lambda>approved.
     claim_record_tx env m b (env_id env 0) mt c rv approved now))))))"

definition claim_tx ::
  "call_env \<Rightarrow> string \<Rightarrow> claim_request \<Rightarrow> 64 word \<Rightarrow> metadata \<Rightarrow> claim_result dbtx"
where
  "claim_tx env batch_id request epoch m =
     tx_bind (claim_validate_recycler_actor (act_user_id (md_actor m)) (act_organisation_id (md_actor m))) (\<lambda>_.
     tx_bind (claim_load_replay m) (\<lambda>replay. case replay of
       Some r \<Rightarrow> tx_return r
     | None \<Rightarrow>
         tx_bind (claim_find_batch_for_update batch_id) (\<lambda>b.
         tx_bind (claim_key_exists (md_idempotency_key m)) (\<lambda>used.
         tx_bind (tx_guard (\<not> used) ErrClaimIdempotencyConflict) (\<lambda>_.
         tx_bind (tx_guard (b_version b = word_of_int (md_expected_version m) \<and> b_claim_epoch b = epoch)
                   ErrClaimStaleVersion) (\<lambda>_.
         tx_bind (tx_guard (b_status b = BatchStatusMatched \<and> b_claim_id b = None) ErrClaimInvalidState) (\<lambda>_.
         tx_bind (tx_some (b_weight b) ErrClaimValidation) (\<lambda>weight.
         tx_bind (tx_guard (b_deadline b \<noteq> None) ErrClaimValidation) (\<lambda>_.
         tx_bind (create_command (new_command (env_id env 0) m (b_id b) (env_clock env 0) retain_for)) (\<lambda>_.
         tx_bind (tx_map_err (\<lambda>e. if errors_is e (ClaimRepoErr RepoClaimOpportunityNotFound)
                                  then ErrClaimOpportunityNotFound else e)
            (find_eligible_match (env_db_now env) b (act_organisation_id (md_actor m)))) (\<lambda>mt.
         claim_allocate_tx env request epoch m b weight mt)))))))))))"

section \<open>The handler\<close>

datatype renewal = RenewalsOk | LeaseLostAborted | LeaseLostCommitted

datatype lease_outcome = LeaseMissing | LeaseBusy | LeaseUnavailable | LeaseHeld renewal

definition context_canceled :: error where
  "context_canceled = PlainError ''context canceled''"

definition claim_attempt ::
  "call_env \<Rightarrow> renewal \<Rightarrow> string \<Rightarrow> claim_request \<Rightarrow> 64 word \<Rightarrow> metadata \<Rightarrow> db \<Rightarrow> (error + claim_result) \<times> db"
where
  "claim_attempt env ren batch_id request epoch m d =
     (let (res, d') = (if ren = LeaseLostAborted then (Inl context_canceled, d)
                       else run_tx (claim_tx env batch_id request epoch m) d);
          lost = (case res of Inr _ \<Rightarrow> True | Inl e \<Rightarrow> errors_is e context_canceled)
      in if ren \<noteq> RenewalsOk \<and> lost
         then (Inl (Wrapped ErrClaimLeaseUnavailable ''lease: lost''), d') else (res, d'))"

definition claim ::
  "call_env \<Rightarrow> lease_outcome \<Rightarrow> string \<Rightarrow> claim_request \<Rightarrow> metadata \<Rightarrow> db \<Rightarrow> (error + claim_result) \<times> db"
where
  "claim env lease batch_id request m d =
     (case require_recycler m of Inl e \<Rightarrow> (Inl e, d) | Inr _ \<Rightarrow>
     (case validate_claim_request request (md_expected_version m) of Inl e \<Rightarrow> (Inl e, d) | Inr epoch \<Rightarrow>
     (case prepare_claim_metadata env m batch_id epoch (cq_notes request) of Inl e \<Rightarrow> (Inl e, d) | Inr m \<Rightarrow>
     (case claim_resolve_replay m d of Inl e \<Rightarrow> (Inl e, d)
      | Inr (Some r, _) \<Rightarrow> (Inr r, d)
      | Inr (None, _) \<Rightarrow>
     (case lease of
        LeaseMissing \<Rightarrow> (Inl ErrClaimLeaseUnavailable, d)
      | LeaseBusy \<Rightarrow> (Inl ErrClaimConcurrent, d)
      | LeaseUnavailable \<Rightarrow> (Inl ErrClaimLeaseUnavailable, d)
      | LeaseHeld ren \<Rightarrow>
          (case claim_attempt env ren batch_id request epoch m (env_others env 0 d) of
             (Inr r, d2) \<Rightarrow> (Inr r, d2)
           | (Inl e, d2) \<Rightarrow>
               let d3 = env_others env 1 d2 in
               (case claim_resolve_replay m d3 of
                  Inl e' \<Rightarrow> (Inl e', d3)
                | Inr (Some r, _) \<Rightarrow> (Inr r, d3)
                | Inr (None, _) \<Rightarrow> (Inl (map_claim_repository_error e), d3))))))))"

section \<open>What a claim does\<close>

lemma claim_find_command_eq:
  "claim_find_command (md_actor_scope m) (md_command_name m) (md_idempotency_key m)
   = tx_first commands (\<lambda>c. command_key c = metadata_key m) (ClaimRepoErr RepoClaimCommandNotFound)"
  by (simp add: claim_find_command_def metadata_key_def)

lemma claim_replay_or_fresh:
  "tx_bind (claim_load_replay m) (\<lambda>replay. case replay of None \<Rightarrow> body | Some r \<Rightarrow> tx_return r) d = Inr (r, d')
   \<longleftrightarrow> recorded decode_claim_result m r d \<and> d' = d \<or> stored_command m d = None \<and> body d = Inr (r, d')"
  unfolding claim_load_replay_def by (rule replay_or_fresh [OF claim_find_command_eq]) simp

lemma claim_load_replay_conflict:
  "stored_command m d = Some c \<Longrightarrow> c_request_hash c \<noteq> md_request_hash m \<Longrightarrow>
   claim_load_replay m d = Inl ErrClaimIdempotencyConflict"
  unfolding claim_load_replay_def by (rule load_replay_conflict [OF claim_find_command_eq]) simp_all

lemma claim_load_replay_recorded [tx_success]:
  "claim_load_replay m d = Inr (Some r, d') \<longleftrightarrow> recorded decode_claim_result m r d \<and> d' = d"
  unfolding claim_load_replay_def by (rule load_replay_recorded [OF claim_find_command_eq]) simp

lemma claim_load_replay_fresh [tx_success]:
  "claim_load_replay m d = Inr (None, d') \<longleftrightarrow> stored_command m d = None \<and> d' = d"
  unfolding claim_load_replay_def by (rule load_replay_fresh [OF claim_find_command_eq]) simp

definition approved_batch :: "string \<Rightarrow> int \<Rightarrow> batch \<Rightarrow> batch" where
  "approved_batch claim_id now b =
     b\<lparr>b_status := BatchStatusApproved, b_claim_id := Some claim_id, b_version := b_version b + 1,
       b_updated_at := now\<rparr>"

lemma claim_complete_last:
  assumes "commands d = cs @ [c]" "\<not> tbl_clash c_id c cs" "c_id c = cid" "c_state c = CommandStateInProgress"
  shows "claim_complete_command cid st j t d = Inr (u, d') \<longleftrightarrow>
         d' = d\<lparr>commands := cs @ [mark_completed st j t c]\<rparr>"
  unfolding claim_complete_command_def by (rule complete_last_command [OF assms])

text \<open>What a claim granted on \<open>b\<close> has allocated.\<close>

definition claim_allocated ::
  "call_env \<Rightarrow> claim_request \<Rightarrow> 64 word \<Rightarrow> metadata \<Rightarrow> batch \<Rightarrow> claim_match \<Rightarrow> string \<Rightarrow> db \<Rightarrow> db \<Rightarrow> bool"
where
  "claim_allocated env request epoch m b mt w d d' =
     (let now = truncate_us (env_clock env 1); c = new_claim env m request epoch (b_id b) now in
      claims d' = claims d @ [c] \<and> claim_ok c d \<and>
      reservations d' = reservations d @ [new_reservation env (b_id b) (cl_id c) (cm_pool_id mt) w now] \<and>
      (\<exists>d0 d1. pools d0 = pools d \<and> pools d1 = pools d' \<and>
         reserve_capacity (cm_pool_id mt) (act_organisation_id (md_actor m)) w now d0 = Inr ((), d1)) \<and>
      (\<exists>ms. eligible_matches (env_db_now env) b (act_organisation_id (md_actor m)) d = mt # ms))"

lemma result_supported_commands [simp]:
  "result_supported t b (d\<lparr>commands := cs\<rparr>) m = result_supported t b d m"
  by (simp add: result_supported_def)

lemma eligible_matches_commands [simp]:
  "eligible_matches t b g (d\<lparr>commands := cs\<rparr>) = eligible_matches t b g d"
  by (simp add: eligible_matches_def cong: if_cong)

lemma lock_capacity_pool_Inr [tx_success]:
  "lock_capacity_pool p g d = Inr (x, d') \<longleftrightarrow>
     find (\<lambda>x. p_id x = p \<and> p_recycler_org_id x = g) (pools d) = Some x \<and> d' = d"
  by (simp add: lock_capacity_pool_def tx_success)

lemma claim_find_batch_Inr [tx_success]:
  "claim_find_batch_for_update bid d = Inr (b, d') \<longleftrightarrow> find (\<lambda>b. b_id b = bid) (batches d) = Some b \<and> d' = d"
  by (simp add: claim_find_batch_for_update_def tx_success)

lemma claim_tx_fresh:
  assumes s: "claim_tx env bid request epoch m d = Inr (r, d')" and n: "\<not> (recorded decode_claim_result m r d \<and> d' = d)"
  shows "stored_command m d = None \<and>
    length (actor_rows ''RECYCLER'' ''PROCESSING_FACILITY'' (act_user_id (md_actor m)) (act_organisation_id (md_actor m)) d) = 1 \<and>
    (\<exists>b weight mt d1. find (\<lambda>b. b_id b = bid) (batches d) = Some b \<and>
       b_version b = word_of_int (md_expected_version m) \<and> b_claim_epoch b = epoch \<and>
       b_status b = BatchStatusMatched \<and> b_claim_id b = None \<and> b_weight b = Some weight \<and>
       command_ok (new_command (env_id env 0) m (b_id b) (env_clock env 0) retain_for) d \<and>
       d1 = d\<lparr>commands := commands d @ [new_command (env_id env 0) m (b_id b) (env_clock env 0) retain_for]\<rparr> \<and>
       (\<exists>ms. eligible_matches (env_db_now env) b (act_organisation_id (md_actor m)) d = mt # ms) \<and>
       claim_allocate_tx env request epoch m b weight mt d1 = Inr (r, d'))"
  using s n unfolding claim_tx_def
  unfolding tx_bind_Inr [of "claim_validate_recycler_actor u g" for u g] claim_replay_or_fresh
  by (auto simp: tx_success find_eligible_match_Inr)

lemma claim_allocate_tx_D:
  assumes "claim_allocate_tx env request epoch m b weight mt d = Inr (r, d')"
  defines "now \<equiv> truncate_us (env_clock env 1)"
  defines "c \<equiv> new_claim env m request epoch (b_id b) now"
  shows "\<exists>w d1 d2 approved rv. normalize_stored_weight weight = Inr w \<and>
     reserve_capacity (cm_pool_id mt) (act_organisation_id (md_actor m)) w now d = Inr ((), d1) \<and>
     claim_ok c d1 \<and> rv = new_reservation env (b_id b) (cl_id c) (cm_pool_id mt) w now \<and>
     approve_batch (b_id b) epoch (word_of_int (md_expected_version m)) (cl_id c) now
       (d1\<lparr>claims := claims d1 @ [c], reservations := reservations d1 @ [rv]\<rparr>) = Inr (approved, d2) \<and>
     claim_record_tx env m b (env_id env 0) mt c rv approved now d2 = Inr (r, d')"
  using assms unfolding claim_allocate_tx_def Let_def by (auto simp: tx_success)

lemma claim_record_tx_D:
  assumes "claim_record_tx env m b cid mt c rv ap now d = Inr (r, d')"
    and "commands d = cs @ [co]" "\<not> tbl_clash c_id co cs" "c_id co = cid" "c_state co = CommandStateInProgress"
  shows "\<exists>e. r = \<lparr>cr_batch_id = b_id ap, cr_status = status_string (b_status ap),
       cr_version = uint (b_version ap), cr_claim_epoch = format_uint64 (b_claim_epoch ap), cr_claim_id = cl_id c,
       cr_reservation_id = r_id rv, cr_event_id = env_id env 4, cr_event_state = ''PENDING'',
       cr_correlation_id = md_correlation_id m\<rparr> \<and>
     e = new_outbox (env_id env 4) cid ap ''ClaimConfirmed'' ''ewaste.claim.events''
       (claim_confirmed_payload (env_id env 4) cid ap c (md_correlation_id m)) (md_correlation_id m) now \<and>
     d' = d\<lparr>commands := cs @ [mark_completed 200 (encode_claim_result r) now co], outbox := outbox d @ [e],
       audits := audits d @ [(new_audit_event (env_id env 3) m cid ap ''ClaimConfirmed''
                     BatchStatusMatched BatchStatusApproved
                     [(''decision_id'', cm_decision_id mt), (''matched_result_id'', cm_matched_result_id mt),
                      (''reservation_id'', r_id rv), (''capacity_pool_id'', cm_pool_id mt),
                      (''result'', ''ACCEPTED'')] now)\<lparr>au_claim_id := Some (cl_id c)\<rparr>]\<rparr>"
  using assms(1) assms(2) claim_complete_last [OF _ assms(3-5)]
  unfolding claim_record_tx_def Let_def by (auto simp: tx_success)

lemma claim_tx_outcome:
  assumes wf: "db_wf d" and s: "claim_tx env bid request epoch m d = Inr (r, d')"
  shows "recorded decode_claim_result m r d \<and> d' = d \<or>
    stored_command m d = None \<and>
    (\<exists>b mt w e. b_id b = bid \<and> b_version b = word_of_int (md_expected_version m) \<and> b_claim_epoch b = epoch \<and>
       transition m (encode_claim_result r) BatchStatusMatched BatchStatusApproved b
         (approved_batch (env_id env 1) (truncate_us (env_clock env 1)) b) [e] d d' \<and>
       o_event_type e = ''ClaimConfirmed'' \<and> claim_allocated env request epoch m b mt w d d' \<and>
       cr_batch_id r = bid \<and> cr_claim_id r = env_id env 1 \<and> cr_reservation_id r = env_id env 2 \<and>
       cr_event_id r = o_event_id e \<and> cr_version r = uint (b_version b + 1))"
proof (cases "recorded decode_claim_result m r d \<and> d' = d")
  case False
  obtain b weight mt ms where st: "stored_command m d = None" and f: "find (\<lambda>b. b_id b = bid) (batches d) = Some b"
    and g: "b_version b = word_of_int (md_expected_version m)" "b_claim_epoch b = epoch"
      "b_status b = BatchStatusMatched" "b_claim_id b = None"
    and co: "command_ok (new_command (env_id env 0) m (b_id b) (env_clock env 0) retain_for) d"
    and mt: "eligible_matches (env_db_now env) b (act_organisation_id (md_actor m)) d = mt # ms"
    and al: "claim_allocate_tx env request epoch m b weight mt
       (d\<lparr>commands := commands d @ [new_command (env_id env 0) m (b_id b) (env_clock env 0) retain_for]\<rparr>) = Inr (r, d')"
    using claim_tx_fresh [OF s False] by auto
  define now where "now = truncate_us (env_clock env 1)"
  define c where "c = new_claim env m request epoch (b_id b) now"
  define cmd where "cmd = new_command (env_id env 0) m (b_id b) (env_clock env 0) retain_for"
  define d0 where "d0 = d\<lparr>commands := commands d @ [cmd]\<rparr>"
  obtain w d1 d2 ap rv where rs: "reserve_capacity (cm_pool_id mt) (act_organisation_id (md_actor m)) w now d0 = Inr ((), d1)"
    and cok: "claim_ok c d1" and rv: "rv = new_reservation env (b_id b) (cl_id c) (cm_pool_id mt) w now"
    and ab: "approve_batch (b_id b) epoch (word_of_int (md_expected_version m)) (cl_id c) now
       (d1\<lparr>claims := claims d1 @ [c], reservations := reservations d1 @ [rv]\<rparr>) = Inr (ap, d2)"
    and rec: "claim_record_tx env m b (env_id env 0) mt c rv ap now d2 = Inr (r, d')"
    using claim_allocate_tx_D [OF al] unfolding now_def c_def d0_def cmd_def by blast
  have id: "b_id b = bid" using find_Some_memD [OF f] by simp
  have d1: "d1 = d0\<lparr>pools := pools d1\<rparr>" using reserve_capacity_D(1) [OF rs] by simp
  have t1: "batches d1 = batches d" "commands d1 = commands d @ [cmd]" "claims d1 = claims d"
    "reservations d1 = reservations d" "audits d1 = audits d" "outbox d1 = outbox d"
    by (subst d1, simp add: d0_def)+
  let ?Q = "\<lambda>b :: batch. b_status b = BatchStatusMatched \<and> b_claim_id b = None \<and> b_claim_epoch b = epoch \<and>
            b_version b = word_of_int (md_expected_version m)"
  let ?f = "approved_batch (cl_id c) now"
  have ab': "guarded_batch_update (b_id b) ?Q ?f (ClaimRepoErr RepoClaimConcurrency)
       (d1\<lparr>claims := claims d1 @ [c], reservations := reservations d1 @ [rv]\<rparr>) = Inr (ap, d2)"
    using ab unfolding approve_batch_def approved_batch_def [abs_def] .
  have "distinct (map b_id (batches d))" by (rule db_wf_batch_ids [OF wf])
  then have ap: "ap = ?f b" and d2: "d2 = d1\<lparr>claims := claims d @ [c], reservations := reservations d @ [rv],
      batches := tbl_update (\<lambda>x. b_id x = b_id b \<and> ?Q x) ?f (batches d)\<rparr>"
    using ab' f id by (auto simp: guarded_batch_update_Inr t1 approved_batch_def)
  have c2: "commands d2 = commands d @ [cmd]" "outbox d2 = outbox d" "audits d2 = audits d" "claims d2 = claims d @ [c]"
    "reservations d2 = reservations d @ [rv]" "pools d2 = pools d1"
    by (simp_all add: d2 t1)
  have cl: "\<not> tbl_clash c_id cmd (commands d)" "c_id cmd = env_id env 0" "c_state cmd = CommandStateInProgress"
    using command_ok_no_clash [OF co] by (simp_all add: cmd_def)
  define e where "e = new_outbox (env_id env 4) (env_id env 0) ap ''ClaimConfirmed'' ''ewaste.claim.events''
       (claim_confirmed_payload (env_id env 4) (env_id env 0) ap c (md_correlation_id m)) (md_correlation_id m) now"
  note R = claim_record_tx_D [OF rec c2(1) cl]
  have d': "commands d' = commands d @ [mark_completed 200 (encode_claim_result r) now cmd]"
     "outbox d' = outbox d @ [e]" "claims d' = claims d @ [c]" "reservations d' = reservations d @ [rv]"
     "pools d' = pools d1" "batches d' = batches d2"
     "\<exists>a. audits d' = audits d @ [a] \<and> au_command_id a = env_id env 0 \<and> au_batch_id a = b_id ap \<and>
        au_from_status a = BatchStatusMatched \<and> au_to_status a = BatchStatusApproved \<and> au_batch_version a = b_version ap"
    using R by (auto simp: c2 e_def)
  have rt: "routed e"
    using routed_claim_confirmed [of "env_id env 4" "env_id env 0" ap c] by (simp add: e_def c_def new_claim_def)
  have "batch_moved BatchStatusMatched BatchStatusApproved b (?f b) d d'"
    by (rule batch_moved_update [where Q = ?Q and f = ?f and bid = bid])
      (use wf f g id in \<open>auto simp: d' d2 approved_batch_def\<close>)
  then have tr: "transition m (encode_claim_result r) BatchStatusMatched BatchStatusApproved b ap [e] d d'"
    unfolding transition_def command_added_def audit_added_def events_added_def ap
    using d' rt [unfolded e_def ap] by (auto simp: ap cmd_def metadata_key_def e_def)
  have "claim_allocated env request epoch m b mt w d d'"
    unfolding claim_allocated_def Let_def now_def [symmetric] c_def [symmetric]
    using d' cok rs mt rv d1 by (auto simp: claim_ok_def t1 d0_def intro: exI [of _ d0])
  moreover have "cr_batch_id r = bid" "cr_claim_id r = env_id env 1" "cr_reservation_id r = env_id env 2"
    "cr_event_id r = o_event_id e" "cr_version r = uint (b_version b + 1)" "o_event_type e = ''ClaimConfirmed''"
    using R id ap by (auto simp: e_def c_def rv new_claim_def new_reservation_def approved_batch_def new_outbox_def)
  moreover have "transition m (encode_claim_result r) BatchStatusMatched BatchStatusApproved b
         (approved_batch (env_id env 1) (truncate_us (env_clock env 1)) b) [e] d d'"
    using tr unfolding ap now_def by (simp add: c_def new_claim_def)
  ultimately show ?thesis using st g id by blast
qed blast

section \<open>Contracts\<close>

context workflow_steps
begin

lemma claim_validate_actor_steps: "steps R (claim_validate_recycler_actor u g)"
  unfolding claim_validate_recycler_actor_def by (intro workflow_rules)

lemma claim_load_replay_steps: "steps R (claim_load_replay m)"
  unfolding claim_load_replay_def load_replay_with_def claim_find_command_def by (intro workflow_rules)

lemma find_eligible_match_steps: "steps R (find_eligible_match t b g)"
  by (auto simp: steps_def find_eligible_match_Inr step_refl)

lemma claim_tx_steps: "steps R (claim_tx env bid request epoch m)"
  unfolding claim_tx_def claim_allocate_tx_def claim_record_tx_def Let_def claim_find_batch_for_update_def
    claim_key_exists_def lock_capacity_pool_def claim_complete_command_def
  by (intro workflow_rules claim_load_replay_steps claim_validate_actor_steps find_eligible_match_steps)

lemma claim_attempt_steps: "R d (snd (claim_attempt env ren bid request epoch m d))"
  by (auto simp: claim_attempt_def Let_def case_prod_beta intro: step_refl run_tx_steps [OF claim_tx_steps])

end

interpretation claim_replay: replay_contract
  "claim_tx env bid request epoch" decode_claim_result
  "\<lambda>m d. length (actor_rows ''RECYCLER'' ''PROCESSING_FACILITY'' (act_user_id (md_actor m))
                   (act_organisation_id (md_actor m)) d) = 1"
  ErrClaimIdempotencyConflict for env bid request epoch
proof
  fix d m r d' c
  show "db_wf d \<Longrightarrow> claim_tx env bid request epoch m d = Inr (r, d') \<Longrightarrow> recorded decode_claim_result m r d'"
    by (drule (1) claim_tx_outcome)
      (auto intro: transition_recorded [where decode = decode_claim_result, OF _ _ decode_encode_claim_result])
  assume a: "length (actor_rows ''RECYCLER'' ''PROCESSING_FACILITY'' (act_user_id (md_actor m))
                   (act_organisation_id (md_actor m)) d) = 1"
  then have v: "claim_validate_recycler_actor (act_user_id (md_actor m)) (act_organisation_id (md_actor m)) d = Inr ((), d)"
    by (simp add: tx_success)
  show "recorded decode_claim_result m r d \<Longrightarrow> claim_tx env bid request epoch m d = Inr (r, d)"
    using v by (simp add: claim_tx_def claim_replay_or_fresh)
  show "stored_command m d = Some c \<Longrightarrow> c_request_hash c \<noteq> md_request_hash m \<Longrightarrow>
        claim_tx env bid request epoch m d = Inl ErrClaimIdempotencyConflict"
    using v by (simp add: claim_tx_def claim_load_replay_conflict)
qed

section \<open>The handler, under interleaving\<close>

lemma claim_resolve_replay_Inr:
  "claim_resolve_replay m d = Inr (Some r, d') \<longleftrightarrow>
   length (actor_rows ''RECYCLER'' ''PROCESSING_FACILITY'' (act_user_id (md_actor m)) (act_organisation_id (md_actor m)) d) = 1 \<and>
   recorded decode_claim_result m r d \<and> d' = d"
  by (auto simp: claim_resolve_replay_def tx_success)

lemma claim_attempt_recorded:
  assumes "db_wf d" "claim_attempt env ren bid request epoch m d = (Inr r, d')"
  shows "recorded decode_claim_result m r d'"
  using assms claim_replay.commit [of d env bid request epoch m r d']
  by (auto simp: claim_attempt_def Let_def run_tx_def split: sum.splits prod.splits if_splits)

lemma claim_attempt_rolled_back:
  assumes "claim_attempt env ren bid request epoch m d = (Inl e, d')" "ren \<noteq> LeaseLostCommitted"
  shows "d' = d"
  using assms by (cases ren) (auto simp: claim_attempt_def Let_def run_tx_def split: sum.splits prod.splits if_splits)

text \<open>Every answer of the handler is the committed response of its command.\<close>

lemma claim_answer_recorded:
  assumes wf: "db_wf d" "\<forall>i e. db_wf e \<longrightarrow> db_wf (env_others env i e)"
    and c: "claim env lease bid request m d = (Inr r, d')"
  shows "\<exists>epoch pm. validate_claim_request request (md_expected_version m) = Inr epoch \<and>
     prepare_claim_metadata env m bid epoch (cq_notes request) = Inr pm \<and> recorded decode_claim_result pm r d'"
proof -
  obtain epoch pm where e: "validate_claim_request request (md_expected_version m) = Inr epoch"
    and p: "prepare_claim_metadata env m bid epoch (cq_notes request) = Inr pm"
    using c by (auto simp: claim_def split: sum.splits)
  have "recorded decode_claim_result pm r d'"
    using c e p wf
    by (auto simp: claim_def Let_def claim_resolve_replay_Inr
        split: sum.splits option.splits lease_outcome.splits prod.splits intro: claim_attempt_recorded)
  then show ?thesis using e p by blast
qed

end
