(* ===== verification/AssignmentService.thy ===== *)
theory AssignmentService
  imports ClaimService
begin

text \<open>
  \<open>internal/service/assignment.go\<close>: a collector selects an approved batch, accepts or rejects an
  assignment, records a pickup or its failure, and the recovery of a failed collection.  Every
  transaction body is a \<open>_tx\<close> definition; the part before its first write and the part that writes
  are separate definitions.  \<open>assignment_execute\<close> is the code that Select, changeAssignment and
  recordPickup share around their transaction.
\<close>

section \<open>Requests and results\<close>

record selection_request =
  sq_expected_version :: int
  sq_claim_epoch :: string
  sq_scope_id :: string

record handoff_request =
  hq_pickup_at :: int
  hq_donor_name :: string
  hq_item_count :: int
  hq_hash :: string
  hq_notes :: "string option"

record failure_request =
  fq_reason :: string
  fq_details :: "string option"

record assignment_view =
  av_assignment_id :: string
  av_batch_id :: string
  av_claim_id :: string
  av_collector_user_id :: string
  av_collector_scope_id :: string
  av_status :: string
  av_sequence :: int
  av_version :: int
  av_created_at :: int
  av_updated_at :: int

record mutation_result =
  mr_data :: assignment_view
  mr_correlation_id :: string
  mr_event_id :: string
  mr_event_state :: string

definition encode_view :: "assignment_view \<Rightarrow> json" where
  "encode_view v =
     JObj [(''assignment_id'', JStr (av_assignment_id v)), (''batch_id'', JStr (av_batch_id v)),
           (''claim_id'', JStr (av_claim_id v)), (''collector_user_id'', JStr (av_collector_user_id v)),
           (''collector_scope_id'', JStr (av_collector_scope_id v)),
           (''assignment_status'', JStr (av_status v)), (''assignment_sequence'', JInt (av_sequence v)),
           (''version'', JInt (av_version v)), (''created_at'', JTime (av_created_at v)),
           (''updated_at'', JTime (av_updated_at v))]"

definition encode_mutation_result :: "mutation_result \<Rightarrow> json" where
  "encode_mutation_result r =
     JObj ([(''data'', encode_view (mr_data r)), (''correlation_id'', JStr (mr_correlation_id r))]
           @ json_omit_empty ''event_id'' (mr_event_id r) @ json_omit_empty ''event_state'' (mr_event_state r))"

definition decode_view :: "json \<Rightarrow> assignment_view option" where
  "decode_view j = do {
     ai \<leftarrow> dec_str ''assignment_id'' j; bi \<leftarrow> dec_str ''batch_id'' j; ci \<leftarrow> dec_str ''claim_id'' j;
     cu \<leftarrow> dec_str ''collector_user_id'' j; cs \<leftarrow> dec_str ''collector_scope_id'' j;
     st \<leftarrow> dec_str ''assignment_status'' j; sq \<leftarrow> dec_int ''assignment_sequence'' j;
     ve \<leftarrow> dec_int ''version'' j; cr \<leftarrow> dec_time ''created_at'' j; up \<leftarrow> dec_time ''updated_at'' j;
     Some \<lparr>av_assignment_id = ai, av_batch_id = bi, av_claim_id = ci, av_collector_user_id = cu,
       av_collector_scope_id = cs, av_status = st, av_sequence = sq, av_version = ve,
       av_created_at = cr, av_updated_at = up\<rparr> }"

definition decode_mutation_result :: "json \<Rightarrow> mutation_result option" where
  "decode_mutation_result j = do {
     data \<leftarrow> dec_obj decode_view ''data'' j;
     co \<leftarrow> dec_str ''correlation_id'' j; ev \<leftarrow> dec_str ''event_id'' j; es \<leftarrow> dec_str ''event_state'' j;
     Some \<lparr>mr_data = data, mr_correlation_id = co, mr_event_id = ev, mr_event_state = es\<rparr> }"

lemma decode_encode_view [simp]: "decode_view (encode_view v) = Some v"
  by (simp add: decode_view_def encode_view_def dec_defs)

lemma encode_view_json: "encode_view v \<noteq> JNull"
  by (simp add: encode_view_def)

lemma decode_encode_mutation_result [simp]: "decode_mutation_result (encode_mutation_result r) = Some r"
  by (simp add: decode_mutation_result_def encode_mutation_result_def dec_defs encode_view_json map_of_omit del: map_of_append)

definition view_of :: "assignment \<Rightarrow> assignment_view" where
  "view_of a =
     \<lparr>av_assignment_id = a_id a, av_batch_id = a_batch_id a, av_claim_id = a_claim_id a,
      av_collector_user_id = a_collector_user_id a, av_collector_scope_id = a_collector_scope_id a,
      av_status = assignment_status_string (a_status a), av_sequence = sint (a_sequence a),
      av_version = uint (a_version a), av_created_at = a_created_at a, av_updated_at = a_updated_at a\<rparr>"

definition state_for_event :: "string \<Rightarrow> string" where
  "state_for_event event_id = (if event_id = [] then [] else publish_state_string OutboxPending)"

definition mutation_result :: "assignment \<Rightarrow> string \<Rightarrow> string \<Rightarrow> mutation_result" where
  "mutation_result a correlation_id event_id =
     \<lparr>mr_data = view_of a, mr_correlation_id = correlation_id, mr_event_id = event_id,
      mr_event_state = state_for_event event_id\<rparr>"

section \<open>Checks and metadata\<close>

definition require_collector :: "metadata \<Rightarrow> error + unit" where
  "require_collector m =
     (if act_user_id (md_actor m) = [] \<or> act_organisation_id (md_actor m) = [] \<or>
         \<not> equal_fold (trim_space (act_role_code (md_actor m))) ''COLLECTOR'' then Inl ErrAssignmentForbidden
      else if md_correlation_id m = [] then Inl ErrAssignmentValidation
      else Inr ())"

definition parse_positive_uint :: "string \<Rightarrow> error + 64 word" where
  "parse_positive_uint v =
     (if v = [] \<or> \<not> list_all is_digit v then Inl ErrAssignmentValidation
      else (case parse_uint64 v of
              None \<Rightarrow> Inl ErrAssignmentValidation
            | Some n \<Rightarrow> if n = 0 then Inl ErrAssignmentValidation else Inr n))"

definition prepare_assignment_metadata ::
  "call_env \<Rightarrow> metadata \<Rightarrow> string \<Rightarrow> string \<Rightarrow> json \<Rightarrow> error + metadata"
where
  "prepare_assignment_metadata env m command_name resource_id payload =
     (let m = m\<lparr>md_actor_scope := canonical_actor_scope (md_actor m), md_command_name := command_name\<rparr> in
      if \<not> valid_key (md_idempotency_key m) then Inl ErrAssignmentValidation
      else
        let m = m\<lparr>md_request_hash := env_sha256 env (JObj
                  [(''ActorScope'', JStr (md_actor_scope m)), (''CommandName'', JStr command_name),
                   (''ResourceID'', JStr resource_id), (''ExpectedVersion'', JInt (md_expected_version m)),
                   (''Payload'', payload)])\<rparr> in
        case metadata_validate m of Inl e \<Rightarrow> Inl e | Inr _ \<Rightarrow> Inr m)"

definition selection_payload :: "selection_request \<Rightarrow> json" where
  "selection_payload r =
     JObj [(''expected_version'', JInt (sq_expected_version r)), (''claim_epoch'', JStr (sq_claim_epoch r)),
           (''collector_scope_id'', JStr (sq_scope_id r))]"

definition handoff_payload :: "handoff_request \<Rightarrow> json" where
  "handoff_payload r =
     JObj [(''pickup_occurred_at'', JTime (hq_pickup_at r)),
           (''donor_representative_name'', JStr (hq_donor_name r)),
           (''actual_item_count'', JInt (hq_item_count r)), (''verification_hash'', JStr (hq_hash r)),
           (''notes'', json_opt JStr (hq_notes r))]"

definition failure_payload :: "failure_request \<Rightarrow> json" where
  "failure_payload r =
     JObj [(''failure_reason'', JStr (fq_reason r)), (''observed_details'', json_opt JStr (fq_details r))]"

definition is_hex_digit :: "char \<Rightarrow> bool" where
  "is_hex_digit c = (is_digit c \<or> 97 \<le> byte_of c \<and> byte_of c \<le> 102 \<or> 65 \<le> byte_of c \<and> byte_of c \<le> 70)"

definition too_long :: "nat \<Rightarrow> string option \<Rightarrow> bool" where
  "too_long n s = (case s of None \<Rightarrow> False | Some t \<Rightarrow> rune_count t > n)"

definition validate_handoff :: "handoff_request \<Rightarrow> int \<Rightarrow> error + unit" where
  "validate_handoff r now =
     (if hq_pickup_at r = zero_time \<or> now < hq_pickup_at r \<or> trim_space (hq_donor_name r) = [] \<or>
         rune_count (hq_donor_name r) > 100 \<or> hq_item_count r < 1 \<or> hq_item_count r > 100000 \<or>
         length (hq_hash r) \<noteq> 64 then Inl ErrAssignmentValidation
      else if \<not> list_all is_hex_digit (hq_hash r) then Inl ErrAssignmentValidation
      else if too_long 500 (hq_notes r) then Inl ErrAssignmentValidation
      else Inr ())"

definition failure_reasons :: "string list" where
  "failure_reasons =
     [''DONOR_UNAVAILABLE'', ''INCORRECT_ITEMS'', ''ACCESS_DENIED'', ''DAMAGED_HAZARDOUS'', ''SAFETY_CANCEL'']"

definition validate_failure :: "failure_request \<Rightarrow> error + unit" where
  "validate_failure r =
     (if trim_space (fq_reason r) = [] \<or> rune_count (fq_reason r) > 100 then Inl ErrAssignmentValidation
      else if \<not> List.member failure_reasons (fq_reason r) then Inl ErrAssignmentValidation
      else if too_long 500 (fq_details r) then Inl ErrAssignmentValidation
      else Inr ())"

definition map_assignment_repository_error :: "error \<Rightarrow> error" where
  "map_assignment_repository_error e =
     (if errors_is e (AssignmentRepoErr RepoAssignmentBatchNotFound) \<or>
         errors_is e (AssignmentRepoErr RepoAssignmentNotFound) \<or>
         errors_is e (AssignmentRepoErr RepoAssignmentClaimNotFound) then ErrAssignmentNotFound
      else if errors_is e (AssignmentRepoErr RepoAssignmentScopeNotFound) \<or>
         errors_is e (AssignmentRepoErr RepoAssignmentActorNotEligible) then ErrAssignmentForbidden
      else if errors_is e (AssignmentRepoErr RepoAssignmentConcurrency) then ErrAssignmentConcurrent
      else e)"

section \<open>Rows\<close>

definition assignment_action_row ::
  "string \<Rightarrow> metadata \<Rightarrow> string \<Rightarrow> assignment \<Rightarrow> string \<Rightarrow> batch_status \<Rightarrow> batch_status
     \<Rightarrow> string option \<Rightarrow> string option \<Rightarrow> int \<Rightarrow> json \<Rightarrow> assignment_action"
where
  "assignment_action_row new_id m command_id a action_type src dst reason previous now details =
     \<lparr>ac_id = new_id, ac_batch_id = a_batch_id a, ac_assignment_id = a_id a, ac_type = action_type,
      ac_actor_user_id = Some (act_user_id (md_actor m)), ac_service_principal = None, ac_reason = reason,
      ac_previous_id = previous, ac_from_status = src, ac_to_status = dst,
      ac_assignment_version = a_version a, ac_command_id = command_id, ac_occurred_at = now,
      ac_correlation_id = md_correlation_id m, ac_details = details\<rparr>"

definition assignment_event_payload ::
  "string \<Rightarrow> string \<Rightarrow> batch \<Rightarrow> string \<Rightarrow> string \<Rightarrow> int \<Rightarrow> (string \<times> json) list \<Rightarrow> json"
where
  "assignment_event_payload event_id command_id b event_type correlation_id occurred_at data =
     JObj [(''event_id'', JStr event_id), (''event_type'', JStr event_type), (''schema_version'', JInt 1),
           (''command_id'', JStr command_id), (''batch_id'', JStr (b_id b)),
           (''batch_version'', JInt (uint (b_version b))),
           (''claim_epoch'', JStr (format_uint64 (b_claim_epoch b))), (''sequence_in_command'', JInt 1),
           (''occurred_at'', contract_timestamp occurred_at), (''correlation_id'', JStr correlation_id),
           (''data'', JObj data)]"

section \<open>Replay\<close>

definition assignment_load_replay :: "metadata \<Rightarrow> mutation_result option dbtx" where
  "assignment_load_replay m =
     load_replay_with (assignment_find_command (md_actor_scope m) (md_command_name m) (md_idempotency_key m))
       (AssignmentRepoErr RepoAssignmentCommandNotFound) ErrAssignmentIdempotencyConflict ErrAssignmentInProgress
       (PlainError ''assignment: decode replay response'') decode_mutation_result m"

definition assignment_resolve_replay :: "metadata \<Rightarrow> mutation_result option dbtx" where
  "assignment_resolve_replay m =
     tx_bind (if service_principal m = []
              then validate_collector_actor (act_user_id (md_actor m)) (act_organisation_id (md_actor m))
              else tx_return ())
       (\<lambda>_. assignment_load_replay m)"

definition assignment_execute ::
  "call_env \<Rightarrow> metadata \<Rightarrow> mutation_result dbtx \<Rightarrow> db \<Rightarrow> (error + mutation_result) \<times> db"
where
  "assignment_execute env m body d =
     (case assignment_resolve_replay m d of
        Inl e \<Rightarrow> (Inl e, d)
      | Inr (Some r, _) \<Rightarrow> (Inr r, d)
      | Inr (None, _) \<Rightarrow>
          (case run_tx body (env_others env 0 d) of
             (Inr r, d2) \<Rightarrow> (Inr r, d2)
           | (Inl e, d2) \<Rightarrow>
               let d3 = env_others env 1 d2 in
               (case assignment_resolve_replay m d3 of
                  Inl e' \<Rightarrow> (Inl (map_assignment_repository_error e'), d3)
                | Inr (Some r, _) \<Rightarrow> (Inr r, d3)
                | Inr (None, _) \<Rightarrow> (Inl (map_assignment_repository_error e), d3))))"

text \<open>The two checks every collector transaction starts with.\<close>

definition collector_tx :: "metadata \<Rightarrow> mutation_result dbtx \<Rightarrow> mutation_result dbtx" where
  "collector_tx m body =
     tx_bind (validate_collector_actor (act_user_id (md_actor m)) (act_organisation_id (md_actor m))) (\<lambda>_.
     tx_bind (assignment_load_replay m) (\<lambda>replay. case replay of Some r \<Rightarrow> tx_return r | None \<Rightarrow> body))"

section \<open>Select\<close>

definition find_previous_assignment :: "string \<Rightarrow> assignment option dbtx" where
  "find_previous_assignment batch_id =
     tx_try (tx_bind (find_latest_assignment batch_id) (\<lambda>a. tx_return (Some a)))
       (\<lambda>e. if errors_is e (AssignmentRepoErr RepoAssignmentNotFound) then tx_return None else tx_fail e)"

definition same_collector :: "metadata \<Rightarrow> assignment \<Rightarrow> bool" where
  "same_collector m a =
     (a_collector_user_id a = act_user_id (md_actor m) \<and> a_collector_org_id a = act_organisation_id (md_actor m))"

definition new_assignment ::
  "string \<Rightarrow> metadata \<Rightarrow> batch \<Rightarrow> claim \<Rightarrow> collector_scope \<Rightarrow> assignment option \<Rightarrow> int \<Rightarrow> assignment"
where
  "new_assignment new_id m b c scope previous now =
     \<lparr>a_id = new_id, a_batch_id = b_id b, a_claim_id = cl_id c, a_recycler_org_id = cl_recycler_org_id c,
      a_collector_org_id = act_organisation_id (md_actor m), a_collector_user_id = act_user_id (md_actor m),
      a_collector_scope_id = s_id scope,
      a_sequence = (case previous of None \<Rightarrow> 1 | Some p \<Rightarrow> a_sequence p + 1),
      a_claim_epoch = b_claim_epoch b, a_previous_id = map_option a_id previous,
      a_status = AssignmentStatusAccepted, a_rejection_reason = None,
      a_reassignment_reason = (case previous of None \<Rightarrow> None | Some _ \<Rightarrow> Some ''collector replacement''),
      a_assigned_at = now, a_responded_at = Some now, a_closed_at = None, a_closure_reason = None,
      a_version = 1, a_created_at = now, a_updated_at = now\<rparr>"

definition assigned_payload ::
  "string \<Rightarrow> string \<Rightarrow> batch \<Rightarrow> assignment \<Rightarrow> string \<Rightarrow> int \<Rightarrow> json"
where
  "assigned_payload event_id command_id b a correlation_id now =
     assignment_event_payload event_id command_id b ''CollectorAssigned'' correlation_id now
       [(''assignment_id'', JStr (a_id a)), (''claim_id'', JStr (a_claim_id a)),
        (''collector_user_id'', JStr (a_collector_user_id a)), (''recycler_org_id'', JStr (a_recycler_org_id a)),
        (''assignment_version'', JStr (format_uint64 (ucast (a_version a)))),
        (''previous_assignment_id'', json_opt JStr (a_previous_id a)),
        (''collector_org_id'', JStr (a_collector_org_id a)), (''collector_scope_id'', JStr (a_collector_scope_id a)),
        (''assignment_sequence'', JStr (format_uint64 (a_sequence a))), (''assigned_at'', contract_timestamp now)]"

lemma routed_assigned:
  "routed (new_outbox i c b ''CollectorAssigned'' ''batch.collector.assigned'' (assigned_payload i c b a co now) co now)"
  unfolding assigned_payload_def assignment_event_payload_def
  by (rule routed_workflow) (simp_all add: routing_defs json_opt_def split: option.splits)

text \<open>
  From the assignment actions to the completed command.  \<open>k\<close> counts the identifiers drawn before:
  a replacement draws one more, for its second action.
\<close>

definition select_record_tx ::
  "call_env \<Rightarrow> metadata \<Rightarrow> assignment \<Rightarrow> collector_scope \<Rightarrow> batch \<Rightarrow> int \<Rightarrow> mutation_result dbtx"
where
  "select_record_tx env m a scope assigned now =
     (let command_id = env_id env 0;
          details = JObj [(''collector_scope_version'', JInt (uint (s_version scope)))];
          k = (if a_previous_id a = None then 3 else 4);
          audit = (new_audit_event (env_id env k) m command_id assigned ''CollectorAssigned''
                     BatchStatusApproved BatchStatusAssigned
                     [(''assignment_id'', a_id a), (''collector_user_id'', a_collector_user_id a),
                      (''collector_scope_id'', a_collector_scope_id a),
                      (''collector_scope_version'', format_uint64 (s_version scope)),
                      (''assignment_sequence'', format_uint64 (a_sequence a))] now)
                  \<lparr>au_assignment_id := Some (a_id a), au_claim_id := Some (a_claim_id a)\<rparr>;
          event_id = env_id env (Suc k);
          result = mutation_result a (md_correlation_id m) event_id
      in tx_bind (create_action (assignment_action_row (env_id env 2) m command_id a ''ASSIGNED''
                   BatchStatusApproved BatchStatusAssigned None (a_previous_id a) now details)) (\<lambda>_.
         tx_bind (if a_previous_id a = None then tx_return ()
                  else create_action (assignment_action_row (env_id env 3) m command_id a ''REASSIGNED''
                   BatchStatusApproved BatchStatusAssigned (Some ''collector replacement'') (a_previous_id a)
                   now details)) (\<lambda>_.
         tx_bind (append_audit audit) (\<lambda>_.
         tx_bind (enqueue_outbox (new_outbox event_id command_id assigned ''CollectorAssigned''
                   ''batch.collector.assigned''
                   (assigned_payload event_id command_id assigned a (md_correlation_id m) now)
                   (md_correlation_id m) now)) (\<lambda>_.
         tx_bind (assignment_complete_command command_id 201 (encode_mutation_result result) now) (\<lambda>_.
         tx_return result))))))"

definition select_assign_tx ::
  "call_env \<Rightarrow> metadata \<Rightarrow> batch \<Rightarrow> claim \<Rightarrow> collector_scope \<Rightarrow> assignment option \<Rightarrow> mutation_result dbtx"
where
  "select_assign_tx env m b c scope previous =
     (let now = truncate_us (env_clock env 1);
          command_id = env_id env 0;
          a = new_assignment (env_id env 1) m b c scope previous now
      in tx_bind (create_command (new_command command_id m (b_id b) now retain_for)) (\<lambda>_.
         tx_bind (create_assignment a) (\<lambda>_.
         tx_bind (link_command_assignment command_id (a_id a)) (\<lambda>_.
         tx_bind (update_batch_assignment (b_id b) (b_version b) BatchStatusApproved BatchStatusAssigned
                   (Some (a_id a)) now) (\<lambda>assigned.
         select_record_tx env m a scope assigned now)))))"

definition select_body ::
  "call_env \<Rightarrow> string \<Rightarrow> selection_request \<Rightarrow> 64 word \<Rightarrow> metadata \<Rightarrow> mutation_result dbtx"
where
  "select_body env batch_id request epoch m =
       (tx_bind (assignment_find_batch_for_update batch_id) (\<lambda>b.
        tx_bind (tx_guard (b_version b = word_of_int (md_expected_version m) \<and> b_claim_epoch b = epoch)
                  ErrAssignmentStaleVersion) (\<lambda>_.
        tx_bind (tx_guard (b_status b = BatchStatusApproved \<and> b_assignment_id b = None) ErrAssignmentInvalidState) (\<lambda>_.
        tx_bind (find_accepted_claim_reservation b) (\<lambda>(c, _).
        tx_bind (tx_some (b_zone b) ErrAssignmentValidation) (\<lambda>zone.
        tx_bind (tx_guard (zone \<noteq> []) ErrAssignmentValidation) (\<lambda>_.
        tx_bind (find_collector_scope (sq_scope_id request) (cl_recycler_org_id c)
                  (act_organisation_id (md_actor m)) zone (env_clock env 0)) (\<lambda>scope.
        tx_bind (find_previous_assignment (b_id b)) (\<lambda>previous.
        tx_bind (tx_guard (case previous of None \<Rightarrow> True | Some p \<Rightarrow> \<not> same_collector m p) ErrAssignmentForbidden) (\<lambda>_.
        select_assign_tx env m b c scope previous))))))))))"

definition select_tx ::
  "call_env \<Rightarrow> string \<Rightarrow> selection_request \<Rightarrow> 64 word \<Rightarrow> metadata \<Rightarrow> mutation_result dbtx"
where
  "select_tx env batch_id request epoch m = collector_tx m (select_body env batch_id request epoch m)"

definition select ::
  "call_env \<Rightarrow> string \<Rightarrow> selection_request \<Rightarrow> metadata \<Rightarrow> db \<Rightarrow> (error + mutation_result) \<times> db"
where
  "select env batch_id request m d =
     (case require_collector m of Inl e \<Rightarrow> (Inl e, d) | Inr _ \<Rightarrow>
     (case parse_positive_uint (sq_claim_epoch request) of Inl _ \<Rightarrow> (Inl ErrAssignmentValidation, d) | Inr epoch \<Rightarrow>
      if sq_expected_version request \<noteq> md_expected_version m \<or> sq_scope_id request = []
      then (Inl ErrAssignmentValidation, d)
      else (case prepare_assignment_metadata env m ''SelectAssignment'' batch_id (selection_payload request) of
              Inl e \<Rightarrow> (Inl e, d)
            | Inr m \<Rightarrow> assignment_execute env m (select_tx env batch_id request epoch m) d)))"

section \<open>Accept and Reject\<close>

text \<open>The command name and the payload that \<open>changeAssignment\<close> is called with.\<close>

datatype assignment_change = AcceptChange | RejectChange string

fun change_command :: "assignment_change \<Rightarrow> string" where
  "change_command AcceptChange = ''AcceptAssignment''"
| "change_command (RejectChange _) = ''RejectAssignment''"

fun change_payload :: "assignment_change \<Rightarrow> json" where
  "change_payload AcceptChange = JNull"
| "change_payload (RejectChange reason) = JObj [(''rejection_reason'', JStr reason)]"

definition accepted_assignment :: "int \<Rightarrow> assignment \<Rightarrow> assignment" where
  "accepted_assignment now a =
     a\<lparr>a_status := AssignmentStatusAccepted, a_responded_at := Some now, a_version := a_version a + 1,
       a_updated_at := now\<rparr>"

definition rejected_assignment :: "string \<Rightarrow> int \<Rightarrow> assignment \<Rightarrow> assignment" where
  "rejected_assignment reason now a =
     a\<lparr>a_status := AssignmentStatusSuperseded, a_rejection_reason := Some reason,
       a_closure_reason := Some ''REJECTED'', a_closed_at := Some now, a_version := a_version a + 1,
       a_updated_at := now\<rparr>"

definition accept_write_tx :: "call_env \<Rightarrow> metadata \<Rightarrow> batch \<Rightarrow> assignment \<Rightarrow> int \<Rightarrow> mutation_result dbtx" where
  "accept_write_tx env m b a0 now =
     tx_bind (tx_guard (a_status a0 = AssignmentStatusPending \<and> b_status b = BatchStatusAssigned)
               ErrAssignmentInvalidState) (\<lambda>_.
     let a = accepted_assignment now a0; command_id = env_id env 0 in
     tx_bind (update_assignment a) (\<lambda>_.
     tx_bind (update_batch_assignment (b_id b) (b_version b) BatchStatusAssigned BatchStatusAssigned
               (Some (a_id a)) now) (\<lambda>updated.
     tx_bind (create_action (assignment_action_row (env_id env 1) m command_id a ''ACCEPTED''
               BatchStatusAssigned BatchStatusAssigned None None now (JObj []))) (\<lambda>_.
     tx_bind (append_audit ((new_audit_event (env_id env 2) m command_id updated ''AssignmentAccepted''
               BatchStatusAssigned BatchStatusAssigned [(''assignment_id'', a_id a)] now)
               \<lparr>au_assignment_id := Some (a_id a)\<rparr>)) (\<lambda>_.
     tx_return (mutation_result a (md_correlation_id m) []))))))"

definition reject_write_tx ::
  "call_env \<Rightarrow> metadata \<Rightarrow> string \<Rightarrow> batch \<Rightarrow> assignment \<Rightarrow> int \<Rightarrow> mutation_result dbtx"
where
  "reject_write_tx env m reason b a0 now =
     tx_bind (tx_guard (a_status a0 = AssignmentStatusPending \<or> a_status a0 = AssignmentStatusAccepted)
               ErrAssignmentInvalidState) (\<lambda>_.
     let a = rejected_assignment reason now a0; command_id = env_id env 0 in
     tx_bind (update_assignment a) (\<lambda>_.
     tx_bind (update_batch_assignment (b_id b) (b_version b) BatchStatusAssigned BatchStatusApproved None now) (\<lambda>updated.
     tx_bind (create_action (assignment_action_row (env_id env 1) m command_id a ''REJECTED''
               BatchStatusAssigned BatchStatusApproved (Some reason) None now (JObj []))) (\<lambda>_.
     tx_bind (append_audit ((new_audit_event (env_id env 2) m command_id updated ''AssignmentRejected''
               BatchStatusAssigned BatchStatusApproved [(''assignment_id'', a_id a), (''reason'', reason)] now)
               \<lparr>au_assignment_id := Some (a_id a)\<rparr>)) (\<lambda>_.
     tx_return (mutation_result a (md_correlation_id m) []))))))"

fun change_write_tx ::
  "call_env \<Rightarrow> metadata \<Rightarrow> assignment_change \<Rightarrow> batch \<Rightarrow> assignment \<Rightarrow> int \<Rightarrow> mutation_result dbtx"
where
  "change_write_tx env m AcceptChange b a now = accept_write_tx env m b a now"
| "change_write_tx env m (RejectChange reason) b a now = reject_write_tx env m reason b a now"

text \<open>The assignment and its batch, locked and checked against the caller and the expected version.\<close>

definition find_own_assignment :: "metadata \<Rightarrow> string \<Rightarrow> (assignment \<times> batch) dbtx" where
  "find_own_assignment m assignment_id =
     tx_bind (find_assignment_for_update assignment_id) (\<lambda>a.
     tx_bind (assignment_find_batch_for_update (a_batch_id a)) (\<lambda>b.
     tx_bind (tx_guard (same_collector m a) ErrAssignmentForbidden) (\<lambda>_.
     tx_bind (tx_guard (b_version b = word_of_int (md_expected_version m) \<and> b_assignment_id b = Some (a_id a))
               ErrAssignmentStaleVersion) (\<lambda>_.
     tx_return (a, b)))))"

definition change_body ::
  "call_env \<Rightarrow> string \<Rightarrow> assignment_change \<Rightarrow> metadata \<Rightarrow> mutation_result dbtx"
where
  "change_body env assignment_id change m =
       (tx_bind (find_own_assignment m assignment_id) (\<lambda>(a, b).
        let now = truncate_us (env_clock env 0) in
        tx_bind (create_command (new_command (env_id env 0) m (b_id b) now retain_for)) (\<lambda>_.
        tx_bind (change_write_tx env m change b a now) (\<lambda>result.
        tx_bind (assignment_complete_command (env_id env 0) 200 (encode_mutation_result result) now) (\<lambda>_.
        tx_return result)))))"

definition change_tx ::
  "call_env \<Rightarrow> string \<Rightarrow> assignment_change \<Rightarrow> metadata \<Rightarrow> mutation_result dbtx"
where
  "change_tx env assignment_id change m = collector_tx m (change_body env assignment_id change m)"

definition change_assignment ::
  "call_env \<Rightarrow> string \<Rightarrow> assignment_change \<Rightarrow> metadata \<Rightarrow> db \<Rightarrow> (error + mutation_result) \<times> db"
where
  "change_assignment env assignment_id change m d =
     (case require_collector m of Inl e \<Rightarrow> (Inl e, d) | Inr _ \<Rightarrow>
     (case prepare_assignment_metadata env m (change_command change) assignment_id (change_payload change) of
        Inl e \<Rightarrow> (Inl e, d)
      | Inr m \<Rightarrow> assignment_execute env m (change_tx env assignment_id change m) d))"

definition accept :: "call_env \<Rightarrow> string \<Rightarrow> metadata \<Rightarrow> db \<Rightarrow> (error + mutation_result) \<times> db" where
  "accept env assignment_id m = change_assignment env assignment_id AcceptChange m"

definition reject :: "call_env \<Rightarrow> string \<Rightarrow> string \<Rightarrow> metadata \<Rightarrow> db \<Rightarrow> (error + mutation_result) \<times> db" where
  "reject env assignment_id reason m d =
     (if trim_space reason = [] \<or> rune_count reason > 100 then (Inl ErrAssignmentValidation, d)
      else change_assignment env assignment_id (RejectChange reason) m d)"

section \<open>Pickup\<close>

datatype pickup = PickupDone handoff_request | PickupFailed failure_request

fun pickup_status :: "pickup \<Rightarrow> batch_status" where
  "pickup_status (PickupDone _) = BatchStatusCollected"
| "pickup_status (PickupFailed _) = BatchStatusFailedCollection"

fun pickup_action :: "pickup \<Rightarrow> string" where
  "pickup_action (PickupDone _) = ''HANDOFF_RECORDED''"
| "pickup_action (PickupFailed _) = ''PICKUP_FAILED''"

fun pickup_event :: "pickup \<Rightarrow> string" where
  "pickup_event (PickupDone _) = ''CollectionCompleted''"
| "pickup_event (PickupFailed _) = ''CollectionFailed''"

fun pickup_topic :: "pickup \<Rightarrow> string" where
  "pickup_topic (PickupDone _) = ''batch.collection.completed''"
| "pickup_topic (PickupFailed _) = ''batch.collection.failed''"

fun pickup_reason :: "pickup \<Rightarrow> string option" where
  "pickup_reason (PickupDone _) = None"
| "pickup_reason (PickupFailed r) = Some (fq_reason r)"

fun new_handoff :: "string \<Rightarrow> metadata \<Rightarrow> string \<Rightarrow> batch \<Rightarrow> assignment \<Rightarrow> int \<Rightarrow> pickup \<Rightarrow> handoff" where
  "new_handoff new_id m command_id b a now (PickupFailed r) =
     \<lparr>h_id = new_id, h_batch_id = b_id b, h_assignment_id = a_id a, h_collector_user_id = a_collector_user_id a,
      h_collector_org_id = a_collector_org_id a, h_pickup_status = ''FAILED'', h_donor_name = None,
      h_item_count = None, h_verification_hash = None, h_failure_reason = Some (fq_reason r),
      h_discrepancy_reason = None, h_notes = fq_details r, h_pickup_at = now, h_recorded_at = now,
      h_collected_at = None, h_command_id = command_id, h_correlation_id = md_correlation_id m,
      h_created_at = now\<rparr>"
| "new_handoff new_id m command_id b a now (PickupDone r) =
     \<lparr>h_id = new_id, h_batch_id = b_id b, h_assignment_id = a_id a, h_collector_user_id = a_collector_user_id a,
      h_collector_org_id = a_collector_org_id a, h_pickup_status = ''COLLECTED'',
      h_donor_name = Some (hq_donor_name r), h_item_count = Some (hq_item_count r),
      h_verification_hash = Some (to_lower (hq_hash r)), h_failure_reason = None, h_discrepancy_reason = None,
      h_notes = hq_notes r, h_pickup_at = hq_pickup_at r, h_recorded_at = now,
      h_collected_at = Some (hq_pickup_at r), h_command_id = command_id,
      h_correlation_id = md_correlation_id m, h_created_at = now\<rparr>"

fun closed_status :: "pickup \<Rightarrow> assignment_status" where
  "closed_status (PickupDone _) = AssignmentStatusCompleted"
| "closed_status (PickupFailed _) = AssignmentStatusFailed"

definition closed_assignment :: "pickup \<Rightarrow> int \<Rightarrow> assignment \<Rightarrow> assignment" where
  "closed_assignment p now a =
     a\<lparr>a_status := closed_status p, a_closed_at := Some now, a_closure_reason := Some (pickup_action p),
       a_version := a_version a + 1, a_updated_at := now\<rparr>"

fun pickup_data :: "pickup \<Rightarrow> (string \<times> json) list" where
  "pickup_data (PickupFailed r) = [(''failure_reason'', JStr (fq_reason r))]"
| "pickup_data (PickupDone r) =
     [(''actual_item_count'', JInt (hq_item_count r)), (''verification_hash'', JStr (to_lower (hq_hash r)))]"

definition pickup_payload ::
  "string \<Rightarrow> string \<Rightarrow> batch \<Rightarrow> assignment \<Rightarrow> handoff \<Rightarrow> pickup \<Rightarrow> string \<Rightarrow> int \<Rightarrow> json"
where
  "pickup_payload event_id command_id b a h p correlation_id now =
     assignment_event_payload event_id command_id b (pickup_event p) correlation_id now
       ([(''assignment_id'', JStr (a_id a)), (''handoff_id'', JStr (h_id h)),
         (''collector_user_id'', JStr (a_collector_user_id a)), (''collector_org_id'', JStr (a_collector_org_id a)),
         (''collector_scope_id'', JStr (a_collector_scope_id a)),
         (''pickup_occurred_at'', contract_timestamp (h_pickup_at h)),
         (''pickup_status'', JStr (h_pickup_status h)), (''recorded_at'', contract_timestamp now)] @ pickup_data p)"

lemma routed_pickup:
  "routed (new_outbox i c b (pickup_event p) (pickup_topic p) (pickup_payload i c b a h p co now) co now)"
  unfolding pickup_payload_def assignment_event_payload_def
  by (rule routed_workflow; cases p) (simp_all add: routing_defs)

definition pickup_write_tx ::
  "call_env \<Rightarrow> metadata \<Rightarrow> pickup \<Rightarrow> batch \<Rightarrow> assignment \<Rightarrow> int \<Rightarrow> mutation_result dbtx"
where
  "pickup_write_tx env m p b a0 now =
     (let command_id = env_id env 0;
          h = new_handoff (env_id env 1) m command_id b a0 now p;
          a = closed_assignment p now a0;
          event_id = env_id env 4;
          result = mutation_result a (md_correlation_id m) event_id
      in tx_bind (create_command (new_command command_id m (b_id b) now retain_for)) (\<lambda>_.
         tx_bind (create_handoff h) (\<lambda>_.
         tx_bind (update_assignment a) (\<lambda>_.
         tx_bind (update_batch_assignment (b_id b) (b_version b) BatchStatusAssigned (pickup_status p)
                   (Some (a_id a)) now) (\<lambda>updated.
         tx_bind (create_action (assignment_action_row (env_id env 2) m command_id a (pickup_action p)
                   BatchStatusAssigned (pickup_status p) (pickup_reason p) None now (JObj []))) (\<lambda>_.
         tx_bind (append_audit ((new_audit_event (env_id env 3) m command_id updated (pickup_event p)
                   BatchStatusAssigned (pickup_status p)
                   [(''assignment_id'', a_id a), (''handoff_id'', h_id h)] now)
                   \<lparr>au_assignment_id := Some (a_id a)\<rparr>)) (\<lambda>_.
         tx_bind (enqueue_outbox (new_outbox event_id command_id updated (pickup_event p) (pickup_topic p)
                   (pickup_payload event_id command_id updated a h p (md_correlation_id m) now)
                   (md_correlation_id m) now)) (\<lambda>_.
         tx_bind (assignment_complete_command command_id 200 (encode_mutation_result result) now) (\<lambda>_.
         tx_return result)))))))))"

fun pickup_in_order :: "pickup \<Rightarrow> assignment \<Rightarrow> bool" where
  "pickup_in_order (PickupDone r) a \<longleftrightarrow> a_assigned_at a \<le> hq_pickup_at r"
| "pickup_in_order (PickupFailed _) a \<longleftrightarrow> True"

text \<open>The handoff read the clock once before, to validate the request.\<close>

fun pickup_clock :: "pickup \<Rightarrow> nat" where
  "pickup_clock (PickupDone _) = 1"
| "pickup_clock (PickupFailed _) = 0"

definition pickup_body :: "call_env \<Rightarrow> string \<Rightarrow> pickup \<Rightarrow> metadata \<Rightarrow> mutation_result dbtx" where
  "pickup_body env assignment_id p m =
       (tx_bind (find_own_assignment m assignment_id) (\<lambda>(a, b).
        tx_bind (tx_guard (a_status a = AssignmentStatusAccepted \<and> b_status b = BatchStatusAssigned)
                  ErrAssignmentInvalidState) (\<lambda>_.
        tx_bind (tx_guard (pickup_in_order p a) ErrAssignmentValidation) (\<lambda>_.
        pickup_write_tx env m p b a (truncate_us (env_clock env (pickup_clock p)))))))"

definition pickup_tx :: "call_env \<Rightarrow> string \<Rightarrow> pickup \<Rightarrow> metadata \<Rightarrow> mutation_result dbtx" where
  "pickup_tx env assignment_id p m = collector_tx m (pickup_body env assignment_id p m)"

fun pickup_command :: "pickup \<Rightarrow> string" where
  "pickup_command (PickupDone _) = ''RecordHandoff''"
| "pickup_command (PickupFailed _) = ''FailPickup''"

fun pickup_request_payload :: "pickup \<Rightarrow> json" where
  "pickup_request_payload (PickupDone r) = handoff_payload r"
| "pickup_request_payload (PickupFailed r) = failure_payload r"

definition record_pickup ::
  "call_env \<Rightarrow> string \<Rightarrow> pickup \<Rightarrow> metadata \<Rightarrow> db \<Rightarrow> (error + mutation_result) \<times> db"
where
  "record_pickup env assignment_id p m d =
     (case require_collector m of Inl e \<Rightarrow> (Inl e, d) | Inr _ \<Rightarrow>
     (case prepare_assignment_metadata env m (pickup_command p) assignment_id (pickup_request_payload p) of
        Inl e \<Rightarrow> (Inl e, d)
      | Inr m \<Rightarrow> assignment_execute env m (pickup_tx env assignment_id p m) d))"

definition handoff_assignment ::
  "call_env \<Rightarrow> string \<Rightarrow> handoff_request \<Rightarrow> metadata \<Rightarrow> db \<Rightarrow> (error + mutation_result) \<times> db"
where
  "handoff_assignment env assignment_id request m d =
     (case validate_handoff request (env_clock env 0) of Inl e \<Rightarrow> (Inl e, d)
      | Inr _ \<Rightarrow> record_pickup env assignment_id (PickupDone request) m d)"

definition fail_assignment ::
  "call_env \<Rightarrow> string \<Rightarrow> failure_request \<Rightarrow> metadata \<Rightarrow> db \<Rightarrow> (error + mutation_result) \<times> db"
where
  "fail_assignment env assignment_id request m d =
     (case validate_failure request of Inl e \<Rightarrow> (Inl e, d)
      | Inr _ \<Rightarrow> record_pickup env assignment_id (PickupFailed request) m d)"

section \<open>Recovery of a failed collection\<close>

definition recovery_metadata :: "call_env \<Rightarrow> string \<Rightarrow> string \<Rightarrow> string \<Rightarrow> metadata" where
  "recovery_metadata env assignment_id svc correlation_id =
     \<lparr>md_actor = \<lparr>act_user_id = [], act_organisation_id = [], act_role_code = []\<rparr>,
      md_correlation_id = correlation_id, md_actor_scope = ''service:'' @ svc,
      md_command_name = ''RecoverCollection'', md_idempotency_key = ''recover-'' @ assignment_id,
      md_request_hash = env_sha256 env (JObj [(''assignment_id'', JStr assignment_id),
                          (''service_principal'', JStr svc)]),
      md_expected_version = 0\<rparr>"

definition recovery_command :: "string \<Rightarrow> metadata \<Rightarrow> string \<Rightarrow> string \<Rightarrow> string \<Rightarrow> int \<Rightarrow> command" where
  "recovery_command new_id m svc batch_id assignment_id now =
     \<lparr>c_id = new_id, c_actor_user_id = None, c_service_principal = Some svc,
      c_actor_scope = md_actor_scope m, c_command_name = md_command_name m,
      c_idempotency_key = md_idempotency_key m, c_request_hash = md_request_hash m,
      c_batch_id = Some batch_id, c_assignment_id = Some assignment_id, c_state = CommandStateInProgress,
      c_response_status = None, c_response_json = None, c_created_at = now, c_completed_at = None,
      c_retain_until = now + retain_for\<rparr>"

definition recovery_audit :: "string \<Rightarrow> string \<Rightarrow> string \<Rightarrow> batch \<Rightarrow> string \<Rightarrow> string \<Rightarrow> int \<Rightarrow> audit" where
  "recovery_audit new_id command_id svc updated assignment_id correlation_id now =
     \<lparr>au_id = new_id, au_batch_id = b_id updated, au_command_id = command_id,
      au_assignment_id = Some assignment_id, au_claim_id = None, au_actor_user_id = None,
      au_actor_org_id = None, au_service_principal = Some svc,
      au_event_type = ''CollectionRecoveryApproved'', au_from_status = BatchStatusFailedCollection,
      au_to_status = BatchStatusApproved, au_batch_version = b_version updated, au_sequence = 1,
      au_occurred_at = now, au_correlation_id = correlation_id,
      au_details = JObj [(''result'', JStr ''APPROVED_FOR_REASSIGNMENT'')]\<rparr>"

definition recover_write_tx ::
  "call_env \<Rightarrow> metadata \<Rightarrow> string \<Rightarrow> batch \<Rightarrow> assignment \<Rightarrow> mutation_result dbtx"
where
  "recover_write_tx env m svc b a =
     (let now = truncate_us (env_clock env 0); command_id = env_id env 0;
          result = \<lparr>mr_data = view_of a, mr_correlation_id = md_correlation_id m, mr_event_id = [],
                    mr_event_state = []\<rparr>
      in tx_bind (create_command (recovery_command command_id m svc (b_id b) (a_id a) now)) (\<lambda>_.
         tx_bind (update_batch_assignment (b_id b) (b_version b) BatchStatusFailedCollection
                   BatchStatusApproved None now) (\<lambda>updated.
         tx_bind (append_audit (recovery_audit (env_id env 1) command_id svc updated (a_id a)
                   (md_correlation_id m) now)) (\<lambda>_.
         tx_bind (assignment_complete_command command_id 200 (encode_mutation_result result) now) (\<lambda>_.
         tx_return result)))))"

text \<open>\<open>recover_tx\<close> also returns the stored result, which the code drops.\<close>

definition recover_tx :: "call_env \<Rightarrow> string \<Rightarrow> string \<Rightarrow> metadata \<Rightarrow> mutation_result dbtx" where
  "recover_tx env assignment_id svc m =
     tx_bind (assignment_load_replay m) (\<lambda>replay. case replay of Some r \<Rightarrow> tx_return r | None \<Rightarrow>
     tx_bind (find_assignment_for_update assignment_id) (\<lambda>a.
     tx_bind (assignment_find_batch_for_update (a_batch_id a)) (\<lambda>b.
     tx_bind (tx_guard (a_status a = AssignmentStatusFailed \<and> b_status b = BatchStatusFailedCollection \<and>
                 b_assignment_id b = Some (a_id a)) ErrAssignmentInvalidState) (\<lambda>_.
     recover_write_tx env m svc b a))))"

definition recover_failed_collection ::
  "call_env \<Rightarrow> string \<Rightarrow> string \<Rightarrow> string \<Rightarrow> db \<Rightarrow> (error + unit) \<times> db"
where
  "recover_failed_collection env assignment_id service correlation_id d =
     (let svc = trim_space service in
      if svc = [] \<or> correlation_id = [] \<or> assignment_id = [] then (Inl ErrAssignmentValidation, d)
      else
        let m = recovery_metadata env assignment_id svc correlation_id in
        run_tx (tx_bind (recover_tx env assignment_id svc m) (\<lambda>_. tx_return ())) d)"

section \<open>Steps the commands share\<close>

lemma assignment_find_command_eq:
  "assignment_find_command (md_actor_scope m) (md_command_name m) (md_idempotency_key m)
   = tx_first commands (\<lambda>c. command_key c = metadata_key m) (AssignmentRepoErr RepoAssignmentCommandNotFound)"
  by (simp add: assignment_find_command_def metadata_key_def)

lemma assignment_load_replay_recorded [tx_success]:
  "assignment_load_replay m d = Inr (Some r, d') \<longleftrightarrow> recorded decode_mutation_result m r d \<and> d' = d"
  unfolding assignment_load_replay_def by (rule load_replay_recorded [OF assignment_find_command_eq]) simp

lemma assignment_load_replay_fresh [tx_success]:
  "assignment_load_replay m d = Inr (None, d') \<longleftrightarrow> stored_command m d = None \<and> d' = d"
  unfolding assignment_load_replay_def by (rule load_replay_fresh [OF assignment_find_command_eq]) simp

lemma assignment_replay_or_fresh:
  "tx_bind (assignment_load_replay m) (\<lambda>replay. case replay of None \<Rightarrow> body | Some r \<Rightarrow> tx_return r) d = Inr (r, d')
   \<longleftrightarrow> recorded decode_mutation_result m r d \<and> d' = d \<or> stored_command m d = None \<and> body d = Inr (r, d')"
  unfolding assignment_load_replay_def by (rule replay_or_fresh [OF assignment_find_command_eq]) simp

lemma assignment_load_replay_conflict:
  "stored_command m d = Some c \<Longrightarrow> c_request_hash c \<noteq> md_request_hash m \<Longrightarrow>
   assignment_load_replay m d = Inl ErrAssignmentIdempotencyConflict"
  unfolding assignment_load_replay_def by (rule load_replay_conflict [OF assignment_find_command_eq]) simp_all

definition eligible_collector :: "metadata \<Rightarrow> db \<Rightarrow> bool" where
  "eligible_collector m d =
     (length (actor_rows ''COLLECTOR'' ''COLLECTION_OPERATOR'' (act_user_id (md_actor m))
        (act_organisation_id (md_actor m)) d) = 1)"

lemma collector_tx_Inr:
  "collector_tx m body d = Inr (r, d') \<longleftrightarrow>
     eligible_collector m d \<and>
     (recorded decode_mutation_result m r d \<and> d' = d \<or> stored_command m d = None \<and> body d = Inr (r, d'))"
  unfolding collector_tx_def tx_bind_Inr [of "validate_collector_actor u g" for u g] assignment_replay_or_fresh
  by (auto simp: tx_success eligible_collector_def)

lemma collector_contract:
  assumes "\<And>m d r d'. db_wf d \<Longrightarrow> stored_command m d = None \<Longrightarrow> body m d = Inr (r, d') \<Longrightarrow>
             recorded decode_mutation_result m r d'"
  shows "replay_contract (\<lambda>m. collector_tx m (body m)) decode_mutation_result eligible_collector
           ErrAssignmentIdempotencyConflict"
proof
  fix d m r d' c
  show "db_wf d \<Longrightarrow> collector_tx m (body m) d = Inr (r, d') \<Longrightarrow> recorded decode_mutation_result m r d'"
    using assms by (auto simp: collector_tx_Inr)
  assume a: "eligible_collector m d"
  show "recorded decode_mutation_result m r d \<Longrightarrow> collector_tx m (body m) d = Inr (r, d)"
    using a by (simp add: collector_tx_Inr)
  have "validate_collector_actor (act_user_id (md_actor m)) (act_organisation_id (md_actor m)) d = Inr ((), d)"
    using a by (simp add: tx_success eligible_collector_def)
  then show "stored_command m d = Some c \<Longrightarrow> c_request_hash c \<noteq> md_request_hash m \<Longrightarrow>
        collector_tx m (body m) d = Inl ErrAssignmentIdempotencyConflict"
    by (simp add: collector_tx_def assignment_load_replay_conflict)
qed

lemma assignment_complete_last:
  assumes "commands d = cs @ [c]" "\<not> tbl_clash c_id c cs" "c_id c = cid" "c_state c = CommandStateInProgress"
  shows "assignment_complete_command cid st j t d = Inr (u, d') \<longleftrightarrow>
         d' = d\<lparr>commands := cs @ [mark_completed st j t c]\<rparr>"
  unfolding assignment_complete_command_def by (rule complete_last_command [OF assms])

lemma link_last_command:
  assumes "commands d = cs @ [c]" "\<not> tbl_clash c_id c cs" "c_id c = cid" "c_assignment_id c = None"
  shows "link_command_assignment cid aid d = Inr (u, d') \<longleftrightarrow>
         d' = d\<lparr>commands := cs @ [c\<lparr>c_assignment_id := Some aid\<rparr>]\<rparr>"
  using tbl_update_inserted [where key = c_id and Q = "\<lambda>x. c_assignment_id x = None", OF assms(2,4)]
    tbl_count_inserted [where key = c_id and Q = "\<lambda>x. c_assignment_id x = None", OF assms(2,4)]
  by (simp add: tx_success assms(1,3))

lemma assignment_find_batch_Inr [tx_success]:
  "assignment_find_batch_for_update bid d = Inr (b, d') \<longleftrightarrow>
     find (\<lambda>b. b_id b = bid) (batches d) = Some b \<and> d' = d"
  by (simp add: assignment_find_batch_for_update_def tx_success)

lemma find_assignment_Inr [tx_success]:
  "find_assignment_for_update aid d = Inr (a, d') \<longleftrightarrow>
     find (\<lambda>a. a_id a = aid) (assignments d) = Some a \<and> d' = d"
  by (simp add: find_assignment_for_update_def tx_success)

lemma find_previous_assignment_Inr [tx_success]:
  "find_previous_assignment bid d = Inr (p, d') \<longleftrightarrow>
     p = latest_by_sequence (filter (\<lambda>a. a_batch_id a = bid) (assignments d)) \<and> d' = d"
  by (cases "latest_by_sequence (filter (\<lambda>a. a_batch_id a = bid) (assignments d))")
    (auto simp: find_previous_assignment_def find_latest_assignment_def tx_try_def tx_bind_def tx_some_def
      tx_return_def tx_get_def)

lemma find_own_assignment_Inr [tx_success]:
  "find_own_assignment m aid d = Inr (x, d') \<longleftrightarrow>
     (\<exists>a b. x = (a, b) \<and> d' = d \<and> find (\<lambda>a. a_id a = aid) (assignments d) = Some a \<and>
        find (\<lambda>b. b_id b = a_batch_id a) (batches d) = Some b \<and> same_collector m a \<and>
        b_version b = word_of_int (md_expected_version m) \<and> b_assignment_id b = Some (a_id a))"
  unfolding find_own_assignment_def by (auto simp: tx_success)

definition moved_batch :: "batch_status \<Rightarrow> string option \<Rightarrow> int \<Rightarrow> batch \<Rightarrow> batch" where
  "moved_batch dst aid now b =
     b\<lparr>b_status := dst, b_assignment_id := aid, b_version := b_version b + 1, b_updated_at := now\<rparr>"

lemma moved_batch_fields [simp]:
  "b_id (moved_batch dst aid now b) = b_id b" "b_status (moved_batch dst aid now b) = dst"
  "b_version (moved_batch dst aid now b) = b_version b + 1"
  "b_assignment_id (moved_batch dst aid now b) = aid"
  "b_claim_id (moved_batch dst aid now b) = b_claim_id b"
  "b_claim_epoch (moved_batch dst aid now b) = b_claim_epoch b"
  by (simp_all add: moved_batch_def)

lemma update_batch_assignment_moves:
  assumes wf: "db_wf d" and f: "find (\<lambda>b. b_id b = bid) (batches d) = Some b" and same: "batches e = batches d"
    and u: "update_batch_assignment (b_id b) (b_version b) src dst aid now e = Inr (b', e')"
  shows "b' = moved_batch dst aid now b" "e' = e\<lparr>batches := batches e'\<rparr>" "b_status b = src"
    and "batches d' = batches e' \<Longrightarrow> batch_moved src dst b b' d d'"
proof -
  let ?Q = "\<lambda>x. b_version x = b_version b \<and> b_status x = src" and ?f = "moved_batch dst aid now"
  have id: "b_id b = bid" using find_Some_memD [OF f] by simp
  have "guarded_batch_update (b_id b) ?Q ?f (AssignmentRepoErr RepoAssignmentConcurrency) e = Inr (b', e')"
    using u unfolding update_batch_assignment_def moved_batch_def [abs_def] .
  moreover have "distinct (map b_id (batches e))" using db_wf_batch_ids [OF wf] by (simp add: same)
  ultimately have r: "b' = ?f b" "?Q b" "e' = e\<lparr>batches := tbl_update (\<lambda>x. b_id x = b_id b \<and> ?Q x) ?f (batches d)\<rparr>"
    using f id by (auto simp: guarded_batch_update_Inr same)
  then show "b' = ?f b" "e' = e\<lparr>batches := batches e'\<rparr>" "b_status b = src" by simp_all
  show "batch_moved src dst b b' d d'" if "batches d' = batches e'"
    unfolding r(1)
    by (rule batch_moved_update [where Q = ?Q and f = ?f and bid = bid]) (use wf f r id that in auto)
qed

section \<open>What the commands do\<close>

lemma select_body_D:
  assumes "select_body env bid request epoch m d = Inr (r, d')"
  shows "\<exists>b c rv zone scope previous. find (\<lambda>b. b_id b = bid) (batches d) = Some b \<and>
     b_version b = word_of_int (md_expected_version m) \<and> b_claim_epoch b = epoch \<and>
     b_status b = BatchStatusApproved \<and> b_assignment_id b = None \<and> b_zone b = Some zone \<and>
     find_accepted_claim_reservation b d = Inr ((c, rv), d) \<and>
     find_collector_scope (sq_scope_id request) (cl_recycler_org_id c) (act_organisation_id (md_actor m)) zone
       (env_clock env 0) d = Inr (scope, d) \<and>
     previous = latest_by_sequence (filter (\<lambda>a. a_batch_id a = b_id b) (assignments d)) \<and>
     (case previous of None \<Rightarrow> True | Some p \<Rightarrow> \<not> same_collector m p) \<and>
     select_assign_tx env m b c scope previous d = Inr (r, d')"
  using assms unfolding select_body_def
  by (auto simp: tx_success find_accepted_claim_reservation_def find_collector_scope_def)

lemma select_record_tx_D:
  assumes "select_record_tx env m a scope ab now d = Inr (r, d')"
    and "commands d = cs @ [co]" "\<not> tbl_clash c_id co cs" "c_id co = env_id env 0" "c_state co = CommandStateInProgress"
  shows "\<exists>au e. r = mutation_result a (md_correlation_id m) (o_event_id e) \<and>
     e = new_outbox (o_event_id e) (env_id env 0) ab ''CollectorAssigned'' ''batch.collector.assigned''
           (assigned_payload (o_event_id e) (env_id env 0) ab a (md_correlation_id m) now) (md_correlation_id m) now \<and>
     au_command_id au = env_id env 0 \<and> au_batch_id au = b_id ab \<and> au_from_status au = BatchStatusApproved \<and>
     au_to_status au = BatchStatusAssigned \<and> au_batch_version au = b_version ab \<and>
     commands d' = cs @ [mark_completed 201 (encode_mutation_result r) now co] \<and> outbox d' = outbox d @ [e] \<and>
     audits d' = audits d @ [au] \<and> batches d' = batches d \<and> assignments d' = assignments d"
  using assms(1) assms(2) assignment_complete_last [OF _ assms(3-5)]
  unfolding select_record_tx_def Let_def by (auto simp: tx_success split: if_splits)

lemma select_assign_tx_outcome:
  assumes wf: "db_wf d" and f: "find (\<lambda>b. b_id b = bid) (batches d) = Some b"
    and s: "select_assign_tx env m b c scope previous d = Inr (r, d')"
  defines "now \<equiv> truncate_us (env_clock env 1)"
  defines "a \<equiv> new_assignment (env_id env 1) m b c scope previous now"
  shows "\<exists>e. transition m (encode_mutation_result r) BatchStatusApproved BatchStatusAssigned b
           (moved_batch BatchStatusAssigned (Some (env_id env 1)) now b) [e] d d' \<and>
         o_event_type e = ''CollectorAssigned'' \<and> assignments d' = assignments d @ [a] \<and>
         assignment_ok a d \<and> r = mutation_result a (md_correlation_id m) (o_event_id e)"
proof -
  define cmd where "cmd = new_command (env_id env 0) m (b_id b) now retain_for"
  define d1 where "d1 = d\<lparr>commands := commands d @ [cmd], assignments := assignments d @ [a]\<rparr>"
  obtain d2 ab d3 where co: "command_ok cmd d" and ok: "assignment_ok a (d\<lparr>commands := commands d @ [cmd]\<rparr>)"
    and ln: "link_command_assignment (env_id env 0) (a_id a) d1 = Inr ((), d2)"
    and ub: "update_batch_assignment (b_id b) (b_version b) BatchStatusApproved BatchStatusAssigned
                   (Some (a_id a)) now d2 = Inr (ab, d3)"
    and rec: "select_record_tx env m a scope ab now d3 = Inr (r, d')"
    using s unfolding select_assign_tx_def Let_def d1_def cmd_def a_def now_def
    unfolding tx_bind_Inr create_command_Inr create_assignment_Inr by force
  have cl: "\<not> tbl_clash c_id cmd (commands d)" "c_id cmd = env_id env 0" "c_state cmd = CommandStateInProgress"
     "c_assignment_id cmd = None"
    using command_ok_no_clash [OF co] by (simp_all add: cmd_def new_command_def)
  let ?cmd = "cmd\<lparr>c_assignment_id := Some (a_id a)\<rparr>"
  have d2: "d2 = d1\<lparr>commands := commands d @ [?cmd]\<rparr>"
    using ln link_last_command [OF _ cl(1,2,4), of d1] by (simp add: d1_def)
  note mv = update_batch_assignment_moves [OF wf f _ ub]
  have ab: "ab = moved_batch BatchStatusAssigned (Some (env_id env 1)) now b"
    using mv(1) by (simp add: d2 d1_def a_def new_assignment_def)
  have d3: "d3 = d2\<lparr>batches := batches d3\<rparr>" using mv(2) by (simp add: d2 d1_def)
  have t3: "commands d3 = commands d @ [?cmd]" "outbox d3 = outbox d" "audits d3 = audits d"
    "assignments d3 = assignments d @ [a]"
    by (subst d3, simp add: d2 d1_def)+
  have cl': "\<not> tbl_clash c_id ?cmd (commands d)" using cl(1) by (simp add: tbl_clash_def)
  obtain au e where R: "r = mutation_result a (md_correlation_id m) (o_event_id e)"
    "e = new_outbox (o_event_id e) (env_id env 0) ab ''CollectorAssigned'' ''batch.collector.assigned''
           (assigned_payload (o_event_id e) (env_id env 0) ab a (md_correlation_id m) now) (md_correlation_id m) now"
    "au_command_id au = env_id env 0" "au_batch_id au = b_id ab" "au_from_status au = BatchStatusApproved"
    "au_to_status au = BatchStatusAssigned" "au_batch_version au = b_version ab"
    "commands d' = commands d @ [mark_completed 201 (encode_mutation_result r) now ?cmd]" "outbox d' = outbox d3 @ [e]"
    "audits d' = audits d3 @ [au]" "batches d' = batches d3" "assignments d' = assignments d3"
    using select_record_tx_D [OF rec t3(1) cl'] cl(2,3) by auto
  have ev: "o_command_id e = env_id env 0" "o_batch_id e = b_id ab" "o_partition_key e = b_id ab"
     "o_aggregate_version e = b_version ab" "o_state e = OutboxPending" "o_attempts e = 0"
     "o_event_type e = ''CollectorAssigned''"
    by (subst R(2), rule new_outbox_fields)+
  have rt: "routed e" by (subst R(2), rule routed_assigned)
  have bm: "batch_moved BatchStatusApproved BatchStatusAssigned b ab d d'"
    using mv(4) R(11) by (simp add: d2 d1_def)
  have "transition m (encode_mutation_result r) BatchStatusApproved BatchStatusAssigned b ab [e] d d'"
    by (rule transitionI [where c = ?cmd and a = au])
      (use R t3 ev bm rt in \<open>auto simp: cmd_def new_command_def command_key_def metadata_key_def\<close>)
  moreover have "assignment_ok a d" using ok by (simp add: assignment_ok_def)
  ultimately show ?thesis using R(1,12) t3(4) ab ev(7) by auto
qed

definition assignment_changed :: "assignment \<Rightarrow> assignment \<Rightarrow> db \<Rightarrow> db \<Rightarrow> bool" where
  "assignment_changed a0 a d d' =
     (find (\<lambda>x. a_id x = a_id a) (assignments d) = Some a0 \<and> a_version a = a_version a0 + 1 \<and>
      (\<forall>y. find (\<lambda>x. a_id x = y) (assignments d') =
           (if y = a_id a then Some a else find (\<lambda>x. a_id x = y) (assignments d))))"

lemma update_assignment_changes:
  assumes f: "find (\<lambda>x. a_id x = aid) (assignments d) = Some a0" and same: "assignments e = assignments d"
    and a: "a_id a = aid" "a_version a = a_version a0 + 1" "copy_assignment_columns a a0 = a"
    and u: "update_assignment a e = Inr (u', e')"
  shows "e' = e\<lparr>assignments := assignments e'\<rparr>"
    and "assignments d' = assignments e' \<Longrightarrow> assignment_changed a0 a d d'"
proof -
  let ?Q = "\<lambda>r. a_version r = a_version a - 1" and ?f = "copy_assignment_columns a"
  have e': "e' = e\<lparr>assignments := tbl_update (\<lambda>r. a_id r = a_id a \<and> ?Q r) ?f (assignments e)\<rparr>"
    by (rule update_assignment_D(1) [OF u])
  then show "e' = e\<lparr>assignments := assignments e'\<rparr>" by simp
  assume d': "assignments d' = assignments e'"
  have "find (\<lambda>x. a_id x = y) (assignments d') =
        (if y = aid then Some a else find (\<lambda>x. a_id x = y) (assignments d))" for y
  proof (cases "y = aid")
    case True
    then show ?thesis
      using find_tbl_update [where key = a_id and Q = ?Q and f = ?f, OF f] a by (simp add: d' e' same)
  next
    case False
    then show ?thesis
      using find_tbl_update_other [where key = a_id, of ?f "\<lambda>r. a_id r = a_id a \<and> ?Q r" y] a
      by (simp add: d' e' same)
  qed
  then show "assignment_changed a0 a d d'" using f a by (simp add: assignment_changed_def)
qed

text \<open>
  The part of the writing that accept, reject and pickup share: the assignment, its batch, and then
  an action, an audit row and the events.
\<close>

lemma assignment_write:
  assumes wf: "db_wf d" and fa: "find (\<lambda>x. a_id x = aid) (assignments d) = Some a0"
    and fb: "find (\<lambda>b. b_id b = bid) (batches d) = Some b"
    and a: "a_id a = aid" "a_version a = a_version a0 + 1" "copy_assignment_columns a a0 = a"
    and e: "assignments e = assignments d" "batches e = batches d"
    and ua: "update_assignment a e = Inr (u, e1)"
    and ub: "update_batch_assignment (b_id b) (b_version b) src dst nxt now e1 = Inr (b', e2)"
  shows "b' = moved_batch dst nxt now b" "b_status b = src"
    and "e2 = e\<lparr>assignments := assignments e2, batches := batches e2\<rparr>"
    and "assignments d' = assignments e2 \<Longrightarrow> assignment_changed a0 a d d'"
    and "batches d' = batches e2 \<Longrightarrow> batch_moved src dst b b' d d'"
proof -
  note A = update_assignment_changes [OF fa e(1) a ua]
  have e1: "batches e1 = batches d" by (subst A(1)) (simp add: e(2))
  note B = update_batch_assignment_moves [OF wf fb e1 ub]
  show "b' = moved_batch dst nxt now b" "b_status b = src" using B by auto
  have s: "assignments e2 = assignments e1" by (subst B(2)) simp
  show "e2 = e\<lparr>assignments := assignments e2, batches := batches e2\<rparr>"
    unfolding s using B(2) arg_cong [OF A(1), of "\<lambda>x. x\<lparr>batches := batches e2\<rparr>"] by (rule trans)
  show "assignments d' = assignments e2 \<Longrightarrow> assignment_changed a0 a d d'" using A(2) s by simp
  show "batches d' = batches e2 \<Longrightarrow> batch_moved src dst b b' d d'" using B(4) by simp
qed

lemma copy_changed [simp]:
  "copy_assignment_columns (accepted_assignment now a) a = accepted_assignment now a"
  "copy_assignment_columns (rejected_assignment reason now a) a = rejected_assignment reason now a"
  "copy_assignment_columns (closed_assignment p now a) a = closed_assignment p now a"
  by (simp_all add: copy_assignment_columns_def accepted_assignment_def rejected_assignment_def closed_assignment_def)

lemma changed_fields [simp]:
  "a_id (accepted_assignment now a) = a_id a" "a_version (accepted_assignment now a) = a_version a + 1"
  "a_id (rejected_assignment reason now a) = a_id a" "a_version (rejected_assignment reason now a) = a_version a + 1"
  "a_id (closed_assignment p now a) = a_id a" "a_version (closed_assignment p now a) = a_version a + 1"
  by (simp_all add: accepted_assignment_def rejected_assignment_def closed_assignment_def)

fun changed_assignment :: "assignment_change \<Rightarrow> int \<Rightarrow> assignment \<Rightarrow> assignment" where
  "changed_assignment AcceptChange now a = accepted_assignment now a"
| "changed_assignment (RejectChange reason) now a = rejected_assignment reason now a"

fun change_target :: "assignment_change \<Rightarrow> batch_status" where
  "change_target AcceptChange = BatchStatusAssigned"
| "change_target (RejectChange _) = BatchStatusApproved"

fun change_pointer :: "assignment_change \<Rightarrow> assignment \<Rightarrow> string option" where
  "change_pointer AcceptChange a = Some (a_id a)"
| "change_pointer (RejectChange _) a = None"

fun change_from :: "assignment_change \<Rightarrow> assignment_status \<Rightarrow> bool" where
  "change_from AcceptChange st \<longleftrightarrow> st = AssignmentStatusPending"
| "change_from (RejectChange _) st \<longleftrightarrow> st = AssignmentStatusPending \<or> st = AssignmentStatusAccepted"

lemma change_write_tx_D:
  assumes "change_write_tx env m ch b a0 now e = Inr (r, e')"
  defines "a \<equiv> changed_assignment ch now a0"
  shows "\<exists>e1 b' e2 au. change_from ch (a_status a0) \<and> update_assignment a e = Inr ((), e1) \<and>
      update_batch_assignment (b_id b) (b_version b) BatchStatusAssigned (change_target ch) (change_pointer ch a0) now e1
        = Inr (b', e2) \<and>
      commands e' = commands e2 \<and> outbox e' = outbox e2 \<and> audits e' = audits e2 @ [au] \<and>
      batches e' = batches e2 \<and> assignments e' = assignments e2 \<and>
      au_command_id au = env_id env 0 \<and> au_batch_id au = b_id b' \<and> au_from_status au = BatchStatusAssigned \<and>
      au_to_status au = change_target ch \<and> au_batch_version au = b_version b' \<and>
      r = mutation_result a (md_correlation_id m) []"
  using assms by (cases ch) (auto simp: accept_write_tx_def reject_write_tx_def Let_def tx_success)

lemma change_body_outcome:
  assumes wf: "db_wf d" and s: "change_body env aid ch m d = Inr (r, d')"
  defines "now \<equiv> truncate_us (env_clock env 0)"
  shows "\<exists>a b. a_id a = aid \<and> same_collector m a \<and> change_from ch (a_status a) \<and>
     b_version b = word_of_int (md_expected_version m) \<and> b_assignment_id b = Some aid \<and> b_id b = a_batch_id a \<and>
     transition m (encode_mutation_result r) BatchStatusAssigned (change_target ch) b
       (moved_batch (change_target ch) (change_pointer ch a) now b) [] d d' \<and>
     assignment_changed a (changed_assignment ch now a) d d' \<and>
     r = mutation_result (changed_assignment ch now a) (md_correlation_id m) []"
proof -
  obtain a b where fa: "find (\<lambda>a. a_id a = aid) (assignments d) = Some a"
    and fb: "find (\<lambda>b. b_id b = a_batch_id a) (batches d) = Some b" and own: "same_collector m a"
    and v: "b_version b = word_of_int (md_expected_version m)" "b_assignment_id b = Some (a_id a)"
    and s1: "tx_bind (create_command (new_command (env_id env 0) m (b_id b) now retain_for)) (\<lambda>_.
        tx_bind (change_write_tx env m ch b a now) (\<lambda>result.
        tx_bind (assignment_complete_command (env_id env 0) 200 (encode_mutation_result result) now) (\<lambda>_.
        tx_return result))) d = Inr (r, d')"
    using s unfolding change_body_def Let_def now_def [symmetric] tx_bind_Inr [of "find_own_assignment u g" for u g]
    by (auto simp: find_own_assignment_Inr)
  define cmd where "cmd = new_command (env_id env 0) m (b_id b) now retain_for"
  define e where "e = d\<lparr>commands := commands d @ [cmd]\<rparr>"
  obtain e' where co: "command_ok cmd d" and w: "change_write_tx env m ch b a now e = Inr (r, e')"
    and fin: "assignment_complete_command (env_id env 0) 200 (encode_mutation_result r) now e' = Inr ((), d')"
    using s1 unfolding cmd_def [symmetric] e_def by (auto simp: tx_success)
  let ?a = "changed_assignment ch now a"
  obtain e1 b' e2 au where w1: "change_from ch (a_status a)" "update_assignment ?a e = Inr ((), e1)"
    and w2: "update_batch_assignment (b_id b) (b_version b) BatchStatusAssigned (change_target ch) (change_pointer ch a) now e1
        = Inr (b', e2)"
    and e': "commands e' = commands e2" "outbox e' = outbox e2" "audits e' = audits e2 @ [au]"
      "batches e' = batches e2" "assignments e' = assignments e2"
    and au: "au_command_id au = env_id env 0" "au_batch_id au = b_id b'" "au_from_status au = BatchStatusAssigned"
      "au_to_status au = change_target ch" "au_batch_version au = b_version b'"
    and r: "r = mutation_result ?a (md_correlation_id m) []"
    using change_write_tx_D [OF w] by blast
  have id: "a_id a = aid" "b_id b = a_batch_id a" using find_Some_memD [OF fa] find_Some_memD [OF fb] by auto
  have ch: "a_id ?a = aid" "a_version ?a = a_version a + 1" "copy_assignment_columns ?a a = ?a"
    using id by (cases ch; simp)+
  have ee: "assignments e = assignments d" "batches e = batches d" by (simp_all add: e_def)
  note W = assignment_write [OF wf fa fb ch ee w1(2) w2]
  have t: "commands e' = commands d @ [cmd]" "outbox e' = outbox d" "audits e' = audits d @ [au]"
    by (simp add: e', subst W(3), simp add: e_def)+
  have cl: "\<not> tbl_clash c_id cmd (commands d)" "c_id cmd = env_id env 0" "c_state cmd = CommandStateInProgress"
    using command_ok_no_clash [OF co] by (simp_all add: cmd_def)
  have d': "d' = e'\<lparr>commands := commands d @ [mark_completed 200 (encode_mutation_result r) now cmd]\<rparr>"
    using fin assignment_complete_last [OF t(1) cl] by simp
  have k: "assignments d' = assignments e2" "batches d' = batches e2" by (simp_all add: d' e')
  have "transition m (encode_mutation_result r) BatchStatusAssigned (change_target ch) b b' [] d d'"
    by (rule transitionI [where c = cmd and a = au and st = 200 and t = now])
      (use W(5) [OF k(2)] au cl(2) t in \<open>auto simp: d' cmd_def metadata_key_def\<close>)
  then show ?thesis using id own w1 v W(1) W(4) [OF k(1)] r by auto
qed

lemma pickup_write_tx_D:
  assumes "pickup_write_tx env m p b a0 now d = Inr (r, d')"
  defines "a \<equiv> closed_assignment p now a0"
  defines "h \<equiv> new_handoff (env_id env 1) m (env_id env 0) b a0 now p"
  defines "cmd \<equiv> new_command (env_id env 0) m (b_id b) now retain_for"
  shows "\<exists>e1 b' e2 e3 au e. command_ok cmd d \<and> handoff_ok h d \<and>
      update_assignment a (d\<lparr>commands := commands d @ [cmd], handoffs := handoffs d @ [h]\<rparr>) = Inr ((), e1) \<and>
      update_batch_assignment (b_id b) (b_version b) BatchStatusAssigned (pickup_status p) (Some (a_id a)) now e1
        = Inr (b', e2) \<and>
      commands e3 = commands e2 \<and> outbox e3 = outbox e2 @ [e] \<and> audits e3 = audits e2 @ [au] \<and>
      batches e3 = batches e2 \<and> assignments e3 = assignments e2 \<and> handoffs e3 = handoffs e2 \<and>
      au_command_id au = env_id env 0 \<and> au_batch_id au = b_id b' \<and> au_from_status au = BatchStatusAssigned \<and>
      au_to_status au = pickup_status p \<and> au_batch_version au = b_version b' \<and>
      e = new_outbox (env_id env 4) (env_id env 0) b' (pickup_event p) (pickup_topic p)
            (pickup_payload (env_id env 4) (env_id env 0) b' a h p (md_correlation_id m) now)
            (md_correlation_id m) now \<and>
      r = mutation_result a (md_correlation_id m) (env_id env 4) \<and>
      assignment_complete_command (env_id env 0) 200 (encode_mutation_result r) now e3 = Inr ((), d')"
proof -
  define ac where "ac = assignment_action_row (env_id env 2) m (env_id env 0) a (pickup_action p)
        BatchStatusAssigned (pickup_status p) (pickup_reason p) None now (JObj [])"
  define audit where "audit = (\<lambda>b'. (new_audit_event (env_id env 3) m (env_id env 0) b' (pickup_event p)
        BatchStatusAssigned (pickup_status p) [(''assignment_id'', a_id a), (''handoff_id'', h_id h)] now)
        \<lparr>au_assignment_id := Some (a_id a)\<rparr>)"
  define ev where "ev = (\<lambda>b'. new_outbox (env_id env 4) (env_id env 0) b' (pickup_event p) (pickup_topic p)
            (pickup_payload (env_id env 4) (env_id env 0) b' a h p (md_correlation_id m) now)
            (md_correlation_id m) now)"
  obtain e1 b' e2 where 1: "command_ok cmd d" "handoff_ok h d"
    "update_assignment a (d\<lparr>commands := commands d @ [cmd], handoffs := handoffs d @ [h]\<rparr>) = Inr ((), e1)"
    "update_batch_assignment (b_id b) (b_version b) BatchStatusAssigned (pickup_status p) (Some (a_id a)) now e1
        = Inr (b', e2)"
    "r = mutation_result a (md_correlation_id m) (env_id env 4)"
    "assignment_complete_command (env_id env 0) 200 (encode_mutation_result r) now
        (e2\<lparr>actions := actions e2 @ [ac], audits := audits e2 @ [audit b'], outbox := outbox e2 @ [ev b']\<rparr>)
      = Inr ((), d')"
    using assms(1) unfolding pickup_write_tx_def Let_def a_def [symmetric] h_def [symmetric] cmd_def [symmetric]
      ac_def [symmetric] audit_def [symmetric] ev_def [symmetric]
    by (auto simp: tx_success handoff_ok_def audit_def ev_def)
  show ?thesis
    by (rule exI [of _ e1], rule exI [of _ b'], rule exI [of _ e2],
        rule exI [of _ "e2\<lparr>actions := actions e2 @ [ac], audits := audits e2 @ [audit b'], outbox := outbox e2 @ [ev b']\<rparr>"],
        rule exI [of _ "audit b'"], rule exI [of _ "ev b'"])
      (use 1 in \<open>simp add: audit_def ev_def\<close>)
qed

lemma pickup_body_outcome:
  assumes wf: "db_wf d" and s: "pickup_body env aid p m d = Inr (r, d')"
  defines "now \<equiv> truncate_us (env_clock env (pickup_clock p))"
  shows "\<exists>a b e. a_id a = aid \<and> same_collector m a \<and> a_status a = AssignmentStatusAccepted \<and>
     pickup_in_order p a \<and> b_version b = word_of_int (md_expected_version m) \<and> b_assignment_id b = Some aid \<and>
     b_id b = a_batch_id a \<and>
     transition m (encode_mutation_result r) BatchStatusAssigned (pickup_status p) b
       (moved_batch (pickup_status p) (Some aid) now b) [e] d d' \<and>
     o_event_type e = pickup_event p \<and>
     assignment_changed a (closed_assignment p now a) d d' \<and>
     handoffs d' = handoffs d @ [new_handoff (env_id env 1) m (env_id env 0) b a now p] \<and>
     r = mutation_result (closed_assignment p now a) (md_correlation_id m) (o_event_id e)"
proof -
  obtain a b where fa: "find (\<lambda>a. a_id a = aid) (assignments d) = Some a"
    and fb: "find (\<lambda>b. b_id b = a_batch_id a) (batches d) = Some b" and own: "same_collector m a"
    and v: "b_version b = word_of_int (md_expected_version m)" "b_assignment_id b = Some (a_id a)"
    and st: "a_status a = AssignmentStatusAccepted" and ord: "pickup_in_order p a"
    and s1: "pickup_write_tx env m p b a now d = Inr (r, d')"
    using s unfolding pickup_body_def now_def [symmetric] tx_bind_Inr [of "find_own_assignment u g" for u g]
    by (auto simp: tx_success)
  define cmd where "cmd = new_command (env_id env 0) m (b_id b) now retain_for"
  let ?a = "closed_assignment p now a" and ?h = "new_handoff (env_id env 1) m (env_id env 0) b a now p"
  obtain e1 b' e2 e3 au e where co: "command_ok cmd d"
    and u: "update_assignment ?a (d\<lparr>commands := commands d @ [cmd], handoffs := handoffs d @ [?h]\<rparr>) = Inr ((), e1)"
    and ub: "update_batch_assignment (b_id b) (b_version b) BatchStatusAssigned (pickup_status p) (Some (a_id ?a)) now e1
        = Inr (b', e2)"
    and e3: "commands e3 = commands e2" "outbox e3 = outbox e2 @ [e]" "audits e3 = audits e2 @ [au]"
      "batches e3 = batches e2" "assignments e3 = assignments e2" "handoffs e3 = handoffs e2"
    and au: "au_command_id au = env_id env 0" "au_batch_id au = b_id b'" "au_from_status au = BatchStatusAssigned"
      "au_to_status au = pickup_status p" "au_batch_version au = b_version b'"
    and e: "e = new_outbox (env_id env 4) (env_id env 0) b' (pickup_event p) (pickup_topic p)
            (pickup_payload (env_id env 4) (env_id env 0) b' ?a ?h p (md_correlation_id m) now)
            (md_correlation_id m) now"
    and r: "r = mutation_result ?a (md_correlation_id m) (env_id env 4)"
    and fin: "assignment_complete_command (env_id env 0) 200 (encode_mutation_result r) now e3 = Inr ((), d')"
    using pickup_write_tx_D [OF s1] unfolding cmd_def by blast
  have id: "a_id a = aid" "b_id b = a_batch_id a" using find_Some_memD [OF fa] find_Some_memD [OF fb] by auto
  have ch: "a_id ?a = aid" "a_version ?a = a_version a + 1" "copy_assignment_columns ?a a = ?a" using id by simp_all
  have ee: "assignments (d\<lparr>commands := commands d @ [cmd], handoffs := handoffs d @ [?h]\<rparr>) = assignments d"
    "batches (d\<lparr>commands := commands d @ [cmd], handoffs := handoffs d @ [?h]\<rparr>) = batches d" by simp_all
  note W = assignment_write [OF wf fa fb ch ee u ub]
  have t: "commands e3 = commands d @ [cmd]" "outbox e3 = outbox d @ [e]" "audits e3 = audits d @ [au]"
    "handoffs e3 = handoffs d @ [?h]"
    by (simp add: e3, subst W(3), simp)+
  have cl: "\<not> tbl_clash c_id cmd (commands d)" "c_id cmd = env_id env 0" "c_state cmd = CommandStateInProgress"
    using command_ok_no_clash [OF co] by (simp_all add: cmd_def)
  have d': "d' = e3\<lparr>commands := commands d @ [mark_completed 200 (encode_mutation_result r) now cmd]\<rparr>"
    using fin assignment_complete_last [OF t(1) cl] by simp
  have k: "assignments d' = assignments e2" "batches d' = batches e2" by (simp_all add: d' e3)
  have "transition m (encode_mutation_result r) BatchStatusAssigned (pickup_status p) b b' [e] d d'"
    by (rule transitionI [where c = cmd and a = au and st = 200 and t = now])
      (use W(5) [OF k(2)] au cl(2) t in \<open>auto simp: d' cmd_def metadata_key_def e routed_pickup\<close>)
  moreover have "o_event_type e = pickup_event p" "r = mutation_result ?a (md_correlation_id m) (o_event_id e)"
    "handoffs d' = handoffs d @ [?h]"
    by (simp_all add: e r d' t)
  ultimately show ?thesis using id own st ord v W(1) W(4) [OF k(1)] ch(1) by auto
qed

lemma recover_tx_outcome:
  assumes wf: "db_wf d" and s: "recover_tx env aid svc m d = Inr (r, d')"
  defines "now \<equiv> truncate_us (env_clock env 0)"
  shows "recorded decode_mutation_result m r d \<and> d' = d \<or>
    stored_command m d = None \<and>
    (\<exists>a b. a_id a = aid \<and> a_status a = AssignmentStatusFailed \<and> b_id b = a_batch_id a \<and>
       b_assignment_id b = Some aid \<and>
       transition m (encode_mutation_result r) BatchStatusFailedCollection BatchStatusApproved b
         (moved_batch BatchStatusApproved None now b) [] d d' \<and>
       assignments d' = assignments d \<and> handoffs d' = handoffs d \<and> claims d' = claims d \<and>
       reservations d' = reservations d \<and> mr_data r = view_of a)"
proof (cases "recorded decode_mutation_result m r d \<and> d' = d")
  case False
  then have 1: "stored_command m d = None" "tx_bind (find_assignment_for_update aid) (\<lambda>a.
     tx_bind (assignment_find_batch_for_update (a_batch_id a)) (\<lambda>b.
     tx_bind (tx_guard (a_status a = AssignmentStatusFailed \<and> b_status b = BatchStatusFailedCollection \<and>
                 b_assignment_id b = Some (a_id a)) ErrAssignmentInvalidState) (\<lambda>_.
     recover_write_tx env m svc b a))) d = Inr (r, d')"
    using s unfolding recover_tx_def assignment_replay_or_fresh by blast+
  then obtain a b where fa: "find (\<lambda>a. a_id a = aid) (assignments d) = Some a"
    and fb: "find (\<lambda>b. b_id b = a_batch_id a) (batches d) = Some b"
    and g: "a_status a = AssignmentStatusFailed" "b_assignment_id b = Some (a_id a)"
    and w: "recover_write_tx env m svc b a d = Inr (r, d')"
    by (auto simp: tx_success)
  have id: "a_id a = aid" "b_id b = a_batch_id a" using find_Some_memD [OF fa] find_Some_memD [OF fb] by auto
  define cmd where "cmd = recovery_command (env_id env 0) m svc (b_id b) (a_id a) now"
  define e where "e = d\<lparr>commands := commands d @ [cmd]\<rparr>"
  obtain b' e2 where co: "command_ok cmd d"
    and ub: "update_batch_assignment (b_id b) (b_version b) BatchStatusFailedCollection BatchStatusApproved None now e
        = Inr (b', e2)"
    and fin: "assignment_complete_command (env_id env 0) 200 (encode_mutation_result r) now
        (e2\<lparr>audits := audits e2 @ [recovery_audit (env_id env 1) (env_id env 0) svc b' (a_id a) (md_correlation_id m) now]\<rparr>)
        = Inr ((), d')"
    and r: "mr_data r = view_of a"
    using w unfolding recover_write_tx_def Let_def now_def [symmetric] cmd_def [symmetric] e_def
    by (auto simp: tx_success)
  have ee: "batches e = batches d" by (simp add: e_def)
  note B = update_batch_assignment_moves [OF wf fb ee ub]
  have t: "commands e2 = commands d @ [cmd]" "outbox e2 = outbox d" "audits e2 = audits d" "assignments e2 = assignments d"
     "handoffs e2 = handoffs d" "claims e2 = claims d" "reservations e2 = reservations d"
    by (subst B(2), simp add: e_def)+
  have cl: "\<not> tbl_clash c_id cmd (commands d)" "c_id cmd = env_id env 0" "c_state cmd = CommandStateInProgress"
    using command_ok_no_clash [OF co] by (simp_all add: cmd_def recovery_command_def)
  let ?au = "recovery_audit (env_id env 1) (env_id env 0) svc b' (a_id a) (md_correlation_id m) now"
  have d': "d' = e2\<lparr>commands := commands d @ [mark_completed 200 (encode_mutation_result r) now cmd],
      audits := audits d @ [?au]\<rparr>"
    using fin assignment_complete_last [OF _ cl, of "e2\<lparr>audits := audits e2 @ [?au]\<rparr>"] t by simp
  have "transition m (encode_mutation_result r) BatchStatusFailedCollection BatchStatusApproved b b' [] d d'"
    by (rule transitionI [where c = cmd and a = ?au and st = 200 and t = now])
      (use B(4) [of d'] cl(2) t in \<open>auto simp: d' cmd_def recovery_command_def command_key_def metadata_key_def recovery_audit_def\<close>)
  moreover have "assignments d' = assignments d" "handoffs d' = handoffs d" "claims d' = claims d"
    "reservations d' = reservations d" by (simp_all add: d' t)
  ultimately show ?thesis using 1(1) id g r B(1) by auto
qed blast

section \<open>Contracts\<close>

lemma pickup_target: "lifecycle_step BatchStatusAssigned (pickup_status p)"
  by (cases p) (auto intro: lifecycle_step.intros)

context core_steps
begin

lemma validate_collector_steps: "steps R (validate_collector_actor u g)"
  unfolding validate_collector_actor_def by (intro core_rules)

lemma assignment_load_replay_steps: "steps R (assignment_load_replay m)"
  unfolding assignment_load_replay_def load_replay_with_def assignment_find_command_def by (intro core_rules)

lemma collector_tx_steps: "steps R body \<Longrightarrow> steps R (collector_tx m body)"
  unfolding collector_tx_def by (intro core_rules assignment_load_replay_steps validate_collector_steps)

lemma find_own_assignment_steps: "steps R (find_own_assignment m aid)"
  unfolding find_own_assignment_def find_assignment_for_update_def assignment_find_batch_for_update_def
  by (intro core_rules)

lemmas assignment_rules =
  core_rules assignment_load_replay_steps validate_collector_steps collector_tx_steps find_own_assignment_steps

lemma select_tx_steps: "steps R (select_tx env bid request epoch m)"
  unfolding select_tx_def select_body_def select_assign_tx_def select_record_tx_def Let_def
    assignment_find_batch_for_update_def find_accepted_claim_reservation_def find_collector_scope_def
    find_previous_assignment_def find_latest_assignment_def assignment_complete_command_def
  by (intro assignment_rules lifecycle_step.intros)

lemma change_write_tx_steps: "steps R (change_write_tx env m ch b a now)"
  by (cases ch)
    (simp_all add: accept_write_tx_def reject_write_tx_def Let_def, (intro assignment_rules lifecycle_step.intros)+)

lemma change_tx_steps: "steps R (change_tx env aid ch m)"
  unfolding change_tx_def change_body_def Let_def assignment_complete_command_def
  by (intro assignment_rules change_write_tx_steps)

lemma pickup_tx_steps: "steps R (pickup_tx env aid p m)"
  unfolding pickup_tx_def pickup_body_def pickup_write_tx_def Let_def assignment_complete_command_def
  by (intro assignment_rules pickup_target)

lemma recover_tx_steps: "steps R (recover_tx env aid svc m)"
  unfolding recover_tx_def recover_write_tx_def Let_def assignment_complete_command_def
    find_assignment_for_update_def assignment_find_batch_for_update_def
  by (intro assignment_rules lifecycle_step.intros)

end

interpretation select_replay: replay_contract
  "select_tx env bid request epoch" decode_mutation_result eligible_collector ErrAssignmentIdempotencyConflict
  for env bid request epoch
  unfolding select_tx_def [abs_def]
proof (rule collector_contract)
  fix m d r d'
  assume wf: "db_wf d" and st: "stored_command m d = None" and s: "select_body env bid request epoch m d = Inr (r, d')"
  obtain b c scope previous where "find (\<lambda>b. b_id b = bid) (batches d) = Some b"
    "select_assign_tx env m b c scope previous d = Inr (r, d')"
    using select_body_D [OF s] by blast
  from select_assign_tx_outcome [OF wf this] st show "recorded decode_mutation_result m r d'"
    by (auto intro: transition_recorded [where decode = decode_mutation_result, OF _ _ decode_encode_mutation_result])
qed

interpretation change_replay: replay_contract
  "change_tx env aid ch" decode_mutation_result eligible_collector ErrAssignmentIdempotencyConflict for env aid ch
  unfolding change_tx_def [abs_def]
  by (rule collector_contract, drule (1) change_body_outcome)
    (auto intro: transition_recorded [where decode = decode_mutation_result, OF _ _ decode_encode_mutation_result])

interpretation pickup_replay: replay_contract
  "pickup_tx env aid p" decode_mutation_result eligible_collector ErrAssignmentIdempotencyConflict for env aid p
  unfolding pickup_tx_def [abs_def]
  by (rule collector_contract, drule (1) pickup_body_outcome)
    (auto intro: transition_recorded [where decode = decode_mutation_result, OF _ _ decode_encode_mutation_result])

interpretation recover_replay: replay_contract
  "recover_tx env aid svc" decode_mutation_result "\<lambda>_ _. True" ErrAssignmentIdempotencyConflict for env aid svc
proof
  fix d m r d' c
  show "db_wf d \<Longrightarrow> recover_tx env aid svc m d = Inr (r, d') \<Longrightarrow> recorded decode_mutation_result m r d'"
    by (drule (1) recover_tx_outcome)
      (auto intro: transition_recorded [where decode = decode_mutation_result, OF _ _ decode_encode_mutation_result])
  show "recorded decode_mutation_result m r d \<Longrightarrow> recover_tx env aid svc m d = Inr (r, d)"
    by (simp add: recover_tx_def assignment_replay_or_fresh)
  show "stored_command m d = Some c \<Longrightarrow> c_request_hash c \<noteq> md_request_hash m \<Longrightarrow>
        recover_tx env aid svc m d = Inl ErrAssignmentIdempotencyConflict"
    by (simp add: recover_tx_def assignment_load_replay_conflict)
qed

section \<open>The handlers\<close>

lemma assignment_resolve_replay_D:
  "assignment_resolve_replay m d = Inr (Some r, d') \<Longrightarrow> recorded decode_mutation_result m r d \<and> d' = d"
  by (auto simp: assignment_resolve_replay_def tx_success split: if_splits)

lemma assignment_execute_recorded:
  assumes "\<And>e r e'. db_wf e \<Longrightarrow> body e = Inr (r, e') \<Longrightarrow> recorded decode_mutation_result m r e'"
    and "\<forall>i e. db_wf e \<longrightarrow> db_wf (env_others env i e)" "db_wf d"
    and "assignment_execute env m body d = (Inr r, d')"
  shows "recorded decode_mutation_result m r d'"
proof -
  have "db_wf (env_others env 0 d)" using assms(2,3) by blast
  from assms(1) [OF this] show ?thesis
    using assms(4)
    by (auto simp: assignment_execute_def Let_def run_tx_def dest: assignment_resolve_replay_D
        split: sum.splits option.splits prod.splits)
qed

lemma assignment_execute_rolled_back:
  assumes "assignment_execute env m body d = (Inl e, d')"
  shows "d' = d \<or> d' = env_others env 1 (env_others env 0 d)"
  using assms
  by (auto simp: assignment_execute_def Let_def run_tx_def split: sum.splits option.splits prod.splits)

end
