(* ===== verification/ReceiptTreatment.thy ===== *)
theory ReceiptTreatment
  imports AssignmentService
begin

text \<open>
  \<open>internal/service/receipt.go\<close> and \<open>treatment.go\<close>: the recycler verifies what was collected and
  records how it was treated.  \<open>normalize_treatment_request\<close> splits the received weight, in cents,
  into reused, recycled, disposed and unknown; the \<open>int64\<close> sums of the code stay below 2^35
  (\<open>parse_treatment_cents_bounds\<close>), so the model computes them in \<open>int\<close>.
\<close>

section \<open>Requests and results\<close>

record receipt_request =
  rq_category :: string
  rq_item_count :: "32 word"
  rq_weight :: string

record receipt_view =
  rv_batch_id :: string
  rv_status :: string
  rv_version :: int
  rv_receipt_id :: string
  rv_category :: string
  rv_item_count :: "32 word"
  rv_weight :: string

record receipt_result =
  rr_data :: receipt_view
  rr_correlation_id :: string
  rr_event_id :: string
  rr_event_state :: string

record treatment_request =
  tq_reused :: "string option"
  tq_recycled :: "string option"
  tq_disposed :: "string option"
  tq_evidence_id :: "string option"

record treatment_view =
  tv_batch_id :: string
  tv_status :: string
  tv_version :: int
  tv_treatment_id :: string
  tv_reused :: "string option"
  tv_recycled :: "string option"
  tv_disposed :: "string option"
  tv_unknown :: "string option"
  tv_diverted :: "string option"
  tv_quality :: string
  tv_evidence_status :: string

record treatment_result =
  tr_data :: treatment_view
  tr_correlation_id :: string
  tr_event_id :: string
  tr_event_state :: string

definition encode_receipt_view :: "receipt_view \<Rightarrow> json" where
  "encode_receipt_view v =
     JObj [(''batch_id'', JStr (rv_batch_id v)), (''status'', JStr (rv_status v)),
           (''version'', JInt (rv_version v)), (''receipt_id'', JStr (rv_receipt_id v)),
           (''actual_category'', JStr (rv_category v)), (''actual_item_count'', JInt (uint (rv_item_count v))),
           (''actual_weight_kg'', JStr (rv_weight v))]"

definition encode_receipt_result :: "receipt_result \<Rightarrow> json" where
  "encode_receipt_result r =
     JObj ([(''data'', encode_receipt_view (rr_data r)), (''correlation_id'', JStr (rr_correlation_id r))]
           @ json_omit_empty ''event_id'' (rr_event_id r) @ json_omit_empty ''event_state'' (rr_event_state r))"

definition decode_receipt_view :: "json \<Rightarrow> receipt_view option" where
  "decode_receipt_view j = do {
     b \<leftarrow> dec_str ''batch_id'' j; s \<leftarrow> dec_str ''status'' j; v \<leftarrow> dec_int ''version'' j;
     ri \<leftarrow> dec_str ''receipt_id'' j; ca \<leftarrow> dec_str ''actual_category'' j;
     ic \<leftarrow> dec_u32 ''actual_item_count'' j; w \<leftarrow> dec_str ''actual_weight_kg'' j;
     Some \<lparr>rv_batch_id = b, rv_status = s, rv_version = v, rv_receipt_id = ri, rv_category = ca,
       rv_item_count = ic, rv_weight = w\<rparr> }"

definition decode_receipt_result :: "json \<Rightarrow> receipt_result option" where
  "decode_receipt_result j = do {
     data \<leftarrow> dec_obj decode_receipt_view ''data'' j;
     co \<leftarrow> dec_str ''correlation_id'' j; ev \<leftarrow> dec_str ''event_id'' j; es \<leftarrow> dec_str ''event_state'' j;
     Some \<lparr>rr_data = data, rr_correlation_id = co, rr_event_id = ev, rr_event_state = es\<rparr> }"

lemma decode_encode_receipt_view [simp]: "decode_receipt_view (encode_receipt_view v) = Some v"
  by (simp add: decode_receipt_view_def encode_receipt_view_def dec_defs dec_u32_def u32_range)

lemma encode_receipt_view_json: "encode_receipt_view v \<noteq> JNull"
  by (simp add: encode_receipt_view_def)

lemma decode_encode_receipt_result [simp]: "decode_receipt_result (encode_receipt_result r) = Some r"
  by (simp add: decode_receipt_result_def encode_receipt_result_def encode_receipt_view_json dec_defs map_of_omit
      del: map_of_append)

definition encode_treatment_view :: "treatment_view \<Rightarrow> json" where
  "encode_treatment_view v =
     JObj [(''batch_id'', JStr (tv_batch_id v)), (''status'', JStr (tv_status v)),
           (''version'', JInt (tv_version v)), (''treatment_id'', JStr (tv_treatment_id v)),
           (''reused_kg'', json_opt JStr (tv_reused v)), (''recycled_kg'', json_opt JStr (tv_recycled v)),
           (''disposed_kg'', json_opt JStr (tv_disposed v)), (''unknown_kg'', json_opt JStr (tv_unknown v)),
           (''diverted_kg'', json_opt JStr (tv_diverted v)), (''data_quality'', JStr (tv_quality v)),
           (''evidence_status'', JStr (tv_evidence_status v))]"

definition encode_treatment_result :: "treatment_result \<Rightarrow> json" where
  "encode_treatment_result r =
     JObj ([(''data'', encode_treatment_view (tr_data r)), (''correlation_id'', JStr (tr_correlation_id r))]
           @ json_omit_empty ''event_id'' (tr_event_id r) @ json_omit_empty ''event_state'' (tr_event_state r))"

definition decode_treatment_view :: "json \<Rightarrow> treatment_view option" where
  "decode_treatment_view j = do {
     b \<leftarrow> dec_str ''batch_id'' j; s \<leftarrow> dec_str ''status'' j; v \<leftarrow> dec_int ''version'' j;
     ti \<leftarrow> dec_str ''treatment_id'' j; re \<leftarrow> dec_ptr as_str ''reused_kg'' j;
     rc \<leftarrow> dec_ptr as_str ''recycled_kg'' j; di \<leftarrow> dec_ptr as_str ''disposed_kg'' j;
     un \<leftarrow> dec_ptr as_str ''unknown_kg'' j; dv \<leftarrow> dec_ptr as_str ''diverted_kg'' j;
     dq \<leftarrow> dec_str ''data_quality'' j; es \<leftarrow> dec_str ''evidence_status'' j;
     Some \<lparr>tv_batch_id = b, tv_status = s, tv_version = v, tv_treatment_id = ti, tv_reused = re,
       tv_recycled = rc, tv_disposed = di, tv_unknown = un, tv_diverted = dv, tv_quality = dq,
       tv_evidence_status = es\<rparr> }"

definition decode_treatment_result :: "json \<Rightarrow> treatment_result option" where
  "decode_treatment_result j = do {
     data \<leftarrow> dec_obj decode_treatment_view ''data'' j;
     co \<leftarrow> dec_str ''correlation_id'' j; ev \<leftarrow> dec_str ''event_id'' j; es \<leftarrow> dec_str ''event_state'' j;
     Some \<lparr>tr_data = data, tr_correlation_id = co, tr_event_id = ev, tr_event_state = es\<rparr> }"

lemma decode_encode_treatment_view [simp]: "decode_treatment_view (encode_treatment_view v) = Some v"
  by (simp add: decode_treatment_view_def encode_treatment_view_def dec_defs)

lemma encode_treatment_view_json: "encode_treatment_view v \<noteq> JNull"
  by (simp add: encode_treatment_view_def)

lemma decode_encode_treatment_result [simp]: "decode_treatment_result (encode_treatment_result r) = Some r"
  by (simp add: decode_treatment_result_def encode_treatment_result_def encode_treatment_view_json dec_defs
      map_of_omit del: map_of_append)

section \<open>Checks\<close>

definition require_receipt_recycler :: "metadata \<Rightarrow> error + unit" where
  "require_receipt_recycler m =
     (if act_user_id (md_actor m) = [] \<or> act_organisation_id (md_actor m) = [] then Inl ErrBatchForbidden
      else if \<not> equal_fold (trim_space (act_role_code (md_actor m))) ''RECYCLER'' then Inl ErrBatchForbidden
      else if md_correlation_id m = [] then Inl ErrBatchValidation
      else Inr ())"

definition normalize_receipt_request :: "receipt_request \<Rightarrow> error + receipt_request" where
  "normalize_receipt_request request =
     (let category = to_upper (trim_space (rq_category request));
          weight = trim_space (rq_weight request) in
      if \<not> allowed_value category [''ICT_EQUIPMENT'', ''LARGE_APPLIANCE'', ''BATTERIES'', ''CONSUMER_ELECTRONICS'']
      then Inl (new_batch_validation_error [(''actual_category'', ''unsupported category'')])
      else if rq_item_count request < 1 \<or> rq_item_count request > 100000
      then Inl (new_batch_validation_error [(''actual_item_count'', ''must be between 1 and 100000'')])
      else if \<not> weight_pattern weight
      then Inl (new_batch_validation_error
             [(''actual_weight_kg'', ''must be a non-negative decimal with at most two decimal places'')])
      else (case parse_float weight of
              None \<Rightarrow> Inl (new_batch_validation_error
                       [(''actual_weight_kg'', ''must be between 0.10 and 50000.00 kg'')])
            | Some parsed \<Rightarrow>
                if parsed < 1 / 10 \<or> parsed > 50000
                then Inl (new_batch_validation_error
                       [(''actual_weight_kg'', ''must be between 0.10 and 50000.00 kg'')])
                else Inr \<lparr>rq_category = category, rq_item_count = rq_item_count request,
                          rq_weight = format_float2 parsed\<rparr>))"

definition map_receipt_repository_error :: "error \<Rightarrow> error" where
  "map_receipt_repository_error e =
     (if errors_is e (BatchRepoErr RepoBatchActorNotEligible) then ErrBatchForbidden
      else if errors_is e (BatchRepoErr RepoBatchConcurrency) then ErrBatchStaleVersion
      else e)"

definition map_treatment_repository_error :: "error \<Rightarrow> error" where
  "map_treatment_repository_error e =
     (if errors_is e (BatchRepoErr RepoBatchActorNotEligible) then ErrBatchForbidden
      else if errors_is e (BatchRepoErr RepoEvidenceNotFound) then ErrBatchEvidenceNotFound
      else if errors_is e (BatchRepoErr RepoBatchConcurrency) then ErrBatchStaleVersion
      else e)"

text \<open>The treatment weights as cents (\<open>normalizeTreatmentRequest\<close>).\<close>

record normalized_treatment =
  nt_received :: string
  nt_reused :: "string option"
  nt_recycled :: "string option"
  nt_disposed :: "string option"
  nt_unknown :: "string option"
  nt_diverted :: "string option"
  nt_quality :: data_quality
  nt_evidence_id :: "string option"

definition split_treatment :: "treatment_request \<Rightarrow> int \<Rightarrow> error + normalized_treatment" where
  "split_treatment request received =
     (case (tq_reused request, tq_recycled request, tq_disposed request) of
        (None, None, None) \<Rightarrow>
          Inr \<lparr>nt_received = format_treatment_cents received, nt_reused = None, nt_recycled = None,
               nt_disposed = None, nt_unknown = Some (format_treatment_cents received), nt_diverted = None,
               nt_quality = QualityMissing, nt_evidence_id = None\<rparr>
      | (Some ru, Some ry, Some di) \<Rightarrow>
         (case parse_treatment_cents ru ''reused_kg'' of Inl e \<Rightarrow> Inl e | Inr reused \<Rightarrow>
         (case parse_treatment_cents ry ''recycled_kg'' of Inl e \<Rightarrow> Inl e | Inr recycled \<Rightarrow>
         (case parse_treatment_cents di ''disposed_kg'' of Inl e \<Rightarrow> Inl e | Inr disposed \<Rightarrow>
            if reused > received - recycled - disposed
            then Inl (new_batch_validation_error
                   [(''treatment'', ''treatment totals must not exceed actual received weight'')])
            else
              let unknown = received - reused - recycled - disposed in
              Inr \<lparr>nt_received = format_treatment_cents received,
                   nt_reused = Some (format_treatment_cents reused),
                   nt_recycled = Some (format_treatment_cents recycled),
                   nt_disposed = Some (format_treatment_cents disposed),
                   nt_unknown = Some (format_treatment_cents unknown),
                   nt_diverted = Some (format_treatment_cents (reused + recycled)),
                   nt_quality = (if unknown \<noteq> 0 then QualityPartial else QualityComplete),
                   nt_evidence_id = None\<rparr>)))
      | _ \<Rightarrow> Inl (new_batch_validation_error
              [(''treatment'', ''reused_kg, recycled_kg, and disposed_kg must all be supplied or all be absent'')]))"

definition normalize_treatment_request :: "treatment_request \<Rightarrow> string \<Rightarrow> error + normalized_treatment" where
  "normalize_treatment_request request received_weight =
     (case parse_treatment_cents received_weight ''received_weight_kg'' of
        Inl _ \<Rightarrow> Inl (new_batch_validation_error
            [(''received_weight_kg'', ''must be a positive decimal with at most two decimal places'')])
      | Inr received \<Rightarrow>
          if received < 1
          then Inl (new_batch_validation_error
            [(''received_weight_kg'', ''must be a positive decimal with at most two decimal places'')])
          else (case split_treatment request received of Inl e \<Rightarrow> Inl e | Inr values \<Rightarrow>
            (case tq_evidence_id request of
               None \<Rightarrow> Inr values
             | Some raw \<Rightarrow>
                 let evidence_id = trim_space raw in
                 if evidence_id = []
                 then Inl (new_batch_validation_error [(''evidence_id'', ''must not be empty when supplied'')])
                 else Inr (values\<lparr>nt_evidence_id := Some evidence_id\<rparr>))))"

definition normalized_receipt_version :: "receipt \<Rightarrow> 32 word" where
  "normalized_receipt_version r = (if rc_version r = 0 then 1 else rc_version r)"

section \<open>VerifyReceipt\<close>

definition receipt_value_or_empty :: "string option \<Rightarrow> string" where
  "receipt_value_or_empty v = (case v of None \<Rightarrow> [] | Some s \<Rightarrow> s)"

definition value_or_zero :: "int option \<Rightarrow> int" where
  "value_or_zero v = (case v of None \<Rightarrow> 0 | Some i \<Rightarrow> i)"

definition batch_event_payload ::
  "string \<Rightarrow> string \<Rightarrow> string \<Rightarrow> batch \<Rightarrow> string \<Rightarrow> int \<Rightarrow> (string \<times> json) list \<Rightarrow> json"
where
  "batch_event_payload event_type event_id command_id b correlation_id now data =
     JObj [(''event_id'', JStr event_id), (''event_type'', JStr event_type), (''schema_version'', JInt 1),
           (''producer'', JStr ''go-workflow-service''), (''aggregate_type'', JStr ''EWasteBatch''),
           (''aggregate_id'', JStr (b_id b)), (''aggregate_version'', JInt (uint (b_version b))),
           (''command_id'', JStr command_id), (''batch_id'', JStr (b_id b)), (''sequence_in_command'', JInt 1),
           (''claim_epoch'', JStr (format_uint64 (b_claim_epoch b))),
           (''occurred_at'', contract_timestamp now), (''correlation_id'', JStr correlation_id),
           (''data'', JObj data)]"

definition receipt_verified_payload :: "string \<Rightarrow> string \<Rightarrow> batch \<Rightarrow> receipt \<Rightarrow> string \<Rightarrow> int \<Rightarrow> json" where
  "receipt_verified_payload event_id command_id b rc correlation_id now =
     batch_event_payload ''ReceiptVerified'' event_id command_id b correlation_id now
       [(''receipt_id'', JStr (rc_id rc)), (''batch_id'', JStr (b_id b)),
        (''facility_org_id'', JStr (rc_facility_org_id rc)), (''actor_user_id'', JStr (rc_verified_by rc)),
        (''actual_category'', JStr (rc_category rc)), (''actual_item_count'', JInt (uint (rc_item_count rc))),
        (''actual_weight_kg'', JStr (rc_weight rc)), (''declared_category'', JStr (receipt_value_or_empty (b_category b))),
        (''declared_quantity'', JInt (value_or_zero (b_quantity b))),
        (''declared_weight_kg'', JStr (receipt_value_or_empty (b_weight b)))]"

definition load_receipt_replay :: "metadata \<Rightarrow> receipt_result option dbtx" where
  "load_receipt_replay m =
     load_replay_with (find_command (md_actor_scope m) (md_command_name m) (md_idempotency_key m))
       (BatchRepoErr RepoCommandNotFound) ErrBatchIdempotencyConflict ErrBatchInProgress
       (PlainError ''receipt: decode replay response'') decode_receipt_result m"

text \<open>The batch, locked and checked: the part of the two transactions before their own reads.\<close>

definition find_processing_batch :: "(error \<Rightarrow> error) \<Rightarrow> metadata \<Rightarrow> string \<Rightarrow> batch_status \<Rightarrow> batch dbtx" where
  "find_processing_batch map_err m batch_id expected_status =
     tx_bind (tx_map_err map_err
       (validate_recycler_actor (act_user_id (md_actor m)) (act_organisation_id (md_actor m)))) (\<lambda>_.
     tx_bind (find_batch_for_update batch_id) (\<lambda>b.
     tx_bind (tx_guard (b_status b = expected_status) ErrBatchInvalidState) (\<lambda>_.
     tx_bind (tx_guard (uint (b_version b) = md_expected_version m) ErrBatchStaleVersion) (\<lambda>_.
     tx_bind (tx_some (b_claim_id b) ErrBatchForbidden) (\<lambda>claim_id.
     tx_bind (tx_some (b_assignment_id b) ErrBatchForbidden) (\<lambda>assignment_id.
     tx_bind (tx_map_err map_err (validate_receipt_scope (b_id b) claim_id assignment_id (b_claim_epoch b)
               (act_organisation_id (md_actor m)))) (\<lambda>_.
     tx_return b)))))))"

definition new_receipt :: "string \<Rightarrow> metadata \<Rightarrow> string \<Rightarrow> receipt_request \<Rightarrow> batch \<Rightarrow> int \<Rightarrow> receipt" where
  "new_receipt new_id m command_id normalized b now =
     \<lparr>rc_id = new_id, rc_batch_id = b_id b, rc_facility_org_id = act_organisation_id (md_actor m),
      rc_verified_by = act_user_id (md_actor m), rc_category = rq_category normalized,
      rc_item_count = rq_item_count normalized, rc_weight = rq_weight normalized, rc_command_id = command_id,
      rc_correlation_id = md_correlation_id m, rc_version = 1, rc_verified_at = now, rc_created_at = now\<rparr>"

definition receipt_response :: "metadata \<Rightarrow> batch \<Rightarrow> receipt \<Rightarrow> string \<Rightarrow> receipt_result" where
  "receipt_response m verified rc event_id =
     \<lparr>rr_data = \<lparr>rv_batch_id = b_id verified, rv_status = status_string (b_status verified),
                 rv_version = uint (b_version verified), rv_receipt_id = rc_id rc,
                 rv_category = rc_category rc, rv_item_count = rc_item_count rc, rv_weight = rc_weight rc\<rparr>,
      rr_correlation_id = md_correlation_id m, rr_event_id = event_id,
      rr_event_state = publish_state_string OutboxPending\<rparr>"

definition receipt_write_tx ::
  "call_env \<Rightarrow> metadata \<Rightarrow> receipt_request \<Rightarrow> batch \<Rightarrow> int \<Rightarrow> receipt_result dbtx"
where
  "receipt_write_tx env m normalized b now =
     (let command_id = env_id env 0;
          rc = new_receipt (env_id env 1) m command_id normalized b now;
          event_id = env_id env 3
      in tx_bind (create_command (new_command command_id m (b_id b) now retain_for)) (\<lambda>_.
         tx_bind (create_receipt rc) (\<lambda>_.
         tx_bind (tx_map_err map_receipt_repository_error (update_batch_receipt (b_id b) (b_version b) now)) (\<lambda>verified.
         tx_bind (append_audit (new_audit_event (env_id env 2) m command_id verified ''ReceiptVerified''
                   BatchStatusCollected BatchStatusVerified
                   [(''receipt_id'', rc_id rc), (''actual_category'', rc_category rc),
                    (''actual_item_count'', format_uint64 (ucast (rc_item_count rc))),
                    (''actual_weight_kg'', rc_weight rc)] now)) (\<lambda>_.
         tx_bind (enqueue_outbox (new_outbox event_id command_id verified ''ReceiptVerified'' ''ewaste.batch.events''
                   (receipt_verified_payload event_id command_id verified rc (md_correlation_id m) now)
                   (md_correlation_id m) now)) (\<lambda>_.
         let result = receipt_response m verified rc event_id in
         tx_bind (complete_command command_id 200 (encode_receipt_result result) now) (\<lambda>_.
         tx_return result)))))))"

definition verify_receipt_tx ::
  "call_env \<Rightarrow> string \<Rightarrow> receipt_request \<Rightarrow> metadata \<Rightarrow> receipt_result dbtx"
where
  "verify_receipt_tx env batch_id normalized m =
     tx_bind (load_receipt_replay m) (\<lambda>replay. case replay of Some r \<Rightarrow> tx_return r | None \<Rightarrow>
     tx_bind (find_processing_batch map_receipt_repository_error m batch_id BatchStatusCollected) (\<lambda>b.
     receipt_write_tx env m normalized b (truncate_us (env_clock env 0))))"

definition verify_receipt ::
  "call_env \<Rightarrow> string \<Rightarrow> receipt_request \<Rightarrow> metadata \<Rightarrow> db \<Rightarrow> (error + receipt_result) \<times> db"
where
  "verify_receipt env batch_id request m d =
     (case require_receipt_recycler m of Inl e \<Rightarrow> (Inl e, d) | Inr _ \<Rightarrow>
      if md_expected_version m \<le> 0 then (Inl ErrBatchStaleVersion, d) else
     (case normalize_receipt_request request of Inl e \<Rightarrow> (Inl e, d) | Inr normalized \<Rightarrow>
     (case prepare_metadata env m ''VerifyReceipt'' batch_id
             (JObj [(''actual_category'', JStr (rq_category normalized)),
                    (''actual_item_count'', JInt (uint (rq_item_count normalized))),
                    (''actual_weight_kg'', JStr (rq_weight normalized))]) of
        Inl e \<Rightarrow> (Inl e, d)
      | Inr m \<Rightarrow> run_tx (verify_receipt_tx env batch_id normalized m) d)))"

section \<open>RecordTreatment\<close>

definition load_treatment_replay :: "metadata \<Rightarrow> treatment_result option dbtx" where
  "load_treatment_replay m =
     load_replay_with (find_command (md_actor_scope m) (md_command_name m) (md_idempotency_key m))
       (BatchRepoErr RepoCommandNotFound) ErrBatchIdempotencyConflict ErrBatchInProgress
       (PlainError ''treatment: decode replay response'') decode_treatment_result m"

definition recycling_completed_payload ::
  "string \<Rightarrow> string \<Rightarrow> string \<Rightarrow> batch \<Rightarrow> batch \<Rightarrow> receipt \<Rightarrow> treatment \<Rightarrow> string \<Rightarrow> string \<Rightarrow> int \<Rightarrow> json"
where
  "recycling_completed_payload rule_version event_id command_id prior after rc t evidence_status correlation_id now =
     batch_event_payload ''RecyclingCompleted'' event_id command_id after correlation_id now
       [(''treatment_id'', JStr (t_id t)), (''rule_version'', JStr rule_version),
        (''receipt_id'', JStr (rc_id rc)), (''receipt_version'', JInt (uint (normalized_receipt_version rc))),
        (''treatment_version'', JInt (uint (t_version t))), (''batch_id'', JStr (b_id after)),
        (''facility_org_id'', JStr (t_facility_org_id t)), (''actor_user_id'', JStr (t_recorded_by t)),
        (''declared_category'', JStr (receipt_value_or_empty (b_category prior))),
        (''declared_quantity'', JInt (value_or_zero (b_quantity prior))),
        (''declared_weight_kg'', JStr (receipt_value_or_empty (b_weight prior))),
        (''actual_category'', JStr (rc_category rc)), (''actual_item_count'', JInt (uint (rc_item_count rc))),
        (''actual_weight_kg'', JStr (rc_weight rc)), (''reused_kg'', json_opt JStr (t_reused t)),
        (''recycled_kg'', json_opt JStr (t_recycled t)), (''disposed_kg'', json_opt JStr (t_disposed t)),
        (''unknown_kg'', json_opt JStr (t_unknown t)), (''diverted_kg'', json_opt JStr (t_diverted t)),
        (''data_quality'', JStr (data_quality_string (t_quality t))),
        (''evidence_id'', json_opt JStr (t_evidence_id t)), (''evidence_status'', JStr evidence_status),
        (''claim_epoch'', JStr (format_uint64 (b_claim_epoch after)))]"

definition new_treatment ::
  "string \<Rightarrow> metadata \<Rightarrow> string \<Rightarrow> normalized_treatment \<Rightarrow> batch \<Rightarrow> receipt \<Rightarrow> int \<Rightarrow> treatment"
where
  "new_treatment new_id m command_id v b rc now =
     \<lparr>t_id = new_id, t_batch_id = b_id b, t_facility_org_id = act_organisation_id (md_actor m),
      t_recorded_by = act_user_id (md_actor m), t_receipt_id = rc_id rc,
      t_receipt_version = normalized_receipt_version rc, t_received_weight = nt_received v,
      t_reused = nt_reused v, t_recycled = nt_recycled v, t_disposed = nt_disposed v, t_unknown = nt_unknown v,
      t_diverted = nt_diverted v, t_quality = nt_quality v, t_evidence_id = nt_evidence_id v,
      t_evidence_stage = EvidenceLifecycleTreatment, t_command_id = command_id,
      t_correlation_id = md_correlation_id m, t_version = 1, t_recorded_at = now\<rparr>"

definition treatment_response :: "metadata \<Rightarrow> batch \<Rightarrow> treatment \<Rightarrow> string \<Rightarrow> string \<Rightarrow> treatment_result" where
  "treatment_response m recycled t evidence_status event_id =
     \<lparr>tr_data = \<lparr>tv_batch_id = b_id recycled, tv_status = status_string (b_status recycled),
                 tv_version = uint (b_version recycled), tv_treatment_id = t_id t, tv_reused = t_reused t,
                 tv_recycled = t_recycled t, tv_disposed = t_disposed t, tv_unknown = t_unknown t,
                 tv_diverted = t_diverted t, tv_quality = data_quality_string (t_quality t),
                 tv_evidence_status = evidence_status\<rparr>,
      tr_correlation_id = md_correlation_id m, tr_event_id = event_id,
      tr_event_state = publish_state_string OutboxPending\<rparr>"

definition treatment_write_tx ::
  "call_env \<Rightarrow> string \<Rightarrow> metadata \<Rightarrow> normalized_treatment \<Rightarrow> string \<Rightarrow> batch \<Rightarrow> receipt \<Rightarrow> int \<Rightarrow> treatment_result dbtx"
where
  "treatment_write_tx env rule_version m v evidence_status b rc now =
     (let command_id = env_id env 0;
          t = new_treatment (env_id env 1) m command_id v b rc now;
          event_id = env_id env 3
      in tx_bind (create_command (new_command command_id m (b_id b) now retain_for)) (\<lambda>_.
         tx_bind (create_treatment t) (\<lambda>_.
         tx_bind (tx_map_err map_treatment_repository_error (update_batch_treatment (b_id b) (b_version b) now)) (\<lambda>recycled.
         tx_bind (append_audit (new_audit_event (env_id env 2) m command_id recycled ''TreatmentRecorded''
                   BatchStatusVerified BatchStatusRecycled
                   [(''treatment_id'', t_id t), (''received_weight'', t_received_weight t),
                    (''data_quality'', data_quality_string (t_quality t)),
                    (''evidence_status'', evidence_status)] now)) (\<lambda>_.
         tx_bind (enqueue_outbox (new_outbox event_id command_id recycled ''RecyclingCompleted'' ''ewaste.batch.events''
                   (recycling_completed_payload rule_version event_id command_id b recycled rc t evidence_status
                     (md_correlation_id m) now)
                   (md_correlation_id m) now)) (\<lambda>_.
         let result = treatment_response m recycled t evidence_status event_id in
         tx_bind (complete_command command_id 200 (encode_treatment_result result) now) (\<lambda>_.
         tx_return result)))))))"

definition check_evidence :: "metadata \<Rightarrow> batch \<Rightarrow> string option \<Rightarrow> string dbtx" where
  "check_evidence m b evidence_id =
     (case evidence_id of
        None \<Rightarrow> tx_return ''ABSENT''
      | Some i \<Rightarrow>
          tx_bind (tx_map_err map_treatment_repository_error
            (validate_treatment_evidence (b_id b) i (act_organisation_id (md_actor m))))
            (\<lambda>_. tx_return ''PRESENT''))"

definition record_treatment_tx ::
  "call_env \<Rightarrow> string \<Rightarrow> string \<Rightarrow> treatment_request \<Rightarrow> metadata \<Rightarrow> treatment_result dbtx"
where
  "record_treatment_tx env rule_version batch_id request m =
     tx_bind (load_treatment_replay m) (\<lambda>replay. case replay of Some r \<Rightarrow> tx_return r | None \<Rightarrow>
     tx_bind (find_processing_batch map_treatment_repository_error m batch_id BatchStatusVerified) (\<lambda>b.
     tx_bind (tx_map_err (\<lambda>e. if errors_is e (BatchRepoErr RepoReceiptNotFound) then ErrBatchInvalidState else e)
               (find_receipt (b_id b))) (\<lambda>rc.
     tx_bind (tx_lift (normalize_treatment_request request (rc_weight rc))) (\<lambda>v.
     tx_bind (check_evidence m b (nt_evidence_id v)) (\<lambda>evidence_status.
     treatment_write_tx env rule_version m v evidence_status b rc (truncate_us (env_clock env 0)))))))"

definition record_treatment ::
  "call_env \<Rightarrow> string \<Rightarrow> string \<Rightarrow> treatment_request \<Rightarrow> metadata \<Rightarrow> db \<Rightarrow> (error + treatment_result) \<times> db"
where
  "record_treatment env rule_version batch_id request m d =
     (case require_receipt_recycler m of Inl e \<Rightarrow> (Inl e, d) | Inr _ \<Rightarrow>
      if md_expected_version m \<le> 0 then (Inl ErrBatchStaleVersion, d) else
     (case prepare_metadata env m ''RecordTreatment'' batch_id
             (JObj [(''reused_kg'', json_opt JStr (tq_reused request)),
                    (''recycled_kg'', json_opt JStr (tq_recycled request)),
                    (''disposed_kg'', json_opt JStr (tq_disposed request)),
                    (''evidence_id'', json_opt JStr (tq_evidence_id request))]) of
        Inl e \<Rightarrow> (Inl e, d)
      | Inr m \<Rightarrow> run_tx (record_treatment_tx env rule_version batch_id request m) d))"

section \<open>What the two commands do\<close>

lemma receipt_replay_or_fresh:
  "tx_bind (load_receipt_replay m) (\<lambda>replay. case replay of None \<Rightarrow> body | Some r \<Rightarrow> tx_return r) d = Inr (r, d')
   \<longleftrightarrow> recorded decode_receipt_result m r d \<and> d' = d \<or> stored_command m d = None \<and> body d = Inr (r, d')"
  unfolding load_receipt_replay_def by (rule replay_or_fresh [OF find_command_eq]) simp

lemma load_receipt_replay_conflict:
  "stored_command m d = Some c \<Longrightarrow> c_request_hash c \<noteq> md_request_hash m \<Longrightarrow>
   load_receipt_replay m d = Inl ErrBatchIdempotencyConflict"
  unfolding load_receipt_replay_def by (rule load_replay_conflict [OF find_command_eq]) simp_all

lemma treatment_replay_or_fresh:
  "tx_bind (load_treatment_replay m) (\<lambda>replay. case replay of None \<Rightarrow> body | Some r \<Rightarrow> tx_return r) d = Inr (r, d')
   \<longleftrightarrow> recorded decode_treatment_result m r d \<and> d' = d \<or> stored_command m d = None \<and> body d = Inr (r, d')"
  unfolding load_treatment_replay_def by (rule replay_or_fresh [OF find_command_eq]) simp

lemma load_treatment_replay_conflict:
  "stored_command m d = Some c \<Longrightarrow> c_request_hash c \<noteq> md_request_hash m \<Longrightarrow>
   load_treatment_replay m d = Inl ErrBatchIdempotencyConflict"
  unfolding load_treatment_replay_def by (rule load_replay_conflict [OF find_command_eq]) simp_all

definition processing_allowed :: "metadata \<Rightarrow> batch \<Rightarrow> db \<Rightarrow> bool" where
  "processing_allowed m b d =
     (length (actor_rows ''RECYCLER'' ''PROCESSING_FACILITY'' (act_user_id (md_actor m))
        (act_organisation_id (md_actor m)) d) = 1 \<and>
      (\<exists>ci ai. b_claim_id b = Some ci \<and> b_assignment_id b = Some ai \<and>
         length (receipt_scope_rows (b_id b) ci ai (b_claim_epoch b) (act_organisation_id (md_actor m)) d) = 1))"

lemma find_processing_batch_Inr [tx_success]:
  "find_processing_batch f m bid st d = Inr (b, d') \<longleftrightarrow>
     d' = d \<and> find (\<lambda>b. b_id b = bid) (batches d) = Some b \<and> b_status b = st \<and>
     uint (b_version b) = md_expected_version m \<and> processing_allowed m b d"
  unfolding find_processing_batch_def validate_recycler_actor_def validate_receipt_scope_def processing_allowed_def
  by (auto simp: tx_success)

lemma create_receipt_Inr [tx_success]:
  "create_receipt r d = Inr (u, d') \<longleftrightarrow>
     \<not> tbl_clash rc_id r (receipts d) \<and> \<not> tbl_clash rc_batch_id r (receipts d) \<and>
     \<not> tbl_clash rc_command_id r (receipts d) \<and> rc_version r \<noteq> 0 \<and> d' = d\<lparr>receipts := receipts d @ [r]\<rparr>"
  by (auto simp: create_receipt_def insert_receipt_def tx_success)

lemma create_treatment_Inr [tx_success]:
  "create_treatment t d = Inr (u, d') \<longleftrightarrow>
     \<not> tbl_clash t_id t (treatments d) \<and> \<not> tbl_clash t_batch_id t (treatments d) \<and>
     \<not> tbl_clash t_command_id t (treatments d) \<and> t_version t \<noteq> 0 \<and> t_receipt_version t \<noteq> 0 \<and>
     d' = d\<lparr>treatments := treatments d @ [t]\<rparr>"
  by (auto simp: create_treatment_def insert_treatment_def tx_success)

definition advanced_batch :: "batch_status \<Rightarrow> int \<Rightarrow> batch \<Rightarrow> batch" where
  "advanced_batch dst now b = b\<lparr>b_status := dst, b_version := b_version b + 1, b_updated_at := now\<rparr>"

lemma advanced_batch_fields [simp]:
  "b_id (advanced_batch dst now b) = b_id b" "b_status (advanced_batch dst now b) = dst"
  "b_version (advanced_batch dst now b) = b_version b + 1"
  by (simp_all add: advanced_batch_def)

lemma advance_batch_moves:
  assumes wf: "db_wf d" and f: "find (\<lambda>b. b_id b = bid) (batches d) = Some b" and same: "batches e = batches d"
    and u: "advance_batch src dst (b_id b) (b_version b) now e = Inr (b', e')"
  shows "b' = advanced_batch dst now b" "e' = e\<lparr>batches := batches e'\<rparr>"
    and "batches d' = batches e' \<Longrightarrow> batch_moved src dst b b' d d'"
proof -
  let ?Q = "\<lambda>x. b_status x = src \<and> b_version x = b_version b" and ?f = "advanced_batch dst now"
  have id: "b_id b = bid" using find_Some_memD [OF f] by simp
  have "guarded_batch_update (b_id b) ?Q ?f (BatchRepoErr RepoBatchConcurrency) e = Inr (b', e')"
    using u unfolding advance_batch_def advanced_batch_def [abs_def] .
  moreover have "distinct (map b_id (batches e))" using db_wf_batch_ids [OF wf] by (simp add: same)
  ultimately have r: "b' = ?f b" "?Q b" "e' = e\<lparr>batches := tbl_update (\<lambda>x. b_id x = b_id b \<and> ?Q x) ?f (batches d)\<rparr>"
    using f id by (auto simp: guarded_batch_update_Inr same)
  then show "b' = ?f b" "e' = e\<lparr>batches := batches e'\<rparr>" by simp_all
  show "batch_moved src dst b b' d d'" if "batches d' = batches e'"
    unfolding r(1)
    by (rule batch_moved_update [where Q = ?Q and f = ?f and bid = bid]) (use wf f r id that in auto)
qed

lemma complete_command_last:
  assumes "commands d = cs @ [c]" "\<not> tbl_clash c_id c cs" "c_id c = cid" "c_state c = CommandStateInProgress"
  shows "complete_command cid st j t d = Inr (u, d') \<longleftrightarrow> d' = d\<lparr>commands := cs @ [mark_completed st j t c]\<rparr>"
  unfolding complete_command_def by (rule complete_last_command [OF assms])

text \<open>
  What both write: the command, one row of their own, the batch, an audit row and an event.
  \<open>e0\<close> is the state with the command and that row inserted.
\<close>

lemma routed_receipt:
  "routed (new_outbox i c b ''ReceiptVerified'' ''ewaste.batch.events'' (receipt_verified_payload i c b rc co now) co now)"
  unfolding receipt_verified_payload_def batch_event_payload_def
  by (rule routed_processing) (simp_all add: routing_defs)

lemma routed_treatment:
  "routed (new_outbox i c b ''RecyclingCompleted'' ''ewaste.batch.events''
     (recycling_completed_payload rule i c prior b rc t es co now) co now)"
  unfolding recycling_completed_payload_def batch_event_payload_def
  by (rule routed_processing) (simp_all add: routing_defs json_opt_def split: option.splits)

lemma processing_write:
  assumes wf: "db_wf d" and f: "find (\<lambda>b. b_id b = bid) (batches d) = Some b"
    and cmd: "cmd = new_command (env_id env 0) m (b_id b) now retain_for" "command_ok cmd d"
    and e0: "commands e0 = commands d @ [cmd]" "batches e0 = batches d" "outbox e0 = outbox d" "audits e0 = audits d"
    and u: "advance_batch src dst (b_id b) (b_version b) now e0 = Inr (b', e1)"
    and au: "au_command_id au = env_id env 0" "au_batch_id au = b_id b'" "au_from_status au = src"
      "au_to_status au = dst" "au_batch_version au = b_version b'"
    and ev: "ev = new_outbox i (env_id env 0) b' et tp pl co t" "list_all routed (outbox d) \<longrightarrow> routed ev"
    and fin: "complete_command (env_id env 0) 200 j now (e1\<lparr>audits := audits e1 @ [au], outbox := outbox e1 @ [ev]\<rparr>)
        = Inr ((), d')"
  shows "b' = advanced_batch dst now b" "transition m j src dst b b' [ev] d d'"
    and "receipts d' = receipts e0" "treatments d' = treatments e0"
    and "analytics d' = analytics e0" "anomalies d' = anomalies e0"
proof -
  note B = advance_batch_moves [OF wf f e0(2) u]
  have t: "commands e1 = commands d @ [cmd]" "outbox e1 = outbox d" "audits e1 = audits d"
    "receipts e1 = receipts e0" "treatments e1 = treatments e0"
    "analytics e1 = analytics e0" "anomalies e1 = anomalies e0"
    by (subst B(2), simp add: e0)+
  have cl: "\<not> tbl_clash c_id cmd (commands d)" "c_id cmd = env_id env 0" "c_state cmd = CommandStateInProgress"
    using command_ok_no_clash [OF cmd(2)] by (simp_all add: cmd(1))
  have d': "d' = e1\<lparr>commands := commands d @ [mark_completed 200 j now cmd],
      audits := audits d @ [au], outbox := outbox d @ [ev]\<rparr>"
    using fin complete_command_last [OF _ cl, of "e1\<lparr>audits := audits e1 @ [au], outbox := outbox e1 @ [ev]\<rparr>"]
    by (simp add: t)
  show "b' = advanced_batch dst now b" by (rule B(1))
  show "transition m j src dst b b' [ev] d d'"
    by (rule transitionI [where c = cmd and a = au and st = 200 and t = now])
      (use B(3) [of d'] cl(2) au ev(2) in \<open>auto simp: d' ev(1) metadata_key_def cmd(1)\<close>)
  show "receipts d' = receipts e0" "treatments d' = treatments e0"
    "analytics d' = analytics e0" "anomalies d' = anomalies e0" by (simp_all add: d' t)
qed

lemma verify_receipt_tx_outcome:
  assumes wf: "db_wf d" and s: "verify_receipt_tx env bid nr m d = Inr (r, d')"
  defines "now \<equiv> truncate_us (env_clock env 0)"
  shows "recorded decode_receipt_result m r d \<and> d' = d \<or>
    stored_command m d = None \<and>
    (\<exists>b e. b_id b = bid \<and> uint (b_version b) = md_expected_version m \<and> processing_allowed m b d \<and>
       transition m (encode_receipt_result r) BatchStatusCollected BatchStatusVerified b
         (advanced_batch BatchStatusVerified now b) [e] d d' \<and> o_event_type e = ''ReceiptVerified'' \<and>
       find (\<lambda>x. rc_batch_id x = bid) (receipts d) = None \<and>
       receipts d' = receipts d @ [new_receipt (env_id env 1) m (env_id env 0) nr b now] \<and>
       r = receipt_response m (advanced_batch BatchStatusVerified now b)
             (new_receipt (env_id env 1) m (env_id env 0) nr b now) (o_event_id e))"
proof (cases "recorded decode_receipt_result m r d \<and> d' = d")
  case False
  then obtain b where st: "stored_command m d = None" and f: "find (\<lambda>b. b_id b = bid) (batches d) = Some b"
    and v: "uint (b_version b) = md_expected_version m" and al: "processing_allowed m b d"
    and w: "receipt_write_tx env m nr b now d = Inr (r, d')"
    using s unfolding verify_receipt_tx_def receipt_replay_or_fresh now_def [symmetric] by (auto simp: tx_success)
  define cmd where "cmd = new_command (env_id env 0) m (b_id b) now retain_for"
  define rc where "rc = new_receipt (env_id env 1) m (env_id env 0) nr b now"
  define e0 where "e0 = d\<lparr>commands := commands d @ [cmd], receipts := receipts d @ [rc]\<rparr>"
  have id: "b_id b = bid" using find_Some_memD [OF f] by simp
  obtain b' e1 where co: "command_ok cmd d" and nc: "\<not> tbl_clash rc_batch_id rc (receipts d)"
    and u: "advance_batch BatchStatusCollected BatchStatusVerified (b_id b) (b_version b) now e0 = Inr (b', e1)"
    and r: "r = receipt_response m b' rc (env_id env 3)"
    and fin: "complete_command (env_id env 0) 200 (encode_receipt_result r) now
       (e1\<lparr>audits := audits e1 @ [new_audit_event (env_id env 2) m (env_id env 0) b' ''ReceiptVerified''
                   BatchStatusCollected BatchStatusVerified
                   [(''receipt_id'', rc_id rc), (''actual_category'', rc_category rc),
                    (''actual_item_count'', format_uint64 (ucast (rc_item_count rc))),
                    (''actual_weight_kg'', rc_weight rc)] now],
           outbox := outbox e1 @ [new_outbox (env_id env 3) (env_id env 0) b' ''ReceiptVerified'' ''ewaste.batch.events''
                   (receipt_verified_payload (env_id env 3) (env_id env 0) b' rc (md_correlation_id m) now)
                   (md_correlation_id m) now]\<rparr>) = Inr ((), d')"
    using w unfolding receipt_write_tx_def Let_def cmd_def [symmetric] rc_def [symmetric] e0_def update_batch_receipt_def
    by (auto simp: tx_success)
  note W = processing_write [OF wf f cmd_def co _ _ _ _ u new_audit_event_fields refl impI [OF routed_receipt] fin]
  have "find (\<lambda>x. rc_batch_id x = bid) (receipts d) = None"
    using not_clash_find [OF nc] id by (simp add: rc_def new_receipt_def)
  moreover have "receipts d' = receipts d @ [rc]" "b' = advanced_batch BatchStatusVerified now b"
    using W(1,3) by (simp_all add: e0_def)
  moreover have "transition m (encode_receipt_result r) BatchStatusCollected BatchStatusVerified b b'
     [new_outbox (env_id env 3) (env_id env 0) b' ''ReceiptVerified'' ''ewaste.batch.events''
                   (receipt_verified_payload (env_id env 3) (env_id env 0) b' rc (md_correlation_id m) now)
                   (md_correlation_id m) now] d d'"
    using W(2) by (simp add: e0_def)
  ultimately show ?thesis using st id v al r unfolding rc_def by (intro disjI2) force
qed blast

lemma record_treatment_tx_outcome:
  assumes wf: "db_wf d" and s: "record_treatment_tx env rule bid req m d = Inr (r, d')"
  defines "now \<equiv> truncate_us (env_clock env 0)"
  shows "recorded decode_treatment_result m r d \<and> d' = d \<or>
    stored_command m d = None \<and>
    (\<exists>b rc v es e. b_id b = bid \<and> uint (b_version b) = md_expected_version m \<and> processing_allowed m b d \<and>
       find (\<lambda>x. rc_batch_id x = bid) (receipts d) = Some rc \<and>
       normalize_treatment_request req (rc_weight rc) = Inr v \<and>
       transition m (encode_treatment_result r) BatchStatusVerified BatchStatusRecycled b
         (advanced_batch BatchStatusRecycled now b) [e] d d' \<and>
       e = new_outbox (env_id env 3) (env_id env 0) (advanced_batch BatchStatusRecycled now b) ''RecyclingCompleted''
             ''ewaste.batch.events''
             (recycling_completed_payload rule (env_id env 3) (env_id env 0) b (advanced_batch BatchStatusRecycled now b) rc
               (new_treatment (env_id env 1) m (env_id env 0) v b rc now) es (md_correlation_id m) now)
             (md_correlation_id m) now \<and>
       treatments d' = treatments d @ [new_treatment (env_id env 1) m (env_id env 0) v b rc now] \<and>
       r = treatment_response m (advanced_batch BatchStatusRecycled now b)
             (new_treatment (env_id env 1) m (env_id env 0) v b rc now) es (env_id env 3))"
proof (cases "recorded decode_treatment_result m r d \<and> d' = d")
  case False
  then have "stored_command m d = None" and
    "\<exists>b rc v es. find (\<lambda>b. b_id b = bid) (batches d) = Some b \<and> uint (b_version b) = md_expected_version m \<and>
       processing_allowed m b d \<and> find (\<lambda>x. rc_batch_id x = b_id b) (receipts d) = Some rc \<and>
       normalize_treatment_request req (rc_weight rc) = Inr v \<and>
       treatment_write_tx env rule m v es b rc now d = Inr (r, d')"
    using s unfolding record_treatment_tx_def treatment_replay_or_fresh now_def [symmetric]
    by (auto simp: tx_success find_receipt_def check_evidence_def validate_treatment_evidence_def split: option.splits)
  then obtain b rc v es where st: "stored_command m d = None" and f: "find (\<lambda>b. b_id b = bid) (batches d) = Some b"
    and ve: "uint (b_version b) = md_expected_version m" and al: "processing_allowed m b d"
    and rc: "find (\<lambda>x. rc_batch_id x = b_id b) (receipts d) = Some rc"
    and nv: "normalize_treatment_request req (rc_weight rc) = Inr v"
    and w: "treatment_write_tx env rule m v es b rc now d = Inr (r, d')"
    by blast
  define cmd where "cmd = new_command (env_id env 0) m (b_id b) now retain_for"
  define t where "t = new_treatment (env_id env 1) m (env_id env 0) v b rc now"
  define e0 where "e0 = d\<lparr>commands := commands d @ [cmd], treatments := treatments d @ [t]\<rparr>"
  have id: "b_id b = bid" using find_Some_memD [OF f] by simp
  obtain b' e1 where co: "command_ok cmd d"
    and u: "advance_batch BatchStatusVerified BatchStatusRecycled (b_id b) (b_version b) now e0 = Inr (b', e1)"
    and r: "r = treatment_response m b' t es (env_id env 3)"
    and fin: "complete_command (env_id env 0) 200 (encode_treatment_result r) now
       (e1\<lparr>audits := audits e1 @ [new_audit_event (env_id env 2) m (env_id env 0) b' ''TreatmentRecorded''
                   BatchStatusVerified BatchStatusRecycled
                   [(''treatment_id'', t_id t), (''received_weight'', t_received_weight t),
                    (''data_quality'', data_quality_string (t_quality t)), (''evidence_status'', es)] now],
           outbox := outbox e1 @ [new_outbox (env_id env 3) (env_id env 0) b' ''RecyclingCompleted'' ''ewaste.batch.events''
                   (recycling_completed_payload rule (env_id env 3) (env_id env 0) b b' rc t es (md_correlation_id m) now)
                   (md_correlation_id m) now]\<rparr>) = Inr ((), d')"
    using w unfolding treatment_write_tx_def Let_def cmd_def [symmetric] t_def [symmetric] e0_def update_batch_treatment_def
    by (auto simp: tx_success)
  note W = processing_write [OF wf f cmd_def co _ _ _ _ u new_audit_event_fields refl impI [OF routed_treatment] fin]
  have "treatments d' = treatments d @ [t]" and b': "b' = advanced_batch BatchStatusRecycled now b"
    using W(1,4) by (simp_all add: e0_def)
  moreover have "transition m (encode_treatment_result r) BatchStatusVerified BatchStatusRecycled b b'
     [new_outbox (env_id env 3) (env_id env 0) b' ''RecyclingCompleted'' ''ewaste.batch.events''
                   (recycling_completed_payload rule (env_id env 3) (env_id env 0) b b' rc t es (md_correlation_id m) now)
                   (md_correlation_id m) now] d d'"
    using W(2) by (simp add: e0_def)
  ultimately show ?thesis
    using st id ve al rc nv r unfolding t_def b'
    by (intro disjI2 conjI exI [of _ b] exI [of _ rc] exI [of _ v] exI [of _ es] exI; (assumption | simp))
qed blast

section \<open>The treatment balance\<close>

text \<open>\<open>v\<close> accounts for \<open>received\<close> cents: nothing is lost and nothing counted twice.\<close>

definition balanced :: "normalized_treatment \<Rightarrow> int \<Rightarrow> bool" where
  "balanced v received \<longleftrightarrow>
     nt_received v = format_treatment_cents received \<and>
     (nt_quality v = QualityMissing \<and> nt_reused v = None \<and> nt_recycled v = None \<and> nt_disposed v = None \<and>
        nt_unknown v = Some (format_treatment_cents received) \<and> nt_diverted v = None \<or>
      (\<exists>a b c u. 0 \<le> a \<and> 0 \<le> b \<and> 0 \<le> c \<and> 0 \<le> u \<and> a + b + c + u = received \<and>
         nt_quality v = (if u = 0 then QualityComplete else QualityPartial) \<and>
         nt_reused v = Some (format_treatment_cents a) \<and> nt_recycled v = Some (format_treatment_cents b) \<and>
         nt_disposed v = Some (format_treatment_cents c) \<and> nt_unknown v = Some (format_treatment_cents u) \<and>
         nt_diverted v = Some (format_treatment_cents (a + b))))"

lemma split_treatment_balanced:
  assumes "split_treatment req received = Inr v"
  shows "balanced v received \<and> nt_evidence_id v = None"
proof (cases "tq_reused req = None")
  case True
  then show ?thesis
    using assms by (auto simp: split_treatment_def balanced_def split: option.splits)
next
  case False
  then obtain ru ry di where q: "tq_reused req = Some ru" "tq_recycled req = Some ry" "tq_disposed req = Some di"
    using assms by (auto simp: split_treatment_def split: option.splits)
  then obtain a b c where p: "parse_treatment_cents ru ''reused_kg'' = Inr a"
     "parse_treatment_cents ry ''recycled_kg'' = Inr b" "parse_treatment_cents di ''disposed_kg'' = Inr c"
     and le: "a \<le> received - b - c"
    using assms by (auto simp: split_treatment_def split: sum.splits if_splits)
  have "0 \<le> a" "0 \<le> b" "0 \<le> c" using p parse_treatment_cents_bounds by blast+
  moreover define u where "u = received - a - b - c"
  moreover have v: "v = \<lparr>nt_received = format_treatment_cents received, nt_reused = Some (format_treatment_cents a),
      nt_recycled = Some (format_treatment_cents b), nt_disposed = Some (format_treatment_cents c),
      nt_unknown = Some (format_treatment_cents u), nt_diverted = Some (format_treatment_cents (a + b)),
      nt_quality = (if u \<noteq> 0 then QualityPartial else QualityComplete), nt_evidence_id = None\<rparr>"
    using assms q p le by (simp add: split_treatment_def Let_def u_def split: if_splits)
  ultimately have "\<exists>a' b' c' u'. 0 \<le> a' \<and> 0 \<le> b' \<and> 0 \<le> c' \<and> 0 \<le> u' \<and> a' + b' + c' + u' = received \<and>
         nt_quality v = (if u' = 0 then QualityComplete else QualityPartial) \<and>
         nt_reused v = Some (format_treatment_cents a') \<and> nt_recycled v = Some (format_treatment_cents b') \<and>
         nt_disposed v = Some (format_treatment_cents c') \<and> nt_unknown v = Some (format_treatment_cents u') \<and>
         nt_diverted v = Some (format_treatment_cents (a' + b'))"
    using le by (intro exI [of _ a] exI [of _ b] exI [of _ c] exI [of _ u]) simp
  then show ?thesis unfolding balanced_def by (simp add: v)
qed

lemma balanced_evidence [simp]: "balanced (v\<lparr>nt_evidence_id := i\<rparr>) received = balanced v received"
  by (simp add: balanced_def)

lemma normalize_treatment_balanced:
  assumes "normalize_treatment_request req w = Inr v"
  shows "\<exists>received. parse_treatment_cents w ''received_weight_kg'' = Inr received \<and> 1 \<le> received \<and> balanced v received"
proof -
  obtain received u where p: "parse_treatment_cents w ''received_weight_kg'' = Inr received" "1 \<le> received"
    and u: "split_treatment req received = Inr u"
    and v: "v = u \<or> (\<exists>i. v = u\<lparr>nt_evidence_id := i\<rparr>)"
    using assms by (auto simp: normalize_treatment_request_def Let_def split: sum.splits if_splits option.splits)
  have "balanced u received" using split_treatment_balanced [OF u] by simp
  then have "balanced v received" using v by auto
  then show ?thesis using p by blast
qed

text \<open>More than was received is refused.\<close>

lemma treatment_excess_refused:
  assumes "parse_treatment_cents w ''received_weight_kg'' = Inr received" "1 \<le> received"
    and "tq_reused req = Some ru" "tq_recycled req = Some ry" "tq_disposed req = Some di"
    and "parse_treatment_cents ru ''reused_kg'' = Inr a" "parse_treatment_cents ry ''recycled_kg'' = Inr b"
      "parse_treatment_cents di ''disposed_kg'' = Inr c"
    and "a + b + c > received"
  shows "normalize_treatment_request req w =
    Inl (ErrBatchFields [(''treatment'', ''treatment totals must not exceed actual received weight'')])"
  using assms
  by (simp add: normalize_treatment_request_def split_treatment_def new_batch_validation_error_def)

section \<open>Contracts\<close>

context core_steps
begin

lemma find_processing_batch_steps: "steps R (find_processing_batch f m bid st)"
  by (auto simp: steps_def find_processing_batch_Inr step_refl)

lemma load_receipt_replay_steps: "steps R (load_receipt_replay m)"
  unfolding load_receipt_replay_def load_replay_with_def find_command_def by (intro core_rules)

lemma load_treatment_replay_steps: "steps R (load_treatment_replay m)"
  unfolding load_treatment_replay_def load_replay_with_def find_command_def by (intro core_rules)

lemma verify_receipt_tx_steps: "steps R (verify_receipt_tx env bid nr m)"
  unfolding verify_receipt_tx_def receipt_write_tx_def Let_def complete_command_def
  by (intro core_rules find_processing_batch_steps load_receipt_replay_steps)

lemma record_treatment_tx_steps: "steps R (record_treatment_tx env rule bid req m)"
  unfolding record_treatment_tx_def treatment_write_tx_def check_evidence_def Let_def complete_command_def
    find_receipt_def validate_treatment_evidence_def
  by (intro core_rules find_processing_batch_steps load_treatment_replay_steps)

end

interpretation receipt_replay: replay_contract
  "verify_receipt_tx env bid nr" decode_receipt_result "\<lambda>_ _. True" ErrBatchIdempotencyConflict for env bid nr
proof
  fix d m r d' c
  show "db_wf d \<Longrightarrow> verify_receipt_tx env bid nr m d = Inr (r, d') \<Longrightarrow> recorded decode_receipt_result m r d'"
    by (drule (1) verify_receipt_tx_outcome)
      (auto intro: transition_recorded [where decode = decode_receipt_result, OF _ _ decode_encode_receipt_result])
  show "recorded decode_receipt_result m r d \<Longrightarrow> verify_receipt_tx env bid nr m d = Inr (r, d)"
    by (simp add: verify_receipt_tx_def receipt_replay_or_fresh)
  show "stored_command m d = Some c \<Longrightarrow> c_request_hash c \<noteq> md_request_hash m \<Longrightarrow>
        verify_receipt_tx env bid nr m d = Inl ErrBatchIdempotencyConflict"
    by (simp add: verify_receipt_tx_def load_receipt_replay_conflict)
qed

interpretation treatment_replay: replay_contract
  "record_treatment_tx env rule bid req" decode_treatment_result "\<lambda>_ _. True" ErrBatchIdempotencyConflict
  for env rule bid req
proof
  fix d m r d' c
  show "db_wf d \<Longrightarrow> record_treatment_tx env rule bid req m d = Inr (r, d') \<Longrightarrow>
        recorded decode_treatment_result m r d'"
    by (drule (1) record_treatment_tx_outcome)
      (auto intro: transition_recorded [where decode = decode_treatment_result, OF _ _ decode_encode_treatment_result])
  show "recorded decode_treatment_result m r d \<Longrightarrow> record_treatment_tx env rule bid req m d = Inr (r, d)"
    by (simp add: record_treatment_tx_def treatment_replay_or_fresh)
  show "stored_command m d = Some c \<Longrightarrow> c_request_hash c \<noteq> md_request_hash m \<Longrightarrow>
        record_treatment_tx env rule bid req m d = Inl ErrBatchIdempotencyConflict"
    by (simp add: record_treatment_tx_def load_treatment_replay_conflict)
qed

end
