(* ===== verification/Analytics.thy ===== *)
theory Analytics
  imports ReceiptTreatment "HOL-Library.Signed_Division" "HOL-Library.Multiset"
begin

text \<open>
  \<open>internal/service/analytics.go\<close>, \<open>analytics_prepare.go\<close> and \<open>model/anomaly_order.go\<close>: the analytics worker
  prepares the frozen input of a treated batch and acknowledges its result, which completes the batch.  Money-like
  weights are \<open>int64\<close> hundredths and wrap as the code does.  A number of a decoded document is a \<open>float64\<close>; the
  model keeps it an integer, which is exact up to \<open>2^53\<close>.
\<close>

section \<open>Requests and results\<close>

record acknowledgement =
  aq_source_event_id :: string
  aq_source_version :: "32 word"
  aq_run_id :: string
  aq_input_hash :: string
  aq_rule_version :: string
  aq_quality :: string
  aq_metrics :: metrics
  aq_codes :: "string list option"

record completion_view =
  cv_batch_id :: string
  cv_status :: string
  cv_version :: int
  cv_result_id :: string
  cv_quality :: string
  cv_metrics :: metrics
  cv_codes :: "string list"

record completion_result =
  co_data :: completion_view
  co_correlation_id :: string
  co_event_id :: string
  co_event_state :: string

record analytics_preparation =
  ap_batch_id :: string
  ap_source_event_id :: string
  ap_source_version :: "32 word"
  ap_rule_version :: string
  ap_correlation_id :: string
  ap_input_hash :: string
  ap_input :: json

text \<open>An absent list of codes is encoded as \<open>null\<close>, ranged over as an empty one.\<close>

definition ack_codes :: "acknowledgement \<Rightarrow> string list" where
  "ack_codes rq = (case aq_codes rq of None \<Rightarrow> [] | Some cs \<Rightarrow> cs)"

definition encode_codes :: "string list \<Rightarrow> json" where
  "encode_codes cs = JArr (map JStr cs)"

definition decode_codes :: "json \<Rightarrow> string list option" where
  "decode_codes j = (case j of JArr js \<Rightarrow> those (map as_str js) | _ \<Rightarrow> None)"

definition dec_codes :: "string \<Rightarrow> json \<Rightarrow> string list option" where
  "dec_codes k j =
     (case json_field k j of None \<Rightarrow> Some [] | Some w \<Rightarrow> if w = JNull then Some [] else decode_codes w)"

lemma decode_encode_codes [simp]: "decode_codes (encode_codes cs) = Some cs"
  by (induction cs) (simp_all add: decode_codes_def encode_codes_def)

lemma encode_codes_json [simp]: "encode_codes cs \<noteq> JNull"
  by (simp add: encode_codes_def)

definition encode_completion_view :: "completion_view \<Rightarrow> json" where
  "encode_completion_view v =
     JObj [(''batch_id'', JStr (cv_batch_id v)), (''status'', JStr (cv_status v)),
           (''version'', JInt (cv_version v)), (''analytics_result_id'', JStr (cv_result_id v)),
           (''data_quality'', JStr (cv_quality v)), (''metrics'', encode_metrics (cv_metrics v)),
           (''anomaly_codes'', encode_codes (cv_codes v))]"

definition decode_completion_view :: "json \<Rightarrow> completion_view option" where
  "decode_completion_view j = do {
     b \<leftarrow> dec_str ''batch_id'' j; s \<leftarrow> dec_str ''status'' j; v \<leftarrow> dec_int ''version'' j;
     ri \<leftarrow> dec_str ''analytics_result_id'' j; q \<leftarrow> dec_str ''data_quality'' j;
     m \<leftarrow> dec_obj decode_metrics ''metrics'' j; cs \<leftarrow> dec_codes ''anomaly_codes'' j;
     Some \<lparr>cv_batch_id = b, cv_status = s, cv_version = v, cv_result_id = ri, cv_quality = q,
       cv_metrics = m, cv_codes = cs\<rparr> }"

definition encode_completion_result :: "completion_result \<Rightarrow> json" where
  "encode_completion_result r =
     JObj ([(''data'', encode_completion_view (co_data r)), (''correlation_id'', JStr (co_correlation_id r))]
           @ json_omit_empty ''event_id'' (co_event_id r) @ json_omit_empty ''event_state'' (co_event_state r))"

definition decode_completion_result :: "json \<Rightarrow> completion_result option" where
  "decode_completion_result j = do {
     data \<leftarrow> dec_obj decode_completion_view ''data'' j;
     co \<leftarrow> dec_str ''correlation_id'' j; ev \<leftarrow> dec_str ''event_id'' j; es \<leftarrow> dec_str ''event_state'' j;
     Some \<lparr>co_data = data, co_correlation_id = co, co_event_id = ev, co_event_state = es\<rparr> }"

lemma decode_encode_completion_view [simp]: "decode_completion_view (encode_completion_view v) = Some v"
  by (simp add: decode_completion_view_def encode_completion_view_def dec_defs dec_codes_def)

lemma encode_completion_view_json: "encode_completion_view v \<noteq> JNull"
  by (simp add: encode_completion_view_def)

lemma decode_encode_completion_result [simp]: "decode_completion_result (encode_completion_result r) = Some r"
  by (simp add: decode_completion_result_def encode_completion_result_def encode_completion_view_json dec_defs
      map_of_omit del: map_of_append)

definition encode_acknowledgement :: "acknowledgement \<Rightarrow> json" where
  "encode_acknowledgement rq =
     JObj [(''source_event_id'', JStr (aq_source_event_id rq)),
           (''source_event_version'', JInt (uint (aq_source_version rq))), (''analytics_run_id'', JStr (aq_run_id rq)),
           (''input_hash'', JStr (aq_input_hash rq)), (''rule_version'', JStr (aq_rule_version rq)),
           (''data_quality'', JStr (aq_quality rq)), (''metrics'', encode_metrics (aq_metrics rq)),
           (''anomaly_codes'', json_opt encode_codes (aq_codes rq))]"

section \<open>The order of the anomaly codes\<close>

text \<open>\<open>SortAnomalyCodes\<close>: a stable sort by rank, then by code.\<close>

definition anomaly_key :: "string \<Rightarrow> nat \<times> string" where
  "anomaly_key code = (anomaly_rank code, code)"

definition sort_anomaly_codes :: "string list \<Rightarrow> string list" where
  "sort_anomaly_codes codes = sort_key anomaly_key codes"

definition valid_anomaly_code :: "string \<Rightarrow> bool" where
  "valid_anomaly_code code =
     (code = ''CATEGORY_MISMATCH'' \<or> code = ''COUNT_MISMATCH'' \<or> code = ''WEIGHT_MISMATCH'' \<or>
      code = ''MISSING_OUTCOME'' \<or> code = ''UNALLOCATED_WEIGHT'')"

section \<open>Values of a decoded document\<close>

text \<open>
  \<open>stringValue\<close>, \<open>numberValue\<close>, \<open>nullableEventString\<close> and \<open>eventIntPointer\<close> on a field that may be
  absent: a value of another kind reads as the zero value.
\<close>

definition string_value :: "json option \<Rightarrow> string" where
  "string_value v = (case v of Some (JStr s) \<Rightarrow> s | _ \<Rightarrow> [])"

definition number_value :: "json option \<Rightarrow> 64 word" where
  "number_value v =
     (case v of Some (JInt i) \<Rightarrow> word_of_int i
              | Some (JRat q) \<Rightarrow> word_of_int (if q < 0 then - \<lfloor>- q\<rfloor> else \<lfloor>q\<rfloor>)
              | _ \<Rightarrow> 0)"

definition present :: "json option \<Rightarrow> bool" where
  "present v = (v \<noteq> None \<and> v \<noteq> Some JNull)"

definition nullable_event_string :: "json option \<Rightarrow> string option" where
  "nullable_event_string v = (if present v then Some (string_value v) else None)"

definition event_int_pointer :: "json option \<Rightarrow> 64 word option" where
  "event_int_pointer v = (if present v then Some (number_value v) else None)"

definition nullable_string :: "string \<Rightarrow> string option" where
  "nullable_string s = (if s = [] then None else Some s)"

section \<open>Signed hundredths\<close>

text \<open>\<open>strconv.ParseInt(s, 10, 64)\<close>.\<close>

definition parse_int64 :: "string \<Rightarrow> 64 word option" where
  "parse_int64 s =
     (let (negative, digits) =
        (case s of [] \<Rightarrow> (False, [])
                 | c # r \<Rightarrow> if c = CHR ''-'' then (True, r) else if c = CHR ''+'' then (False, r) else (False, s));
        value = (if negative then - digits_val digits else digits_val digits) in
      if digits = [] \<or> \<not> list_all is_digit digits \<or> value < - (2 ^ 63) \<or> 2 ^ 63 \<le> value then None
      else Some (word_of_int value))"

definition signed_cents :: "string \<Rightarrow> 64 word option" where
  "signed_cents raw =
     (let raw = trim_space raw in
      if raw = [] then None
      else
        let negative = has_prefix raw ''-''; raw = (if negative then trim_prefix raw ''-'' else raw);
            (first, rest) = split_point raw in
        (case parse_int64 first of
           None \<Rightarrow> None
         | Some whole \<Rightarrow>
             (case (case rest of
                      None \<Rightarrow> Some 0
                    | Some f \<Rightarrow>
                        if length f > 2 \<or> f = [] then None
                        else parse_int64 (f @ replicate (2 - length f) (CHR ''0''))) of
                None \<Rightarrow> None
              | Some fraction \<Rightarrow>
                  let value = whole * 100 + fraction in
                  Some (if negative then - value else value))))"

text \<open>\<open>%02d\<close>\<close>

definition show_02 :: "int \<Rightarrow> string" where
  "show_02 i = (let s = show_int i in if length s < 2 then CHR ''0'' # s else s)"

definition format_signed_cents :: "64 word \<Rightarrow> string" where
  "format_signed_cents w =
     (if sint w < 0
      then ''-'' @ show_int (sint (- w) sdiv 100) @ ''.'' @ show_02 (sint (- w) smod 100)
      else show_int (sint w sdiv 100) @ ''.'' @ show_02 (sint w smod 100))"

definition signed_decimal_difference :: "string \<Rightarrow> string \<Rightarrow> string option" where
  "signed_decimal_difference left right =
     (case (signed_cents left, signed_cents right) of
        (Some l, Some r) \<Rightarrow> Some (format_signed_cents (l - r)) | _ \<Rightarrow> None)"

section \<open>Validation of a request\<close>

definition hash_pattern :: "string \<Rightarrow> bool" where
  "hash_pattern s = (length s = 64 \<and> list_all (\<lambda>c. is_digit c \<or> List.member ''abcdef'' c) s)"

text \<open>\<open>^-?(?:0|[1-9][0-9]*)(?:\.[0-9]{1,2})?$\<close>\<close>

definition delta_pattern :: "string \<Rightarrow> bool" where
  "delta_pattern s = weight_pattern (trim_prefix s ''-'')"

definition metric_strings :: "metrics \<Rightarrow> (string \<times> string option) list" where
  "metric_strings m =
     [(''declared_weight_kg'', mt_declared_weight m), (''actual_weight_kg'', mt_actual_weight m),
      (''reused_kg'', mt_reused m), (''recycled_kg'', mt_recycled m), (''disposed_kg'', mt_disposed m),
      (''unknown_kg'', mt_unknown m), (''diverted_kg'', mt_diverted m)]"

text \<open>
  Go ranges over a map here, in no fixed order; of several offending weights the model names the first of the
  list.
\<close>

definition validate_analytics_metrics :: "metrics \<Rightarrow> string option" where
  "validate_analytics_metrics m =
     (case find (\<lambda>(name, v). case v of None \<Rightarrow> False | Some s \<Rightarrow> \<not> weight_pattern s) (metric_strings m) of
        Some (name, _) \<Rightarrow> Some (name @ '' is not a decimal with at most two places'')
      | None \<Rightarrow>
          if (case mt_weight_delta m of None \<Rightarrow> False | Some s \<Rightarrow> \<not> delta_pattern s)
          then Some ''weight_delta_kg is not a signed decimal with at most two places''
          else if (case mt_declared_quantity m of None \<Rightarrow> False | Some i \<Rightarrow> i < 0)
          then Some ''declared_quantity must not be negative''
          else if (case mt_actual_count m of None \<Rightarrow> False | Some i \<Rightarrow> i < 0)
          then Some ''actual_item_count must not be negative''
          else None)"

fun check_codes :: "string list \<Rightarrow> string list \<Rightarrow> string option" where
  "check_codes seen [] = None"
| "check_codes seen (c # cs) =
     (if \<not> valid_anomaly_code c then Some ''contains an unsupported code''
      else if List.member seen c then Some ''must not contain duplicates''
      else check_codes (c # seen) cs)"

definition field_error :: "string \<Rightarrow> bool \<Rightarrow> string \<Rightarrow> (string \<times> string) list" where
  "field_error k bad message = (if bad then [(k, message)] else [])"

definition analytics_request_errors :: "acknowledgement \<Rightarrow> (string \<times> string) list" where
  "analytics_request_errors rq =
     field_error ''source_event_id'' (trim_space (aq_source_event_id rq) = []) ''is required'' @
     field_error ''source_event_version'' (aq_source_version rq = 0) ''must be positive'' @
     field_error ''analytics_run_id'' (trim_space (aq_run_id rq) = []) ''is required'' @
     field_error ''input_hash'' (\<not> hash_pattern (aq_input_hash rq)) ''must be lowercase SHA-256'' @
     (if trim_space (aq_rule_version rq) = [] then [(''rule_version'', ''is required'')]
      else field_error ''rule_version'' (length (aq_rule_version rq) > 64) ''must not exceed 64 characters'') @
     field_error ''data_quality'' (\<not> List.member [''COMPLETE'', ''PARTIAL'', ''MISSING''] (aq_quality rq))
       ''must be COMPLETE, PARTIAL or MISSING'' @
     (case validate_analytics_metrics (aq_metrics rq) of None \<Rightarrow> [] | Some e \<Rightarrow> [(''metrics'', e)]) @
     (case aq_codes rq of
        None \<Rightarrow> [(''anomaly_codes'', ''must be an array; use [] for no flags'')]
      | Some cs \<Rightarrow> (case check_codes [] cs of None \<Rightarrow> [] | Some e \<Rightarrow> [(''anomaly_codes'', e)]))"

definition validate_analytics_request :: "acknowledgement \<Rightarrow> error + unit" where
  "validate_analytics_request rq =
     (let errors = analytics_request_errors rq in
      if errors \<noteq> [] then Inl (new_batch_validation_error errors) else Inr ())"

section \<open>The frozen input\<close>

definition event_data :: "json \<Rightarrow> json option" where
  "event_data payload = (case json_field ''data'' payload of Some (JObj fs) \<Rightarrow> Some (JObj fs) | _ \<Rightarrow> None)"

text \<open>\<open>json.Unmarshal\<close> into a map: an object, or \<open>null\<close> for the empty map.\<close>

definition decode_event_payload :: "json \<Rightarrow> json option" where
  "decode_event_payload j = (case j of JObj _ \<Rightarrow> Some j | JNull \<Rightarrow> Some j | _ \<Rightarrow> None)"

definition validate_source_event :: "json \<Rightarrow> string \<Rightarrow> string \<Rightarrow> 32 word \<Rightarrow> error + unit" where
  "validate_source_event payload batch_id rule_version source_version =
     (if (case event_data payload of
            None \<Rightarrow> True
          | Some data \<Rightarrow> let rule = string_value (json_field ''rule_version'' data) in
                         trim_space rule = [] \<or> rule \<noteq> rule_version)
      then Inl (new_batch_validation_error [(''rule_version'', ''does not match the frozen source policy'')])
      else if string_value (json_field ''event_type'' payload) \<noteq> ''RecyclingCompleted'' \<or>
              string_value (json_field ''batch_id'' payload) \<noteq> batch_id \<or>
              number_value (json_field ''aggregate_version'' payload) \<noteq> ucast source_version
      then Inl (new_batch_validation_error
             [(''source_event_id'', ''does not identify the expected RecyclingCompleted version'')])
      else Inr ())"

text \<open>The keys in the order in which \<open>json.Marshal\<close> writes a map.\<close>

definition canonical_keys :: "string list" where
  "canonical_keys =
     [''actor_user_id'', ''actual_category'', ''actual_item_count'', ''actual_weight_kg'', ''aggregate_version'',
      ''batch_id'', ''claim_epoch'', ''correlation_id'', ''data_quality'', ''declared_category'', ''declared_quantity'',
      ''declared_weight_kg'', ''disposed_kg'', ''diverted_kg'', ''evidence_id'', ''evidence_status'', ''facility_org_id'',
      ''receipt_id'', ''receipt_version'', ''recycled_kg'', ''reused_kg'', ''rule_version'', ''source_event_id'',
      ''treatment_id'', ''treatment_version'', ''unknown_kg'']"

definition field_or_null :: "string \<Rightarrow> json \<Rightarrow> json" where
  "field_or_null k j = (case json_field k j of None \<Rightarrow> JNull | Some v \<Rightarrow> v)"

definition analytics_canonical_input :: "json \<Rightarrow> error + json" where
  "analytics_canonical_input payload =
     (case event_data payload of
        None \<Rightarrow> Inl (new_batch_validation_error [(''source_event_id'', ''source event data is invalid'')])
      | Some data \<Rightarrow>
          Inr (JObj (map (\<lambda>k. (k,
            if k = ''source_event_id'' then field_or_null ''event_id'' payload
            else if k = ''aggregate_version'' \<or> k = ''correlation_id'' then field_or_null k payload
            else field_or_null k data)) canonical_keys)))"

definition analytics_input_hash :: "call_env \<Rightarrow> json \<Rightarrow> error + string" where
  "analytics_input_hash env payload =
     (case analytics_canonical_input payload of Inl e \<Rightarrow> Inl e | Inr canonical \<Rightarrow> Inr (env_sha256 env canonical))"

definition analytics_result_hash :: "call_env \<Rightarrow> acknowledgement \<Rightarrow> string" where
  "analytics_result_hash env rq =
     env_sha256 env (JObj [(''rule_version'', JStr (aq_rule_version rq)), (''data_quality'', JStr (aq_quality rq)),
       (''metrics'', encode_metrics (aq_metrics rq)), (''anomaly_codes'', json_opt encode_codes (aq_codes rq))])"

section \<open>The deterministic flags\<close>

definition category_flag :: "json \<Rightarrow> bool" where
  "category_flag data =
     (let declared = string_value (json_field ''declared_category'' data);
          actual = string_value (json_field ''actual_category'' data) in
      declared \<noteq> [] \<and> actual \<noteq> [] \<and> \<not> equal_fold declared actual)"

definition count_flag :: "json \<Rightarrow> bool" where
  "count_flag data =
     (case (event_int_pointer (json_field ''declared_quantity'' data), event_int_pointer (json_field ''actual_item_count'' data)) of
        (Some declared, Some actual) \<Rightarrow> declared \<noteq> actual | _ \<Rightarrow> False)"

definition weight_flag :: "json \<Rightarrow> error + bool" where
  "weight_flag data =
     (let declared = string_value (json_field ''declared_weight_kg'' data);
          actual = string_value (json_field ''actual_weight_kg'' data) in
      if declared \<noteq> [] \<and> actual \<noteq> [] then
        (case signed_decimal_difference actual declared of
           None \<Rightarrow> Inl (new_batch_validation_error [(''anomaly_codes'', ''frozen weight values are invalid'')])
         | Some delta \<Rightarrow> Inr (delta \<noteq> ''0.00''))
      else Inr False)"

definition outcome_flags :: "json \<Rightarrow> error + string list" where
  "outcome_flags data =
     (let quality = string_value (json_field ''data_quality'' data) in
      if quality = ''MISSING'' then Inr [''MISSING_OUTCOME'']
      else if quality = ''PARTIAL'' then
        (case Option.bind (nullable_event_string (json_field ''unknown_kg'' data)) signed_cents of
           None \<Rightarrow> Inl (new_batch_validation_error
                    [(''anomaly_codes'', ''partial data must retain a positive unknown weight'')])
         | Some cents \<Rightarrow>
             if sint cents \<le> 0 then
               Inl (new_batch_validation_error
                 [(''anomaly_codes'', ''partial data must retain a positive unknown weight'')])
             else Inr [''UNALLOCATED_WEIGHT''])
      else Inr [])"

definition expected_analytics_anomaly_codes :: "json \<Rightarrow> error + string list" where
  "expected_analytics_anomaly_codes data =
     (case weight_flag data of Inl e \<Rightarrow> Inl e | Inr weight \<Rightarrow>
     (case outcome_flags data of Inl e \<Rightarrow> Inl e | Inr outcome \<Rightarrow>
        let flags = (if category_flag data then [''CATEGORY_MISMATCH''] else []) @
                    (if count_flag data then [''COUNT_MISMATCH''] else []) @
                    (if weight then [''WEIGHT_MISMATCH''] else []) @ outcome
        in Inr (filter (List.member flags) anomaly_codes)))"

definition mismatch :: "string \<Rightarrow> string \<Rightarrow> error" where
  "mismatch field message = new_batch_validation_error [(field, message)]"

definition frozen_text :: string where
  "frozen_text = ''does not match the frozen RecyclingCompleted input''"

text \<open>The weights that are compared, in the order of the list; see \<open>validate_analytics_metrics\<close>.\<close>

definition mismatched_weight :: "json \<Rightarrow> metrics \<Rightarrow> string option" where
  "mismatched_weight data m =
     map_option fst (find (\<lambda>(name, v). v \<noteq> nullable_event_string (json_field name data)) (metric_strings m))"

definition delta_matches :: "json \<Rightarrow> metrics \<Rightarrow> bool" where
  "delta_matches data m =
     (case signed_decimal_difference (string_value (json_field ''actual_weight_kg'' data))
             (string_value (json_field ''declared_weight_kg'' data)) of
        None \<Rightarrow> True | Some expected \<Rightarrow> mt_weight_delta m = Some expected)"

definition count_delta_matches :: "json \<Rightarrow> metrics \<Rightarrow> bool" where
  "count_delta_matches data m =
     (case (event_int_pointer (json_field ''declared_quantity'' data), event_int_pointer (json_field ''actual_item_count'' data)) of
        (Some declared, Some actual) \<Rightarrow> mt_count_delta m = Some (sint (actual - declared)) | _ \<Rightarrow> True)"

definition validate_metrics_against_frozen_input :: "json \<Rightarrow> acknowledgement \<Rightarrow> error + unit" where
  "validate_metrics_against_frozen_input data rq =
     (let m = aq_metrics rq in
      if aq_quality rq \<noteq> string_value (json_field ''data_quality'' data) then Inl (mismatch ''data_quality'' frozen_text)
      else (case mismatched_weight data m of Some name \<Rightarrow> Inl (mismatch (''metrics.'' @ name) frozen_text) | None \<Rightarrow>
      if mt_declared_quantity m \<noteq> map_option sint (event_int_pointer (json_field ''declared_quantity'' data))
      then Inl (mismatch ''metrics.declared_quantity'' frozen_text)
      else if mt_actual_count m \<noteq> map_option sint (event_int_pointer (json_field ''actual_item_count'' data))
      then Inl (mismatch ''metrics.actual_item_count'' frozen_text)
      else if mt_category_match m \<noteq> Some (equal_fold (string_value (json_field ''declared_category'' data))
                (string_value (json_field ''actual_category'' data)))
      then Inl (mismatch ''metrics.category_match'' ''does not match the frozen category values'')
      else if \<not> delta_matches data m
      then Inl (mismatch ''metrics.weight_delta_kg'' ''does not match the frozen weight values'')
      else if \<not> count_delta_matches data m
      then Inl (mismatch ''metrics.count_delta'' ''does not match the frozen count values'')
      else (case expected_analytics_anomaly_codes data of Inl e \<Rightarrow> Inl e | Inr expected \<Rightarrow>
        if expected \<noteq> ack_codes rq
        then Inl (mismatch ''anomaly_codes'' ''does not match the deterministic D3 flags for the frozen input'')
        else Inr ())))"

section \<open>AcknowledgeAnalytics\<close>

definition prepare_analytics_metadata ::
  "call_env \<Rightarrow> metadata \<Rightarrow> string \<Rightarrow> acknowledgement \<Rightarrow> error + metadata"
where
  "prepare_analytics_metadata env m batch_id rq =
     (let m = m\<lparr>md_actor_scope := ''service:'' @ trim_space (service_principal m),
                md_command_name := ''AcknowledgeAnalyticsResult''\<rparr> in
      if service_principal m = [] then Inl ErrBatchForbidden
      else if trim_space (md_idempotency_key m) = [] \<or> rune_count (md_idempotency_key m) > 64 then
        Inl (new_batch_validation_error [(''Idempotency-Key'', ''must be present and no more than 64 characters'')])
      else Inr (m\<lparr>md_request_hash := env_sha256 env (batch_canonical m batch_id (encode_acknowledgement rq))\<rparr>))"

definition load_analytics_replay :: "metadata \<Rightarrow> completion_result option dbtx" where
  "load_analytics_replay m =
     load_replay_with (find_command (md_actor_scope m) (md_command_name m) (md_idempotency_key m))
       (BatchRepoErr RepoCommandNotFound) ErrBatchIdempotencyConflict ErrBatchInProgress
       (PlainError ''analytics: decode replay response'') decode_completion_result m"

definition replayed :: "completion_result \<Rightarrow> completion_result" where
  "replayed r = r\<lparr>co_event_state := ''REPLAYED''\<rparr>"

definition map_analytics_repository_error :: "error \<Rightarrow> error" where
  "map_analytics_repository_error e =
     (if errors_is e (BatchRepoErr RepoBatchConcurrency) then ErrBatchStaleVersion else e)"

text \<open>A result of the same source event and run that is already stored, under whatever key it came.\<close>

definition find_existing_run :: "acknowledgement \<Rightarrow> (analytics_result \<times> json) option dbtx" where
  "find_existing_run rq =
     tx_try (tx_bind (find_analytics_result_by_source_run (aq_source_event_id rq) (aq_run_id rq)) (\<lambda>x. tx_return (Some x)))
       (\<lambda>e. if errors_is e (BatchRepoErr RepoAnalyticsSourceConflict) then tx_fail ErrBatchIdempotencyConflict
            else if \<not> errors_is e (BatchRepoErr RepoAnalyticsNotFound) then tx_fail e
            else tx_return None)"

definition same_run :: "string \<Rightarrow> acknowledgement \<Rightarrow> metadata \<Rightarrow> analytics_result \<Rightarrow> json \<Rightarrow> bool" where
  "same_run batch_id rq m existing metrics_json =
     (ar_batch_id existing = batch_id \<and> ar_source_version existing = aq_source_version rq \<and>
      md_expected_version m = uint (ar_source_version existing) \<and>
      ar_input_hash existing = aq_input_hash rq \<and> ar_rule_version existing = aq_rule_version rq \<and>
      ar_quality existing = aq_quality rq \<and> metrics_json = encode_metrics (aq_metrics rq))"

definition recovered_response ::
  "acknowledgement \<Rightarrow> metadata \<Rightarrow> analytics_result \<Rightarrow> batch \<Rightarrow> outbox_event \<Rightarrow> completion_result"
where
  "recovered_response rq m existing b e =
     \<lparr>co_data = \<lparr>cv_batch_id = b_id b, cv_status = status_string (b_status b), cv_version = uint (b_version b),
                 cv_result_id = ar_id existing, cv_quality = ar_quality existing, cv_metrics = aq_metrics rq,
                 cv_codes = ack_codes rq\<rparr>,
      co_correlation_id = md_correlation_id m, co_event_id = o_event_id e, co_event_state = ''REPLAYED''\<rparr>"

definition recover_run_tx ::
  "string \<Rightarrow> acknowledgement \<Rightarrow> metadata \<Rightarrow> analytics_result \<Rightarrow> json \<Rightarrow> completion_result dbtx"
where
  "recover_run_tx batch_id rq m existing metrics_json =
     tx_bind (tx_guard (same_run batch_id rq m existing metrics_json) ErrBatchIdempotencyConflict) (\<lambda>_.
     tx_bind (find_batch_anomalies (ar_id existing)) (\<lambda>stored.
     tx_bind (tx_guard (sort_anomaly_codes (map an_code stored) = sort_anomaly_codes (ack_codes rq))
       ErrBatchIdempotencyConflict) (\<lambda>_.
     tx_bind (find_batch_for_update batch_id) (\<lambda>b.
     tx_bind (tx_guard (b_status b = BatchStatusCompleted) ErrBatchInvalidState) (\<lambda>_.
     tx_bind (find_request_completed_event batch_id (ar_id existing)) (\<lambda>e.
     tx_return (recovered_response rq m existing b e)))))))"

text \<open>The source event, decoded and checked against its row and the request: its payload and data.\<close>

definition event_not_found :: "error \<Rightarrow> error" where
  "event_not_found e = (if errors_is e (BatchRepoErr RepoEventOutboxNotFound) then ErrBatchNotFound else e)"

definition source_payload_tx :: "call_env \<Rightarrow> string \<Rightarrow> acknowledgement \<Rightarrow> json dbtx" where
  "source_payload_tx env batch_id rq =
     tx_bind (tx_map_err event_not_found
       (find_outbox_event batch_id (aq_source_event_id rq) ''RecyclingCompleted'')) (\<lambda>source.
     tx_bind (tx_some (decode_event_payload (o_payload source))
       (new_batch_validation_error [(''source_event_id'', ''source event payload is invalid'')])) (\<lambda>payload.
     tx_bind (tx_guard (o_aggregate_version source = aq_source_version rq \<and>
         string_value (json_field ''event_id'' payload) = o_event_id source \<and>
         string_value (json_field ''correlation_id'' payload) = o_correlation_id source)
       (new_batch_validation_error [(''source_event_id'', ''source identity does not match its outbox row'')])) (\<lambda>_.
     tx_bind (tx_lift (validate_source_event payload batch_id (aq_rule_version rq) (aq_source_version rq))) (\<lambda>_.
     tx_bind (tx_lift (analytics_input_hash env payload)) (\<lambda>input_hash.
     tx_bind (tx_guard (input_hash = aq_input_hash rq)
       (new_batch_validation_error [(''input_hash'', ''does not match the frozen RecyclingCompleted input'')])) (\<lambda>_.
     tx_return payload))))))"

definition find_recycled_batch :: "string \<Rightarrow> acknowledgement \<Rightarrow> metadata \<Rightarrow> batch dbtx" where
  "find_recycled_batch batch_id rq m =
     tx_bind (find_batch_for_update batch_id) (\<lambda>b.
     tx_bind (tx_guard (b_status b = BatchStatusRecycled) ErrBatchInvalidState) (\<lambda>_.
     tx_bind (tx_guard (uint (b_version b) = md_expected_version m \<and> b_version b = aq_source_version rq)
       ErrBatchStaleVersion) (\<lambda>_.
     tx_return b)))"

definition result_snapshot :: "json \<Rightarrow> acknowledgement \<Rightarrow> json" where
  "result_snapshot input rq =
     JObj [(''analytics_run_id'', JStr (aq_run_id rq)), (''anomaly_codes'', json_opt encode_codes (aq_codes rq)),
           (''frozen_input'', input), (''metrics'', encode_metrics (aq_metrics rq))]"

definition version_or_one :: "json option \<Rightarrow> 32 word" where
  "version_or_one v = (let w = ucast (number_value v) in if w = 0 then 1 else w)"

definition new_analytics_result ::
  "call_env \<Rightarrow> string \<Rightarrow> metadata \<Rightarrow> string \<Rightarrow> acknowledgement \<Rightarrow> batch \<Rightarrow> json \<Rightarrow> json \<Rightarrow> int \<Rightarrow> analytics_result"
where
  "new_analytics_result env new_id m command_id rq b data input now =
     \<lparr>ar_id = new_id, ar_batch_id = b_id b, ar_source_event_id = aq_source_event_id rq,
      ar_source_version = aq_source_version rq,
      ar_facility_org_id = string_value (json_field ''facility_org_id'' data),
      ar_receipt_id = string_value (json_field ''receipt_id'' data),
      ar_receipt_version = version_or_one (json_field ''receipt_version'' data),
      ar_treatment_id = string_value (json_field ''treatment_id'' data),
      ar_treatment_version = version_or_one (json_field ''treatment_version'' data),
      ar_input_hash = aq_input_hash rq, ar_rule_version = aq_rule_version rq, ar_quality = aq_quality rq,
      ar_received_weight = string_value (json_field ''actual_weight_kg'' data),
      ar_reused = nullable_event_string (json_field ''reused_kg'' data),
      ar_recycled = nullable_event_string (json_field ''recycled_kg'' data),
      ar_disposed = nullable_event_string (json_field ''disposed_kg'' data),
      ar_snapshot = result_snapshot input rq, ar_result_hash = analytics_result_hash env rq,
      ar_command_id = command_id, ar_correlation_id = md_correlation_id m, ar_calculated_at = now\<rparr>"

definition analytics_anomaly ::
  "string \<Rightarrow> string \<Rightarrow> string \<Rightarrow> string \<Rightarrow> metrics \<Rightarrow> json \<Rightarrow> int \<Rightarrow> anomaly"
where
  "analytics_anomaly new_id batch_id result_id code m data now =
     (let (declared, actual, delta) =
        (if code = ''CATEGORY_MISMATCH'' then
           (nullable_event_string (json_field ''declared_category'' data),
            nullable_event_string (json_field ''actual_category'' data), None)
         else if code = ''WEIGHT_MISMATCH'' then (mt_declared_weight m, mt_actual_weight m, mt_weight_delta m)
         else if code = ''COUNT_MISMATCH'' then
           (map_option show_int (mt_declared_quantity m), map_option show_int (mt_actual_count m), None)
         else if code = ''UNALLOCATED_WEIGHT'' then (None, None, mt_unknown m)
         else (None, None, None)) in
      \<lparr>an_id = new_id, an_batch_id = batch_id, an_result_id = result_id, an_code = code, an_declared = declared,
       an_actual = actual, an_delta = delta, an_detected_at = now\<rparr>)"

fun create_anomalies :: "call_env \<Rightarrow> nat \<Rightarrow> string \<Rightarrow> string \<Rightarrow> metrics \<Rightarrow> json \<Rightarrow> int \<Rightarrow> string list \<Rightarrow> unit dbtx" where
  "create_anomalies env i batch_id result_id m data now [] = tx_return ()"
| "create_anomalies env i batch_id result_id m data now (code # codes) =
     tx_bind (create_batch_anomaly (analytics_anomaly (env_id env i) batch_id result_id code m data now))
       (\<lambda>_. create_anomalies env (Suc i) batch_id result_id m data now codes)"

definition request_completed_payload ::
  "string \<Rightarrow> string \<Rightarrow> batch \<Rightarrow> string \<Rightarrow> acknowledgement \<Rightarrow> string \<Rightarrow> string \<Rightarrow> int \<Rightarrow> json"
where
  "request_completed_payload event_id command_id b result_id rq claim_epoch correlation_id now =
     JObj [(''event_id'', JStr event_id), (''event_type'', JStr ''RequestCompleted''), (''schema_version'', JInt 1),
           (''producer'', JStr ''go-workflow-service''), (''aggregate_type'', JStr ''EWasteBatch''),
           (''aggregate_id'', JStr (b_id b)), (''aggregate_version'', JInt (uint (b_version b))),
           (''command_id'', JStr command_id), (''batch_id'', JStr (b_id b)), (''sequence_in_command'', JInt 1),
           (''claim_epoch'', JStr claim_epoch),
           (''occurred_at'', contract_timestamp now), (''correlation_id'', JStr correlation_id),
           (''data'', JObj [(''result_id'', JStr result_id), (''batch_id'', JStr (b_id b)),
              (''source_event_id'', JStr (aq_source_event_id rq)), (''rule_version'', JStr (aq_rule_version rq)),
              (''data_quality'', JStr (aq_quality rq)), (''anomaly_codes'', json_opt encode_codes (aq_codes rq))])]"

definition completion_response ::
  "acknowledgement \<Rightarrow> metadata \<Rightarrow> batch \<Rightarrow> string \<Rightarrow> string \<Rightarrow> completion_result"
where
  "completion_response rq m b result_id event_id =
     \<lparr>co_data = \<lparr>cv_batch_id = b_id b, cv_status = status_string (b_status b), cv_version = uint (b_version b),
                 cv_result_id = result_id, cv_quality = aq_quality rq, cv_metrics = aq_metrics rq,
                 cv_codes = ack_codes rq\<rparr>,
      co_correlation_id = md_correlation_id m, co_event_id = event_id,
      co_event_state = publish_state_string OutboxPending\<rparr>"

definition complete_batch_tx ::
  "call_env \<Rightarrow> acknowledgement \<Rightarrow> metadata \<Rightarrow> batch \<Rightarrow> json \<Rightarrow> json \<Rightarrow> json \<Rightarrow> int \<Rightarrow> completion_result dbtx"
where
  "complete_batch_tx env rq m b payload data input now =
     (let command_id = env_id env 0; result_id = env_id env 1; n = length (ack_codes rq);
          event_id = env_id env (3 + n)
      in tx_bind (create_command (new_command command_id m (b_id b) now retain_for)) (\<lambda>_.
         tx_bind (create_analytics_result (new_analytics_result env result_id m command_id rq b data input now)) (\<lambda>_.
         tx_bind (create_anomalies env 2 (b_id b) result_id (aq_metrics rq) data now (ack_codes rq)) (\<lambda>_.
         tx_bind (tx_map_err map_analytics_repository_error (update_batch_analytics (b_id b) (b_version b) now)) (\<lambda>completed.
         tx_bind (append_audit (new_audit_event (env_id env (2 + n)) m command_id completed ''AnalyticsCompleted''
                   BatchStatusRecycled BatchStatusCompleted
                   [(''analytics_result_id'', result_id), (''source_event_id'', aq_source_event_id rq),
                    (''rule_version'', aq_rule_version rq), (''data_quality'', aq_quality rq)] now)) (\<lambda>_.
         tx_bind (enqueue_outbox (new_outbox event_id command_id completed ''RequestCompleted'' ''ewaste.batch.events''
                   (request_completed_payload event_id command_id completed result_id rq
                     (string_value (json_field ''claim_epoch'' payload)) (md_correlation_id m) now)
                   (md_correlation_id m) now)) (\<lambda>_.
         let result = completion_response rq m completed result_id event_id in
         tx_bind (complete_command command_id 200 (encode_completion_result result) now) (\<lambda>_.
         tx_return result))))))))"

definition fresh_run_tx :: "call_env \<Rightarrow> string \<Rightarrow> acknowledgement \<Rightarrow> metadata \<Rightarrow> completion_result dbtx" where
  "fresh_run_tx env batch_id rq m =
     tx_bind (source_payload_tx env batch_id rq) (\<lambda>payload.
     tx_bind (find_recycled_batch batch_id rq m) (\<lambda>b.
     tx_bind (tx_some (event_data payload)
       (new_batch_validation_error [(''source_event_id'', ''source event data is invalid'')])) (\<lambda>data.
     tx_bind (tx_lift (validate_metrics_against_frozen_input data rq)) (\<lambda>_.
     tx_bind (tx_guard (string_value (json_field ''receipt_id'' data) \<noteq> [] \<and> string_value (json_field ''treatment_id'' data) \<noteq> [])
       (new_batch_validation_error [(''source_event_id'', ''receipt and treatment identifiers are required'')])) (\<lambda>_.
     tx_bind (tx_lift (analytics_canonical_input payload)) (\<lambda>input.
     complete_batch_tx env rq m b payload data input (truncate_us (env_clock env 0))))))))"

definition acknowledge_tx :: "call_env \<Rightarrow> string \<Rightarrow> acknowledgement \<Rightarrow> metadata \<Rightarrow> completion_result dbtx" where
  "acknowledge_tx env batch_id rq m =
     tx_bind (load_analytics_replay m) (\<lambda>replay. case replay of Some r \<Rightarrow> tx_return (replayed r) | None \<Rightarrow>
     tx_bind (find_existing_run rq) (\<lambda>found. case found of
       Some (existing, metrics_json) \<Rightarrow> recover_run_tx batch_id rq m existing metrics_json
     | None \<Rightarrow> fresh_run_tx env batch_id rq m))"

definition acknowledge_analytics ::
  "call_env \<Rightarrow> string \<Rightarrow> acknowledgement \<Rightarrow> metadata \<Rightarrow> db \<Rightarrow> (error + completion_result) \<times> db"
where
  "acknowledge_analytics env batch_id rq m d =
     (case validate_analytics_request rq of Inl e \<Rightarrow> (Inl e, d) | Inr _ \<Rightarrow>
      if service_principal m = [] then (Inl ErrBatchForbidden, d)
      else if trim_space (md_correlation_id m) = [] then
        (Inl (new_batch_validation_error [(''X-Correlation-ID'', ''header is required'')]), d)
      else if md_expected_version m \<le> 0 then (Inl ErrBatchStaleVersion, d)
      else (case prepare_analytics_metadata env m batch_id rq of Inl e \<Rightarrow> (Inl e, d)
            | Inr m \<Rightarrow> run_tx (acknowledge_tx env batch_id rq m) d))"

section \<open>PrepareAnalytics\<close>

definition prepare_analytics_tx :: "call_env \<Rightarrow> string \<Rightarrow> string \<Rightarrow> analytics_preparation dbtx" where
  "prepare_analytics_tx env batch_id source_event_id =
     tx_bind (tx_map_err event_not_found (find_outbox_event batch_id source_event_id ''RecyclingCompleted'')) (\<lambda>event.
     tx_bind (tx_some (decode_event_payload (o_payload event)) ErrBatchValidation) (\<lambda>payload.
     tx_bind (tx_some (event_data payload) ErrBatchValidation) (\<lambda>data.
     let rule_version = string_value (json_field ''rule_version'' data) in
     tx_bind (tx_guard (string_value (json_field ''event_id'' payload) = o_event_id event \<and>
         string_value (json_field ''correlation_id'' payload) = o_correlation_id event) ErrBatchValidation) (\<lambda>_.
     tx_bind (tx_lift (validate_source_event payload batch_id rule_version (o_aggregate_version event))) (\<lambda>_.
     tx_bind (find_batch_for_update batch_id) (\<lambda>b.
     tx_bind
       (if b_status b = BatchStatusRecycled then
          tx_guard (b_version b = o_aggregate_version event) ErrBatchStaleVersion
        else if b_status b = BatchStatusCompleted then
          tx_guard (uint (b_version b) = uint (o_aggregate_version event) + 1) ErrBatchStaleVersion
        else tx_fail ErrBatchInvalidState) (\<lambda>_.
     tx_bind (tx_lift (analytics_canonical_input payload)) (\<lambda>input.
     tx_bind (tx_lift (analytics_input_hash env payload)) (\<lambda>hash.
     tx_return \<lparr>ap_batch_id = batch_id, ap_source_event_id = source_event_id,
       ap_source_version = o_aggregate_version event, ap_rule_version = rule_version,
       ap_correlation_id = o_correlation_id event, ap_input_hash = hash, ap_input = input\<rparr>)))))))))"

definition prepare_analytics ::
  "call_env \<Rightarrow> string \<Rightarrow> string \<Rightarrow> string \<Rightarrow> db \<Rightarrow> (error + analytics_preparation) \<times> db"
where
  "prepare_analytics env batch_id source_event_id caller d =
     (if trim_space caller = [] then (Inl ErrBatchForbidden, d)
      else if batch_id = [] \<or> source_event_id = [] then (Inl ErrBatchValidation, d)
      else run_tx (prepare_analytics_tx env batch_id source_event_id) d)"

section \<open>What an acknowledgement does\<close>

fun anomaly_rows :: "call_env \<Rightarrow> nat \<Rightarrow> string \<Rightarrow> string \<Rightarrow> metrics \<Rightarrow> json \<Rightarrow> int \<Rightarrow> string list \<Rightarrow> anomaly list" where
  "anomaly_rows env i batch_id result_id m data now [] = []"
| "anomaly_rows env i batch_id result_id m data now (code # codes) =
     analytics_anomaly (env_id env i) batch_id result_id code m data now #
     anomaly_rows env (Suc i) batch_id result_id m data now codes"

lemma create_batch_anomaly_Inr [tx_success]:
  "create_batch_anomaly a d = Inr (u, d') \<longleftrightarrow>
     \<not> tbl_clash an_id a (anomalies d) \<and> \<not> tbl_clash (\<lambda>x. (an_result_id x, an_code x)) a (anomalies d) \<and>
     List.member anomaly_codes (an_code a) \<and> d' = d\<lparr>anomalies := anomalies d @ [a]\<rparr>"
  by (auto simp: create_batch_anomaly_def insert_anomaly_def tx_success)

lemma create_analytics_result_Inr [tx_success]:
  "create_analytics_result r d = Inr (u, d') \<longleftrightarrow>
     \<not> tbl_clash ar_id r (analytics d) \<and> \<not> tbl_clash ar_batch_id r (analytics d) \<and>
     \<not> tbl_clash ar_source_event_id r (analytics d) \<and> \<not> tbl_clash ar_command_id r (analytics d) \<and>
     check_analytics r \<and> d' = d\<lparr>analytics := analytics d @ [r]\<rparr>"
  by (auto simp: create_analytics_result_def insert_analytics_def tx_success)

lemma create_anomalies_D:
  "create_anomalies env i bid rid m data now codes d = Inr (u, d') \<Longrightarrow>
   d' = d\<lparr>anomalies := anomalies d @ anomaly_rows env i bid rid m data now codes\<rparr>"
proof (induction codes arbitrary: i d)
  case (Cons c cs)
  then show ?case by (fastforce simp: tx_success)
qed (simp add: tx_success)

lemma anomaly_row_fields [simp]:
  "an_code (analytics_anomaly i bid rid code m data now) = code"
  "an_result_id (analytics_anomaly i bid rid code m data now) = rid"
  "an_batch_id (analytics_anomaly i bid rid code m data now) = bid"
  by (simp_all add: analytics_anomaly_def split: if_splits)

lemma anomaly_rows_codes:
  "map an_code (anomaly_rows env i bid rid m data now codes) = codes"
  "list_all (\<lambda>a. an_result_id a = rid \<and> an_batch_id a = bid) (anomaly_rows env i bid rid m data now codes)"
  by (induction codes arbitrary: i) simp_all

lemma load_analytics_replay_recorded:
  "load_analytics_replay m d = Inr (Some r, d') \<longleftrightarrow> recorded decode_completion_result m r d \<and> d' = d"
  unfolding load_analytics_replay_def by (rule load_replay_recorded [OF find_command_eq]) simp

lemma load_analytics_replay_fresh:
  "load_analytics_replay m d = Inr (None, d') \<longleftrightarrow> stored_command m d = None \<and> d' = d"
  unfolding load_analytics_replay_def by (rule load_replay_fresh [OF find_command_eq]) simp

lemma find_existing_run_eq:
  "find_existing_run rq d =
     (case find (\<lambda>r. ar_source_event_id r = aq_source_event_id rq) (analytics d) of
        None \<Rightarrow> Inr (None, d)
      | Some x \<Rightarrow>
          (case hydrate_analytics_snapshot x of
             None \<Rightarrow> Inl (PlainError ''repository: decode analytics snapshot'')
           | Some (run, mj) \<Rightarrow>
               if run \<noteq> aq_run_id rq then Inl ErrBatchIdempotencyConflict else Inr (Some (x, mj), d)))"
  by (simp add: find_existing_run_def find_analytics_result_by_source_run_def tx_try_def tx_bind_def tx_return_def
      tx_fail_def tx_first_def split: option.split prod.split)

lemma find_existing_run_Inr:
  "find_existing_run rq d = Inr (found, d') \<longleftrightarrow>
     d' = d \<and>
     (case found of
        None \<Rightarrow> find (\<lambda>r. ar_source_event_id r = aq_source_event_id rq) (analytics d) = None
      | Some (x, mj) \<Rightarrow> find (\<lambda>r. ar_source_event_id r = aq_source_event_id rq) (analytics d) = Some x \<and>
                        hydrate_analytics_snapshot x = Some (aq_run_id rq, mj))"
  unfolding find_existing_run_eq by (auto split: option.splits prod.splits if_splits)

text \<open>The source event passed every check.\<close>

definition source_checked :: "call_env \<Rightarrow> string \<Rightarrow> acknowledgement \<Rightarrow> outbox_event \<Rightarrow> json \<Rightarrow> db \<Rightarrow> bool" where
  "source_checked env batch_id rq source payload d =
     (source \<in> set (outbox d) \<and> o_batch_id source = batch_id \<and> o_event_id source = aq_source_event_id rq \<and>
      o_event_type source = ''RecyclingCompleted'' \<and> payload = o_payload source \<and>
      o_aggregate_version source = aq_source_version rq \<and>
      validate_source_event payload batch_id (aq_rule_version rq) (aq_source_version rq) = Inr () \<and>
      analytics_input_hash env payload = Inr (aq_input_hash rq))"

lemma decode_event_payload_same: "decode_event_payload j = Some p \<Longrightarrow> p = j"
  by (auto simp: decode_event_payload_def split: json.splits)

lemma source_payload_Inr:
  "source_payload_tx env bid rq d = Inr (payload, d') \<Longrightarrow>
   d' = d \<and> (\<exists>source. source_checked env bid rq source payload d)"
  unfolding source_payload_tx_def find_outbox_event_def source_checked_def
  by (auto simp: tx_success dest!: find_Some_memD decode_event_payload_same)

lemma find_recycled_batch_Inr:
  "find_recycled_batch bid rq m d = Inr (b, d') \<longleftrightarrow>
     d' = d \<and> find (\<lambda>b. b_id b = bid) (batches d) = Some b \<and> b_status b = BatchStatusRecycled \<and>
     uint (b_version b) = md_expected_version m \<and> b_version b = aq_source_version rq"
  unfolding find_recycled_batch_def by (auto simp: tx_success)

lemma sorted_filter_head: "sort_key f (filter P xs) = x # ys \<Longrightarrow> x \<in> set xs \<and> P x"
  by (metis (lifting) set_sort list.set_intros(1) mem_Collect_eq set_filter)

lemma recover_run_Inr:
  "recover_run_tx bid rq m existing mj d = Inr (r, d') \<Longrightarrow>
   d' = d \<and> same_run bid rq m existing mj \<and>
   (\<exists>b e. find (\<lambda>b. b_id b = bid) (batches d) = Some b \<and> b_status b = BatchStatusCompleted \<and>
          e \<in> set (outbox d) \<and> completes bid (ar_id existing) e \<and> r = recovered_response rq m existing b e)"
  unfolding recover_run_tx_def find_batch_anomalies_def find_request_completed_event_def
  by (auto simp: tx_success split: list.splits dest!: sorted_filter_head)

text \<open>The event of a completion is routed when the source event is: it carries its claim epoch.\<close>

lemma decode_envelope_epoch:
  "decode_envelope j = Some v \<Longrightarrow> dec_str ''claim_epoch'' j = Some (en_claim_epoch v)"
  by (auto simp: decode_envelope_def bind_eq_Some_conv)

lemma string_value_dec: "dec_str k j = Some s \<Longrightarrow> s \<noteq> [] \<Longrightarrow> string_value (json_field k j) = s"
  by (auto simp: dec_str_def str_value_def string_value_def split: option.splits json.splits)

lemma routed_claim_epoch:
  assumes "routed e" "o_event_type e = ''RecyclingCompleted''"
  shows "string_value (json_field ''claim_epoch'' (o_payload e)) \<noteq> []"
proof -
  have "validate_processing_envelope e = Inr ()"
    using assms by (simp add: routed_def validate_envelope_def is_processing_event_def)
  then obtain v where v: "decode_envelope (o_payload e) = Some v" "en_claim_epoch v \<noteq> []"
    by (auto simp: validate_processing_envelope_def Let_def envelope_agrees_def split: option.splits if_splits)
  then show ?thesis by (simp add: string_value_dec [OF decode_envelope_epoch [OF v(1)] v(2)])
qed

lemma contract_value_codes [simp]: "contract_value n (encode_codes cs) \<longleftrightarrow> n \<le> 64 \<and> (n = 64 \<longrightarrow> cs = [])"
  by (cases cs) (auto simp: encode_codes_def list_all_iff)

lemma routed_completed:
  assumes "claim_epoch \<noteq> []"
  shows "routed (new_outbox i c b ''RequestCompleted'' ''ewaste.batch.events''
     (request_completed_payload i c b rid rq claim_epoch co now) co now)"
  unfolding request_completed_payload_def
  by (rule routed_processing) (simp_all add: routing_defs json_opt_def assms split: option.splits)

context core_steps
begin

lemma load_analytics_replay_steps: "steps R (load_analytics_replay m)"
  unfolding load_analytics_replay_def load_replay_with_def find_command_def by (intro core_rules)

lemma find_existing_run_steps: "steps R (find_existing_run rq)"
  by (auto simp: steps_def find_existing_run_Inr step_refl)

lemma recover_run_steps: "steps R (recover_run_tx bid rq m x mj)"
  by (auto simp: steps_def step_refl dest!: recover_run_Inr)

lemma source_payload_steps: "steps R (source_payload_tx env bid rq)"
  by (auto simp: steps_def step_refl dest!: source_payload_Inr)

lemma find_recycled_batch_steps: "steps R (find_recycled_batch bid rq m)"
  by (auto simp: steps_def step_refl find_recycled_batch_Inr)

lemma create_anomalies_steps: "steps R (create_anomalies env i bid rid m data now codes)"
  by (induction codes arbitrary: i) (simp_all, (intro core_rules | assumption)+)

lemma acknowledge_tx_steps: "steps R (acknowledge_tx env bid rq m)"
  unfolding acknowledge_tx_def fresh_run_tx_def complete_batch_tx_def Let_def complete_command_def
  by (intro core_rules load_analytics_replay_steps find_existing_run_steps recover_run_steps source_payload_steps
      find_recycled_batch_steps create_anomalies_steps)

end

text \<open>
  The three ways an acknowledgement succeeds: its command is replayed, its run is already stored, or it
  completes the batch.
\<close>

definition run_recovered :: "string \<Rightarrow> acknowledgement \<Rightarrow> metadata \<Rightarrow> completion_result \<Rightarrow> db \<Rightarrow> bool" where
  "run_recovered batch_id rq m r d =
     (\<exists>x b e. find (\<lambda>x. ar_source_event_id x = aq_source_event_id rq) (analytics d) = Some x \<and>
        same_run batch_id rq m x (encode_metrics (aq_metrics rq)) \<and>
        hydrate_analytics_snapshot x = Some (aq_run_id rq, encode_metrics (aq_metrics rq)) \<and>
        find (\<lambda>b. b_id b = batch_id) (batches d) = Some b \<and> b_status b = BatchStatusCompleted \<and>
        e \<in> set (outbox d) \<and> completes batch_id (ar_id x) e \<and> r = recovered_response rq m x b e)"

definition batch_completed ::
  "call_env \<Rightarrow> string \<Rightarrow> acknowledgement \<Rightarrow> metadata \<Rightarrow> completion_result \<Rightarrow> db \<Rightarrow> db \<Rightarrow> bool"
where
  "batch_completed env batch_id rq m r d d' =
     (\<exists>source payload data input b e.
        let now = truncate_us (env_clock env 0); result_id = env_id env 1;
            b' = advanced_batch BatchStatusCompleted now b in
        source_checked env batch_id rq source payload d \<and> event_data payload = Some data \<and>
        analytics_canonical_input payload = Inr input \<and>
        validate_metrics_against_frozen_input data rq = Inr () \<and>
        b_id b = batch_id \<and> uint (b_version b) = md_expected_version m \<and> b_version b = aq_source_version rq \<and>
        transition m (encode_completion_result r) BatchStatusRecycled BatchStatusCompleted b b' [e] d d' \<and>
        o_event_type e = ''RequestCompleted'' \<and> completes batch_id result_id e \<and>
        find (\<lambda>x. ar_source_event_id x = aq_source_event_id rq) (analytics d) = None \<and>
        find (\<lambda>x. ar_batch_id x = batch_id) (analytics d) = None \<and>
        analytics d' = analytics d @ [new_analytics_result env result_id m (env_id env 0) rq b data input now] \<and>
        anomalies d' = anomalies d @ anomaly_rows env 2 batch_id result_id (aq_metrics rq) data now (ack_codes rq) \<and>
        r = completion_response rq m b' result_id (o_event_id e))"

lemma complete_batch_tx_outcome:
  assumes wf: "db_wf d" and f: "find (\<lambda>b. b_id b = bid) (batches d) = Some b"
    and src: "source \<in> set (outbox d)" "o_event_type source = ''RecyclingCompleted''"
    and w: "complete_batch_tx env rq m b (o_payload source) data input now d = Inr (r, d')"
  shows "\<exists>e. transition m (encode_completion_result r) BatchStatusRecycled BatchStatusCompleted b
        (advanced_batch BatchStatusCompleted now b) [e] d d' \<and>
      o_event_type e = ''RequestCompleted'' \<and> completes bid (env_id env 1) e \<and>
      find (\<lambda>x. ar_batch_id x = bid) (analytics d) = None \<and>
      analytics d' = analytics d @ [new_analytics_result env (env_id env 1) m (env_id env 0) rq b data input now] \<and>
      anomalies d' = anomalies d @ anomaly_rows env 2 bid (env_id env 1) (aq_metrics rq) data now (ack_codes rq) \<and>
      r = completion_response rq m (advanced_batch BatchStatusCompleted now b) (env_id env 1) (o_event_id e)"
proof -
  define n where "n = length (ack_codes rq)"
  define cmd where "cmd = new_command (env_id env 0) m (b_id b) now retain_for"
  define ar where "ar = new_analytics_result env (env_id env 1) m (env_id env 0) rq b data input now"
  define ans where "ans = anomaly_rows env 2 (b_id b) (env_id env 1) (aq_metrics rq) data now (ack_codes rq)"
  define ce where "ce = string_value (json_field ''claim_epoch'' (o_payload source))"
  define e0 where "e0 = d\<lparr>commands := commands d @ [cmd], analytics := analytics d @ [ar], anomalies := anomalies d @ ans\<rparr>"
  have id: "b_id b = bid" using find_Some_memD [OF f] by simp
  obtain b' e1 where co: "command_ok cmd d" and nc: "\<not> tbl_clash ar_batch_id ar (analytics d)"
    and u: "advance_batch BatchStatusRecycled BatchStatusCompleted (b_id b) (b_version b) now e0 = Inr (b', e1)"
    and r: "r = completion_response rq m b' (env_id env 1) (env_id env (3 + n))"
    and fin: "complete_command (env_id env 0) 200 (encode_completion_result r) now
       (e1\<lparr>audits := audits e1 @ [new_audit_event (env_id env (2 + n)) m (env_id env 0) b' ''AnalyticsCompleted''
                   BatchStatusRecycled BatchStatusCompleted
                   [(''analytics_result_id'', env_id env 1), (''source_event_id'', aq_source_event_id rq),
                    (''rule_version'', aq_rule_version rq), (''data_quality'', aq_quality rq)] now],
           outbox := outbox e1 @ [new_outbox (env_id env (3 + n)) (env_id env 0) b' ''RequestCompleted'' ''ewaste.batch.events''
                   (request_completed_payload (env_id env (3 + n)) (env_id env 0) b' (env_id env 1) rq ce (md_correlation_id m) now)
                   (md_correlation_id m) now]\<rparr>) = Inr ((), d')"
    using w unfolding complete_batch_tx_def Let_def cmd_def [symmetric] ar_def [symmetric] e0_def ans_def
      update_batch_analytics_def n_def [symmetric] ce_def [symmetric]
    by (auto simp: tx_success dest!: create_anomalies_D)
  have rt: "list_all routed (outbox d) \<longrightarrow>
      routed (new_outbox (env_id env (3 + n)) (env_id env 0) b' ''RequestCompleted'' ''ewaste.batch.events''
                   (request_completed_payload (env_id env (3 + n)) (env_id env 0) b' (env_id env 1) rq ce (md_correlation_id m) now)
                   (md_correlation_id m) now)"
    using routed_completed routed_claim_epoch src by (auto simp: list_all_iff ce_def)
  note W = processing_write [OF wf f cmd_def co _ _ _ _ u new_audit_event_fields refl rt fin]
  have "find (\<lambda>x. ar_batch_id x = bid) (analytics d) = None"
    using not_clash_find [OF nc] id by (simp add: ar_def new_analytics_result_def)
  moreover have b': "b' = advanced_batch BatchStatusCompleted now b" using W(1) by (simp add: e0_def)
  moreover have "analytics d' = analytics d @ [ar]" "anomalies d' = anomalies d @ ans"
    using W(5,6) by (simp_all add: e0_def)
  moreover define ev where "ev = new_outbox (env_id env (3 + n)) (env_id env 0) b' ''RequestCompleted'' ''ewaste.batch.events''
                   (request_completed_payload (env_id env (3 + n)) (env_id env 0) b' (env_id env 1) rq ce (md_correlation_id m) now)
                   (md_correlation_id m) now"
  moreover have "transition m (encode_completion_result r) BatchStatusRecycled BatchStatusCompleted b b' [ev] d d'"
    using W(2) by (simp add: e0_def ev_def)
  moreover have "o_event_type ev = ''RequestCompleted''" "o_event_id ev = env_id env (3 + n)" "completes bid (env_id env 1) ev"
    using id by (simp_all add: b' ev_def new_outbox_def completes_def request_completed_payload_def)
  ultimately show ?thesis
    using r id unfolding ar_def ans_def by (intro exI [of _ ev]) simp
qed

lemma acknowledge_tx_outcome:
  assumes wf: "db_wf d" and s: "acknowledge_tx env bid rq m d = Inr (r, d')"
  shows "(\<exists>r0. recorded decode_completion_result m r0 d \<and> r = replayed r0 \<and> d' = d) \<or>
    stored_command m d = None \<and> run_recovered bid rq m r d \<and> d' = d \<or>
    stored_command m d = None \<and> batch_completed env bid rq m r d d'"
proof -
  obtain replay d1 where 1: "load_analytics_replay m d = Inr (replay, d1)" and
    2: "(case replay of Some r \<Rightarrow> tx_return (replayed r) | None \<Rightarrow>
          tx_bind (find_existing_run rq) (\<lambda>found. case found of
            Some (existing, metrics_json) \<Rightarrow> recover_run_tx bid rq m existing metrics_json
          | None \<Rightarrow> fresh_run_tx env bid rq m)) d1 = Inr (r, d')"
    using s unfolding acknowledge_tx_def tx_bind_Inr by blast
  have d1: "d1 = d" using 1 by (cases replay) (auto simp: load_analytics_replay_recorded load_analytics_replay_fresh)
  consider (replay) r0 where "load_analytics_replay m d = Inr (Some r0, d)" "r = replayed r0" "d' = d"
    | (again) x mj where "load_analytics_replay m d = Inr (None, d)" "find_existing_run rq d = Inr (Some (x, mj), d)"
        "recover_run_tx bid rq m x mj d = Inr (r, d')"
    | (fresh) "load_analytics_replay m d = Inr (None, d)" "find_existing_run rq d = Inr (None, d)"
        "fresh_run_tx env bid rq m d = Inr (r, d')"
  proof (cases replay)
    case (Some r0)
    then show ?thesis using 1 2 d1 that(1) by (auto simp: tx_return_Inr)
  next
    case None
    then obtain found d2 where f: "find_existing_run rq d = Inr (found, d2)" and
      g: "(case found of Some (existing, metrics_json) \<Rightarrow> recover_run_tx bid rq m existing metrics_json
             | None \<Rightarrow> fresh_run_tx env bid rq m) d2 = Inr (r, d')"
      using 2 d1 by (auto simp: tx_bind_Inr)
    have "d2 = d" using f by (simp add: find_existing_run_Inr)
    then show ?thesis using None 1 d1 f g that(2,3) by (cases found) auto
  qed
  then show ?thesis
  proof cases
    case replay
    then show ?thesis by (auto simp: load_analytics_replay_recorded)
  next
    case again
    then show ?thesis
      using recover_run_Inr [OF again(3)]
      unfolding run_recovered_def same_run_def find_existing_run_Inr load_analytics_replay_fresh by auto
  next
    case fresh
    let ?now = "truncate_us (env_clock env 0)"
    obtain source payload data input b where src: "source_checked env bid rq source payload d"
      and b: "find (\<lambda>b. b_id b = bid) (batches d) = Some b" "uint (b_version b) = md_expected_version m"
        "b_version b = aq_source_version rq"
      and data: "event_data payload = Some data" "validate_metrics_against_frozen_input data rq = Inr ()"
        "analytics_canonical_input payload = Inr input"
      and w: "complete_batch_tx env rq m b payload data input ?now d = Inr (r, d')"
      using fresh(3) unfolding fresh_run_tx_def
      by (auto simp: tx_success find_recycled_batch_Inr dest!: source_payload_Inr)
    have src': "source \<in> set (outbox d)" "o_event_type source = ''RecyclingCompleted''" "payload = o_payload source"
      using src by (simp_all add: source_checked_def)
    have "find (\<lambda>x. ar_source_event_id x = aq_source_event_id rq) (analytics d) = None" "stored_command m d = None"
      using fresh(1,2) by (simp_all add: find_existing_run_Inr load_analytics_replay_fresh)
    then show ?thesis
      using complete_batch_tx_outcome [OF wf b(1) src'(1,2) w [unfolded src'(3)]] src b data find_Some_memD [OF b(1)]
      unfolding batch_completed_def Let_def by (intro disjI2 conjI; force)
  qed
qed

lemma validated_codes:
  "validate_metrics_against_frozen_input data rq = Inr () \<Longrightarrow> expected_analytics_anomaly_codes data = Inr (ack_codes rq)"
  by (auto simp: validate_metrics_against_frozen_input_def Let_def split: if_splits option.splits sum.splits)

lemma batch_completed_rows:
  assumes "batch_completed env bid rq m r d d'"
  shows "\<exists>x as data. analytics d' = analytics d @ [x] \<and> ar_batch_id x = bid \<and> ar_input_hash x = aq_input_hash rq \<and>
       ar_source_event_id x = aq_source_event_id rq \<and> ar_id x = cv_result_id (co_data r) \<and>
       anomalies d' = anomalies d @ as \<and> list_all (\<lambda>a. an_result_id a = ar_id x \<and> an_batch_id a = bid) as \<and>
       map an_code as = ack_codes rq \<and> expected_analytics_anomaly_codes data = Inr (ack_codes rq) \<and>
       ar_reused x = nullable_event_string (json_field ''reused_kg'' data) \<and>
       ar_recycled x = nullable_event_string (json_field ''recycled_kg'' data) \<and>
       ar_disposed x = nullable_event_string (json_field ''disposed_kg'' data)"
proof -
  define now where "now = truncate_us (env_clock env 0)"
  obtain data input b b' and e :: outbox_event where v: "validate_metrics_against_frozen_input data rq = Inr ()" and id: "b_id b = bid"
    and an: "analytics d' = analytics d @ [new_analytics_result env (env_id env 1) m (env_id env 0) rq b data input now]"
    and as: "anomalies d' = anomalies d @ anomaly_rows env 2 bid (env_id env 1) (aq_metrics rq) data now (ack_codes rq)"
    and r: "r = completion_response rq m b' (env_id env 1) (o_event_id e)"
    using assms unfolding batch_completed_def Let_def now_def by blast
  show ?thesis
    by (intro exI conjI; (rule an | rule as | rule validated_codes [OF v])?)
      (simp_all add: id r new_analytics_result_def completion_response_def anomaly_rows_codes)
qed

section \<open>Codes in canonical order\<close>

lemma check_codes_None:
  "check_codes seen cs = None \<longleftrightarrow> distinct cs \<and> set cs \<inter> set seen = {} \<and> (\<forall>c\<in>set cs. valid_anomaly_code c)"
  by (induction seen cs rule: check_codes.induct) auto

lemma valid_anomaly_code_iff: "valid_anomaly_code c \<longleftrightarrow> c \<in> set anomaly_codes"
  by (auto simp: valid_anomaly_code_def anomaly_codes_def)

lemma anomaly_codes_sorted: "sorted (map anomaly_key anomaly_codes)" "distinct anomaly_codes"
  by (simp_all add: anomaly_codes_def anomaly_key_def anomaly_rank_def)

lemma inj_anomaly_key: "inj_on anomaly_key A"
  by (simp add: inj_on_def anomaly_key_def)

lemma sorted_map_filter: "sorted (map f xs) \<Longrightarrow> sorted (map f (filter P xs))"
  by (induction xs) auto

text \<open>Sorting the codes of a valid request gives the sublist of the canonical order.\<close>

lemma sort_valid_codes:
  assumes "distinct cs" "\<forall>c\<in>set cs. valid_anomaly_code c"
  shows "sort_anomaly_codes cs = filter (List.member cs) anomaly_codes"
proof -
  have "mset (filter (List.member cs) anomaly_codes) = mset cs"
    using assms anomaly_codes_sorted(2)
    by (intro set_eq_iff_mset_eq_distinct [THEN iffD1]) (auto simp: valid_anomaly_code_iff)
  moreover have "sorted (map anomaly_key (filter (List.member cs) anomaly_codes))"
    by (rule sorted_map_filter [OF anomaly_codes_sorted(1)])
  ultimately show ?thesis
    unfolding sort_anomaly_codes_def by (intro sort_key_inj_key_eq) (simp_all add: inj_anomaly_key)
qed

lemma sort_codes_eq: "sort_anomaly_codes cs = sort_anomaly_codes cs' \<longleftrightarrow> mset cs = mset cs'"
proof
  assume "sort_anomaly_codes cs = sort_anomaly_codes cs'"
  then show "mset cs = mset cs'" unfolding sort_anomaly_codes_def by (metis mset_sort)
next
  assume "mset cs = mset cs'"
  then show "sort_anomaly_codes cs = sort_anomaly_codes cs'"
    unfolding sort_anomaly_codes_def
    by (intro sort_key_inj_key_eq) (simp_all add: inj_anomaly_key)
qed

lemma expected_codes_canonical:
  assumes "expected_analytics_anomaly_codes data = Inr cs"
  shows "check_codes [] cs = None" "sort_anomaly_codes cs = cs"
proof -
  obtain fs where cs: "cs = filter (List.member fs) anomaly_codes"
    using assms by (auto simp: expected_analytics_anomaly_codes_def Let_def split: sum.splits)
  have "distinct cs" "\<forall>c\<in>set cs. valid_anomaly_code c"
    using anomaly_codes_sorted(2) by (auto simp: cs valid_anomaly_code_iff)
  then show "check_codes [] cs = None" by (simp add: check_codes_None)
  have "filter (List.member cs) anomaly_codes = cs" unfolding cs by (rule filter_cong) auto
  then show "sort_anomaly_codes cs = cs"
    using sort_valid_codes \<open>distinct cs\<close> \<open>\<forall>c\<in>set cs. valid_anomaly_code c\<close> by simp
qed

section \<open>A batch is completed once\<close>

lemma second_acknowledgement:
  assumes wf: "db_wf d" and c: "acknowledge_tx env bid rq m d = Inr (r, d1)" and new: "d1 \<noteq> d"
    and c2: "acknowledge_tx env2 bid rq2 m2 d1 = Inr (r2, d2)"
  shows "d2 = d1 \<and> ((\<exists>r0. recorded decode_completion_result m2 r0 d1 \<and> r2 = replayed r0) \<or>
    cv_result_id (co_data r2) = cv_result_id (co_data r))"
proof -
  have bc: "batch_completed env bid rq m r d d1" using acknowledge_tx_outcome [OF wf c] new by blast
  then obtain data :: json and input :: json and b e b' now where id: "b_id b = bid" "b' = advanced_batch BatchStatusCompleted now b"
    and t: "transition m (encode_completion_result r) BatchStatusRecycled BatchStatusCompleted b b' [e] d d1"
    and none: "find (\<lambda>x. ar_batch_id x = bid) (analytics d) = None"
    and an: "analytics d1 = analytics d @ [new_analytics_result env (env_id env 1) m (env_id env 0) rq b data input now]"
    and r: "r = completion_response rq m b' (env_id env 1) (o_event_id e)"
    unfolding batch_completed_def Let_def by blast
  have wf1: "db_wf d1" using wf.acknowledge_tx_steps [THEN stepsD, OF c] wf by (simp add: wf_step_def)
  have f1: "find (\<lambda>x. b_id x = bid) (batches d1) = Some b'"
    using t id by (auto simp: transition_def batch_moved_def)
  have "\<not> batch_completed env2 bid rq2 m2 r2 d1 d2"
    using f1 id(2) unfolding batch_completed_def Let_def transition_def batch_moved_def by auto
  then consider r0 where "recorded decode_completion_result m2 r0 d1" "r2 = replayed r0" "d2 = d1"
    | "run_recovered bid rq2 m2 r2 d1" "d2 = d1"
    using acknowledge_tx_outcome [OF wf1 c2] by blast
  then show ?thesis
  proof cases
    case 2
    then obtain x b2 e2 where x: "find (\<lambda>x. ar_source_event_id x = aq_source_event_id rq2) (analytics d1) = Some x"
      "ar_batch_id x = bid" and r2: "r2 = recovered_response rq2 m2 x b2 e2"
      by (auto simp: run_recovered_def same_run_def)
    have "x \<in> set (analytics d1)" using find_Some_memD [OF x(1)] by simp
    moreover have "x \<notin> set (analytics d)" using none x(2) by (auto simp: find_None_iff)
    ultimately have "x = new_analytics_result env (env_id env 1) m (env_id env 0) rq b data input now" by (simp add: an)
    then show ?thesis using 2 r r2 by (simp add: recovered_response_def completion_response_def new_analytics_result_def)
  qed blast
qed

section \<open>What is prepared is accepted\<close>

lemma prepare_tx_outcome:
  assumes "prepare_analytics_tx env bid se d = Inr (p, d')"
  shows "d' = d \<and> (\<exists>event data b.
     find (\<lambda>e. o_batch_id e = bid \<and> o_event_id e = se \<and> o_event_type e = ''RecyclingCompleted'') (outbox d) = Some event \<and>
     decode_event_payload (o_payload event) = Some (o_payload event) \<and> event_data (o_payload event) = Some data \<and>
     string_value (json_field ''event_id'' (o_payload event)) = o_event_id event \<and>
     string_value (json_field ''correlation_id'' (o_payload event)) = o_correlation_id event \<and>
     validate_source_event (o_payload event) bid (ap_rule_version p) (ap_source_version p) = Inr () \<and>
     ap_source_version p = o_aggregate_version event \<and>
     find (\<lambda>b. b_id b = bid) (batches d) = Some b \<and>
     (b_status b = BatchStatusRecycled \<and> b_version b = ap_source_version p \<or>
      b_status b = BatchStatusCompleted \<and> uint (b_version b) = uint (ap_source_version p) + 1) \<and>
     analytics_canonical_input (o_payload event) = Inr (ap_input p) \<and> ap_input_hash p = env_sha256 env (ap_input p) \<and>
     ap_batch_id p = bid \<and> ap_source_event_id p = se \<and> ap_correlation_id p = o_correlation_id event)"
  using assms unfolding prepare_analytics_tx_def find_outbox_event_def Let_def
  by (auto simp: tx_success analytics_input_hash_def split: if_splits dest: decode_event_payload_same)

text \<open>A request that quotes what was prepared passes the checks of its source event.\<close>

lemma prepared_accepted:
  assumes p: "prepare_analytics_tx env bid se d = Inr (p, d')"
    and q: "aq_source_event_id rq = se" "aq_source_version rq = ap_source_version p"
      "aq_rule_version rq = ap_rule_version p" "aq_input_hash rq = ap_input_hash p"
  shows "\<exists>payload. source_payload_tx env bid rq d = Inr (payload, d) \<and>
           analytics_canonical_input payload = Inr (ap_input p)"
proof -
  obtain event where e: "find (\<lambda>e. o_batch_id e = bid \<and> o_event_id e = se \<and> o_event_type e = ''RecyclingCompleted'') (outbox d) = Some event"
    "decode_event_payload (o_payload event) = Some (o_payload event)"
    "string_value (json_field ''event_id'' (o_payload event)) = o_event_id event"
    "string_value (json_field ''correlation_id'' (o_payload event)) = o_correlation_id event"
    "validate_source_event (o_payload event) bid (ap_rule_version p) (ap_source_version p) = Inr ()"
    "ap_source_version p = o_aggregate_version event"
    and i: "analytics_canonical_input (o_payload event) = Inr (ap_input p)" "ap_input_hash p = env_sha256 env (ap_input p)"
    using prepare_tx_outcome [OF p] by blast
  have "source_payload_tx env bid rq d = Inr (o_payload event, d)"
    unfolding source_payload_tx_def find_outbox_event_def q
    using e by (auto simp: tx_success analytics_input_hash_def i)
  then show ?thesis using i(1) by blast
qed

text \<open>The event of a recorded treatment can be prepared, and its input is the treatment that was stored.\<close>

lemma find_uniqueI: "x \<in> set xs \<Longrightarrow> P x \<Longrightarrow> (\<And>y. y \<in> set xs \<Longrightarrow> P y \<Longrightarrow> y = x) \<Longrightarrow> find P xs = Some x"
proof (induction xs)
  case (Cons a xs)
  show ?case
  proof (cases "P a")
    case True
    then have "a = x" by (intro Cons.prems(3)) simp_all
    then show ?thesis using True by simp
  next
    case False
    have "find P xs = Some x"
    proof (rule Cons.IH)
      show "x \<in> set xs" "P x" using False Cons.prems(1,2) by auto
      show "y \<in> set xs \<Longrightarrow> P y \<Longrightarrow> y = x" for y by (rule Cons.prems(3)) simp_all
    qed
    then show ?thesis using False by simp
  qed
qed simp

lemma find_event_unique:
  assumes "db_wf d" "e \<in> set (outbox d)" "o_batch_id e = bid" "o_event_type e = et"
  shows "find (\<lambda>x. o_batch_id x = bid \<and> o_event_id x = o_event_id e \<and> o_event_type x = et) (outbox d) = Some e"
proof (rule find_uniqueI)
  fix y assume "y \<in> set (outbox d)" "o_batch_id y = bid \<and> o_event_id y = o_event_id e \<and> o_event_type y = et"
  moreover have "distinct (map o_event_id (outbox d))" using assms(1) by (simp add: db_wf_defs)
  ultimately show "y = e" using assms(2) by (auto simp: distinct_map inj_on_def)
qed (use assms in auto)

lemma number_value_uint: "number_value (Some (JInt (uint w))) = ucast w"
  by (simp only: number_value_def option.case json.case ucast_eq)

lemma map_of_map_keys: "map_of (map (\<lambda>k. (k, f k)) ks) k = (if k \<in> set ks then Some (f k) else None)"
  by (induction ks) auto

lemma string_value_JStr [simp]: "string_value (Some (JStr s)) = s"
  by (simp add: string_value_def)

lemma treatment_prepares:
  assumes wf: "db_wf d" and s: "record_treatment_tx env rule bid tq m d = Inr (r, d')" and new: "stored_command m d = None"
    and rule: "trim_space rule \<noteq> []"
  shows "\<exists>t p. treatments d' = treatments d @ [t] \<and>
    prepare_analytics_tx env2 bid (tr_event_id r) d' = Inr (p, d') \<and>
    uint (ap_source_version p) = tv_version (tr_data r) \<and> ap_rule_version p = rule \<and>
    ap_correlation_id p = md_correlation_id m \<and> ap_input_hash p = env_sha256 env2 (ap_input p) \<and>
    json_field ''reused_kg'' (ap_input p) = Some (json_opt JStr (t_reused t)) \<and>
    json_field ''recycled_kg'' (ap_input p) = Some (json_opt JStr (t_recycled t)) \<and>
    json_field ''disposed_kg'' (ap_input p) = Some (json_opt JStr (t_disposed t)) \<and>
    json_field ''unknown_kg'' (ap_input p) = Some (json_opt JStr (t_unknown t)) \<and>
    json_field ''data_quality'' (ap_input p) = Some (JStr (data_quality_string (t_quality t))) \<and>
    json_field ''receipt_id'' (ap_input p) = Some (JStr (t_receipt_id t))"
proof -
  define now where "now = truncate_us (env_clock env 0)"
  have "\<not> recorded decode_treatment_result m r d" using new by (simp add: recorded_def)
  then obtain b rc v es e b' t where id: "b_id b = bid" and b': "b' = advanced_batch BatchStatusRecycled now b"
    and t: "t = new_treatment (env_id env 1) m (env_id env 0) v b rc now"
    and tr: "transition m (encode_treatment_result r) BatchStatusVerified BatchStatusRecycled b b' [e] d d'"
    and e: "e = new_outbox (env_id env 3) (env_id env 0) b' ''RecyclingCompleted'' ''ewaste.batch.events''
             (recycling_completed_payload rule (env_id env 3) (env_id env 0) b b' rc t es (md_correlation_id m) now)
             (md_correlation_id m) now"
    and ts: "treatments d' = treatments d @ [t]" and r: "r = treatment_response m b' t es (env_id env 3)"
    using record_treatment_tx_outcome [OF wf s] unfolding now_def by blast
  have wf': "db_wf d'" using wf.record_treatment_tx_steps [THEN stepsD, OF s] wf by (simp add: wf_step_def)
  have f: "find (\<lambda>x. b_id x = bid) (batches d') = Some b'" and ob: "outbox d' = outbox d @ [e]"
    using tr id b' by (auto simp: transition_def batch_moved_def events_added_def)
  have ev: "find (\<lambda>x. o_batch_id x = bid \<and> o_event_id x = env_id env 3 \<and> o_event_type x = ''RecyclingCompleted'') (outbox d') = Some e"
    using find_event_unique [OF wf', of e bid "''RecyclingCompleted''"] id b' by (simp add: ob e)
  have st: "b_status b' = BatchStatusRecycled" by (simp add: b')
  define pl where "pl = o_payload e"
  define data where "data = the (event_data pl)"
  define input where "input = JObj (map (\<lambda>k. (k,
            if k = ''source_event_id'' then field_or_null ''event_id'' pl
            else if k = ''aggregate_version'' \<or> k = ''correlation_id'' then field_or_null k pl
            else field_or_null k data)) canonical_keys)"
  have P: "event_data pl = Some data" "decode_event_payload pl = Some pl"
    "string_value (json_field ''event_id'' pl) = env_id env 3" "string_value (json_field ''event_type'' pl) = ''RecyclingCompleted''"
    "string_value (json_field ''batch_id'' pl) = bid" "string_value (json_field ''correlation_id'' pl) = md_correlation_id m"
    "number_value (json_field ''aggregate_version'' pl) = ucast (b_version b')"
    "string_value (json_field ''rule_version'' data) = rule"
    using id b' by (simp_all add: pl_def data_def e recycling_completed_payload_def batch_event_payload_def event_data_def
        decode_event_payload_def number_value_uint)
  have ci: "analytics_canonical_input pl = Inr input" by (simp add: analytics_canonical_input_def P(1) input_def)
  have "validate_source_event pl bid rule (b_version b') = Inr ()"
    using rule by (simp add: validate_source_event_def P)
  moreover define p where "p = \<lparr>ap_batch_id = bid, ap_source_event_id = env_id env 3,
       ap_source_version = b_version b', ap_rule_version = rule, ap_correlation_id = md_correlation_id m,
       ap_input_hash = env_sha256 env2 input, ap_input = input\<rparr>"
  ultimately have prep: "prepare_analytics_tx env2 bid (tr_event_id r) d' = Inr (p, d')"
    unfolding prepare_analytics_tx_def find_outbox_event_def Let_def
    using P f st ev
    by (auto simp: tx_success r treatment_response_def analytics_input_hash_def ci e pl_def [unfolded e, simplified, symmetric])
  have J: "json_field k input = Some (field_or_null k data)"
    if "k \<in> set canonical_keys" "k \<noteq> ''source_event_id''" "k \<noteq> ''aggregate_version''" "k \<noteq> ''correlation_id''" for k
    using that by (simp add: input_def map_of_map_keys)
  have D: "field_or_null ''reused_kg'' data = json_opt JStr (t_reused t)"
    "field_or_null ''recycled_kg'' data = json_opt JStr (t_recycled t)"
    "field_or_null ''disposed_kg'' data = json_opt JStr (t_disposed t)"
    "field_or_null ''unknown_kg'' data = json_opt JStr (t_unknown t)"
    "field_or_null ''data_quality'' data = JStr (data_quality_string (t_quality t))"
    "field_or_null ''receipt_id'' data = JStr (t_receipt_id t)"
    by (simp_all add: field_or_null_def data_def pl_def e recycling_completed_payload_def batch_event_payload_def
        event_data_def t new_treatment_def)
  show ?thesis
    by (intro exI [of _ t] exI [of _ p] conjI)
      (simp_all only: ts prep p_def analytics_preparation.select_convs, simp_all add: J D canonical_keys_def r treatment_response_def)
qed

section \<open>The order of the database\<close>

text \<open>For the codes the CHECK admits, \<open>ORDER BY FIELD\<close> is the order of \<open>SortAnomalyCodes\<close>.\<close>

lemma sql_field_rank: "valid_anomaly_code c \<Longrightarrow> sql_field c = anomaly_rank c + 1"
  by (auto simp: sql_field_def valid_anomaly_code_iff)

lemma anomaly_rank_inj: "valid_anomaly_code c \<Longrightarrow> valid_anomaly_code c' \<Longrightarrow> anomaly_rank c = anomaly_rank c' \<longleftrightarrow> c = c'"
  by (auto simp: valid_anomaly_code_def anomaly_rank_def anomaly_codes_def)

lemma field_order:
  assumes "\<forall>a\<in>set as. valid_anomaly_code (an_code a)"
  shows "map an_code (sort_key (\<lambda>a. (sql_field (an_code a), to_upper (an_id a))) as) = sort_anomaly_codes (map an_code as)"
proof -
  let ?f = "\<lambda>a. (sql_field (an_code a), to_upper (an_id a))"
  let ?xs = "sort_key ?f as"
  have v: "\<forall>a\<in>set ?xs. valid_anomaly_code (an_code a)" using assms by simp
  have "sorted (map anomaly_key (map an_code ?xs))"
  proof -
    have "sorted_wrt (\<lambda>a b. ?f a \<le> ?f b) ?xs" using sorted_sort_key [of ?f as] by (simp only: sorted_map)
    then have "sorted_wrt (\<lambda>a b. anomaly_key (an_code a) \<le> anomaly_key (an_code b)) ?xs"
    proof (rule sorted_wrt_mono_rel [rotated])
      fix a b assume ab: "a \<in> set ?xs" "b \<in> set ?xs" and le: "?f a \<le> ?f b"
      have "anomaly_rank (an_code a) \<le> anomaly_rank (an_code b)"
        using le ab v by (auto simp: less_eq_prod_def sql_field_rank)
      then show "anomaly_key (an_code a) \<le> anomaly_key (an_code b)"
        using ab v anomaly_rank_inj by (fastforce simp: anomaly_key_def less_eq_prod_def)
    qed
    then show ?thesis by (simp add: sorted_map)
  qed
  moreover have "mset (map an_code ?xs) = mset (map an_code as)" by simp
  ultimately show ?thesis
    unfolding sort_anomaly_codes_def
    by (intro sort_key_inj_key_eq [symmetric]) (simp_all add: inj_anomaly_key)
qed

end
