(* ===== verification/ObjectStore.thy ===== *)
theory ObjectStore
  imports GoStrings
begin

text \<open>
  \<open>internal/storage/evidence.go\<close>: the private object store of the evidence files.  \<open>storage\<close> is the interface
  the service calls, \<open>local_storage\<close> the directory adapter and \<open>unavailable_storage\<close> the disabled default;
  the locale \<open>evidence_storage\<close> states what the service relies on, and both adapters provide it.  A directory
  is the map of its files, and what the operating system may refuse is the parameter \<open>io\<close>.  The Azure adapter,
  a thin wrapper of the cloud client, is not modelled.
\<close>

datatype storage_error =
    ErrEvidenceStorageUnavailable
  | ErrEvidenceObjectNotFound
  | StorageError string

record 'o storage =
  put_object :: "string \<Rightarrow> string \<Rightarrow> string \<Rightarrow> 'o \<Rightarrow> (storage_error + unit) \<times> 'o"
  get_object :: "string \<Rightarrow> 'o \<Rightarrow> storage_error + string"
  delete_object :: "string \<Rightarrow> 'o \<Rightarrow> (storage_error + unit) \<times> 'o"

section \<open>Object keys\<close>

definition key_char :: "char \<Rightarrow> bool" where
  "key_char c =
     (let b = byte_of c in is_digit c \<or> (65 \<le> b \<and> b \<le> 90) \<or> (97 \<le> b \<and> b \<le> 122) \<or> c = CHR ''_'' \<or> c = CHR ''-'')"

lemma key_char_code [code]:
  "key_char c = (is_digit c \<or> upper_char c \<noteq> c \<or> lower_char c \<noteq> c \<or> c = CHR ''_'' \<or> c = CHR ''-'')"
proof -
  have "upper_char c \<noteq> c \<longleftrightarrow> 97 \<le> byte_of c \<and> byte_of c \<le> 122"
    by (auto simp: upper_char_def Let_def byte_of_def dest!: arg_cong [where f = "of_char :: char \<Rightarrow> nat"])
  moreover have "lower_char c \<noteq> c \<longleftrightarrow> 65 \<le> byte_of c \<and> byte_of c \<le> 90"
    by (auto simp: lower_char_def Let_def byte_of_def dest!: arg_cong [where f = "of_char :: char \<Rightarrow> nat"])
  ultimately show ?thesis by (auto simp: key_char_def Let_def)
qed

text \<open>\<open>^batches/[A-Za-z0-9_-]{1,64}/evidence/[A-Za-z0-9_-]{1,64}$\<close>\<close>

definition key_part :: "string \<Rightarrow> bool" where
  "key_part s = (1 \<le> length s \<and> length s \<le> 64 \<and> list_all key_char s)"

definition generated_object_key :: "string \<Rightarrow> bool" where
  "generated_object_key s =
     (has_prefix s ''batches/'' \<and>
      (let r = drop 8 s; i = takeWhile key_char r; t = dropWhile key_char r in
       key_part i \<and> has_prefix t ''/evidence/'' \<and> key_part (drop 10 t)))"

definition validate_object_key :: "string \<Rightarrow> storage_error + unit" where
  "validate_object_key k = (if generated_object_key k then Inr () else Inl (StorageError ''invalid evidence object key''))"

definition evidence_object_key :: "string \<Rightarrow> string \<Rightarrow> string" where
  "evidence_object_key batch_id evidence_id = ''batches/'' @ batch_id @ ''/evidence/'' @ evidence_id"

lemma takeWhile_key: "list_all P xs \<Longrightarrow> \<not> P y \<Longrightarrow> takeWhile P (xs @ y # ys) = xs \<and> dropWhile P (xs @ y # ys) = y # ys"
  by (induction xs) auto

text \<open>The keys of the service are accepted exactly for identifiers of that shape.\<close>

lemma generated_evidence_key: "key_part b \<Longrightarrow> key_part i \<Longrightarrow> generated_object_key (evidence_object_key b i)"
  using takeWhile_key [of key_char b "CHR ''/''" "''evidence/'' @ i"]
  by (simp add: generated_object_key_def evidence_object_key_def has_prefix_def key_part_def key_char_def is_digit_def
      byte_of_def Let_def)

text \<open>No key leaves the base directory: it has no dot, no backslash and no NUL.\<close>

lemma has_prefix_all:
  assumes "has_prefix s p" "list_all P p" "list_all P (drop (length p) s)"
  shows "list_all P s"
proof -
  have "list_all P (take (length p) s @ drop (length p) s)"
    using assms unfolding has_prefix_def list_all_append by simp
  then show ?thesis by (simp only: append_take_drop_id)
qed

lemma accepted_key_chars:
  assumes "generated_object_key k"
  shows "list_all (\<lambda>c. key_char c \<or> c = CHR ''/'') k"
proof -
  let ?P = "\<lambda>c. key_char c \<or> c = CHR ''/''"
  define r where "r = drop 8 k"
  define t where "t = dropWhile key_char r"
  have p: "has_prefix k ''batches/''" "has_prefix t ''/evidence/''" and l: "list_all key_char (drop 10 t)"
    using assms by (auto simp: generated_object_key_def Let_def key_part_def r_def t_def)
  have f: "list_all ?P ''batches/''" "list_all ?P ''/evidence/''" by code_simp+
  have n: "length ''batches/'' = 8" "length ''/evidence/'' = 10" by simp_all
  have "list_all ?P t" by (rule has_prefix_all [OF p(2) f(2)]) (use l in \<open>simp only: n list_all_iff, blast\<close>)
  moreover have "list_all ?P (takeWhile key_char r)" by (auto simp: list_all_iff dest: set_takeWhileD)
  ultimately have "list_all ?P (takeWhile key_char r @ t)" by (simp only: list_all_append)
  then have "list_all ?P r" by (simp only: t_def takeWhile_dropWhile_id)
  then show ?thesis by (intro has_prefix_all [OF p(1) f(1)]) (simp only: n r_def)
qed

section \<open>The adapters\<close>

type_synonym directory = "string \<rightharpoonup> string"

definition unavailable_storage :: "'o storage" where
  "unavailable_storage =
     \<lparr>put_object = (\<lambda>k c t s. (Inl ErrEvidenceStorageUnavailable, s)),
      get_object = (\<lambda>k s. Inl ErrEvidenceStorageUnavailable),
      delete_object = (\<lambda>k s. (Inl ErrEvidenceStorageUnavailable, s))\<rparr>"

definition path_for :: "string \<Rightarrow> string \<Rightarrow> storage_error + string" where
  "path_for base_dir k = (case validate_object_key k of Inl e \<Rightarrow> Inl e | Inr _ \<Rightarrow> Inr (base_dir @ ''/'' @ k))"

definition local_put ::
  "string \<Rightarrow> int \<Rightarrow> (string \<Rightarrow> string \<Rightarrow> string option) \<Rightarrow> string \<Rightarrow> string \<Rightarrow> string \<Rightarrow> directory
     \<Rightarrow> (storage_error + unit) \<times> directory"
where
  "local_put base_dir max_bytes io k content content_type files =
     (case path_for base_dir k of Inl e \<Rightarrow> (Inl e, files) | Inr path \<Rightarrow>
      if int (length content) > max_bytes then (Inl (StorageError ''evidence object exceeds configured size limit''), files)
      else (case io ''put'' path of
              Some e \<Rightarrow> (Inl (StorageError e), files)
            | None \<Rightarrow>
                (case files path of
                   Some _ \<Rightarrow> (Inl (StorageError ''create local evidence object''), files)
                 | None \<Rightarrow> (Inr (), files(path \<mapsto> content)))))"

definition local_get ::
  "string \<Rightarrow> int \<Rightarrow> (string \<Rightarrow> string \<Rightarrow> string option) \<Rightarrow> string \<Rightarrow> directory \<Rightarrow> storage_error + string"
where
  "local_get base_dir max_bytes io k files =
     (case path_for base_dir k of Inl e \<Rightarrow> Inl e | Inr path \<Rightarrow>
     (case io ''get'' path of
        Some e \<Rightarrow> Inl (StorageError e)
      | None \<Rightarrow>
          (case files path of
             None \<Rightarrow> Inl ErrEvidenceObjectNotFound
           | Some content \<Rightarrow>
               if int (length content) > max_bytes
               then Inl (StorageError ''evidence object exceeds configured size limit'') else Inr content)))"

definition local_delete ::
  "string \<Rightarrow> (string \<Rightarrow> string \<Rightarrow> string option) \<Rightarrow> string \<Rightarrow> directory \<Rightarrow> (storage_error + unit) \<times> directory"
where
  "local_delete base_dir io k files =
     (case path_for base_dir k of Inl e \<Rightarrow> (Inl e, files) | Inr path \<Rightarrow>
     (case io ''delete'' path of
        Some e \<Rightarrow> (Inl (StorageError e), files)
      | None \<Rightarrow>
          (case files path of
             None \<Rightarrow> (Inl ErrEvidenceObjectNotFound, files)
           | Some _ \<Rightarrow> (Inr (), files(path := None)))))"

definition local_storage ::
  "string \<Rightarrow> int \<Rightarrow> (string \<Rightarrow> string \<Rightarrow> string option) \<Rightarrow> directory storage"
where
  "local_storage base_dir max_bytes io =
     \<lparr>put_object = local_put base_dir max_bytes io, get_object = local_get base_dir max_bytes io,
      delete_object = local_delete base_dir io\<rparr>"

text \<open>The objects of a directory, by key.\<close>

definition local_objects :: "string \<Rightarrow> directory \<Rightarrow> string \<rightharpoonup> string" where
  "local_objects base_dir files k = files (base_dir @ ''/'' @ k)"

lemma local_objects_update [simp]:
  "local_objects base_dir (files(base_dir @ CHR ''/'' # k := v)) = (local_objects base_dir files)(k := v)"
  by (auto simp: local_objects_def)

lemma local_objects_path: "files (base_dir @ CHR ''/'' # k) = local_objects base_dir files k"
  by (simp add: local_objects_def)

section \<open>The contract\<close>

text \<open>
  A write that succeeds adds the object, one that was not there; whatever an operation answers, no other object
  changes, and only a successful deletion removes one.
\<close>

locale evidence_storage =
  fixes st :: "'o storage"
    and objects :: "'o \<Rightarrow> string \<rightharpoonup> string"
  assumes put_stores: "put_object st k c t s = (Inr (), s') \<Longrightarrow> objects s k = None \<and> objects s' = (objects s)(k \<mapsto> c)"
    and put_others: "put_object st k c t s = (x, s') \<Longrightarrow> j \<noteq> k \<Longrightarrow> objects s' j = objects s j"
    and get_reads: "get_object st k s = Inr c \<Longrightarrow> objects s k = Some c"
    and delete_removes: "delete_object st k s = (Inr (), s') \<Longrightarrow> objects s' = (objects s)(k := None)"
    and delete_keeps: "delete_object st k s = (Inl e, s') \<Longrightarrow> objects s' = objects s"
begin

text \<open>Deleting what was just written, or only half written, leaves the store as it was.\<close>

lemma put_then_delete:
  assumes "put_object st k c t s = (x, s1)" "delete_object st k s1 = (Inr (), s2)" "objects s k = None"
  shows "objects s2 = objects s"
proof
  fix j
  show "objects s2 j = objects s j"
    using delete_removes [OF assms(2)] put_others [OF assms(1), of j] assms(3) by (cases "j = k") auto
qed

lemma read_back:
  assumes "put_object st k c t s = (Inr (), s1)" "get_object st k s1 = Inr c'"
  shows "c' = c"
  using put_stores [OF assms(1)] get_reads [OF assms(2)] by simp

end

lemma path_for_Inr: "path_for base_dir k = Inr p \<longleftrightarrow> generated_object_key k \<and> p = base_dir @ ''/'' @ k"
  by (auto simp: path_for_def validate_object_key_def)

interpretation local_files: evidence_storage "local_storage base_dir max_bytes io" "local_objects base_dir"
  for base_dir max_bytes io
proof
  fix k c t s s' x j e
  show "put_object (local_storage base_dir max_bytes io) k c t s = (Inr (), s') \<Longrightarrow>
      local_objects base_dir s k = None \<and> local_objects base_dir s' = (local_objects base_dir s)(k \<mapsto> c)"
    by (auto simp: local_storage_def local_put_def local_objects_path path_for_Inr
        split: sum.splits if_splits option.splits)
  show "put_object (local_storage base_dir max_bytes io) k c t s = (x, s') \<Longrightarrow> j \<noteq> k \<Longrightarrow>
      local_objects base_dir s' j = local_objects base_dir s j"
    by (auto simp: local_storage_def local_put_def local_objects_path path_for_Inr
        split: sum.splits if_splits option.splits)
  show "get_object (local_storage base_dir max_bytes io) k s = Inr c \<Longrightarrow> local_objects base_dir s k = Some c"
    by (auto simp: local_storage_def local_get_def local_objects_path path_for_Inr
        split: sum.splits if_splits option.splits)
  show "delete_object (local_storage base_dir max_bytes io) k s = (Inr (), s') \<Longrightarrow>
      local_objects base_dir s' = (local_objects base_dir s)(k := None)"
    by (auto simp: local_storage_def local_delete_def local_objects_path path_for_Inr
        split: sum.splits if_splits option.splits)
  show "delete_object (local_storage base_dir max_bytes io) k s = (Inl e, s') \<Longrightarrow>
      local_objects base_dir s' = local_objects base_dir s"
    by (auto simp: local_storage_def local_delete_def split: sum.splits if_splits option.splits)
qed

interpretation disabled: evidence_storage unavailable_storage objects for objects :: "'o \<Rightarrow> string \<rightharpoonup> string"
  by unfold_locales (simp_all add: unavailable_storage_def)

end
