(* ===== verification/Evidence.thy ===== *)
theory Evidence
  imports ReceiptTreatment ObjectStore
begin

text \<open>
  \<open>internal/service/evidence.go\<close>: files attached to a batch.  An upload writes the object inside the database
  transaction, before the row, and removes it again when the transaction fails; a download serves an object
  only after it was compared with its row, and records the access.  \<open>sha\<close> is the hexadecimal digest of a
  content.
\<close>

section \<open>Contents and names\<close>

text \<open>
  \<open>http.DetectContentType\<close> on the three types that are allowed; every other type is written as one, since it is
  only ever compared with these.
\<close>

definition png_signature :: string where
  "png_signature = map char_of [137, 80, 78, 71, 13, 10, 26, 10 :: nat]"

definition jpeg_signature :: string where
  "jpeg_signature = map char_of [255, 216, 255 :: nat]"

definition detect_content_type :: "string \<Rightarrow> string" where
  "detect_content_type c =
     (if has_prefix c ''%PDF-'' then ''application/pdf''
      else if has_prefix c png_signature then ''image/png''
      else if has_prefix c jpeg_signature then ''image/jpeg''
      else ''application/octet-stream'')"

text \<open>\<open>filepath.Base\<close>\<close>

definition base_name :: "string \<Rightarrow> string" where
  "base_name path =
     (if path = [] then ''.''
      else let p = rev (dropWhile (\<lambda>c. c = CHR ''/'') (rev path)) in
           if p = [] then ''/'' else rev (takeWhile (\<lambda>c. c \<noteq> CHR ''/'') (rev p)))"

text \<open>The runes of a string, each with its bytes.\<close>

function runes :: "string \<Rightarrow> string list" where
  "runes [] = []"
| "runes (a # s) = (a # take (rune_width (a # s) - 1) s) # runes (drop (rune_width (a # s) - 1) s)"
  by pat_completeness auto
termination by (relation "measure length") auto

text \<open>\<open>unicode.IsControl\<close>: U+0000 to U+001F and U+007F to U+009F.\<close>

definition control_rune :: "string \<Rightarrow> bool" where
  "control_rune r =
     (case r of [c] \<Rightarrow> byte_of c < 32 \<or> byte_of c = 127
              | [c, d] \<Rightarrow> byte_of c = 194 \<and> byte_in 128 159 d
              | _ \<Rightarrow> False)"

definition invalid_rune :: "string \<Rightarrow> bool" where
  "invalid_rune r = (case r of [c] \<Rightarrow> 128 \<le> byte_of c | _ \<Rightarrow> False)"

text \<open>\<open>strings.Map\<close> drops the control runes and writes U+FFFD for an invalid byte.\<close>

definition clean_rune :: "string \<Rightarrow> string" where
  "clean_rune r =
     (if control_rune r then [] else if invalid_rune r then map char_of [239, 191, 189 :: nat] else r)"

definition safe_evidence_filename :: "string \<Rightarrow> string" where
  "safe_evidence_filename raw =
     (let name = base_name (map (\<lambda>c. if c = CHR 0x5C then CHR ''/'' else c) (trim_space raw)) in
      if name = ''.'' \<or> name = ''..'' \<or> name = ''/'' then []
      else let name = concat (map clean_rune (runes name));
               name = (if rune_count name > 255 then concat (take 255 (runes name)) else name)
           in trim_space name)"

lemma control_rune_code [code]:
  "control_rune r =
     (case r of [c] \<Rightarrow> (if ascii c then (if visible_ascii c then False else byte_of c \<noteq> 32) else False)
              | [c, d] \<Rightarrow> (if ascii c then False else byte_of c = 194 \<and> byte_in 128 159 d)
              | _ \<Rightarrow> False)"
  by (auto simp: control_rune_def ascii_def visible_ascii_def split: list.split)

lemma invalid_rune_code [code]: "invalid_rune r = (case r of [c] \<Rightarrow> \<not> ascii c | _ \<Rightarrow> False)"
  by (auto simp: invalid_rune_def ascii_def split: list.split)

lemma signature_code [code]:
  "png_signature = [CHR 0x89, CHR 0x50, CHR 0x4E, CHR 0x47, CHR 0x0D, CHR 0x0A, CHR 0x1A, CHR 0x0A]"
  "jpeg_signature = [CHR 0xFF, CHR 0xD8, CHR 0xFF]"
  by (simp_all add: png_signature_def jpeg_signature_def char_of_def bit_0)

section \<open>Requests and results\<close>

record evidence_upload =
  up_filename :: string
  up_stage :: "lifecycle_stage option"
  up_content :: string

record normalized_upload =
  nu_filename :: string
  nu_stage :: lifecycle_stage
  nu_mime_type :: string
  nu_content :: string
  nu_sha256 :: string

record evidence_view =
  ev_id :: string
  ev_batch_id :: string
  ev_stage :: string
  ev_mime_type :: string
  ev_size :: int
  ev_sha256 :: string
  ev_status :: string

record evidence_result =
  er_data :: evidence_view
  er_correlation_id :: string

record evidence_download =
  dl_filename :: string
  dl_mime_type :: string
  dl_content :: string
  dl_size :: nat

fun stage_string :: "lifecycle_stage \<Rightarrow> string" where
  "stage_string EvidenceLifecycleReceipt = ''RECEIPT''"
| "stage_string EvidenceLifecycleTreatment = ''TREATMENT''"

definition encode_evidence_view :: "evidence_view \<Rightarrow> json" where
  "encode_evidence_view v =
     JObj [(''evidence_id'', JStr (ev_id v)), (''batch_id'', JStr (ev_batch_id v)), (''lifecycle_stage'', JStr (ev_stage v)),
           (''mime_type'', JStr (ev_mime_type v)), (''file_size_bytes'', JInt (ev_size v)),
           (''sha256_hash'', JStr (ev_sha256 v)), (''validation_status'', JStr (ev_status v))]"

definition encode_evidence_result :: "evidence_result \<Rightarrow> json" where
  "encode_evidence_result r =
     JObj [(''data'', encode_evidence_view (er_data r)), (''correlation_id'', JStr (er_correlation_id r))]"

definition decode_evidence_view :: "json \<Rightarrow> evidence_view option" where
  "decode_evidence_view j = do {
     i \<leftarrow> dec_str ''evidence_id'' j; b \<leftarrow> dec_str ''batch_id'' j; s \<leftarrow> dec_str ''lifecycle_stage'' j;
     t \<leftarrow> dec_str ''mime_type'' j; n \<leftarrow> dec_int ''file_size_bytes'' j; h \<leftarrow> dec_str ''sha256_hash'' j;
     v \<leftarrow> dec_str ''validation_status'' j;
     Some \<lparr>ev_id = i, ev_batch_id = b, ev_stage = s, ev_mime_type = t, ev_size = n, ev_sha256 = h, ev_status = v\<rparr> }"

definition decode_evidence_result :: "json \<Rightarrow> evidence_result option" where
  "decode_evidence_result j = do {
     data \<leftarrow> dec_obj decode_evidence_view ''data'' j; co \<leftarrow> dec_str ''correlation_id'' j;
     Some \<lparr>er_data = data, er_correlation_id = co\<rparr> }"

lemma decode_encode_evidence_view [simp]: "decode_evidence_view (encode_evidence_view v) = Some v"
  by (simp add: decode_evidence_view_def encode_evidence_view_def dec_defs)

lemma decode_encode_evidence_result [simp]: "decode_evidence_result (encode_evidence_result r) = Some r"
  by (simp add: decode_evidence_result_def encode_evidence_result_def dec_defs)
    (simp add: encode_evidence_view_def)

section \<open>Checks\<close>

definition default_max_upload :: int where
  "default_max_upload = 5 * 1024 * 1024"

definition normalize_evidence_upload ::
  "(string \<Rightarrow> string) \<Rightarrow> evidence_upload \<Rightarrow> int \<Rightarrow> error + normalized_upload"
where
  "normalize_evidence_upload sha rq max_bytes =
     (let max_bytes = (if max_bytes < 1 then default_max_upload else max_bytes) in
      if up_content rq = [] then Inl (new_batch_validation_error [(''file'', ''must not be empty'')])
      else if int (length (up_content rq)) > max_bytes
      then Inl (new_batch_validation_error [(''file'', ''exceeds the 5 MiB upload limit'')])
      else (case up_stage rq of
              None \<Rightarrow> Inl (new_batch_validation_error [(''lifecycle_stage'', ''must be RECEIPT or TREATMENT'')])
            | Some lifecycle \<Rightarrow>
                let mime_type = detect_content_type (up_content rq) in
                if \<not> List.member evidence_mime_types mime_type
                then Inl (new_batch_validation_error [(''file'', ''must be a PDF, JPEG, or PNG'')])
                else
                  let filename = safe_evidence_filename (up_filename rq) in
                  if filename = [] then Inl (new_batch_validation_error [(''file'', ''filename is required'')])
                  else Inr \<lparr>nu_filename = filename, nu_stage = lifecycle, nu_mime_type = mime_type,
                            nu_content = up_content rq, nu_sha256 = sha (up_content rq)\<rparr>))"

definition verify_evidence_content :: "(string \<Rightarrow> string) \<Rightarrow> evidence \<Rightarrow> string \<Rightarrow> error + unit" where
  "verify_evidence_content sha e content =
     (if of_nat (length content) \<noteq> e_size e \<or> \<not> equal_fold (sha content) (e_sha256 e) \<or>
         detect_content_type content \<noteq> e_mime_type e
      then Inl ErrEvidenceIntegrity else Inr ())"

definition map_evidence_repository_error :: "error \<Rightarrow> error" where
  "map_evidence_repository_error e =
     (if errors_is e (BatchRepoErr RepoBatchActorNotEligible) then ErrBatchForbidden
      else if errors_is e (BatchRepoErr RepoEvidenceNotFound) then ErrBatchEvidenceNotFound
      else if errors_is e (BatchRepoErr RepoBatchConcurrency) then ErrBatchStaleVersion
      else e)"

definition is_evidence_processing_status :: "batch_status \<Rightarrow> bool" where
  "is_evidence_processing_status st =
     (st = BatchStatusCollected \<or> st = BatchStatusVerified \<or> st = BatchStatusRecycled \<or> st = BatchStatusCompleted)"

section \<open>Upload\<close>

definition load_upload_replay :: "metadata \<Rightarrow> evidence_result option dbtx" where
  "load_upload_replay m =
     load_replay_with (find_command (md_actor_scope m) (md_command_name m) (md_idempotency_key m))
       (BatchRepoErr RepoCommandNotFound) ErrBatchIdempotencyConflict ErrBatchInProgress
       (PlainError ''evidence: decode replay response'') decode_evidence_result m"

definition find_evidence_batch :: "metadata \<Rightarrow> string \<Rightarrow> batch dbtx" where
  "find_evidence_batch m batch_id =
     tx_bind (tx_map_err map_evidence_repository_error
       (validate_recycler_actor (act_user_id (md_actor m)) (act_organisation_id (md_actor m)))) (\<lambda>_.
     tx_bind (find_batch_for_update batch_id) (\<lambda>b.
     tx_bind (tx_guard (is_evidence_processing_status (b_status b)) ErrBatchInvalidState) (\<lambda>_.
     tx_bind (tx_some (b_claim_id b) ErrBatchForbidden) (\<lambda>claim_id.
     tx_bind (tx_some (b_assignment_id b) ErrBatchForbidden) (\<lambda>assignment_id.
     tx_bind (tx_map_err map_evidence_repository_error (validate_receipt_scope (b_id b) claim_id assignment_id
               (b_claim_epoch b) (act_organisation_id (md_actor m)))) (\<lambda>_.
     tx_return b))))))"

text \<open>Up to the call of the store: the answer of a replay, or the batch with the command inserted.\<close>

definition upload_check_tx :: "call_env \<Rightarrow> string \<Rightarrow> metadata \<Rightarrow> (evidence_result + batch) dbtx" where
  "upload_check_tx env batch_id m =
     tx_bind (load_upload_replay m) (\<lambda>replay. case replay of Some r \<Rightarrow> tx_return (Inl r) | None \<Rightarrow>
     tx_bind (find_evidence_batch m batch_id) (\<lambda>b.
     tx_bind (create_command (new_command (env_id env 0) m (b_id b) (env_clock env 0) retain_for)) (\<lambda>_.
     tx_return (Inr b))))"

definition new_evidence :: "string \<Rightarrow> metadata \<Rightarrow> normalized_upload \<Rightarrow> batch \<Rightarrow> int \<Rightarrow> evidence" where
  "new_evidence evidence_id m v b now =
     \<lparr>e_id = evidence_id, e_batch_id = b_id b, e_organisation_id = act_organisation_id (md_actor m),
      e_uploaded_by = act_user_id (md_actor m), e_stage = nu_stage v, e_file_name = nu_filename v,
      e_object_key = evidence_object_key (b_id b) evidence_id, e_mime_type = nu_mime_type v,
      e_size = of_nat (length (nu_content v)), e_sha256 = nu_sha256 v, e_created_at = now\<rparr>"

definition evidence_view_of :: "evidence \<Rightarrow> evidence_view" where
  "evidence_view_of e =
     \<lparr>ev_id = e_id e, ev_batch_id = e_batch_id e, ev_stage = stage_string (e_stage e), ev_mime_type = e_mime_type e,
      ev_size = uint (e_size e), ev_sha256 = e_sha256 e, ev_status = ''VALIDATED''\<rparr>"

definition upload_response :: "metadata \<Rightarrow> evidence \<Rightarrow> evidence_result" where
  "upload_response m e = \<lparr>er_data = evidence_view_of e, er_correlation_id = md_correlation_id m\<rparr>"

text \<open>After the object is stored.\<close>

definition upload_record_tx ::
  "call_env \<Rightarrow> metadata \<Rightarrow> normalized_upload \<Rightarrow> batch \<Rightarrow> evidence_result dbtx"
where
  "upload_record_tx env m v b =
     (let now = env_clock env 0; command_id = env_id env 0; e = new_evidence (env_id env 1) m v b now
      in tx_bind (create_evidence e) (\<lambda>_.
         tx_bind (append_audit (new_audit_event (env_id env 2) m command_id b ''EvidenceUploaded'' (b_status b) (b_status b)
                   [(''evidence_id'', e_id e), (''lifecycle_stage'', stage_string (e_stage e)),
                    (''mime_type'', e_mime_type e), (''file_size_bytes'', format_uint64 (e_size e)),
                    (''sha256_hash'', e_sha256 e)] now)) (\<lambda>_.
         let result = upload_response m e in
         tx_bind (complete_command command_id 201 (encode_evidence_result result) now) (\<lambda>_.
         tx_return result))))"

text \<open>The database part of an upload whose object was stored.\<close>

definition upload_tx :: "call_env \<Rightarrow> string \<Rightarrow> normalized_upload \<Rightarrow> metadata \<Rightarrow> evidence_result dbtx" where
  "upload_tx env batch_id v m =
     tx_bind (upload_check_tx env batch_id m) (\<lambda>x. case x of
       Inl r \<Rightarrow> tx_return r | Inr b \<Rightarrow> upload_record_tx env m v b)"

text \<open>
  The transaction with its call of the store: the result with the database it would commit, the store, and the
  key the cleanup deletes, empty before the object is named.
\<close>

definition upload_body ::
  "'o storage option \<Rightarrow> call_env \<Rightarrow> string \<Rightarrow> normalized_upload \<Rightarrow> metadata \<Rightarrow> db \<Rightarrow> 'o
     \<Rightarrow> (error + evidence_result \<times> db) \<times> 'o \<times> string"
where
  "upload_body st env batch_id v m d s =
     (case upload_check_tx env batch_id m d of
        Inl e \<Rightarrow> (Inl e, s, [])
      | Inr (Inl r, d1) \<Rightarrow> (Inr (r, d1), s, [])
      | Inr (Inr b, d1) \<Rightarrow>
          let k = evidence_object_key (b_id b) (env_id env 1) in
          (case st of
             None \<Rightarrow> (Inl ErrEvidenceStorage, s, k)
           | Some ops \<Rightarrow>
               (case put_object ops k (nu_content v) (nu_mime_type v) s of
                  (Inl e, s1) \<Rightarrow> (Inl (Wrapped ErrEvidenceStorage ''upload object''), s1, k)
                | (Inr _, s1) \<Rightarrow> (upload_record_tx env m v b d1, s1, k))))"

text \<open>
  What the caller sees.  \<open>commit\<close> is the error of a commit that was rolled back, if it was; a call of a method of a nil
  interface panics.
\<close>

datatype 'a outcome = Answers "error + 'a" | Panics

definition finish_upload ::
  "'o storage option \<Rightarrow> error option \<Rightarrow> (error + evidence_result \<times> db) \<times> 'o \<times> string \<Rightarrow> db
     \<Rightarrow> evidence_result outcome \<times> db \<times> 'o"
where
  "finish_upload st commit x d =
     (let (res, s1, k) = x;
          res = (case commit of None \<Rightarrow> res | Some e \<Rightarrow> (case res of Inl e' \<Rightarrow> Inl e' | Inr _ \<Rightarrow> Inl e)) in
      case res of
        Inr (r, d') \<Rightarrow> (Answers (Inr r), d', s1)
      | Inl e \<Rightarrow>
          if k = [] then (Answers (Inl e), d, s1)
          else (case st of None \<Rightarrow> (Panics, d, s1) | Some ops \<Rightarrow> (Answers (Inl e), d, snd (delete_object ops k s1))))"

definition upload_payload :: "normalized_upload \<Rightarrow> json" where
  "upload_payload v =
     JObj [(''filename'', JStr (nu_filename v)), (''lifecycle_stage'', JStr (stage_string (nu_stage v))),
           (''mime_type'', JStr (nu_mime_type v)), (''file_size_bytes'', JInt (int (length (nu_content v)))),
           (''sha256_hash'', JStr (nu_sha256 v))]"

definition upload ::
  "'o storage option \<Rightarrow> (string \<Rightarrow> string) \<Rightarrow> int \<Rightarrow> error option \<Rightarrow> call_env \<Rightarrow> string \<Rightarrow> evidence_upload \<Rightarrow> metadata
     \<Rightarrow> db \<Rightarrow> 'o \<Rightarrow> evidence_result outcome \<times> db \<times> 'o"
where
  "upload st sha max_bytes commit env batch_id rq m d s =
     (case require_receipt_recycler m of Inl e \<Rightarrow> (Answers (Inl e), d, s) | Inr _ \<Rightarrow>
      if trim_space batch_id = [] then
        (Answers (Inl (new_batch_validation_error [(''batch_id'', ''is required'')])), d, s)
      else (case normalize_evidence_upload sha rq max_bytes of Inl e \<Rightarrow> (Answers (Inl e), d, s) | Inr v \<Rightarrow>
           (case prepare_metadata env m ''UploadEvidence'' batch_id (upload_payload v) of
              Inl e \<Rightarrow> (Answers (Inl e), d, s)
            | Inr m \<Rightarrow> finish_upload st commit (upload_body st env batch_id v m d s) d)))"

section \<open>Download\<close>

definition download_record_tx ::
  "call_env \<Rightarrow> metadata \<Rightarrow> batch \<Rightarrow> string \<Rightarrow> string \<Rightarrow> unit dbtx"
where
  "download_record_tx env m b evidence_id role =
     (let now = env_clock env 0; command_id = env_id env 0 in
      tx_bind (create_command (new_command command_id m (b_id b) now retain_for)) (\<lambda>_.
      tx_bind (append_audit (new_audit_event (env_id env 2) m command_id b ''EvidenceDownloaded'' (b_status b) (b_status b)
                [(''evidence_id'', evidence_id), (''role_code'', role),
                 (''batch_version'', format_uint64 (ucast (b_version b)))] now)) (\<lambda>_.
      complete_command command_id 200 (JObj [(''downloaded'', JBool True)]) now)))"

definition download_metadata :: "call_env \<Rightarrow> actor \<Rightarrow> string \<Rightarrow> metadata" where
  "download_metadata env a correlation_id =
     \<lparr>md_actor = a, md_correlation_id = correlation_id, md_actor_scope = [], md_command_name = [],
      md_idempotency_key = ''download-'' @ env_id env 1, md_request_hash = [], md_expected_version = 0\<rparr>"

definition record_evidence_download ::
  "call_env \<Rightarrow> batch \<Rightarrow> string \<Rightarrow> string \<Rightarrow> actor \<Rightarrow> string \<Rightarrow> db \<Rightarrow> (error + unit) \<times> db"
where
  "record_evidence_download env b evidence_id role a correlation_id d =
     (case prepare_metadata env (download_metadata env a correlation_id) ''DownloadEvidence'' (b_id b)
             (JObj [(''evidence_id'', JStr evidence_id), (''role_code'', JStr role),
                    (''batch_version'', JInt (uint (b_version b)))]) of
        Inl e \<Rightarrow> (Inl e, d)
      | Inr m \<Rightarrow> run_tx (download_record_tx env m b evidence_id role) d)"

text \<open>The other sessions may commit between the read and the record of the access.\<close>

definition download ::
  "'o storage option \<Rightarrow> (string \<Rightarrow> string) \<Rightarrow> call_env \<Rightarrow> string \<Rightarrow> string \<Rightarrow> actor \<Rightarrow> string \<Rightarrow> db \<Rightarrow> 'o
     \<Rightarrow> (error + evidence_download) \<times> db"
where
  "download st sha env batch_id evidence_id a correlation_id d s =
     (let role = to_upper (trim_space (act_role_code a)) in
      if trim_space batch_id = [] \<or> trim_space evidence_id = [] then
        (Inl (new_batch_validation_error [(''path'', ''batch_id and evidence_id are required'')]), d)
      else if role \<noteq> ''RECYCLER'' \<and> role \<noteq> ''AUDITOR'' then (Inl ErrBatchForbidden, d)
      else if correlation_id = [] then (Inl (new_batch_validation_error [(''X-Correlation-ID'', ''is required'')]), d)
      else
        (case tx_map_err map_evidence_repository_error
                (read_evidence_for_download batch_id evidence_id (act_user_id a) (act_organisation_id a) role) d of
           Inl e \<Rightarrow> (Inl e, d)
         | Inr ((b, e), _) \<Rightarrow>
             (case st of None \<Rightarrow> (Inl ErrEvidenceStorage, d) | Some ops \<Rightarrow>
             (case get_object ops (e_object_key e) s of
                Inl _ \<Rightarrow> (Inl (Wrapped ErrEvidenceStorage ''download object''), d)
              | Inr content \<Rightarrow>
                  (case verify_evidence_content sha e content of Inl err \<Rightarrow> (Inl err, d) | Inr _ \<Rightarrow>
                  (case record_evidence_download env b evidence_id role a correlation_id (env_others env 0 d) of
                     (Inl err, d1) \<Rightarrow> (Inl err, d1)
                   | (Inr _, d1) \<Rightarrow>
                       (Inr \<lparr>dl_filename = e_file_name e, dl_mime_type = e_mime_type e, dl_content = content,
                            dl_size = length content\<rparr>, d1)))))))"

section \<open>What the two do\<close>

lemma upload_replay_recorded:
  "load_upload_replay m d = Inr (Some r, d') \<longleftrightarrow> recorded decode_evidence_result m r d \<and> d' = d"
  unfolding load_upload_replay_def by (rule load_replay_recorded [OF find_command_eq]) simp

lemma upload_replay_fresh:
  "load_upload_replay m d = Inr (None, d') \<longleftrightarrow> stored_command m d = None \<and> d' = d"
  unfolding load_upload_replay_def by (rule load_replay_fresh [OF find_command_eq]) simp

lemma load_upload_replay_conflict:
  "stored_command m d = Some c \<Longrightarrow> c_request_hash c \<noteq> md_request_hash m \<Longrightarrow>
   load_upload_replay m d = Inl ErrBatchIdempotencyConflict"
  unfolding load_upload_replay_def by (rule load_replay_conflict [OF find_command_eq]) simp_all

lemma find_evidence_batch_Inr [tx_success]:
  "find_evidence_batch m bid d = Inr (b, d') \<longleftrightarrow>
     d' = d \<and> find (\<lambda>b. b_id b = bid) (batches d) = Some b \<and> is_evidence_processing_status (b_status b) \<and>
     processing_allowed m b d"
  unfolding find_evidence_batch_def validate_recycler_actor_def validate_receipt_scope_def processing_allowed_def
  by (auto simp: tx_success)

lemma create_evidence_Inr [tx_success]:
  "create_evidence e d = Inr (u, d') \<longleftrightarrow>
     \<not> tbl_clash e_id e (evidences d) \<and> \<not> tbl_clash e_object_key e (evidences d) \<and> check_evidence_row e \<and>
     d' = d\<lparr>evidences := evidences d @ [e]\<rparr>"
  by (auto simp: create_evidence_def insert_evidence_def tx_success)

lemma upload_check_replay:
  "upload_check_tx env bid m d = Inr (Inl r, d') \<Longrightarrow> recorded decode_evidence_result m r d \<and> d' = d"
  unfolding upload_check_tx_def
  by (auto simp: tx_bind_Inr tx_return_Inr upload_replay_recorded split: option.splits)

lemma upload_check_recorded:
  "recorded decode_evidence_result m r d \<Longrightarrow> upload_check_tx env bid m d = Inr (Inl r, d)"
  by (simp add: upload_check_tx_def tx_bind_def tx_return_def upload_replay_recorded [THEN iffD2])

lemma upload_check_fresh:
  assumes "upload_check_tx env bid m d = Inr (Inr b, d')"
  shows "stored_command m d = None \<and> find (\<lambda>b. b_id b = bid) (batches d) = Some b \<and>
    is_evidence_processing_status (b_status b) \<and> processing_allowed m b d \<and>
    command_ok (new_command (env_id env 0) m (b_id b) (env_clock env 0) retain_for) d \<and>
    d' = d\<lparr>commands := commands d @ [new_command (env_id env 0) m (b_id b) (env_clock env 0) retain_for]\<rparr>"
proof -
  obtain replay d1 where "load_upload_replay m d = Inr (replay, d1)"
    "(case replay of Some r \<Rightarrow> tx_return (Inl r) | None \<Rightarrow>
       tx_bind (find_evidence_batch m bid) (\<lambda>b.
       tx_bind (create_command (new_command (env_id env 0) m (b_id b) (env_clock env 0) retain_for)) (\<lambda>_.
       tx_return (Inr b)))) d1 = Inr (Inr b, d')"
    using assms unfolding upload_check_tx_def tx_bind_Inr by blast
  then show ?thesis by (cases replay) (auto simp: tx_success upload_replay_fresh)
qed

lemma upload_body_tx:
  "upload_body st env bid v m d s = (Inr (r, d'), s', k) \<Longrightarrow> upload_tx env bid v m d = Inr (r, d')"
  by (auto simp: upload_body_def upload_tx_def Let_def tx_bind_def tx_return_def
      split: sum.splits option.splits prod.splits)

text \<open>An upload adds its row, its command and an audit row to a batch that stays as it is.\<close>

definition evidence_added ::
  "call_env \<Rightarrow> string \<Rightarrow> normalized_upload \<Rightarrow> metadata \<Rightarrow> evidence_result \<Rightarrow> db \<Rightarrow> db \<Rightarrow> bool"
where
  "evidence_added env batch_id v m r d d' =
     (\<exists>b c. find (\<lambda>b. b_id b = batch_id) (batches d) = Some b \<and> is_evidence_processing_status (b_status b) \<and>
        processing_allowed m b d \<and>
        (let e = new_evidence (env_id env 1) m v b (env_clock env 0) in
         evidences d' = evidences d @ [e] \<and> check_evidence_row e \<and> r = upload_response m e) \<and>
        command_added m (encode_evidence_result r) c d d' \<and> audit_added (b_status b) (b_status b) b c d d' \<and>
        batches d' = batches d \<and> outbox d' = outbox d)"

lemma upload_record_D:
  assumes co: "command_ok cmd d" and cmd: "cmd = new_command (env_id env 0) m (b_id b) now retain_for" "now = env_clock env 0"
    and d1: "d1 = d\<lparr>commands := commands d @ [cmd]\<rparr>"
    and s: "upload_record_tx env m v b d1 = Inr (r, d')"
  shows "\<exists>c. (let e = new_evidence (env_id env 1) m v b now in
         evidences d' = evidences d @ [e] \<and> check_evidence_row e \<and> r = upload_response m e) \<and>
        command_added m (encode_evidence_result r) c d d' \<and> audit_added (b_status b) (b_status b) b c d d' \<and>
        batches d' = batches d \<and> outbox d' = outbox d"
proof -
  define e where "e = new_evidence (env_id env 1) m v b now"
  define au where "au = new_audit_event (env_id env 2) m (env_id env 0) b ''EvidenceUploaded'' (b_status b) (b_status b)
                   [(''evidence_id'', e_id e), (''lifecycle_stage'', stage_string (e_stage e)),
                    (''mime_type'', e_mime_type e), (''file_size_bytes'', format_uint64 (e_size e)),
                    (''sha256_hash'', e_sha256 e)] now"
  have cl: "\<not> tbl_clash c_id cmd (commands d)" "c_id cmd = env_id env 0" "c_state cmd = CommandStateInProgress"
    using command_ok_no_clash [OF co] by (simp_all add: cmd(1))
  have ck: "check_evidence_row e" and r: "r = upload_response m e" and
    fin: "complete_command (env_id env 0) 201 (encode_evidence_result r) now
       (d1\<lparr>evidences := evidences d1 @ [e], audits := audits d1 @ [au]\<rparr>) = Inr ((), d')"
    using s unfolding upload_record_tx_def Let_def cmd(2) [symmetric] e_def [symmetric] au_def [symmetric]
    by (auto simp: tx_success)
  have d': "d' = d\<lparr>commands := commands d @ [mark_completed 201 (encode_evidence_result r) now cmd],
      evidences := evidences d @ [e], audits := audits d @ [au]\<rparr>"
    using fin complete_command_last [OF _ cl, of "d1\<lparr>evidences := evidences d1 @ [e], audits := audits d1 @ [au]\<rparr>"]
    by (simp add: d1)
  show ?thesis
    using ck r unfolding e_def
    by (intro exI [of _ "mark_completed 201 (encode_evidence_result r) now cmd"])
      (auto simp: Let_def d' e_def command_added_def audit_added_def au_def cmd(1) metadata_key_def)
qed

lemma upload_tx_outcome:
  assumes "upload_tx env bid v m d = Inr (r, d')"
  shows "recorded decode_evidence_result m r d \<and> d' = d \<or>
    stored_command m d = None \<and> evidence_added env bid v m r d d'"
proof -
  obtain x d1 where x: "upload_check_tx env bid m d = Inr (x, d1)"
    and y: "(case x of Inl r \<Rightarrow> tx_return r | Inr b \<Rightarrow> upload_record_tx env m v b) d1 = Inr (r, d')"
    using assms unfolding upload_tx_def tx_bind_Inr by blast
  show ?thesis
  proof (cases x)
    case (Inl r0)
    then show ?thesis using x y upload_check_replay by (auto simp: tx_return_Inr)
  next
    case (Inr b)
    note F = upload_check_fresh [OF x [unfolded Inr]]
    have "upload_record_tx env m v b d1 = Inr (r, d')" using y Inr by simp
    from upload_record_D [OF _ refl refl _ this, of d] F show ?thesis
      unfolding evidence_added_def by blast
  qed
qed

lemma evidence_added_recorded:
  "evidence_added env bid v m r d d' \<Longrightarrow> stored_command m d = None \<Longrightarrow> recorded decode_evidence_result m r d'"
  unfolding evidence_added_def
  by (auto intro: command_added_recorded [where decode = decode_evidence_result, OF _ _ decode_encode_evidence_result])

interpretation upload_replay: replay_contract
  "upload_tx env bid v" decode_evidence_result "\<lambda>_ _. True" ErrBatchIdempotencyConflict for env bid v
proof
  fix d m r d' c
  show "db_wf d \<Longrightarrow> upload_tx env bid v m d = Inr (r, d') \<Longrightarrow> recorded decode_evidence_result m r d'"
    by (auto dest: upload_tx_outcome intro: evidence_added_recorded)
  show "recorded decode_evidence_result m r d \<Longrightarrow> upload_tx env bid v m d = Inr (r, d)"
    by (simp add: upload_tx_def tx_bind_def tx_return_def upload_check_recorded)
  show "stored_command m d = Some c \<Longrightarrow> c_request_hash c \<noteq> md_request_hash m \<Longrightarrow>
        upload_tx env bid v m d = Inl ErrBatchIdempotencyConflict"
    by (simp add: upload_tx_def upload_check_tx_def tx_bind_def load_upload_replay_conflict)
qed

context core_steps
begin

lemma find_evidence_batch_steps: "steps R (find_evidence_batch m bid)"
  by (auto simp: steps_def find_evidence_batch_Inr step_refl)

lemma load_upload_replay_steps: "steps R (load_upload_replay m)"
  unfolding load_upload_replay_def load_replay_with_def find_command_def by (intro core_rules)

lemma upload_check_steps: "steps R (upload_check_tx env bid m)"
  unfolding upload_check_tx_def by (intro core_rules find_evidence_batch_steps load_upload_replay_steps)

lemma upload_record_steps: "steps R (upload_record_tx env m v b)"
  unfolding upload_record_tx_def Let_def complete_command_def by (intro core_rules)

lemma upload_tx_steps: "steps R (upload_tx env bid v m)"
  unfolding upload_tx_def
  by (intro core_rules upload_check_steps) (auto split: sum.split intro: core_rules upload_record_steps)

lemma download_record_tx_steps: "steps R (download_record_tx env m b ei role)"
  unfolding download_record_tx_def Let_def complete_command_def by (intro core_rules)

end

section \<open>Rows and objects\<close>

text \<open>Every row has its object, and the object is what the row says.\<close>

definition evidence_backed :: "(string \<Rightarrow> string) \<Rightarrow> (string \<rightharpoonup> string) \<Rightarrow> db \<Rightarrow> bool" where
  "evidence_backed sha objs d =
     list_all (\<lambda>e. case objs (e_object_key e) of None \<Rightarrow> False | Some c \<Rightarrow> verify_evidence_content sha e c = Inr ())
       (evidences d)"

lemma evidence_backed_others:
  assumes "evidence_backed sha objs d" "\<And>j. j \<noteq> k \<Longrightarrow> objs' j = objs j" "objs k = None"
  shows "evidence_backed sha objs' d"
  unfolding evidence_backed_def list_all_iff
proof
  fix e assume "e \<in> set (evidences d)"
  then obtain c where "objs (e_object_key e) = Some c" "verify_evidence_content sha e c = Inr ()"
    using assms(1) by (auto simp: evidence_backed_def list_all_iff split: option.splits)
  moreover from this have "objs' (e_object_key e) = objs (e_object_key e)"
    using assms(2,3) by (cases "e_object_key e = k") auto
  ultimately show "case objs' (e_object_key e) of None \<Rightarrow> False | Some c \<Rightarrow> verify_evidence_content sha e c = Inr ()"
    by simp
qed

lemma normalize_upload_D:
  "normalize_evidence_upload sha rq max_bytes = Inr v \<Longrightarrow>
   nu_content v = up_content rq \<and> nu_sha256 v = sha (nu_content v) \<and> nu_mime_type v = detect_content_type (nu_content v) \<and>
   nu_content v \<noteq> [] \<and>
   int (length (nu_content v)) \<le> (if max_bytes < 1 then default_max_upload else max_bytes) \<and> nu_filename v \<noteq> []"
  by (auto simp: normalize_evidence_upload_def Let_def split: if_splits option.splits)

lemma normalize_upload_name:
  "normalize_evidence_upload sha rq max_bytes = Inr v \<Longrightarrow> nu_filename v = safe_evidence_filename (up_filename rq)"
  by (auto simp: normalize_evidence_upload_def Let_def split: if_splits option.splits)

lemma new_evidence_verified:
  "normalize_evidence_upload sha rq max_bytes = Inr v \<Longrightarrow>
   verify_evidence_content sha (new_evidence i m v b now) (nu_content v) = Inr ()"
  by (simp add: verify_evidence_content_def new_evidence_def normalize_upload_D equal_fold_def)

lemma finish_upload_cases:
  assumes "finish_upload st commit (res, s1, k) d = (out, d', s')"
  shows "(\<exists>r. res = Inr (r, d') \<and> commit = None \<and> out = Answers (Inr r) \<and> s' = s1) \<or>
    d' = d \<and> (\<forall>r. out \<noteq> Answers (Inr r)) \<and>
    (k = [] \<and> s' = s1 \<or> st = None \<and> s' = s1 \<or> (\<exists>ops. st = Some ops \<and> s' = snd (delete_object ops k s1)))"
  using assms by (auto simp: finish_upload_def Let_def split: sum.splits option.splits if_splits prod.splits)

context evidence_storage
begin

text \<open>What an upload leaves behind in the store, whether it commits or not.\<close>

lemma upload_body_store:
  assumes "upload_body (Some st) env bid v m d s = (res, s1, k)"
  shows "s1 = s \<and> (k = [] \<or> k = evidence_object_key bid (env_id env 1)) \<or>
    k = evidence_object_key bid (env_id env 1) \<and> (\<forall>j. j \<noteq> k \<longrightarrow> objects s1 j = objects s j)"
    and "res = Inr (r, d1) \<Longrightarrow> d1 = d \<and> s1 = s \<or>
      stored_command m d = None \<and> evidence_added env bid v m r d d1 \<and>
      objects s1 = (objects s)(evidence_object_key bid (env_id env 1) \<mapsto> nu_content v)"
proof -
  consider (stop) e where "upload_check_tx env bid m d = Inl e" "res = Inl e" "s1 = s" "k = []"
    | (replay) r0 d0 where "upload_check_tx env bid m d = Inr (Inl r0, d0)" "res = Inr (r0, d0)" "s1 = s" "k = []"
    | (fresh) b d0 where "upload_check_tx env bid m d = Inr (Inr b, d0)"
    by (cases "upload_check_tx env bid m d") (use assms in \<open>auto simp: upload_body_def Let_def split: sum.splits\<close>)
  then have "(s1 = s \<and> (k = [] \<or> k = evidence_object_key bid (env_id env 1)) \<or>
    k = evidence_object_key bid (env_id env 1) \<and> (\<forall>j. j \<noteq> k \<longrightarrow> objects s1 j = objects s j)) \<and>
    (res = Inr (r, d1) \<longrightarrow> d1 = d \<and> s1 = s \<or>
      stored_command m d = None \<and> evidence_added env bid v m r d d1 \<and>
      objects s1 = (objects s)(evidence_object_key bid (env_id env 1) \<mapsto> nu_content v))"
  proof cases
    case replay
    then show ?thesis using upload_check_replay by blast
  next
    case fresh
    note F = upload_check_fresh [OF fresh]
    then have id: "b_id b = bid" using find_Some_memD by fastforce
    obtain x where p: "put_object st (evidence_object_key bid (env_id env 1)) (nu_content v) (nu_mime_type v) s = (x, s1)"
      and k: "k = evidence_object_key bid (env_id env 1)"
      and res: "res = (case x of Inl _ \<Rightarrow> Inl (Wrapped ErrEvidenceStorage ''upload object'') | Inr _ \<Rightarrow> upload_record_tx env m v b d0)"
      using assms fresh id by (auto simp: upload_body_def Let_def split: prod.splits sum.splits)
    have "evidence_added env bid v m r d d1 \<and> objects s1 = (objects s)(k \<mapsto> nu_content v)" if r: "res = Inr (r, d1)"
    proof -
      have x: "x = Inr ()" and w: "upload_record_tx env m v b d0 = Inr (r, d1)"
        using res r by (auto split: sum.splits)
      have "upload_tx env bid v m d = Inr (r, d1)" using fresh w by (simp add: upload_tx_def tx_bind_def)
      moreover have "\<not> recorded decode_evidence_result m r d" using F by (simp add: recorded_def)
      ultimately have "evidence_added env bid v m r d d1" using upload_tx_outcome by blast
      then show ?thesis using put_stores [OF p [unfolded x]] k by simp
    qed
    then show ?thesis using F put_others [OF p] k by auto
  qed auto
  then show "s1 = s \<and> (k = [] \<or> k = evidence_object_key bid (env_id env 1)) \<or>
    k = evidence_object_key bid (env_id env 1) \<and> (\<forall>j. j \<noteq> k \<longrightarrow> objects s1 j = objects s j)"
    and "res = Inr (r, d1) \<Longrightarrow> d1 = d \<and> s1 = s \<or>
      stored_command m d = None \<and> evidence_added env bid v m r d d1 \<and>
      objects s1 = (objects s)(evidence_object_key bid (env_id env 1) \<mapsto> nu_content v)"
    by blast+
qed

text \<open>
  A failed upload leaves the database as it was, and the store too unless the deletion of the object failed; a
  successful one stores the content under the key of its row.  Either way every row has its object.
\<close>

lemma upload_result:
  assumes u: "upload (Some st) sha max_bytes commit env bid rq m d s = (out, d', s')"
    and fresh: "objects s (evidence_object_key bid (env_id env 1)) = None"
    and bk: "evidence_backed sha (objects s) d"
  shows "evidence_backed sha (objects s') d' \<and>
    (case out of
       Panics \<Rightarrow> False
     | Answers (Inl e) \<Rightarrow> d' = d \<and>
         (objects s' = objects s \<or>
          (\<exists>e s1. delete_object st (evidence_object_key bid (env_id env 1)) s1 = (Inl e, s')) \<and>
          (\<forall>j. j \<noteq> evidence_object_key bid (env_id env 1) \<longrightarrow> objects s' j = objects s j))
     | Answers (Inr r) \<Rightarrow> \<exists>pm v. normalize_evidence_upload sha rq max_bytes = Inr v \<and>
         (recorded decode_evidence_result pm r d \<and> d' = d \<and> s' = s \<or>
          stored_command pm d = None \<and> evidence_added env bid v pm r d d' \<and>
          objects s' = (objects s)(evidence_object_key bid (env_id env 1) \<mapsto> up_content rq)))"
proof -
  let ?k = "evidence_object_key bid (env_id env 1)"
  consider (refused) e where "out = Answers (Inl e)" "d' = d" "s' = s"
    | (ran) v pm where "normalize_evidence_upload sha rq max_bytes = Inr v"
        "finish_upload (Some st) commit (upload_body (Some st) env bid v pm d s) d = (out, d', s')"
    using u unfolding upload_def by (auto split: sum.splits if_splits)
  then show ?thesis
  proof cases
    case ran
    obtain res s1 k where b: "upload_body (Some st) env bid v pm d s = (res, s1, k)" by (metis prod_cases3)
    note B = upload_body_store [OF b]
    consider (ok) r where "res = Inr (r, d')" "out = Answers (Inr r)" "s' = s1"
      | (failed) e where "d' = d" "out = Answers (Inl e)"
          "k = [] \<and> s' = s1 \<or> k \<noteq> [] \<and> s' = snd (delete_object st k s1)"
      using ran(2) unfolding b
      by (auto simp: finish_upload_def Let_def split: sum.splits option.splits if_splits prod.splits)
    then show ?thesis
    proof cases
      case ok
      from B(2) [OF ok(1)] consider "d' = d" "s1 = s"
        | "stored_command pm d = None" "evidence_added env bid v pm r d d'" "objects s1 = (objects s)(?k \<mapsto> nu_content v)"
        by (elim disjE conjE) (simp_all only:)
      then show ?thesis
      proof cases
        case 1
        then have "recorded decode_evidence_result pm r d \<or>
          stored_command pm d = None \<and> evidence_added env bid v pm r d d"
          using upload_tx_outcome [OF upload_body_tx [OF b [unfolded ok(1)]]] by blast
        moreover have "\<not> evidence_added env bid v pm r d d" by (auto simp: evidence_added_def Let_def)
        ultimately show ?thesis using 1 ok ran(1) bk by auto
      next
        case 2
        then obtain b' where b': "evidences d' = evidences d @ [new_evidence (env_id env 1) pm v b' (env_clock env 0)]"
          "find (\<lambda>b. b_id b = bid) (batches d) = Some b'"
          by (auto simp: evidence_added_def Let_def)
        have "b_id b' = bid" using find_Some_memD [OF b'(2)] by simp
        then have "e_object_key (new_evidence (env_id env 1) pm v b' (env_clock env 0)) = ?k" by (simp add: new_evidence_def)
        moreover have "evidence_backed sha (objects s1) d"
          by (rule evidence_backed_others [OF bk _ fresh]) (simp add: 2(3))
        ultimately have "evidence_backed sha (objects s1) d'"
          using new_evidence_verified [OF ran(1)] 2(3) by (simp add: evidence_backed_def b'(1))
        then show ?thesis using 2 ok ran(1) normalize_upload_D [OF ran(1)] by auto
      qed
    next
      case failed
      have "objects s' = objects s \<or> (\<exists>e s1. delete_object st ?k s1 = (Inl e, s')) \<and> (\<forall>j. j \<noteq> ?k \<longrightarrow> objects s' j = objects s j)"
      proof (cases "k = []")
        case True
        then show ?thesis using failed(3) B(1) by (auto simp: evidence_object_key_def)
      next
        case False
        then have k: "k = ?k" and s': "s' = snd (delete_object st ?k s1)" and
          o: "\<And>j. j \<noteq> ?k \<Longrightarrow> objects s1 j = objects s j"
          using failed(3) B(1) by auto
        show ?thesis
        proof (cases "delete_object st ?k s1")
          case (Pair x s2)
          show ?thesis
          proof (cases x)
            case (Inl e)
            then show ?thesis using Pair s' o delete_keeps by fastforce
          next
            case (Inr u)
            then have "objects s2 = (objects s1)(?k := None)" using Pair delete_removes by simp
            then have "objects s' = objects s" using fresh o s' Pair by (auto simp: fun_eq_iff)
            then show ?thesis by blast
          qed
        qed
      qed
      moreover from this have "evidence_backed sha (objects s') d"
        using bk by (auto intro: evidence_backed_others [OF bk _ fresh])
      ultimately show ?thesis using failed by simp
    qed
  qed (use bk in simp)
qed

text \<open>An upload that changed the database stored one row and its object.\<close>

lemma upload_stored:
  assumes u: "upload (Some st) sha max_bytes commit env bid rq m d s = (Answers (Inr r), d1, s1)" and new: "d1 \<noteq> d"
  shows "\<exists>v pm. normalize_evidence_upload sha rq max_bytes = Inr v \<and>
    prepare_metadata env m ''UploadEvidence'' bid (upload_payload v) = Inr pm \<and> evidence_added env bid v pm r d d1 \<and>
    objects s1 = (objects s)(evidence_object_key bid (env_id env 1) \<mapsto> up_content rq)"
proof -
  obtain v pm where v: "normalize_evidence_upload sha rq max_bytes = Inr v"
    and pm: "prepare_metadata env m ''UploadEvidence'' bid (upload_payload v) = Inr pm"
    and f: "finish_upload (Some st) commit (upload_body (Some st) env bid v pm d s) d = (Answers (Inr r), d1, s1)"
    using u unfolding upload_def by (auto split: sum.splits if_splits)
  obtain res s2 k where b: "upload_body (Some st) env bid v pm d s = (res, s2, k)" by (metis prod_cases3)
  have "res = Inr (r, d1)" "s2 = s1"
    using f unfolding b by (auto simp: finish_upload_def Let_def split: sum.splits option.splits if_splits prod.splits)
  then show ?thesis using upload_body_store(2) [OF b] new v pm normalize_upload_D [OF v] by auto
qed

text \<open>With every row backed, a download never finds a mismatch.\<close>

lemma backed_content:
  assumes "evidence_backed sha (objects s) d" "e \<in> set (evidences d)" "get_object st (e_object_key e) s = Inr c"
  shows "verify_evidence_content sha e c = Inr ()"
  using assms get_reads [OF assms(3)] by (auto simp: evidence_backed_def list_all_iff)

end

lemma upload_without_store_panics:
  assumes "upload_check_tx env bid m d = Inr (Inr b, d1)"
  shows "finish_upload None commit (upload_body None env bid v m d s) d = (Panics, d, s)"
  using assms by (cases commit) (simp_all add: upload_body_def finish_upload_def Let_def evidence_object_key_def)

text \<open>The read of a download.\<close>

lemma read_evidence_Inr:
  "read_evidence_for_download bid ei user org role d = Inr ((b, e), d') \<Longrightarrow>
   d' = d \<and> find (\<lambda>b. b_id b = bid) (batches d) = Some b \<and> is_evidence_processing_status (b_status b) \<and>
   e \<in> set (evidences d) \<and> e_id e = ei \<and> e_batch_id e = bid \<and>
   (to_upper (trim_space role) = ''RECYCLER'' \<and> e_organisation_id e = org \<or> to_upper (trim_space role) = ''AUDITOR'')"
  unfolding read_evidence_for_download_def find_evidence_def validate_recycler_actor_def validate_auditor_actor_def
    validate_platform_role_def validate_receipt_scope_def
  by (auto simp: tx_success is_evidence_download_batch_status_def is_evidence_processing_status_def
      dest!: find_Some_memD split: if_splits option.splits)

text \<open>The record of a download: a command and an audit row, and nothing else.\<close>

definition access_recorded :: "string \<Rightarrow> batch \<Rightarrow> db \<Rightarrow> db \<Rightarrow> bool" where
  "access_recorded evidence_id b d d' =
     (\<exists>c a. commands d' = commands d @ [c] \<and> c_state c = CommandStateCompleted \<and> c_command_name c = ''DownloadEvidence'' \<and>
        audits d' = audits d @ [a] \<and> au_command_id a = c_id c \<and> au_batch_id a = b_id b \<and>
        au_event_type a = ''EvidenceDownloaded'' \<and>
        json_field ''evidence_id'' (au_details a) = Some (JStr evidence_id) \<and>
        d' = d\<lparr>commands := commands d', audits := audits d'\<rparr>)"

lemma download_record_D:
  assumes "download_record_tx env m b ei role d = Inr (u, d')" "md_command_name m = ''DownloadEvidence''"
  shows "access_recorded ei b d d'"
proof -
  define cmd where "cmd = new_command (env_id env 0) m (b_id b) (env_clock env 0) retain_for"
  define au where "au = new_audit_event (env_id env 2) m (env_id env 0) b ''EvidenceDownloaded'' (b_status b) (b_status b)
                [(''evidence_id'', ei), (''role_code'', role),
                 (''batch_version'', format_uint64 (ucast (b_version b)))] (env_clock env 0)"
  have co: "command_ok cmd d" and fin: "complete_command (env_id env 0) 200 (JObj [(''downloaded'', JBool True)]) (env_clock env 0)
      (d\<lparr>commands := commands d @ [cmd], audits := audits d @ [au]\<rparr>) = Inr (u, d')"
    using assms unfolding download_record_tx_def Let_def cmd_def au_def by (auto simp: tx_success)
  have cl: "\<not> tbl_clash c_id cmd (commands d)" "c_id cmd = env_id env 0" "c_state cmd = CommandStateInProgress"
    using command_ok_no_clash [OF co] by (simp_all add: cmd_def)
  have d': "d' = d\<lparr>commands := commands d @ [mark_completed 200 (JObj [(''downloaded'', JBool True)]) (env_clock env 0) cmd],
      audits := audits d @ [au]\<rparr>"
    using fin complete_command_last [OF _ cl, of "d\<lparr>commands := commands d @ [cmd], audits := audits d @ [au]\<rparr>"] by simp
  show ?thesis
    unfolding access_recorded_def
    by (intro exI [of _ "mark_completed 200 (JObj [(''downloaded'', JBool True)]) (env_clock env 0) cmd"] exI [of _ au])
      (simp add: d' au_def new_audit_event_def cmd_def mark_completed_def new_command_def assms(2))
qed

lemma prepare_metadata_name: "prepare_metadata env m name bid pl = Inr m' \<Longrightarrow> md_command_name m' = name"
  by (auto simp: prepare_metadata_def Let_def split: if_splits sum.splits)

lemma prepare_metadata_actor: "prepare_metadata env m n bid pl = Inr pm \<Longrightarrow> md_actor pm = md_actor m"
  by (auto simp: prepare_metadata_def Let_def split: if_splits sum.splits)

lemma download_outcome_D:
  assumes "download st sha env bid ei a co d s = (Inr r, d')"
  shows "\<exists>b e ops. st = Some ops \<and> find (\<lambda>b. b_id b = bid) (batches d) = Some b \<and>
    is_evidence_processing_status (b_status b) \<and> e \<in> set (evidences d) \<and> e_id e = ei \<and> e_batch_id e = bid \<and>
    (to_upper (trim_space (act_role_code a)) = ''RECYCLER'' \<and> e_organisation_id e = act_organisation_id a \<or>
     to_upper (trim_space (act_role_code a)) = ''AUDITOR'') \<and>
    get_object ops (e_object_key e) s = Inr (dl_content r) \<and> verify_evidence_content sha e (dl_content r) = Inr () \<and>
    dl_filename r = e_file_name e \<and> dl_mime_type r = e_mime_type e \<and>
    access_recorded ei b (env_others env 0 d) d'"
proof -
  let ?role = "to_upper (trim_space (act_role_code a))"
  obtain b e d0 ops c where rd: "tx_map_err map_evidence_repository_error
        (read_evidence_for_download bid ei (act_user_id a) (act_organisation_id a) ?role) d = Inr ((b, e), d0)"
    and st: "st = Some ops" and g: "get_object ops (e_object_key e) s = Inr c" and v: "verify_evidence_content sha e c = Inr ()"
    and rec: "record_evidence_download env b ei ?role a co (env_others env 0 d) = (Inr (), d')"
    and r: "r = \<lparr>dl_filename = e_file_name e, dl_mime_type = e_mime_type e, dl_content = c, dl_size = length c\<rparr>"
    and rl: "?role = ''RECYCLER'' \<or> ?role = ''AUDITOR''"
    using assms unfolding download_def Let_def by (auto split: if_splits sum.splits option.splits prod.splits)
  have "read_evidence_for_download bid ei (act_user_id a) (act_organisation_id a) ?role d = Inr ((b, e), d0)"
    using rd by (simp add: tx_success)
  note R = read_evidence_Inr [OF this]
  have "to_upper (trim_space ''RECYCLER'') = ''RECYCLER''" "to_upper (trim_space ''AUDITOR'') = ''AUDITOR''" by code_simp+
  then have who: "?role = ''RECYCLER'' \<and> e_organisation_id e = act_organisation_id a \<or> ?role = ''AUDITOR''"
    using rl R by auto
  obtain pm where pm: "prepare_metadata env (download_metadata env a co) ''DownloadEvidence'' (b_id b)
      (JObj [(''evidence_id'', JStr ei), (''role_code'', JStr ?role), (''batch_version'', JInt (uint (b_version b)))]) = Inr pm"
    and run: "run_tx (download_record_tx env pm b ei ?role) (env_others env 0 d) = (Inr (), d')"
    using rec unfolding record_evidence_download_def by (auto split: sum.splits)
  have "download_record_tx env pm b ei ?role (env_others env 0 d) = Inr ((), d')"
    using run by (auto simp: run_tx_def split: sum.splits)
  from download_record_D [OF this prepare_metadata_name [OF pm]] show ?thesis
    using R st g v r who by (intro exI [of _ b] exI [of _ e] exI [of _ ops]) simp
qed

end
