(* ===== verification/Platform.thy ===== *)
theory Platform
  imports Analytics Evidence
begin

text \<open>
  The workflow as a whole: \<open>workflow_commit\<close> is one committed transaction of any of the thirteen commands,
  with any caller, request and environment, and \<open>reachable\<close> its closure.  What the interleaving of
  all sessions keeps is proved here by rule induction: the keys and CHECKs, the histories, the
  lifecycle, the order of the outbox and the balance of the capacity pools.
\<close>

section \<open>Committed transactions\<close>

inductive workflow_commit :: "db \<Rightarrow> db \<Rightarrow> bool" where
  commit_create: "create_draft_tx env draft m d = Inr (br, d') \<Longrightarrow> workflow_commit d d'"
| commit_edit: "edit_draft_tx env bid draft m d = Inr (br, d') \<Longrightarrow> workflow_commit d d'"
| commit_submit: "submit_tx env bid m d = Inr (br, d') \<Longrightarrow> workflow_commit d d'"
| commit_claim: "claim_tx env bid cq epoch m d = Inr (cr, d') \<Longrightarrow> workflow_commit d d'"
| commit_select: "select_tx env bid sq epoch m d = Inr (mr, d') \<Longrightarrow> workflow_commit d d'"
| commit_change: "change_tx env aid ch m d = Inr (mr, d') \<Longrightarrow> workflow_commit d d'"
| commit_pickup: "pickup_tx env aid p m d = Inr (mr, d') \<Longrightarrow> workflow_commit d d'"
| commit_recover: "recover_tx env aid svc m d = Inr (mr, d') \<Longrightarrow> workflow_commit d d'"
| commit_receipt: "verify_receipt_tx env bid nr m d = Inr (rr, d') \<Longrightarrow> workflow_commit d d'"
| commit_treatment: "record_treatment_tx env rule bid tq m d = Inr (tr, d') \<Longrightarrow> workflow_commit d d'"
| commit_analytics: "acknowledge_tx env bid aq m d = Inr (car, d') \<Longrightarrow> workflow_commit d d'"
| commit_upload: "upload_tx env bid v m d = Inr (er, d') \<Longrightarrow> workflow_commit d d'"
| commit_download: "download_record_tx env m b ei role d = Inr (u, d') \<Longrightarrow> workflow_commit d d'"

abbreviation reachable :: "db \<Rightarrow> db \<Rightarrow> bool" where
  "reachable \<equiv> workflow_commit\<^sup>*\<^sup>*"

context workflow_steps
begin

lemma commit_step: "workflow_commit d d' \<Longrightarrow> R d d'"
  by (induction rule: workflow_commit.induct)
    (erule stepsD [OF create_draft_tx_steps] stepsD [OF edit_draft_tx_steps] stepsD [OF submit_tx_steps]
      stepsD [OF claim_tx_steps] stepsD [OF select_tx_steps] stepsD [OF change_tx_steps]
      stepsD [OF pickup_tx_steps] stepsD [OF recover_tx_steps] stepsD [OF verify_receipt_tx_steps]
      stepsD [OF record_treatment_tx_steps] stepsD [OF acknowledge_tx_steps] stepsD [OF upload_tx_steps]
      stepsD [OF download_record_tx_steps])+

lemma reachable_step: "reachable d d' \<Longrightarrow> R d d'"
  by (induction rule: rtranclp_induct) (auto intro: step_refl step_trans commit_step)

end

lemma reachable_wf: "reachable d d' \<Longrightarrow> db_wf d \<Longrightarrow> db_wf d'"
  using wf.reachable_step by (auto simp: wf_step_def)

lemma reachable_history: "reachable d d' \<Longrightarrow> history_step d d'"
  by (rule hist.reachable_step)

section \<open>The capacity pools\<close>

text \<open>What the reservations of a pool add up to, in hundredths of a kilogram.\<close>

definition reservation_total :: "string \<Rightarrow> db \<Rightarrow> int" where
  "reservation_total pid d =
     sum_list (map (\<lambda>r. decimal_cents (r_reserved_kg r)) (filter (\<lambda>r. r_pool_id r = pid) (reservations d)))"

definition capacity_step :: "db \<Rightarrow> db \<Rightarrow> bool" where
  "capacity_step d d' = (pools d' = pools d \<and> reservations d' = reservations d)"

lemma guarded_update_capacity: "steps capacity_step (guarded_batch_update bid Q f e)"
  by (rule stepsI) (drule guarded_batch_update_D(1), simp add: capacity_step_def)

interpretation cap: core_steps capacity_step
proof
  show "capacity_step s s" for s by (simp add: capacity_step_def)
  show "capacity_step s t \<Longrightarrow> capacity_step t u \<Longrightarrow> capacity_step s u" for s t u by (simp add: capacity_step_def)
qed (auto simp: steps_def tx_success capacity_step_def update_draft_def submit_draft_def update_batch_receipt_def
      update_batch_treatment_def update_batch_analytics_def advance_batch_def update_batch_assignment_def
      update_assignment_def create_evidence_def insert_evidence_def create_analytics_result_def insert_analytics_def
      create_batch_anomaly_def insert_anomaly_def dest!: guarded_batch_update_D(1))

lemma filter_tbl_update_other:
  assumes "\<And>r. key (f r) = key r" "\<And>r. P r \<Longrightarrow> key r \<noteq> k"
  shows "filter (\<lambda>r. key r = k) (tbl_update P f xs) = filter (\<lambda>r. key r = k) xs"
  using assms by (induction xs) auto

lemma reserve_capacity_others:
  assumes "reserve_capacity p org w t d = Inr (u, d')" "p \<noteq> pid"
  shows "pool_reserved_total pid d' = pool_reserved_total pid d"
  unfolding pool_reserved_total_def reserve_capacity_D(1) [OF assms(1)]
proof -
  let ?P = "\<lambda>x. p_id x = p \<and> p_recycler_org_id x = org \<and> p_active x \<and> decimal_cents w \<le> p_total x - p_reserved x"
  let ?f = "\<lambda>x :: pool. x\<lparr>p_reserved := p_reserved x + decimal_cents w, p_version := p_version x + 1, p_updated_at := t\<rparr>"
  have "filter (\<lambda>x. p_id x = pid) (tbl_update ?P ?f (pools d)) = filter (\<lambda>x. p_id x = pid) (pools d)"
    by (rule filter_tbl_update_other [where key = p_id]) (use assms(2) in auto)
  then show "sum_list (map p_reserved (filter (\<lambda>x. p_id x = pid) (pools (d\<lparr>pools := tbl_update ?P ?f (pools d)\<rparr>))))
      = sum_list (map p_reserved (filter (\<lambda>x. p_id x = pid) (pools d)))"
    by simp
qed

definition pool_balance :: "string \<Rightarrow> db \<Rightarrow> int" where
  "pool_balance pid d = pool_reserved_total pid d - reservation_total pid d"

lemma claim_tx_balance:
  assumes "db_wf d" "claim_tx env bid cq epoch m d = Inr (r, d')"
  shows "pool_balance pid d' = pool_balance pid d"
proof -
  consider "d' = d" | b mt w where "claim_allocated env cq epoch m b mt w d d'"
    using claim_tx_outcome [OF assms] by blast
  then show ?thesis
  proof cases
    case (2 b mt w)
    let ?now = "truncate_us (env_clock env 1)"
    obtain d0 d1 c where p: "pools d0 = pools d" "pools d1 = pools d'"
      and r: "reserve_capacity (cm_pool_id mt) (act_organisation_id (md_actor m)) w ?now d0 = Inr ((), d1)"
      and rs: "reservations d' = reservations d @ [new_reservation env (b_id b) c (cm_pool_id mt) w ?now]"
      using 2 unfolding claim_allocated_def Let_def by blast
    have "pool_reserved_total pid d' = pool_reserved_total pid d1" "pool_reserved_total pid d = pool_reserved_total pid d0"
      by (simp_all add: pool_reserved_total_def p)
    moreover have "pool_reserved_total pid d1 =
        pool_reserved_total pid d0 + (if cm_pool_id mt = pid then decimal_cents w else 0)"
    proof (cases "cm_pool_id mt = pid")
      case True
      then show ?thesis using reserve_capacity_adds [OF r] by simp
    next
      case False
      then show ?thesis using reserve_capacity_others [OF r] by simp
    qed
    ultimately show ?thesis
      by (auto simp: pool_balance_def reservation_total_def rs new_reservation_def)
  qed simp
qed

lemma commit_balance:
  assumes "workflow_commit d d'" "db_wf d"
  shows "pool_balance pid d' = pool_balance pid d"
proof -
  have cap: "steps capacity_step tx \<Longrightarrow> tx d = Inr (r, d') \<Longrightarrow> pool_balance pid d' = pool_balance pid d" for tx :: "'a dbtx" and r
    by (drule (1) stepsD) (simp add: capacity_step_def pool_balance_def pool_reserved_total_def reservation_total_def)
  show ?thesis
    using assms
  proof (cases rule: workflow_commit.cases)
    case commit_claim
    then show ?thesis using claim_tx_balance assms(2) by blast
  qed (erule cap [OF cap.create_draft_tx_steps] cap [OF cap.edit_draft_tx_steps] cap [OF cap.submit_tx_steps]
      cap [OF cap.select_tx_steps] cap [OF cap.change_tx_steps] cap [OF cap.pickup_tx_steps]
      cap [OF cap.recover_tx_steps] cap [OF cap.verify_receipt_tx_steps] cap [OF cap.record_treatment_tx_steps]
      cap [OF cap.acknowledge_tx_steps] cap [OF cap.upload_tx_steps] cap [OF cap.download_record_tx_steps])+
qed

lemma reachable_balance: "reachable d d' \<Longrightarrow> db_wf d \<Longrightarrow> pool_balance pid d' = pool_balance pid d"
proof (induction rule: rtranclp_induct)
  case (step e f)
  then show ?case using commit_balance [OF step(2)] reachable_wf [OF step(1)] by simp
qed simp

section \<open>What a commit does to one batch\<close>

text \<open>
  \<open>advances d d' es\<close>: the commit either leaves batches and outbox as they are (a replay, a file), or creates a
  draft, or is one \<open>transition\<close> that enqueued \<open>es\<close>.
\<close>

definition advances :: "db \<Rightarrow> db \<Rightarrow> outbox_event list \<Rightarrow> bool" where
  "advances d d' es \<longleftrightarrow>
     batches d' = batches d \<and> outbox d' = outbox d \<and> es = [] \<or>
     (\<exists>b. find (\<lambda>x. b_id x = b_id b) (batches d) = None \<and> batches d' = batches d @ [b] \<and>
          outbox d' = outbox d \<and> es = []) \<or>
     (\<exists>m j src dst b b'. transition m j src dst b b' es d d' \<and> lifecycle_step src dst)"

lemma advances_transition:
  "transition m j src dst b b' es d d' \<Longrightarrow> lifecycle_step src dst \<Longrightarrow> advances d d' es"
  unfolding advances_def by blast

lemma advances_replay: "d' = d \<Longrightarrow> advances d d' []"
  by (simp add: advances_def)

lemma advances_aside: "batches d' = batches d \<Longrightarrow> outbox d' = outbox d \<Longrightarrow> advances d d' []"
  by (simp add: advances_def)

lemma change_target_step: "lifecycle_step BatchStatusAssigned (change_target ch)"
  by (cases ch) (auto intro: lifecycle_step.intros)

lemma commit_advances:
  assumes "workflow_commit d d'" "db_wf d"
  shows "\<exists>es. advances d d' es"
  using assms(1)
proof (cases rule: workflow_commit.cases)
  case (commit_create env draft m br)
  have "advances d d' []"
    using create_draft_tx_outcome [OF commit_create]
    by (auto simp: advances_def intro!: exI [of _ "created_batch env draft m"])
  then show ?thesis by blast
next
  case commit_edit
  then show ?thesis
    using edit_draft_tx_outcome [OF assms(2)] by (blast intro: advances_transition advances_replay lifecycle_step.intros)
next
  case commit_submit
  then show ?thesis
    using submit_tx_outcome [OF assms(2)] by (blast intro: advances_transition advances_replay lifecycle_step.intros)
next
  case commit_claim
  then show ?thesis
    using claim_tx_outcome [OF assms(2)] by (blast intro: advances_transition advances_replay lifecycle_step.intros)
next
  case (commit_select env bid sq epoch m mr)
  then consider "d' = d" | "select_body env bid sq epoch m d = Inr (mr, d')"
    unfolding select_tx_def collector_tx_Inr by blast
  then show ?thesis
  proof cases
    case 2
    then obtain b c scope p where "find (\<lambda>b. b_id b = bid) (batches d) = Some b"
      "select_assign_tx env m b c scope p d = Inr (mr, d')"
      using select_body_D by blast
    then show ?thesis
      using select_assign_tx_outcome [OF assms(2)] by (blast intro: advances_transition lifecycle_step.intros)
  qed (blast intro: advances_replay)
next
  case commit_change
  then show ?thesis
    using change_body_outcome [OF assms(2)] unfolding change_tx_def collector_tx_Inr
    by (blast intro: advances_transition advances_replay change_target_step)
next
  case commit_pickup
  then show ?thesis
    using pickup_body_outcome [OF assms(2)] unfolding pickup_tx_def collector_tx_Inr
    by (blast intro: advances_transition advances_replay pickup_target)
next
  case commit_recover
  then show ?thesis
    using recover_tx_outcome [OF assms(2)] by (blast intro: advances_transition advances_replay lifecycle_step.intros)
next
  case commit_receipt
  then show ?thesis
    using verify_receipt_tx_outcome [OF assms(2)] by (blast intro: advances_transition advances_replay lifecycle_step.intros)
next
  case commit_treatment
  then show ?thesis
    using record_treatment_tx_outcome [OF assms(2)] by (blast intro: advances_transition advances_replay lifecycle_step.intros)
next
  case commit_analytics
  then show ?thesis
    using acknowledge_tx_outcome [OF assms(2)] unfolding batch_completed_def Let_def
    by (blast intro: advances_transition advances_replay lifecycle_step.intros)
next
  case commit_upload
  then show ?thesis
    using upload_tx_outcome unfolding evidence_added_def by (blast intro: advances_aside)
next
  case (commit_download env m b ei role u)
  then have "batches d' = batches d \<and> outbox d' = outbox d"
    unfolding download_record_tx_def complete_command_def Let_def by (auto simp: tx_success)
  then show ?thesis by (blast intro: advances_aside)
qed

section \<open>The order of the outbox\<close>

text \<open>No event of a batch is ahead of the batch.\<close>

definition outbox_behind :: "db \<Rightarrow> bool" where
  "outbox_behind d =
     list_all (\<lambda>e. case find (\<lambda>b. b_id b = o_batch_id e) (batches d) of
                     None \<Rightarrow> False | Some b \<Rightarrow> o_aggregate_version e \<le> b_version b) (outbox d)"

text \<open>The events \<open>es\<close> come after every event of \<open>old\<close> of the same batch.\<close>

definition appended_after :: "outbox_event list \<Rightarrow> outbox_event list \<Rightarrow> bool" where
  "appended_after old es =
     list_all (\<lambda>e. list_all (\<lambda>x. o_batch_id x = o_batch_id e \<longrightarrow> o_aggregate_version x < o_aggregate_version e) old) es"

lemma word_succ_greater:
  assumes "w + 1 \<noteq> (0 :: 'a :: len word)"
  shows "w < w + 1"
proof -
  have nz: "uint (w + 1) \<noteq> 0" using assms by (simp add: uint_0_iff)
  have lt: "uint w < 2 ^ LENGTH('a)" by (rule uint_lt2p)
  have "uint w + 1 \<noteq> 2 ^ LENGTH('a)" using nz by (auto simp: uint_plus_if')
  then have "uint w + 1 < 2 ^ LENGTH('a)" using lt by linarith
  then show ?thesis by (simp add: word_less_def uint_plus_if')
qed

lemma find_append: "find P (xs @ ys) = (case find P xs of None \<Rightarrow> find P ys | Some x \<Rightarrow> Some x)"
  by (induction xs) auto

lemma transition_outbox:
  assumes t: "transition m j src dst b b' es d d'" and wf: "db_wf d'" and ob: "outbox_behind d"
  shows "outbox_behind d' \<and> outbox d' = outbox d @ es \<and> appended_after (outbox d) es"
proof -
  have f: "find (\<lambda>x. b_id x = b_id b') (batches d) = Some b" and v: "b_version b' = b_version b + 1"
    and g: "\<And>x. find (\<lambda>y. b_id y = x) (batches d') = (if x = b_id b' then Some b' else find (\<lambda>y. b_id y = x) (batches d))"
    and o: "outbox d' = outbox d @ es"
    and es: "list_all (\<lambda>e. o_batch_id e = b_id b' \<and> o_aggregate_version e = b_version b') es"
    using t by (auto simp: transition_def batch_moved_def events_added_def list_all_iff)
  have "b' \<in> set (batches d')" using g [of "b_id b'"] find_Some_memD by fastforce
  then have "check_batch b'" by (rule db_wf_check_batch [OF wf])
  then have lt: "b_version b < b_version b'"
    using v word_succ_greater [of "b_version b"] by (simp add: check_batch_def check_batch_values_def)
  have old: "o_aggregate_version e \<le> b_version b" if "e \<in> set (outbox d)" "o_batch_id e = b_id b'" for e
    using ob that f by (auto simp: outbox_behind_def list_all_iff)
  have "outbox_behind d'"
    unfolding outbox_behind_def o
    using ob es old lt g by (auto simp: list_all_iff outbox_behind_def split: option.splits)
      (metis less_le order.trans)+
  moreover have "appended_after (outbox d) es"
    using es old lt by (auto simp: appended_after_def list_all_iff) (metis order.strict_trans1)
  ultimately show ?thesis using o by blast
qed

lemma outbox_behind_append:
  assumes "outbox_behind d" "batches d' = batches d @ bs" "outbox d' = outbox d"
  shows "outbox_behind d'"
  unfolding outbox_behind_def list_all_iff assms(3)
proof
  fix e assume "e \<in> set (outbox d)"
  then obtain b where "find (\<lambda>b. b_id b = o_batch_id e) (batches d) = Some b" "o_aggregate_version e \<le> b_version b"
    using assms(1) by (auto simp: outbox_behind_def list_all_iff split: option.splits)
  then show "case find (\<lambda>b. b_id b = o_batch_id e) (batches d') of None \<Rightarrow> False
      | Some b \<Rightarrow> o_aggregate_version e \<le> b_version b"
    by (simp add: assms(2) find_append)
qed

lemma outbox_behind_same:
  "outbox_behind d \<Longrightarrow> batches d' = batches d \<Longrightarrow> outbox d' = outbox d \<Longrightarrow> outbox_behind d'"
  by (simp add: outbox_behind_def)

lemma commit_outbox:
  assumes "workflow_commit d d'" "db_wf d" "outbox_behind d"
  shows "outbox_behind d' \<and> (\<exists>es. outbox d' = outbox d @ es \<and> appended_after (outbox d) es)"
proof -
  obtain es where "advances d d' es" using commit_advances [OF assms(1,2)] by blast
  moreover have "db_wf d'" using reachable_wf assms(1,2) by blast
  ultimately show ?thesis
    using assms(3) unfolding advances_def
    by (elim disjE exE conjE)
      (auto dest: transition_outbox outbox_behind_append outbox_behind_same simp: appended_after_def)
qed

lemma reachable_outbox:
  "reachable d d' \<Longrightarrow> db_wf d \<Longrightarrow> outbox_behind d \<Longrightarrow> outbox_behind d' \<and> prefix (outbox d) (outbox d')"
proof (induction rule: rtranclp_induct)
  case (step e f)
  then show ?case
    using commit_outbox [OF step(2)] reachable_wf [OF step(1)] by (auto simp: prefix_def)
qed simp

section \<open>A batch is claimed once\<close>

lemma second_claim_refused:
  assumes wf: "db_wf d" and c: "claim_tx env bid cq epoch m d = Inr (r, d1)" and new: "d1 \<noteq> d"
    and c2: "claim_tx env2 bid cq2 epoch2 m2 d1 = Inr (r2, d2)"
  shows "recorded decode_claim_result m2 r2 d1 \<and> d2 = d1"
proof -
  obtain b j e where id: "b_id b = bid"
    and t: "transition m j BatchStatusMatched BatchStatusApproved b
         (approved_batch (env_id env 1) (truncate_us (env_clock env 1)) b) [e] d d1"
    using claim_tx_outcome [OF wf c] new by blast
  have "find (\<lambda>x. b_id x = bid) (batches d1) = Some (approved_batch (env_id env 1) (truncate_us (env_clock env 1)) b)"
    using t id by (auto simp: transition_def batch_moved_def approved_batch_def)
  moreover have "find (\<lambda>x. b_id x = bid) (batches d1) = Some b2 \<Longrightarrow> b_status b2 = BatchStatusMatched \<Longrightarrow> False" for b2
    using calculation by (auto simp: approved_batch_def)
  moreover have wf1: "db_wf d1" using wf.claim_tx_steps [THEN stepsD, OF c] wf by (simp add: wf_step_def)
  ultimately show ?thesis
    using claim_tx_outcome [OF wf1 c2] by (fastforce simp: transition_def batch_moved_def approved_batch_def)
qed

section \<open>The handlers\<close>

text \<open>Every call of a handler is a sequence of commits, its own and those of the other sessions.\<close>

lemma create_draft_reachable: "reachable d (snd (create_draft env draft m d))"
  by (auto simp: create_draft_def run_tx_def split: sum.splits intro: commit_create)

lemma edit_draft_reachable: "reachable d (snd (edit_draft env bid draft m d))"
  by (auto simp: edit_draft_def run_tx_def split: sum.splits intro: commit_edit)

lemma submit_reachable: "reachable d (snd (submit env bid m d))"
  by (auto simp: submit_def run_tx_def split: sum.splits intro: commit_submit)

lemma verify_receipt_reachable: "reachable d (snd (verify_receipt env bid nr m d))"
  by (auto simp: verify_receipt_def run_tx_def split: sum.splits intro: commit_receipt)

lemma record_treatment_reachable: "reachable d (snd (record_treatment env rule bid tq m d))"
  by (auto simp: record_treatment_def run_tx_def split: sum.splits intro: commit_treatment)

lemma acknowledge_analytics_reachable: "reachable d (snd (acknowledge_analytics env bid aq m d))"
  by (auto simp: acknowledge_analytics_def run_tx_def split: sum.splits intro: commit_analytics)

lemma prepare_analytics_reads: "snd (prepare_analytics env bid se caller d) = d"
  by (auto simp: prepare_analytics_def run_tx_def split: sum.splits dest: prepare_tx_outcome)

lemma upload_reachable: "upload st sha max_bytes commit env bid rq m d s = (out, d', s') \<Longrightarrow> reachable d d'"
  by (auto simp: upload_def finish_upload_def Let_def
      split: sum.splits if_splits option.splits prod.splits dest!: upload_body_tx intro: commit_upload)

lemma download_reachable:
  assumes "\<And>i e. reachable e (env_others env i e)"
  shows "reachable d (snd (download st sha env bid ei a co d s))"
proof -
  have R: "reachable d d1" if r: "record_evidence_download env b ei role a co (env_others env 0 d) = (x, d1)" for b role x d1
  proof -
    have "reachable (env_others env 0 d) d1"
      using r by (auto simp: record_evidence_download_def run_tx_def split: sum.splits intro: commit_download)
    then show ?thesis using assms [of d 0] by (rule rtranclp_trans [rotated])
  qed
  show ?thesis
    unfolding download_def Let_def
    by (simp only: snd_conv rtranclp.rtrancl_refl simp_thms split: if_split sum.split option.split prod.split)
      (intro allI impI conjI; rule R; assumption)
qed

lemma recover_reachable: "reachable d (snd (recover_failed_collection env aid svc co d))"
  by (auto simp: recover_failed_collection_def Let_def run_tx_def tx_bind_def tx_return_def
      split: sum.splits intro: commit_recover)

lemma assignment_execute_reachable:
  assumes "\<And>e r e'. body e = Inr (r, e') \<Longrightarrow> workflow_commit e e'" "\<And>i e. reachable e (env_others env i e)"
  shows "reachable d (snd (assignment_execute env m body d))"
proof -
  have "reachable d (snd (run_tx body (env_others env 0 d)))"
    using assms(2) [of d 0] assms(1) [of "env_others env 0 d"]
    by (auto simp: run_tx_def split: sum.splits intro: rtranclp.rtrancl_into_rtrancl)
  moreover from this have "reachable d (env_others env 1 (snd (run_tx body (env_others env 0 d))))"
    using assms(2) by (blast intro: rtranclp_trans)
  ultimately show ?thesis
    by (auto simp: assignment_execute_def Let_def split: sum.splits option.splits prod.splits)
qed

lemma select_reachable:
  "(\<And>i e. reachable e (env_others env i e)) \<Longrightarrow> reachable d (snd (select env bid sq m d))"
  by (auto simp: select_def split: sum.splits intro: assignment_execute_reachable commit_select)

lemma change_reachable:
  "(\<And>i e. reachable e (env_others env i e)) \<Longrightarrow> reachable d (snd (change_assignment env aid ch m d))"
  by (auto simp: change_assignment_def split: sum.splits intro: assignment_execute_reachable commit_change)

lemma pickup_reachable:
  "(\<And>i e. reachable e (env_others env i e)) \<Longrightarrow> reachable d (snd (record_pickup env aid p m d))"
  by (auto simp: record_pickup_def split: sum.splits intro: assignment_execute_reachable commit_pickup)

lemma claim_attempt_reachable: "reachable d (snd (claim_attempt env ren bid cq epoch m d))"
  by (auto simp: claim_attempt_def Let_def run_tx_def split: sum.splits prod.splits intro: commit_claim)

lemma claim_reachable:
  assumes "\<And>i e. reachable e (env_others env i e)"
  shows "reachable d (snd (claim env lease bid cq m d))"
proof -
  have 1: "reachable d e" if "claim_attempt env ren bid cq epoch pm (env_others env 0 d) = (res, e)" for ren epoch pm res e
    using assms [of d 0] claim_attempt_reachable [of "env_others env 0 d" env ren bid cq epoch pm] that
    by (auto intro: rtranclp_trans)
  have 2: "reachable d (env_others env 1 e)"
    if "claim_attempt env ren bid cq epoch pm (env_others env 0 d) = (res, e)" for ren epoch pm res e
    using 1 [OF that] assms [of e 1] by (rule rtranclp_trans)
  show ?thesis
    unfolding claim_def Let_def
    by (auto split: sum.split option.split lease_outcome.split prod.split dest: 1 2)
qed

end
