(* ===== verification/Retries.thy ===== *)
theory Retries
  imports Platform
begin

text \<open>
  What a retry of a command sees: metadata prepared by another call with the same digest function is
  the same, the handlers of the batch service answer exactly what their transaction answers, and the
  claim and assignment handlers answer a recorded command before they take a lease or open their own
  transaction.
\<close>

section \<open>Prepared metadata\<close>

lemma prepare_metadata_sha:
  assumes "env_sha256 env2 = env_sha256 env"
  shows "prepare_metadata env2 m n bid j = prepare_metadata env m n bid j"
  unfolding prepare_metadata_def assms ..

lemma prepare_claim_metadata_sha:
  assumes "env_sha256 env2 = env_sha256 env"
  shows "prepare_claim_metadata env2 m bid ep ns = prepare_claim_metadata env m bid ep ns"
  unfolding prepare_claim_metadata_def assms ..

lemma prepare_assignment_metadata_sha:
  assumes "env_sha256 env2 = env_sha256 env"
  shows "prepare_assignment_metadata env2 m n rid j = prepare_assignment_metadata env m n rid j"
  unfolding prepare_assignment_metadata_def assms ..

lemma prepare_assignment_actor: "prepare_assignment_metadata env m n rid j = Inr pm \<Longrightarrow> md_actor pm = md_actor m"
  by (auto simp: prepare_assignment_metadata_def Let_def split: sum.splits if_splits)

lemma prepare_assignment_user:
  "prepare_assignment_metadata env m n rid j = Inr pm \<Longrightarrow> service_principal pm = []"
  by (auto simp: prepare_assignment_metadata_def Let_def service_principal_def canonical_actor_scope_def has_prefix_def
      split: sum.splits if_splits)

section \<open>Handlers and their transactions\<close>

lemma submit_Inr:
  "submit env bid m d = (Inr r, d') \<longleftrightarrow>
     (\<exists>pm. require_donor m = Inr () \<and> 0 < md_expected_version m \<and>
        prepare_metadata env m ''SubmitBatch'' bid (JObj [(''batch_id'', JStr bid)]) = Inr pm \<and>
        submit_tx env bid pm d = Inr (r, d'))"
  by (auto simp: submit_def run_tx_Inr split: sum.splits)

definition receipt_document :: "receipt_request \<Rightarrow> json" where
  "receipt_document nr =
     JObj [(''actual_category'', JStr (rq_category nr)), (''actual_item_count'', JInt (uint (rq_item_count nr))),
           (''actual_weight_kg'', JStr (rq_weight nr))]"

lemma verify_receipt_Inr:
  "verify_receipt env bid rq m d = (Inr r, d') \<longleftrightarrow>
     (\<exists>nr pm. require_receipt_recycler m = Inr () \<and> 0 < md_expected_version m \<and>
        normalize_receipt_request rq = Inr nr \<and>
        prepare_metadata env m ''VerifyReceipt'' bid (receipt_document nr) = Inr pm \<and>
        verify_receipt_tx env bid nr pm d = Inr (r, d'))"
  by (auto simp: verify_receipt_def receipt_document_def run_tx_Inr split: sum.splits)

definition treatment_document :: "treatment_request \<Rightarrow> json" where
  "treatment_document tq =
     JObj [(''reused_kg'', json_opt JStr (tq_reused tq)), (''recycled_kg'', json_opt JStr (tq_recycled tq)),
           (''disposed_kg'', json_opt JStr (tq_disposed tq)), (''evidence_id'', json_opt JStr (tq_evidence_id tq))]"

lemma record_treatment_Inr:
  "record_treatment env rule bid tq m d = (Inr r, d') \<longleftrightarrow>
     (\<exists>pm. require_receipt_recycler m = Inr () \<and> 0 < md_expected_version m \<and>
        prepare_metadata env m ''RecordTreatment'' bid (treatment_document tq) = Inr pm \<and>
        record_treatment_tx env rule bid tq pm d = Inr (r, d'))"
  by (auto simp: record_treatment_def treatment_document_def run_tx_Inr split: sum.splits)

lemma upload_D:
  "upload st sha max_bytes commit env bid rq m d s = (Answers (Inr r), d', s') \<Longrightarrow>
     \<exists>v pm. require_receipt_recycler m = Inr () \<and> trim_space bid \<noteq> [] \<and> normalize_evidence_upload sha rq max_bytes = Inr v \<and>
        prepare_metadata env m ''UploadEvidence'' bid (upload_payload v) = Inr pm \<and> upload_tx env bid v pm d = Inr (r, d')"
  by (auto simp: upload_def finish_upload_def Let_def
      split: sum.splits if_splits option.splits prod.splits dest!: upload_body_tx)

lemma upload_replayed:
  assumes "require_receipt_recycler m = Inr ()" "trim_space bid \<noteq> []" "normalize_evidence_upload sha rq max_bytes = Inr v"
    and "prepare_metadata env m ''UploadEvidence'' bid (upload_payload v) = Inr pm" "recorded decode_evidence_result pm r d"
  shows "upload st sha max_bytes None env bid rq m d s = (Answers (Inr r), d, s)"
  using assms by (simp add: upload_def upload_body_def finish_upload_def upload_check_recorded)

lemma upload_refused:
  assumes "upload st sha max_bytes commit env bid rq m d s = (out, d', s')" "\<And>r. out \<noteq> Answers (Inr r)"
  shows "d' = d"
proof -
  consider "d' = d" | v pm where "finish_upload st commit (upload_body st env bid v pm d s) d = (out, d', s')"
    using assms(1) unfolding upload_def by (auto split: sum.splits if_splits)
  then show ?thesis
  proof cases
    case 2
    obtain res s1 k where b: "upload_body st env bid v pm d s = (res, s1, k)" by (metis prod_cases3)
    show ?thesis using finish_upload_cases [OF 2 [unfolded b]] assms(2) by blast
  qed
qed

lemma download_refused:
  assumes "download st sha env bid ei a co d s = (Inl e, d')" "\<And>i e. env_others env i e = e"
  shows "d' = d"
  using assms(1) unfolding download_def record_evidence_download_def run_tx_def assms(2) Let_def
  by (auto split: sum.splits if_splits option.splits prod.splits)

section \<open>Recorded commands\<close>

lemma claim_eligible_replay:
  assumes "require_recycler m = Inr ()" "validate_claim_request request (md_expected_version m) = Inr epoch"
    and "prepare_claim_metadata env m bid epoch (cq_notes request) = Inr pm"
    and "length (actor_rows ''RECYCLER'' ''PROCESSING_FACILITY'' (act_user_id (md_actor m))
                   (act_organisation_id (md_actor m)) d) = 1"
    and "recorded decode_claim_result pm r d"
  shows "claim env lease bid request m d = (Inr r, d)"
proof -
  have "md_actor pm = md_actor m"
    using assms(3) by (auto simp: prepare_claim_metadata_def Let_def split: sum.splits if_splits)
  then have "claim_resolve_replay pm d = Inr (Some r, d)" using assms(4,5) by (simp add: claim_resolve_replay_Inr)
  then show ?thesis using assms(1-3) by (simp add: claim_def)
qed

lemma claim_admits: "claim env lease bid request m d = (Inr r, d') \<Longrightarrow> require_recycler m = Inr ()"
  by (auto simp: claim_def split: sum.splits)

lemma assignment_execute_replay:
  assumes "eligible_collector pm d" "recorded decode_mutation_result pm r d"
  shows "assignment_execute env pm body d = (Inr r, d)"
proof -
  have "assignment_resolve_replay pm d = Inr (Some r, d)"
    using assms by (simp add: assignment_resolve_replay_def tx_success eligible_collector_def)
  then show ?thesis by (simp add: assignment_execute_def)
qed

text \<open>A prepared assignment command that was answered once is answered the same later.\<close>

lemma assignment_execute_again:
  assumes "prepare_assignment_metadata env m n rid j = Inr pm" "assignment_execute env pm body d = (Inr r, d1)"
    and "\<And>e r e'. db_wf e \<Longrightarrow> body e = Inr (r, e') \<Longrightarrow> recorded decode_mutation_result pm r e'"
    and "db_wf d" "\<forall>i e. reachable e (env_others env i e)" "reachable d1 d2" "eligible_collector m d2"
  shows "assignment_execute env2 pm body2 d2 = (Inr r, d2)"
proof (rule assignment_execute_replay)
  show "eligible_collector pm d2"
    using assms(7) prepare_assignment_actor [OF assms(1)] by (simp add: eligible_collector_def)
  have o: "\<forall>i e. db_wf e \<longrightarrow> db_wf (env_others env i e)" using assms(5) reachable_wf by blast
  have "recorded decode_mutation_result pm r d1"
    by (rule assignment_execute_recorded [where body = body and env = env and d = d])
      (fact assms(3), fact o, fact assms(4), fact assms(2))
  then show "recorded decode_mutation_result pm r d2" by (rule recorded_history [OF _ reachable_history [OF assms(6)]])
qed

text \<open>Without interference the handler answers what its transaction answers.\<close>

lemma assignment_execute_alone:
  assumes "assignment_execute env m body d = (Inr r, d')" "\<And>i e. env_others env i e = e" "stored_command m d = None"
  shows "body d = Inr (r, d')"
  using assms
  by (auto simp: assignment_execute_def Let_def run_tx_def recorded_def dest: assignment_resolve_replay_D
      split: sum.splits option.splits prod.splits)

lemma change_assignment_D:
  "change_assignment env aid ch m d = (Inr r, d') \<Longrightarrow>
   \<exists>pm. assignment_execute env pm (change_tx env aid ch pm) d = (Inr r, d')"
  by (auto simp: change_assignment_def split: sum.splits)

lemma reject_D: "reject env aid reason m d = (Inr r, d') \<Longrightarrow> change_assignment env aid (RejectChange reason) m d = (Inr r, d')"
  by (simp add: reject_def split: if_splits)

lemma record_pickup_D:
  "record_pickup env aid p m d = (Inr r, d') \<Longrightarrow>
   \<exists>pm. assignment_execute env pm (pickup_tx env aid p pm) d = (Inr r, d')"
  by (auto simp: record_pickup_def split: sum.splits)

lemma handoff_assignment_D:
  "handoff_assignment env aid hq m d = (Inr r, d') \<Longrightarrow> record_pickup env aid (PickupDone hq) m d = (Inr r, d')"
  by (auto simp: handoff_assignment_def split: sum.splits)

lemma select_D:
  "select env bid sq m d = (Inr r, d') \<Longrightarrow>
   \<exists>pm epoch. parse_positive_uint (sq_claim_epoch sq) = Inr epoch \<and>
     assignment_execute env pm (select_tx env bid sq epoch pm) d = (Inr r, d')"
  by (auto simp: select_def split: sum.splits if_splits)

lemma recover_D:
  "recover_failed_collection env aid svc co d = (Inr u, d') \<Longrightarrow>
   \<exists>m r. recover_tx env aid (trim_space svc) m d = Inr (r, d')"
  by (auto simp: recover_failed_collection_def Let_def run_tx_Inr tx_success split: if_splits)

lemma edit_draft_Inr:
  "edit_draft env bid draft m d = (Inr r, d') \<Longrightarrow>
     \<exists>pm. prepare_metadata env m ''EditBatchDraft'' bid (draft_request_json draft) = Inr pm \<and>
        edit_draft_tx env bid draft pm d = Inr (r, d')"
  by (auto simp: edit_draft_def run_tx_Inr split: sum.splits if_splits)

section \<open>Versions modulo \<open>2 ^ 32\<close>\<close>

text \<open>The claim and assignment transactions read the expected version only as 32 bits.\<close>

lemma version_mod: "word_of_int (v + 4294967296) = (word_of_int v :: 32 word)"
  by (simp add: word_of_int_eq_iff take_bit_eq_mod)

lemma version_others:
  fixes m :: metadata
  shows "md_actor (m\<lparr>md_expected_version := v\<rparr>) = md_actor m"
    "md_correlation_id (m\<lparr>md_expected_version := v\<rparr>) = md_correlation_id m"
    "md_actor_scope (m\<lparr>md_expected_version := v\<rparr>) = md_actor_scope m"
    "md_command_name (m\<lparr>md_expected_version := v\<rparr>) = md_command_name m"
    "md_idempotency_key (m\<lparr>md_expected_version := v\<rparr>) = md_idempotency_key m"
    "md_request_hash (m\<lparr>md_expected_version := v\<rparr>) = md_request_hash m"
    "md_expected_version (m\<lparr>md_expected_version := v\<rparr>) = v"
  by simp_all

lemma version_new_handoff: "new_handoff i (m\<lparr>md_expected_version := v\<rparr>) = new_handoff i m"
proof (intro ext)
  show "new_handoff i (m\<lparr>md_expected_version := v\<rparr>) c b a t p = new_handoff i m c b a t p" for c b a t p
    by (cases p) simp_all
qed

lemmas version_frame =
  new_command_def new_audit_event_def service_principal_def same_collector_def new_assignment_def
  assignment_action_row_def load_replay_with_def new_claim_def version_new_handoff version_others version_mod

section \<open>The actors\<close>

text \<open>No command changes who may act.\<close>

definition actors_step :: "db \<Rightarrow> db \<Rightarrow> bool" where
  "actors_step d d' = (users d' = users d \<and> roles d' = roles d \<and> organisations d' = organisations d)"

lemma guarded_update_actors: "steps actors_step (guarded_batch_update bid Q f e)"
  by (rule stepsI) (drule guarded_batch_update_D(1), simp add: actors_step_def)

interpretation act: workflow_steps actors_step
proof
  show "actors_step s s" for s by (simp add: actors_step_def)
  show "actors_step s t \<Longrightarrow> actors_step t u \<Longrightarrow> actors_step s u" for s t u by (simp add: actors_step_def)
qed (auto simp: steps_def tx_success actors_step_def update_draft_def submit_draft_def update_batch_receipt_def
      update_batch_treatment_def update_batch_analytics_def advance_batch_def update_batch_assignment_def
      update_assignment_def reserve_capacity_def approve_batch_def create_receipt_def insert_receipt_def
      create_treatment_def insert_treatment_def create_evidence_def insert_evidence_def create_analytics_result_def
      insert_analytics_def create_batch_anomaly_def insert_anomaly_def dest!: guarded_batch_update_D(1))

lemma actors_step_rows: "actors_step d d' \<Longrightarrow> actor_rows role t u g d' = actor_rows role t u g d"
  by (simp add: actors_step_def actor_rows_def cong: if_cong)

lemma reachable_actors: "reachable d d' \<Longrightarrow> actor_rows role t u g d' = actor_rows role t u g d"
  by (rule actors_step_rows [OF act.reachable_step])

lemma claim_attempt_actors:
  "actor_rows role t u g (snd (claim_attempt env ren bid request epoch m d)) = actor_rows role t u g d"
  by (rule actors_step_rows [OF act.claim_attempt_steps])

text \<open>
  A claim refused without interference leaves no trace, also when the lease is lost after the commit:
  then the committed answer is found and returned.
\<close>

lemma claim_refused_no_trace:
  assumes wf: "db_wf d" and alone: "\<And>i e. env_others env i e = e"
    and c: "claim env lease bid request m d = (Inl e, d')"
  shows "d' = d"
proof (rule ccontr)
  assume ne: "d' \<noteq> d"
  then obtain epoch pm ren e0 s where
    none: "claim_resolve_replay pm d = Inr (None, s)"
    and a: "claim_attempt env ren bid request epoch pm d = (Inl e0, d')"
    and again: "\<And>r. claim_resolve_replay pm d' \<noteq> Inr (Some r, d')"
    using c by (auto simp: claim_def Let_def alone
        split: sum.splits option.splits lease_outcome.splits prod.splits)
  have "ren = LeaseLostCommitted" using claim_attempt_rolled_back [OF a] ne by blast
  then obtain r where t: "claim_tx env bid request epoch pm d = Inr (r, d')"
    using a ne by (auto simp: claim_attempt_def Let_def run_tx_def split: sum.splits prod.splits if_splits)
  have "length (actor_rows ''RECYCLER'' ''PROCESSING_FACILITY'' (act_user_id (md_actor pm)) (act_organisation_id (md_actor pm)) d) = 1"
    using none by (simp add: claim_resolve_replay_def tx_success)
  then have "claim_resolve_replay pm d' = Inr (Some r, d')"
    using claim_replay.commit [OF wf t] reachable_actors [OF r_into_rtranclp [of workflow_commit, OF commit_claim [OF t]]]
    by (simp add: claim_resolve_replay_Inr)
  then show False using again by blast
qed

end
