(* ===== verification/Outbox.thy ===== *)
theory Outbox
  imports Platform "HOL-Library.Product_Lexorder" "HOL-Library.List_Lexorder" "HOL-Library.Char_ord"
begin

text \<open>
  \<open>internal/repository/outbox.go\<close>: the claiming of due events and the three ways a delivery ends.  Events
  are ordered by \<open>(aggregate_version, created_at, event_id)\<close>; only the first pending event of a batch
  without a quarantined event is claimed.  Each method is one transaction.  \<open>SKIP LOCKED\<close> leaves out the
  rows another transaction holds, the parameter \<open>locked\<close>.  \<open>delivery_step\<close> is what all writers of the
  table keep, the commands and the relay; along it the events of a batch are published in order.
\<close>

section \<open>The order of events\<close>

datatype event_key = EventKey "32 word" int string

fun key_tuple :: "event_key \<Rightarrow> 32 word \<times> int \<times> string" where
  "key_tuple (EventKey v t i) = (v, t, i)"

lemma key_tuple_inj [simp]: "key_tuple a = key_tuple b \<longleftrightarrow> a = b"
  by (cases a; cases b) auto

instantiation event_key :: linorder
begin

definition less_eq_event_key :: "event_key \<Rightarrow> event_key \<Rightarrow> bool" where
  "a \<le> b \<longleftrightarrow> key_tuple a \<le> key_tuple b"

definition less_event_key :: "event_key \<Rightarrow> event_key \<Rightarrow> bool" where
  "a < b \<longleftrightarrow> key_tuple a < key_tuple b"

instance
  by standard (auto simp: less_eq_event_key_def less_event_key_def less_le)

end

text \<open>The identifiers are compared without case, as their collation does.\<close>

definition event_key_of :: "outbox_event \<Rightarrow> event_key" where
  "event_key_of e = EventKey (o_aggregate_version e) (o_created_at e) (to_upper (o_event_id e))"

lemma event_key_version: "o_aggregate_version a < o_aggregate_version b \<Longrightarrow> event_key_of a < event_key_of b"
  by (simp add: less_event_key_def event_key_of_def)

section \<open>Claiming\<close>

definition pending :: "outbox_event \<Rightarrow> bool" where
  "pending e = (o_state e = OutboxPending)"

definition due :: "int \<Rightarrow> outbox_event \<Rightarrow> bool" where
  "due now e = (pending e \<and> (case o_next_attempt_at e of None \<Rightarrow> False | Some t \<Rightarrow> t \<le> now))"

definition batch_blocked :: "outbox_event list \<Rightarrow> outbox_event \<Rightarrow> bool" where
  "batch_blocked rows e = list_ex (\<lambda>x. o_batch_id x = o_batch_id e \<and> o_state x = OutboxQuarantined) rows"

definition has_predecessor :: "outbox_event list \<Rightarrow> outbox_event \<Rightarrow> bool" where
  "has_predecessor rows e =
     list_ex (\<lambda>x. o_batch_id x = o_batch_id e \<and> pending x \<and> event_key_of x < event_key_of e) rows"

definition claimable :: "int \<Rightarrow> (string \<Rightarrow> bool) \<Rightarrow> outbox_event list \<Rightarrow> outbox_event \<Rightarrow> bool" where
  "claimable now locked rows e =
     (due now e \<and> \<not> batch_blocked rows e \<and> \<not> has_predecessor rows e \<and> \<not> locked (o_event_id e))"

definition candidates :: "int \<Rightarrow> (string \<Rightarrow> bool) \<Rightarrow> int \<Rightarrow> outbox_event list \<Rightarrow> outbox_event list" where
  "candidates now locked limit rows = take (nat limit) (sort_key event_key_of (filter (claimable now locked rows) rows))"

definition leased :: "int \<Rightarrow> outbox_event \<Rightarrow> outbox_event" where
  "leased until e = e\<lparr>o_attempts := o_attempts e + 1, o_next_attempt_at := Some until\<rparr>"

text \<open>The attempt counter is \<open>INT UNSIGNED\<close>: an increment past its range fails.\<close>

definition claim_pending :: "(string \<Rightarrow> bool) \<Rightarrow> int \<Rightarrow> int \<Rightarrow> int \<Rightarrow> outbox_event list dbtx" where
  "claim_pending locked now limit lease_duration =
     (if limit \<le> 0 then tx_fail (PlainError ''repository: outbox batch size must be positive'')
      else if lease_duration \<le> 0 then tx_fail (PlainError ''repository: outbox lease duration must be positive'')
      else tx_bind (tx_get (\<lambda>d. candidates now locked limit (outbox d))) (\<lambda>events.
        if events = [] then tx_return []
        else
          let ids = map o_event_id events in
          tx_bind (tx_guard (list_all (\<lambda>e. o_attempts e \<noteq> - 1) events) (DbCheck ''event_outbox'')) (\<lambda>_.
          tx_bind (update_outbox (\<lambda>e. List.member ids (o_event_id e) \<and> pending e) (leased (now + lease_duration))) (\<lambda>affected.
          tx_bind (tx_guard (affected = length events) (OutboxRepoErr RepoOutboxLeaseLost)) (\<lambda>_.
          tx_return events)))))"

section \<open>The end of a delivery\<close>

text \<open>
  The state the relay works on: the database, and the events whose messages the broker has accepted, in
  the order of their acceptance.  A statement outside a transaction commits on its own.
\<close>

record world =
  w_db :: db
  w_sent :: "outbox_event list"

definition on_db :: "'a dbtx \<Rightarrow> world \<Rightarrow> (error + 'a) \<times> world" where
  "on_db m w = (case run_tx m (w_db w) of (r, d') \<Rightarrow> (r, w\<lparr>w_db := d'\<rparr>))"

text \<open>
  An update of a pending event and, when it hit no row, a read of the state the row is in.  The two are
  separate statements; \<open>others\<close> is what other sessions commit between them.
\<close>

definition mark_update :: "(outbox_event \<Rightarrow> outbox_event) \<Rightarrow> string \<Rightarrow> nat dbtx" where
  "mark_update f event_id = update_outbox (\<lambda>e. o_event_id e = event_id \<and> pending e) f"

definition mark_state :: "publish_state \<Rightarrow> string \<Rightarrow> unit dbtx" where
  "mark_state done_state event_id =
     tx_bind (tx_first outbox (\<lambda>e. o_event_id e = event_id) (OutboxRepoErr RepoOutboxEventNotFound)) (\<lambda>e.
     tx_guard (o_state e = done_state) (OutboxRepoErr RepoOutboxLeaseLost))"

definition mark_event ::
  "(world \<Rightarrow> world) \<Rightarrow> publish_state \<Rightarrow> (outbox_event \<Rightarrow> outbox_event) \<Rightarrow> string \<Rightarrow> world \<Rightarrow> (error + unit) \<times> world"
where
  "mark_event others done_state f event_id w =
     (case on_db (mark_update f event_id) w of
        (Inl e, w1) \<Rightarrow> (Inl e, w1)
      | (Inr affected, w1) \<Rightarrow>
          if affected = 1 then (Inr (), w1) else on_db (mark_state done_state event_id) (others w1))"

definition published :: "int \<Rightarrow> outbox_event \<Rightarrow> outbox_event" where
  "published at_time e =
     e\<lparr>o_state := OutboxPublished, o_published_at := Some at_time, o_next_attempt_at := None, o_last_error := None\<rparr>"

definition mark_published :: "(world \<Rightarrow> world) \<Rightarrow> string \<Rightarrow> int \<Rightarrow> world \<Rightarrow> (error + unit) \<times> world" where
  "mark_published others event_id published_at =
     mark_event others OutboxPublished (published published_at) event_id"

definition retried :: "int \<Rightarrow> string \<Rightarrow> outbox_event \<Rightarrow> outbox_event" where
  "retried next_attempt code e = e\<lparr>o_next_attempt_at := Some next_attempt, o_last_error := Some code\<rparr>"

definition mark_retry :: "(world \<Rightarrow> world) \<Rightarrow> string \<Rightarrow> int \<Rightarrow> string \<Rightarrow> world \<Rightarrow> (error + unit) \<times> world" where
  "mark_retry others event_id next_attempt code =
     mark_event others OutboxPublished (retried next_attempt code) event_id"

definition quarantined :: "string \<Rightarrow> outbox_event \<Rightarrow> outbox_event" where
  "quarantined code e = e\<lparr>o_state := OutboxQuarantined, o_next_attempt_at := None, o_last_error := Some code\<rparr>"

definition mark_quarantined :: "(world \<Rightarrow> world) \<Rightarrow> string \<Rightarrow> string \<Rightarrow> world \<Rightarrow> (error + unit) \<times> world" where
  "mark_quarantined others event_id code =
     mark_event others OutboxQuarantined (quarantined code) event_id"

section \<open>What a claim returns\<close>

lemma set_candidates: "e \<in> set (candidates now locked limit rows) \<Longrightarrow> e \<in> set rows \<and> claimable now locked rows e"
  unfolding candidates_def by (drule in_set_takeD) simp

lemma candidates_length: "length (candidates now locked limit rows) \<le> nat limit"
  by (simp add: candidates_def)

lemma candidates_sorted: "sorted (map event_key_of (candidates now locked limit rows))"
  by (simp add: candidates_def take_map [symmetric])

lemma claimable_unique:
  assumes "e \<in> set rows" "f \<in> set rows" "claimable now locked rows e" "claimable now2 locked2 rows f"
    and "o_batch_id e = o_batch_id f"
  shows "event_key_of e = event_key_of f"
proof -
  have "\<not> event_key_of e < event_key_of f" "\<not> event_key_of f < event_key_of e"
    using assms by (auto simp: claimable_def has_predecessor_def due_def list_ex_iff)
  then show ?thesis by simp
qed

lemma claim_pending_Inr:
  "claim_pending locked now limit lease d = Inr (es, d') \<longleftrightarrow>
     0 < limit \<and> 0 < lease \<and> es = candidates now locked limit (outbox d) \<and>
     (es = [] \<and> d' = d \<or>
      es \<noteq> [] \<and> list_all (\<lambda>e. o_attempts e \<noteq> - 1) es \<and>
      update_outbox (\<lambda>e. List.member (map o_event_id es) (o_event_id e) \<and> pending e) (leased (now + lease)) d
        = Inr (length es, d'))"
  by (auto simp: claim_pending_def Let_def tx_success)

section \<open>What every writer keeps\<close>

text \<open>Every earlier event of the batch of \<open>e\<close> is published.\<close>

definition settled_before :: "outbox_event list \<Rightarrow> outbox_event \<Rightarrow> bool" where
  "settled_before rows e =
     list_all (\<lambda>x. o_batch_id x = o_batch_id e \<and> event_key_of x < event_key_of e \<longrightarrow> o_state x = OutboxPublished) rows"

definition in_order :: "db \<Rightarrow> bool" where
  "in_order d = list_all (\<lambda>e. o_state e = OutboxPublished \<longrightarrow> settled_before (outbox d) e) (outbox d)"

definition delivered_pair :: "outbox_event list \<Rightarrow> outbox_event \<Rightarrow> outbox_event \<Rightarrow> bool" where
  "delivered_pair rows e e' =
     (event_kept e e' \<and> (o_state e' = OutboxPublished \<longrightarrow> o_state e = OutboxPublished \<or> settled_before rows e))"

definition delivery_step :: "db \<Rightarrow> db \<Rightarrow> bool" where
  "delivery_step d d' =
     (\<exists>ys zs. outbox d' = ys @ zs \<and> list_all2 (delivered_pair (outbox d)) (outbox d) ys \<and>
              list_all pending zs \<and> appended_after (outbox d) zs)"

lemma list_all2_from: "list_all2 P xs ys \<Longrightarrow> y \<in> set ys \<Longrightarrow> \<exists>x\<in>set xs. P x y"
  by (induction rule: list_all2_induct) auto

lemma list_all2_to: "list_all2 P xs ys \<Longrightarrow> x \<in> set xs \<Longrightarrow> \<exists>y\<in>set ys. P x y"
  by (induction rule: list_all2_induct) auto

lemma event_kept_fields:
  assumes "event_kept e e'"
  shows "o_event_id e' = o_event_id e" "o_batch_id e' = o_batch_id e" "event_key_of e' = event_key_of e"
    "o_aggregate_version e' = o_aggregate_version e" "o_payload e' = o_payload e"
proof -
  have c: "event_content e' = event_content e" using assms by (simp add: event_kept_def)
  show 1: "o_event_id e' = o_event_id e" "o_batch_id e' = o_batch_id e"
      "o_aggregate_version e' = o_aggregate_version e" "o_payload e' = o_payload e"
    using arg_cong [OF c, of o_event_id] arg_cong [OF c, of o_batch_id]
      arg_cong [OF c, of o_aggregate_version] arg_cong [OF c, of o_payload]
    by (simp_all add: event_content_def)
  have "o_created_at e' = o_created_at e" using arg_cong [OF c, of o_created_at] by (simp add: event_content_def)
  then show "event_key_of e' = event_key_of e" using 1 by (simp add: event_key_of_def)
qed

lemma event_kept_published: "event_kept e e' \<Longrightarrow> o_state e = OutboxPublished \<Longrightarrow> o_state e' = OutboxPublished"
  by (simp add: event_kept_def)

lemma settled_before_key:
  "event_key_of e' = event_key_of e \<Longrightarrow> o_batch_id e' = o_batch_id e \<Longrightarrow> settled_before rows e' = settled_before rows e"
  by (simp add: settled_before_def)

lemma settled_stable:
  assumes s: "delivery_step d d'" and e: "e \<in> set (outbox d)" "settled_before (outbox d) e"
  shows "settled_before (outbox d') e"
  unfolding settled_before_def list_all_iff
proof (intro ballI impI, elim conjE)
  fix x' assume x': "x' \<in> set (outbox d')" "o_batch_id x' = o_batch_id e" "event_key_of x' < event_key_of e"
  obtain ys zs where o: "outbox d' = ys @ zs" and p: "list_all2 (delivered_pair (outbox d)) (outbox d) ys"
    and z: "appended_after (outbox d) zs"
    using s by (auto simp: delivery_step_def)
  have "x' \<notin> set zs"
  proof
    assume "x' \<in> set zs"
    then have "o_aggregate_version e < o_aggregate_version x'"
      using z e(1) x'(2) by (auto simp: appended_after_def list_all_iff)
    then show False using event_key_version [of e x'] x'(3) by simp
  qed
  then have "x' \<in> set ys" using x'(1) o by simp
  then obtain x where x: "x \<in> set (outbox d)" "delivered_pair (outbox d) x x'"
    using list_all2_from [OF p] by blast
  then have k: "event_kept x x'" by (simp add: delivered_pair_def)
  have "o_batch_id x = o_batch_id e" "event_key_of x < event_key_of e"
    using x' event_kept_fields [OF k] by simp_all
  then have "o_state x = OutboxPublished" using x(1) e(2) by (simp add: settled_before_def list_all_iff)
  then show "o_state x' = OutboxPublished" by (rule event_kept_published [OF k])
qed

lemma in_order_step:
  assumes s: "delivery_step d d'" and i: "in_order d"
  shows "in_order d'"
  unfolding in_order_def list_all_iff
proof (intro ballI impI)
  fix e' assume e': "e' \<in> set (outbox d')" "o_state e' = OutboxPublished"
  obtain ys zs where o: "outbox d' = ys @ zs" and p: "list_all2 (delivered_pair (outbox d)) (outbox d) ys"
    and z: "list_all pending zs"
    using s by (auto simp: delivery_step_def)
  have "e' \<in> set ys" using e' o z by (auto simp: pending_def list_all_iff)
  then obtain e where e: "e \<in> set (outbox d)" "delivered_pair (outbox d) e e'"
    using list_all2_from [OF p] by blast
  then have k: "event_kept e e'" by (simp add: delivered_pair_def)
  have "settled_before (outbox d) e" using e e'(2) i by (auto simp: delivered_pair_def in_order_def list_all_iff)
  then have "settled_before (outbox d') e" by (rule settled_stable [OF s e(1)])
  then show "settled_before (outbox d') e'"
    using settled_before_key [of e' e] event_kept_fields [OF k] by simp
qed

lemma in_order_steps: "delivery_step\<^sup>*\<^sup>* d d' \<Longrightarrow> in_order d \<Longrightarrow> in_order d'"
  by (induction rule: rtranclp_induct) (auto intro: in_order_step)

lemma delivery_step_refl [simp]: "delivery_step d d"
  unfolding delivery_step_def
  by (rule exI [of _ "outbox d"], rule exI [of _ "[]"])
    (simp add: delivered_pair_def appended_after_def list_all2_refl)

text \<open>A settled event of one state is settled, as its later row, in every later one.\<close>

lemma settled_later:
  assumes "delivery_step\<^sup>*\<^sup>* d d'" "e \<in> set (outbox d)" "settled_before (outbox d) e"
  shows "\<exists>e'\<in>set (outbox d'). event_kept e e' \<and> settled_before (outbox d') e'"
  using assms
proof (induction rule: rtranclp_induct)
  case (step d1 d2)
  then obtain e1 where e1: "e1 \<in> set (outbox d1)" "event_kept e e1" "settled_before (outbox d1) e1" by blast
  have "settled_before (outbox d2) e1" by (rule settled_stable [OF step(2) e1(1,3)])
  moreover obtain ys zs where o: "outbox d2 = ys @ zs" and p: "list_all2 (delivered_pair (outbox d1)) (outbox d1) ys"
    using step(2) by (auto simp: delivery_step_def)
  obtain e2 where e2: "e2 \<in> set ys" "delivered_pair (outbox d1) e1 e2" using list_all2_to [OF p e1(1)] by blast
  then have k: "event_kept e1 e2" by (simp add: delivered_pair_def)
  ultimately have "settled_before (outbox d2) e2"
    using settled_before_key [of e2 e1] event_kept_fields [OF k] by simp
  then show ?case using e2(1) o event_kept_trans [OF e1(2) k] by auto
qed (blast intro: event_kept_refl)

section \<open>The writers\<close>

lemma update_delivery:
  assumes "outbox d' = tbl_update P f (outbox d)"
    and "\<And>e. e \<in> set (outbox d) \<Longrightarrow> P e \<Longrightarrow>
           pending e \<and> event_content (f e) = event_content e \<and>
           (o_state (f e) = OutboxPublished \<longrightarrow> settled_before (outbox d) e)"
  shows "delivery_step d d'"
proof -
  have "list_all2 (delivered_pair (outbox d)) (outbox d) (tbl_update P f (outbox d))"
    unfolding tbl_update_def list_all2_map2
    by (rule list.rel_refl_strong) (use assms(2) in \<open>auto simp: delivered_pair_def event_kept_def pending_def\<close>)
  then show ?thesis
    unfolding delivery_step_def assms(1) by (intro exI [of _ "tbl_update P f (outbox d)"] exI [of _ "[]"])
      (simp add: appended_after_def)
qed

lemma mark_update_D:
  assumes "mark_update f eid d = Inr (n, d')"
  shows "d' = d\<lparr>outbox := tbl_update (\<lambda>e. o_event_id e = eid \<and> pending e) f (outbox d)\<rparr>"
    and "n = tbl_count (\<lambda>e. o_event_id e = eid \<and> pending e) (outbox d)"
    and "\<forall>e\<in>set (outbox d). o_event_id e = eid \<and> pending e \<longrightarrow> check_outbox (f e)"
  using assms by (auto simp: mark_update_def tx_success)

lemma content_of_marks [simp]:
  "event_content (leased u e) = event_content e" "event_content (published t e) = event_content e"
  "event_content (retried t c e) = event_content e" "event_content (quarantined c e) = event_content e"
  "o_state (leased u e) = o_state e" "o_state (published t e) = OutboxPublished"
  "o_state (retried t c e) = o_state e" "o_state (quarantined c e) = OutboxQuarantined"
  "o_event_id (leased u e) = o_event_id e" "o_event_id (published t e) = o_event_id e"
  "o_event_id (retried t c e) = o_event_id e" "o_event_id (quarantined c e) = o_event_id e"
  by (simp_all add: leased_def published_def retried_def quarantined_def event_content_def)

lemma claim_pending_update:
  assumes "claim_pending locked now limit lease d = Inr (es, d')"
  shows "d' = d\<lparr>outbox := tbl_update (\<lambda>e. List.member (map o_event_id es) (o_event_id e) \<and> pending e)
                (leased (now + lease)) (outbox d)\<rparr>"
proof (cases "es = []")
  case True
  then have "d' = d" using assms by (auto simp: claim_pending_Inr)
  moreover have "tbl_update (\<lambda>e. List.member [] (o_event_id e) \<and> pending e) (leased (now + lease)) (outbox d) = outbox d"
    by (rule tbl_update_none) simp
  ultimately show ?thesis using True by simp
qed (use assms in \<open>auto simp: claim_pending_Inr tx_success\<close>)

lemma claim_pending_delivery:
  assumes "claim_pending locked now limit lease d = Inr (es, d')"
  shows "delivery_step d d'"
  by (rule update_delivery [OF arg_cong [OF claim_pending_update [OF assms], of outbox, simplified]])
    (auto simp: pending_def)

lemma mark_update_delivery:
  assumes "mark_update f eid d = Inr (n, d')"
    and "\<And>e. e \<in> set (outbox d) \<Longrightarrow> o_event_id e = eid \<Longrightarrow> pending e \<Longrightarrow>
           event_content (f e) = event_content e \<and> (o_state (f e) = OutboxPublished \<longrightarrow> settled_before (outbox d) e)"
  shows "delivery_step d d'"
  by (rule update_delivery [OF arg_cong [OF mark_update_D(1) [OF assms(1)], of outbox, simplified]])
    (use assms(2) in auto)

lemma commit_appends:
  assumes "workflow_commit d d'" "db_wf d" "outbox_behind d"
  shows "\<exists>es. outbox d' = outbox d @ es \<and> appended_after (outbox d) es \<and> list_all pending es \<and>
    (list_all routed (outbox d) \<longrightarrow> list_all routed es)"
proof -
  obtain es where adv: "advances d d' es" using commit_advances [OF assms(1,2)] by blast
  have wf: "db_wf d'" using reachable_wf assms(1,2) by blast
  have "outbox d' = outbox d @ es \<and> appended_after (outbox d) es \<and> list_all pending es \<and>
      (list_all routed (outbox d) \<longrightarrow> list_all routed es)"
    using adv transition_outbox [OF _ wf assms(3)] unfolding advances_def
    by (elim disjE exE conjE) (auto simp: appended_after_def transition_def events_added_def pending_def list_all_iff)
  then show ?thesis by blast
qed

text \<open>So from an outbox of routed events, every reachable outbox is one.\<close>

lemma reachable_routed:
  "reachable d d' \<Longrightarrow> db_wf d \<Longrightarrow> outbox_behind d \<Longrightarrow> list_all routed (outbox d) \<Longrightarrow> list_all routed (outbox d')"
proof (induction rule: rtranclp_induct)
  case (step e f)
  then show ?case
    using commit_appends [OF step(2)] reachable_wf [OF step(1)] reachable_outbox [OF step(1)] by auto
qed simp

lemma commit_delivery:
  assumes "workflow_commit d d'" "db_wf d" "outbox_behind d"
  shows "delivery_step d d'"
proof -
  obtain es where "outbox d' = outbox d @ es" "appended_after (outbox d) es" "list_all pending es"
    using commit_appends [OF assms] by blast
  then show ?thesis
    unfolding delivery_step_def
    by (intro exI [of _ "outbox d"] exI [of _ es]) (simp add: delivered_pair_def list_all2_refl)
qed

text \<open>A claimed event has no unpublished event of its batch before it.\<close>

lemma claimable_settled: "claimable now locked rows e \<Longrightarrow> settled_before rows e"
  unfolding settled_before_def list_all_iff
proof (intro ballI impI, elim conjE)
  fix x assume c: "claimable now locked rows e" and x: "x \<in> set rows" "o_batch_id x = o_batch_id e"
    "event_key_of x < event_key_of e"
  have "o_state x \<noteq> OutboxPending" "o_state x \<noteq> OutboxQuarantined"
    using c x by (auto simp: claimable_def has_predecessor_def batch_blocked_def pending_def list_ex_iff)
  then show "o_state x = OutboxPublished" by (cases "o_state x") auto
qed

lemma content_fields:
  assumes "event_content x = event_content e"
  shows "o_event_id x = o_event_id e" "o_batch_id x = o_batch_id e" "event_key_of x = event_key_of e"
    "o_command_id x = o_command_id e" "o_sequence x = o_sequence e" "o_aggregate_version x = o_aggregate_version e"
proof -
  have "o_event_id (event_content x) = o_event_id (event_content e)"
      "o_batch_id (event_content x) = o_batch_id (event_content e)"
      "o_command_id (event_content x) = o_command_id (event_content e)"
      "o_sequence (event_content x) = o_sequence (event_content e)"
      "o_aggregate_version (event_content x) = o_aggregate_version (event_content e)"
      "o_created_at (event_content x) = o_created_at (event_content e)"
    using assms by simp_all
  then show "o_event_id x = o_event_id e" "o_batch_id x = o_batch_id e" "event_key_of x = event_key_of e"
      "o_command_id x = o_command_id e" "o_sequence x = o_sequence e" "o_aggregate_version x = o_aggregate_version e"
    by (simp_all add: event_content_def event_key_of_def)
qed

lemma outbox_update_keeps:
  assumes "d' = d\<lparr>outbox := tbl_update P f (outbox d)\<rparr>"
    and "\<And>e. P e \<Longrightarrow> event_content (f e) = event_content e"
    and "\<forall>e\<in>set (outbox d). P e \<longrightarrow> check_outbox (f e)"
  shows "db_wf d \<Longrightarrow> db_wf d'" "outbox_behind d \<Longrightarrow> outbox_behind d'"
proof -
  note F = content_fields [OF assms(2)]
  have keys: "map o_event_id (tbl_update P f (outbox d)) = map o_event_id (outbox d)"
      "map (\<lambda>x. (o_command_id x, o_sequence x)) (tbl_update P f (outbox d)) =
       map (\<lambda>x. (o_command_id x, o_sequence x)) (outbox d)"
    by (auto simp: tbl_update_def F)
  show "db_wf d'" if "db_wf d"
    using that keys assms(3) by (auto simp: assms(1) db_wf_defs list_all_iff set_tbl_update)
  show "outbox_behind d'" if "outbox_behind d"
    using that by (auto simp: assms(1) outbox_behind_def list_all_iff set_tbl_update F split: option.splits)
qed

lemma mark_update_keeps:
  assumes "mark_update f eid d = Inr (n, d')" and "\<And>e. event_content (f e) = event_content e"
  shows "db_wf d \<Longrightarrow> db_wf d'" "outbox_behind d \<Longrightarrow> outbox_behind d'"
  using outbox_update_keeps [OF mark_update_D(1) [OF assms(1)] assms(2)] mark_update_D(3) [OF assms(1)] by auto

lemma leased_check: "check_outbox e \<Longrightarrow> pending e \<Longrightarrow> check_outbox (leased t e)"
  by (simp add: check_outbox_def leased_def pending_def)

lemma claim_pending_keeps:
  assumes "claim_pending locked now limit lease d = Inr (es, d')"
  shows "db_wf d \<Longrightarrow> db_wf d'" "outbox_behind d \<Longrightarrow> outbox_behind d'"
proof -
  note u = outbox_update_keeps [OF claim_pending_update [OF assms] content_of_marks(1)]
  show "db_wf d'" if "db_wf d"
  proof (rule u(1) [OF _ that], intro ballI impI, elim conjE)
    fix e assume "e \<in> set (outbox d)" "pending e"
    then show "check_outbox (leased (now + lease) e)"
      using that by (auto simp: db_wf_defs list_all_iff intro: leased_check)
  qed
  show "outbox_behind d'" if "outbox_behind d"
    unfolding claim_pending_update [OF assms] outbox_behind_def
    using that content_fields [OF content_of_marks(1) [of "now + lease"]]
    by (auto simp: outbox_behind_def list_all_iff set_tbl_update split: option.splits)
qed

text \<open>A claimed event is not due again before its lease has run out.\<close>

lemma claimed_not_due:
  assumes "claim_pending locked now limit lease d = Inr (es, d')" "e \<in> set es" "x \<in> set (outbox d')"
    and "o_event_id x = o_event_id e" "t < now + lease"
  shows "\<not> due t x"
proof -
  have "o_event_id e \<in> o_event_id ` set es" using assms(2) by blast
  then have "\<exists>y. x = leased (now + lease) y \<or> \<not> pending x"
    using assms(3,4) unfolding claim_pending_update [OF assms(1)] by (auto simp: set_tbl_update)
  then show ?thesis using assms(5) by (auto simp: due_def leased_def)
qed

end
