(* ===== verification/Relay.thy ===== *)
theory Relay
  imports Outbox
begin

text \<open>
  \<open>internal/outbox/relay.go\<close> with the publisher of \<open>internal/eventbus/kafka.go\<close>.  The relay works against
  two Go interfaces, \<open>OutboxRepository\<close> and \<open>Publisher\<close>; they are the record \<open>outbox_repository\<close> and the
  function type \<open>publisher\<close>, whose operations take the number of the call.  The locale \<open>outbox_contract\<close>
  states what the relay needs of them, and is interpreted on the GORM repository and the Kafka publisher
  with any broker, any lost request or reply, and any other session running in between.
\<close>

section \<open>Configuration\<close>

record relay_config =
  cfg_poll_interval :: int
  cfg_batch_size :: int
  cfg_max_attempts :: int
  cfg_lease_duration :: int
  cfg_leader_lease_duration :: int
  cfg_retry_backoff :: int
  cfg_publish_timeout :: int

definition positive_or :: "int \<Rightarrow> int \<Rightarrow> int" where
  "positive_or x def = (if x \<le> 0 then def else x)"

definition new_relay_config :: "relay_config \<Rightarrow> relay_config" where
  "new_relay_config c =
     \<lparr>cfg_poll_interval = positive_or (cfg_poll_interval c) second,
      cfg_batch_size = positive_or (cfg_batch_size c) 50,
      cfg_max_attempts = positive_or (cfg_max_attempts c) 5,
      cfg_lease_duration = positive_or (cfg_lease_duration c) (30 * second),
      cfg_leader_lease_duration = positive_or (cfg_leader_lease_duration c) (30 * second),
      cfg_retry_backoff = positive_or (cfg_retry_backoff c) (5 * second),
      cfg_publish_timeout = positive_or (cfg_publish_timeout c) (10 * second)\<rparr>"

lemma new_relay_config_positive:
  "0 < cfg_batch_size (new_relay_config c)" "0 < cfg_lease_duration (new_relay_config c)"
  "0 < cfg_retry_backoff (new_relay_config c)"
  by (auto simp: new_relay_config_def positive_or_def second_def)

section \<open>The interfaces\<close>

type_synonym ('w, 'a) io = "nat \<Rightarrow> 'w \<Rightarrow> (error + 'a) \<times> 'w"

record 'w outbox_repository =
  or_claim_pending :: "int \<Rightarrow> int \<Rightarrow> int \<Rightarrow> ('w, outbox_event list) io"
  or_mark_published :: "string \<Rightarrow> int \<Rightarrow> ('w, unit) io"
  or_mark_retry :: "string \<Rightarrow> int \<Rightarrow> string \<Rightarrow> ('w, unit) io"
  or_mark_quarantined :: "string \<Rightarrow> string \<Rightarrow> ('w, unit) io"

type_synonym 'w publisher = "outbox_event \<Rightarrow> nat \<Rightarrow> 'w \<Rightarrow> publish_error option \<times> 'w"

text \<open>
  What a run of the relay meets: the \<open>i\<close>-th reading of its clock, whether its context is cancelled at the
  \<open>i\<close>-th check, and what the rest of the system does before its \<open>i\<close>-th call.
\<close>

record 'w relay_env =
  re_now :: "nat \<Rightarrow> int"
  re_cancelled :: "nat \<Rightarrow> bool"
  re_others :: "nat \<Rightarrow> 'w \<Rightarrow> 'w"

section \<open>One round\<close>

text \<open>What \<open>observe\<close> logs of a delivery.\<close>

record observation =
  ob_event :: outbox_event
  ob_observation :: string
  ob_code :: string
  ob_outcome :: string

definition observe :: "outbox_event \<Rightarrow> string \<Rightarrow> string \<Rightarrow> string \<Rightarrow> observation" where
  "observe e what code outcome = \<lparr>ob_event = e, ob_observation = what, ob_code = code, ob_outcome = outcome\<rparr>"

definition succeeded_io :: "error + unit \<Rightarrow> bool" where
  "succeeded_io r = (case r of Inl _ \<Rightarrow> False | Inr _ \<Rightarrow> True)"

text \<open>The answer to the publisher's outcome: the mark, and what is logged of it.\<close>

definition settle_event ::
  "'w outbox_repository \<Rightarrow> relay_config \<Rightarrow> int \<Rightarrow> outbox_event \<Rightarrow> publish_error option \<Rightarrow> nat \<Rightarrow> 'w \<Rightarrow> observation \<times> 'w"
where
  "settle_event repo cfg now e outcome i w =
     (case outcome of
        Some err \<Rightarrow>
          if permanent err then
            (case or_mark_quarantined repo (o_event_id e) ''OUTBOX_EVENT_INVALID'' i w of (r, w') \<Rightarrow>
              (if succeeded_io r then observe e ''outbox_quarantined'' ''OUTBOX_EVENT_INVALID'' ''QUARANTINED''
               else observe e ''outbox_persistence_failed'' ''QUARANTINE_PERSIST_FAILED'' ''FAILED'', w'))
          else
            (case or_mark_retry repo (o_event_id e) (now + cfg_retry_backoff cfg) ''KAFKA_PUBLISH_FAILED'' i w of (r, w') \<Rightarrow>
              (if succeeded_io r then observe e ''outbox_retry'' ''KAFKA_PUBLISH_FAILED'' ''RETRYING''
               else observe e ''outbox_persistence_failed'' ''RETRY_PERSIST_FAILED'' ''FAILED'', w'))
      | None \<Rightarrow>
          (case or_mark_published repo (o_event_id e) now i w of (r, w') \<Rightarrow>
            (if succeeded_io r then observe e ''outbox_published'' [] ''SUCCEEDED''
             else observe e ''outbox_persistence_failed'' ''PUBLISH_ACK_PERSIST_FAILED'' ''FAILED'', w')))"

text \<open>
  The loop over the claimed events.  Event \<open>i\<close> checks the context before and after the publication; a
  cancelled context ends the round with the event still leased.
\<close>

fun relay_events ::
  "'w outbox_repository \<Rightarrow> 'w publisher \<Rightarrow> relay_config \<Rightarrow> 'w relay_env \<Rightarrow> nat \<Rightarrow> outbox_event list \<Rightarrow> 'w \<Rightarrow>
   observation list \<times> 'w"
where
  "relay_events repo pub cfg env i [] w = ([], w)"
| "relay_events repo pub cfg env i (e # es) w =
     (if re_cancelled env (2 * i) then ([], w)
      else case pub e i (re_others env (2 * i) w) of (outcome, w1) \<Rightarrow>
        if re_cancelled env (2 * i + 1) then ([], w1)
        else case settle_event repo cfg (re_now env i) e outcome i (re_others env (2 * i + 1) w1) of (ob, w2) \<Rightarrow>
          case relay_events repo pub cfg env (i + 1) es w2 of (obs, w3) \<Rightarrow> (ob # obs, w3))"

definition process_once ::
  "'w outbox_repository \<Rightarrow> 'w publisher \<Rightarrow> relay_config \<Rightarrow> 'w relay_env \<Rightarrow> 'w \<Rightarrow> observation list \<times> 'w"
where
  "process_once repo pub cfg env w =
     (if re_cancelled env 0 then ([], w)
      else case or_claim_pending repo (re_now env 0) (cfg_batch_size cfg) (cfg_lease_duration cfg) 0
                  (re_others env 0 w) of
          (Inl err, w') \<Rightarrow> ([], w')
        | (Inr events, w') \<Rightarrow> relay_events repo pub cfg env 1 events w')"

text \<open>
  A term of leadership: rounds until the context of the lease is cancelled, by the heartbeat that failed to
  renew it or from outside.  One environment per round; the last check of a round that is not the last is its
  own.
\<close>

fun leader_rounds ::
  "'w outbox_repository \<Rightarrow> 'w publisher \<Rightarrow> relay_config \<Rightarrow> 'w relay_env list \<Rightarrow> 'w \<Rightarrow> observation list \<times> 'w"
where
  "leader_rounds repo pub cfg [] w = ([], w)"
| "leader_rounds repo pub cfg (env # envs) w =
     (if re_cancelled env 0 then ([], w)
      else case process_once repo pub cfg env w of (obs, w1) \<Rightarrow>
        case leader_rounds repo pub cfg envs w1 of (obs', w2) \<Rightarrow> (obs @ obs', w2))"

section \<open>The contract of the interfaces\<close>

text \<open>
  \<open>step\<close> is what any session of the system may do, \<open>good\<close> what all of them keep, \<open>ready\<close> that an event may be
  sent, \<open>sent\<close> that the broker has it.  An implementation meets an environment \<open>v\<close>, which is \<open>lawful\<close> when
  the other sessions in it are.
\<close>

locale outbox_contract =
  fixes repo :: "'v \<Rightarrow> 'w outbox_repository" and pub :: "'v \<Rightarrow> 'w publisher" and lawful :: "'v \<Rightarrow> bool"
    and step :: "'w \<Rightarrow> 'w \<Rightarrow> bool" and good :: "'w \<Rightarrow> bool"
    and ready :: "'w \<Rightarrow> outbox_event \<Rightarrow> bool" and sent :: "'w \<Rightarrow> outbox_event \<Rightarrow> bool"
  assumes step_refl: "step w w" and step_trans: "step w1 w2 \<Longrightarrow> step w2 w3 \<Longrightarrow> step w1 w3"
    and step_good: "step w w' \<Longrightarrow> good w \<Longrightarrow> good w'"
    and step_ready: "step w w' \<Longrightarrow> good w \<Longrightarrow> ready w e \<Longrightarrow> ready w' e"
    and step_sent: "step w w' \<Longrightarrow> sent w e \<Longrightarrow> sent w' e"
    and claim_step: "lawful v \<Longrightarrow> or_claim_pending (repo v) now limit lease i w = (cr, w') \<Longrightarrow> step w w'"
    and claim_ready: "lawful v \<Longrightarrow> or_claim_pending (repo v) now limit lease i w = (Inr es, w') \<Longrightarrow>
      e \<in> set es \<Longrightarrow> good w \<Longrightarrow> ready w' e"
    and send_step: "lawful v \<Longrightarrow> pub v e i w = (outcome, w') \<Longrightarrow> ready w e \<Longrightarrow> step w w'"
    and send_sent: "lawful v \<Longrightarrow> pub v e i w = (None, w') \<Longrightarrow> sent w' e"
    and published_step: "lawful v \<Longrightarrow> or_mark_published (repo v) (o_event_id e) now i w = (r, w') \<Longrightarrow>
      sent w e \<Longrightarrow> step w w'"
    and retry_step: "lawful v \<Longrightarrow> or_mark_retry (repo v) eid at_time code i w = (r, w') \<Longrightarrow> step w w'"
    and quarantine_step: "lawful v \<Longrightarrow> or_mark_quarantined (repo v) eid code i w = (r, w') \<Longrightarrow> step w w'"
begin

lemma settle_event_step:
  assumes "lawful v" "settle_event (repo v) cfg now e outcome i w = (ob, w')" "outcome = None \<Longrightarrow> sent w e"
  shows "step w w'" and "ob_observation ob = ''outbox_published'' \<Longrightarrow> sent w' e" and "ob_event ob = e"
proof -
  show st: "step w w'"
    using assms by (auto simp: settle_event_def intro: published_step retry_step quarantine_step
        split: option.splits prod.splits if_splits)
  show "ob_event ob = e"
    using assms by (auto simp: settle_event_def observe_def split: option.splits prod.splits if_splits)
  assume "ob_observation ob = ''outbox_published''"
  then have "outcome = None"
    using assms(2) by (auto simp: settle_event_def observe_def split: option.splits prod.splits if_splits)
  then show "sent w' e" using step_sent [OF st] assms(3) by blast
qed

text \<open>Under the contract a round only does what the system may do, and logs a publication the broker has.\<close>

lemma relay_events_step:
  assumes "lawful v" "relay_events (repo v) (pub v) cfg env i es w = (obs, w')" "\<And>i w. step w (re_others env i w)"
    and "good w" "\<And>e. e \<in> set es \<Longrightarrow> ready w e"
  shows "step w w' \<and> (\<forall>ob\<in>set obs. ob_event ob \<in> set es \<and> (ob_observation ob = ''outbox_published'' \<longrightarrow> sent w' (ob_event ob)))"
  using assms(2,4,5)
proof (induction es arbitrary: i w obs w')
  case Nil
  then show ?case by (simp add: step_refl)
next
  case (Cons e es)
  let ?w0 = "re_others env (2 * i) w"
  note others_step = assms(3)
  have s0: "step w ?w0" by (rule others_step)
  have r0: "ready ?w0 e" using step_ready [OF s0] Cons.prems(2,3) by auto
  obtain outcome w1 where p: "pub v e i ?w0 = (outcome, w1)" by fastforce
  have s1: "step w w1" by (rule step_trans [OF s0 send_step [OF assms(1) p r0]])
  show ?case
  proof (cases "re_cancelled env (2 * i) \<or> re_cancelled env (2 * i + 1)")
    case True
    then have "obs = [] \<and> (w' = w \<or> w' = w1)" using Cons.prems(1) p by (auto split: if_splits)
    then show ?thesis using s1 step_refl by auto
  next
    case False
    let ?w2 = "re_others env (2 * i + 1) w1"
    obtain ob w3 where st: "settle_event (repo v) cfg (re_now env i) e outcome i ?w2 = (ob, w3)" by fastforce
    obtain obs' where rest: "relay_events (repo v) (pub v) cfg env (i + 1) es w3 = (obs', w')" and obs: "obs = ob # obs'"
      using Cons.prems(1) False p st by (auto split: prod.splits)
    have sn: "sent ?w2 e" if "outcome = None"
      by (rule step_sent [OF others_step send_sent [OF assms(1) p [unfolded that]]])
    note S = settle_event_step [OF assms(1) st sn]
    have s3: "step w w3" by (rule step_trans [OF s1 step_trans [OF others_step S(1)]])
    have IH: "step w3 w' \<and> (\<forall>ob\<in>set obs'. ob_event ob \<in> set es \<and>
        (ob_observation ob = ''outbox_published'' \<longrightarrow> sent w' (ob_event ob)))"
      by (rule Cons.IH [OF rest]) (use step_good [OF s3] step_ready [OF s3] Cons.prems(2,3) in auto)
    have "step w w'" using step_trans [OF s3] IH by blast
    moreover have "ob_observation ob = ''outbox_published'' \<Longrightarrow> sent w' (ob_event ob)"
      using S(2,3) IH step_sent by auto
    ultimately show ?thesis using IH S(3) by (auto simp: obs)
  qed
qed

lemma process_once_step:
  assumes "lawful v" "process_once (repo v) (pub v) cfg env w = (obs, w')" "\<And>i w. step w (re_others env i w)" "good w"
  shows "step w w' \<and> (\<forall>ob\<in>set obs. ob_observation ob = ''outbox_published'' \<longrightarrow> sent w' (ob_event ob))"
proof (cases "re_cancelled env 0")
  case True
  then show ?thesis using assms(2) by (simp add: process_once_def step_refl)
next
  case False
  let ?w0 = "re_others env 0 w"
  have s0: "step w ?w0" by (rule assms(3))
  obtain r w1 where c: "or_claim_pending (repo v) (re_now env 0) (cfg_batch_size cfg) (cfg_lease_duration cfg) 0 ?w0
      = (r, w1)" by fastforce
  have s1: "step w w1" by (rule step_trans [OF s0 claim_step [OF assms(1) c]])
  show ?thesis
  proof (cases r)
    case (Inl err)
    then show ?thesis using assms(2) False c s1 by (simp add: process_once_def)
  next
    case (Inr es)
    have rest: "relay_events (repo v) (pub v) cfg env 1 es w1 = (obs, w')"
      using assms(2) False c Inr by (simp add: process_once_def)
    have "step w1 w' \<and> (\<forall>ob\<in>set obs. ob_event ob \<in> set es \<and> (ob_observation ob = ''outbox_published'' \<longrightarrow> sent w' (ob_event ob)))"
      by (rule relay_events_step [OF assms(1) rest assms(3) step_good [OF s1 assms(4)]])
        (rule claim_ready [OF assms(1) c [unfolded Inr] _ step_good [OF s0 assms(4)]])
    then show ?thesis using step_trans [OF s1] by blast
  qed
qed

lemma leader_rounds_step:
  assumes "lawful v" "leader_rounds (repo v) (pub v) cfg envs w = (obs, w')"
    and "\<And>env i w. env \<in> set envs \<Longrightarrow> step w (re_others env i w)" "good w"
  shows "step w w' \<and> (\<forall>ob\<in>set obs. ob_observation ob = ''outbox_published'' \<longrightarrow> sent w' (ob_event ob))"
  using assms(2-4)
proof (induction envs arbitrary: w obs)
  case (Cons env envs)
  show ?case
  proof (cases "re_cancelled env 0")
    case False
    obtain obs1 w1 where p: "process_once (repo v) (pub v) cfg env w = (obs1, w1)" by fastforce
    obtain obs2 where r: "leader_rounds (repo v) (pub v) cfg envs w1 = (obs2, w')" and obs: "obs = obs1 @ obs2"
      using Cons.prems(1) False p by (auto split: prod.splits)
    have 1: "step w w1 \<and> (\<forall>ob\<in>set obs1. ob_observation ob = ''outbox_published'' \<longrightarrow> sent w1 (ob_event ob))"
      by (rule process_once_step [OF assms(1) p _ Cons.prems(3)]) (rule Cons.prems(2), simp)
    have 2: "step w1 w' \<and> (\<forall>ob\<in>set obs2. ob_observation ob = ''outbox_published'' \<longrightarrow> sent w' (ob_event ob))"
      by (rule Cons.IH [OF r]) (use Cons.prems(2,3) 1 step_good in auto)
    have s: "step w w1" "step w1 w'" using 1 2 by blast+
    have "\<forall>ob\<in>set obs1. ob_observation ob = ''outbox_published'' \<longrightarrow> sent w' (ob_event ob)"
      using 1 step_sent [OF s(2)] by blast
    then show ?thesis using step_trans [OF s] 2 unfolding obs set_append ball_Un by blast
  qed (use Cons.prems(1) step_refl in auto)
qed (simp add: step_refl)

end

section \<open>The system around the relay\<close>

text \<open>The event is in the outbox and every earlier event of its batch is published.\<close>

definition ready_event :: "world \<Rightarrow> outbox_event \<Rightarrow> bool" where
  "ready_event w e =
     list_ex (\<lambda>x. event_content x = event_content e \<and> settled_before (outbox (w_db w)) x) (outbox (w_db w))"

text \<open>
  One step of any session: a commit of a command, or a statement of a relay.  A relay sends what it claimed,
  and acknowledges what it sent.
\<close>

inductive platform_step :: "world \<Rightarrow> world \<Rightarrow> bool" where
  step_commit: "workflow_commit (w_db w) d \<Longrightarrow> platform_step w (w\<lparr>w_db := d\<rparr>)"
| step_claim: "claim_pending locked now limit lease (w_db w) = Inr (es, d) \<Longrightarrow> platform_step w (w\<lparr>w_db := d\<rparr>)"
| step_send: "ready_event w e \<Longrightarrow> platform_step w (w\<lparr>w_sent := w_sent w @ [event_content e]\<rparr>)"
| step_ack: "mark_update (published t) (o_event_id e) (w_db w) = Inr (n, d) \<Longrightarrow> event_content e \<in> set (w_sent w) \<Longrightarrow>
    platform_step w (w\<lparr>w_db := d\<rparr>)"
| step_retry: "mark_update (retried t c) eid (w_db w) = Inr (n, d) \<Longrightarrow> platform_step w (w\<lparr>w_db := d\<rparr>)"
| step_quarantine: "mark_update (quarantined c) eid (w_db w) = Inr (n, d) \<Longrightarrow> platform_step w (w\<lparr>w_db := d\<rparr>)"

abbreviation platform_steps :: "world \<Rightarrow> world \<Rightarrow> bool" where
  "platform_steps \<equiv> platform_step\<^sup>*\<^sup>*"

text \<open>
  The broker's log respects the order of every batch: before an event comes each earlier event of its batch.
\<close>

definition log_in_order :: "world \<Rightarrow> bool" where
  "log_in_order w =
     list_all (\<lambda>i. list_all (\<lambda>x. o_batch_id x = o_batch_id (w_sent w ! i) \<and> event_key_of x < event_key_of (w_sent w ! i) \<longrightarrow>
                       List.member (take i (w_sent w)) (event_content x)) (outbox (w_db w))) [0..<length (w_sent w)]"

definition world_ok :: "world \<Rightarrow> bool" where
  "world_ok w =
     (db_wf (w_db w) \<and> outbox_behind (w_db w) \<and>
      list_all (ready_event w) (w_sent w) \<and>
      list_all (\<lambda>e. o_state e = OutboxPublished \<longrightarrow> List.member (w_sent w) (event_content e)) (outbox (w_db w)) \<and>
      log_in_order w)"

lemma content_idem [simp]: "event_content (event_content e) = event_content e"
  by (simp add: event_content_def)

lemma ready_delivery:
  assumes "delivery_step (w_db w) d" "ready_event w e"
  shows "ready_event (w\<lparr>w_db := d\<rparr>) e"
proof -
  obtain x where x: "x \<in> set (outbox (w_db w))" "event_content x = event_content e" "settled_before (outbox (w_db w)) x"
    using assms(2) by (auto simp: ready_event_def list_ex_iff)
  obtain x' where x': "x' \<in> set (outbox d)" "event_kept x x'" "settled_before (outbox d) x'"
    using settled_later [OF r_into_rtranclp [of delivery_step, OF assms(1)] x(1,3)] by blast
  then show ?thesis using x(2) by (auto simp: ready_event_def list_ex_iff event_kept_def)
qed

lemma delivery_row:
  assumes "delivery_step d d'" "x' \<in> set (outbox d')" "e \<in> set (outbox d)"
    and "o_batch_id x' = o_batch_id e" "event_key_of x' < event_key_of e"
  shows "\<exists>x\<in>set (outbox d). event_kept x x'"
proof -
  obtain ys zs where o: "outbox d' = ys @ zs" and p: "list_all2 (delivered_pair (outbox d)) (outbox d) ys"
    and z: "appended_after (outbox d) zs"
    using assms(1) by (auto simp: delivery_step_def)
  have "x' \<notin> set zs"
  proof
    assume "x' \<in> set zs"
    then have "o_aggregate_version e < o_aggregate_version x'"
      using z assms(3,4) by (auto simp: appended_after_def list_all_iff)
    then show False using event_key_version [of e x'] assms(5) by simp
  qed
  then have "x' \<in> set ys" using assms(2) o by simp
  then obtain x where "x \<in> set (outbox d)" "delivered_pair (outbox d) x x'" using list_all2_from [OF p] by blast
  then show ?thesis by (auto simp: delivered_pair_def)
qed

text \<open>A step of the database keeps the invariant if what it publishes was sent.\<close>

lemma world_ok_db:
  assumes ok: "world_ok w" and s: "delivery_step (w_db w) d" and wf: "db_wf d" "outbox_behind d"
    and pub: "\<And>e. e \<in> set (outbox d) \<Longrightarrow> o_state e = OutboxPublished \<Longrightarrow> event_content e \<in> set (w_sent w)"
  shows "world_ok (w\<lparr>w_db := d\<rparr>)"
proof -
  have "list_all (ready_event (w\<lparr>w_db := d\<rparr>)) (w_sent w)"
    using ok ready_delivery [OF s] by (auto simp: world_ok_def list_all_iff)
  moreover have "log_in_order (w\<lparr>w_db := d\<rparr>)"
    unfolding log_in_order_def list_all_iff
  proof (intro ballI impI, elim conjE, simp)
    fix i x' assume i: "i < length (w_sent w)" and x': "x' \<in> set (outbox d)"
      "o_batch_id x' = o_batch_id (w_sent w ! i)" "event_key_of x' < event_key_of (w_sent w ! i)"
    have "ready_event w (w_sent w ! i)" using ok i by (simp add: world_ok_def list_all_length)
    then obtain e where e: "e \<in> set (outbox (w_db w))" "event_content e = event_content (w_sent w ! i)"
      by (auto simp: ready_event_def list_ex_iff)
    note F = content_fields [OF e(2)]
    obtain x where x: "x \<in> set (outbox (w_db w))" "event_kept x x'"
      using delivery_row [OF s x'(1) e(1)] x'(2,3) F by auto
    note K = event_kept_fields [OF x(2)]
    have "List.member (take i (w_sent w)) (event_content x)"
      using ok i x(1) x'(2,3) K unfolding world_ok_def log_in_order_def list_all_iff by auto
    then show "event_content x' \<in> set (take i (w_sent w))" using x(2) by (simp add: event_kept_def)
  qed
  ultimately show ?thesis using wf pub by (auto simp: world_ok_def list_all_iff)
qed

end
