(* ===== verification/Delivery.thy ===== *)
theory Delivery
  imports Relay
begin

text \<open>
  The relay on the GORM repository and the Kafka publisher: the two interfaces of \<open>Relay\<close> are instantiated
  with \<open>repository/outbox.go\<close> and \<open>eventbus/kafka.go\<close>, in an environment that may lose the request or the
  reply of any call, deliver a message several times, and run any other session in between.  Every round is
  a sequence of \<open>platform_step\<close>s, which keep \<open>world_ok\<close>: the broker gets the events of a batch in order.
\<close>

section \<open>The environment\<close>

datatype fault =
    NoFault
  | RequestLost error
  | ReplyLost error

fun faulty :: "fault \<Rightarrow> ('w \<Rightarrow> (error + 'a) \<times> 'w) \<Rightarrow> 'w \<Rightarrow> (error + 'a) \<times> 'w" where
  "faulty NoFault m w = m w"
| "faulty (RequestLost e) m w = (Inl e, w)"
| "faulty (ReplyLost e) m w = (Inl e, snd (m w))"

text \<open>
  The broker took the message, and the writer's own retries sent \<open>n\<close> more copies; or the writer gave up, and
  \<open>n\<close> copies arrived nevertheless.  The schemas and \<open>uuid.Parse\<close> are those of \<open>validate_event\<close>.
\<close>

datatype broker_reply = BrokerAck nat | BrokerFailed string nat

record session_env =
  se_fault :: "nat \<Rightarrow> fault"
  se_locked :: "nat \<Rightarrow> string \<Rightarrow> bool"
  se_others :: "nat \<Rightarrow> world \<Rightarrow> world"
  se_broker :: "nat \<Rightarrow> broker_reply"
  se_schema :: "string \<Rightarrow> json \<Rightarrow> bool"
  se_uuid :: "string \<Rightarrow> string option"

section \<open>The implementations\<close>

definition gorm_outbox :: "session_env \<Rightarrow> world outbox_repository" where
  "gorm_outbox se =
     \<lparr>or_claim_pending = (\<lambda>now limit lease i. faulty (se_fault se i) (on_db (claim_pending (se_locked se i) now limit lease))),
      or_mark_published = (\<lambda>eid t i. faulty (se_fault se i) (mark_published (se_others se i) eid t)),
      or_mark_retry = (\<lambda>eid t code i. faulty (se_fault se i) (mark_retry (se_others se i) eid t code)),
      or_mark_quarantined = (\<lambda>eid code i. faulty (se_fault se i) (mark_quarantined (se_others se i) eid code))\<rparr>"

definition broker_copies :: "broker_reply \<Rightarrow> nat" where
  "broker_copies r = (case r of BrokerAck n \<Rightarrow> n + 1 | BrokerFailed _ n \<Rightarrow> n)"

definition kafka_publish :: "session_env \<Rightarrow> world publisher" where
  "kafka_publish se e i w =
     (case validate_event (se_schema se) (se_uuid se) e of
        Inl err \<Rightarrow> (Some err, w)
      | Inr _ \<Rightarrow>
          (case se_broker se i of BrokerAck _ \<Rightarrow> None | BrokerFailed msg _ \<Rightarrow> Some (BrokerError msg),
           w\<lparr>w_sent := w_sent w @ replicate (broker_copies (se_broker se i)) (event_content e)\<rparr>))"

definition lawful_sessions :: "session_env \<Rightarrow> bool" where
  "lawful_sessions se \<longleftrightarrow> (\<forall>i w. platform_steps w (se_others se i w))"

section \<open>The steps keep the invariant\<close>

lemma log_in_order_snoc:
  assumes "log_in_order w"
    and "\<And>x. x \<in> set (outbox (w_db w)) \<Longrightarrow> o_batch_id x = o_batch_id m \<Longrightarrow> event_key_of x < event_key_of m \<Longrightarrow>
           event_content x \<in> set (w_sent w)"
  shows "log_in_order (w\<lparr>w_sent := w_sent w @ [m]\<rparr>)"
  using assms unfolding log_in_order_def list_all_iff
  by (auto simp: nth_append less_Suc_eq)

lemma content_key [simp]: "o_batch_id (event_content e) = o_batch_id e" "event_key_of (event_content e) = event_key_of e"
    "o_event_id (event_content e) = o_event_id e"
  by (simp_all add: event_content_def event_key_of_def)

lemma world_ok_send:
  assumes ok: "world_ok w" and r: "ready_event w e"
  shows "world_ok (w\<lparr>w_sent := w_sent w @ [event_content e]\<rparr>)"
proof -
  let ?w = "w\<lparr>w_sent := w_sent w @ [event_content e]\<rparr>"
  obtain x0 where x0: "x0 \<in> set (outbox (w_db w))" "event_content x0 = event_content e"
    "settled_before (outbox (w_db w)) x0"
    using r by (auto simp: ready_event_def list_ex_iff)
  have "log_in_order ?w"
  proof (rule log_in_order_snoc)
    show "log_in_order w" using ok by (simp add: world_ok_def)
    fix x assume x: "x \<in> set (outbox (w_db w))" "o_batch_id x = o_batch_id (event_content e)"
      "event_key_of x < event_key_of (event_content e)"
    then have "o_state x = OutboxPublished"
      using x0(3) content_fields [OF x0(2)] by (simp add: settled_before_def list_all_iff)
    then show "event_content x \<in> set (w_sent w)" using ok x(1) by (simp add: world_ok_def list_all_iff)
  qed
  moreover have "ready_event ?w m = ready_event w m" "ready_event w (event_content m) = ready_event w m" for m
    by (simp_all add: ready_event_def)
  ultimately show ?thesis using ok r by (auto simp: world_ok_def list_all_iff)
qed

lemma sent_row:
  assumes ok: "world_ok w" and m: "m \<in> set (w_sent w)" and e: "e \<in> set (outbox (w_db w))" "o_event_id e = o_event_id m"
  shows "event_content e = event_content m" and "settled_before (outbox (w_db w)) e"
proof -
  have "ready_event w m" using ok m by (simp add: world_ok_def list_all_iff)
  then obtain x where x: "x \<in> set (outbox (w_db w))" "event_content x = event_content m" "settled_before (outbox (w_db w)) x"
    by (auto simp: ready_event_def list_ex_iff)
  have "distinct (map o_event_id (outbox (w_db w)))" using ok by (simp add: world_ok_def db_wf_defs)
  then have "x = e" using distinct_key_eqD x(1) e content_fields(1) [OF x(2)] by metis
  then show "event_content e = event_content m" "settled_before (outbox (w_db w)) e" using x by auto
qed

text \<open>An update that publishes nothing.\<close>

lemma world_ok_unpublished:
  assumes ok: "world_ok w" and u: "d = (w_db w)\<lparr>outbox := tbl_update P f (outbox (w_db w))\<rparr>"
    and f: "\<And>e. P e \<Longrightarrow> pending e" "\<And>e. event_content (f e) = event_content e" "\<And>e. o_state (f e) = OutboxPublished \<Longrightarrow> o_state e = OutboxPublished"
    and wf: "db_wf d" "outbox_behind d"
  shows "world_ok (w\<lparr>w_db := d\<rparr>)"
proof (rule world_ok_db [OF ok _ wf])
  show "delivery_step (w_db w) d"
  proof (rule update_delivery [of _ P f])
    fix e assume "P e"
    then have "pending e" "o_state (f e) \<noteq> OutboxPublished" using f(1) f(3) [of e] by (auto simp: pending_def)
    then show "pending e \<and> event_content (f e) = event_content e \<and>
        (o_state (f e) = OutboxPublished \<longrightarrow> settled_before (outbox (w_db w)) e)" by (simp add: f(2))
  qed (simp add: u)
  fix e assume "e \<in> set (outbox d)" "o_state e = OutboxPublished"
  then obtain x where "x \<in> set (outbox (w_db w))" "event_content e = event_content x" "o_state x = OutboxPublished"
    using f by (auto simp: u set_tbl_update)
  then show "event_content e \<in> set (w_sent w)" using ok by (simp add: world_ok_def list_all_iff)
qed

lemma world_ok_mark:
  assumes ok: "world_ok w" and u: "mark_update f eid (w_db w) = Inr (n, d)"
    and f: "\<And>e. event_content (f e) = event_content e" "\<And>e. o_state (f e) = OutboxPublished \<Longrightarrow> o_state e = OutboxPublished"
  shows "world_ok (w\<lparr>w_db := d\<rparr>)"
  by (rule world_ok_unpublished [OF ok mark_update_D(1) [OF u]])
    (use f mark_update_keeps [OF u f(1)] ok in \<open>auto simp: world_ok_def\<close>)

lemma world_ok_ack:
  assumes ok: "world_ok w" and u: "mark_update (published t) (o_event_id e) (w_db w) = Inr (n, d)"
    and s: "event_content e \<in> set (w_sent w)"
  shows "world_ok (w\<lparr>w_db := d\<rparr>)"
proof (rule world_ok_db [OF ok])
  have row: "event_content x = event_content e \<and> settled_before (outbox (w_db w)) x"
    if "x \<in> set (outbox (w_db w))" "o_event_id x = o_event_id e" for x
    using sent_row [OF ok s that(1)] that(2) by simp
  show "delivery_step (w_db w) d"
    by (rule mark_update_delivery [OF u]) (use row in auto)
  show "db_wf d" "outbox_behind d"
    using mark_update_keeps [OF u content_of_marks(2)] ok by (auto simp: world_ok_def)
  fix x assume x: "x \<in> set (outbox d)" "o_state x = OutboxPublished"
  have d: "d = (w_db w)\<lparr>outbox := tbl_update (\<lambda>x. o_event_id x = o_event_id e \<and> pending x) (published t) (outbox (w_db w))\<rparr>"
    by (rule mark_update_D(1) [OF u])
  obtain y where y: "y \<in> set (outbox (w_db w))" "event_content x = event_content y"
    "o_event_id y = o_event_id e \<or> o_state y = OutboxPublished"
    using x unfolding d by (auto simp: set_tbl_update)
  then show "event_content x \<in> set (w_sent w)"
    using row [OF y(1)] s ok by (auto simp: world_ok_def list_all_iff)
qed

lemma commit_sent:
  assumes ok: "world_ok w" and c: "workflow_commit (w_db w) d"
  shows "world_ok (w\<lparr>w_db := d\<rparr>)"
proof (rule world_ok_db [OF ok])
  have wf: "db_wf (w_db w)" "outbox_behind (w_db w)" using ok by (simp_all add: world_ok_def)
  show s: "delivery_step (w_db w) d" by (rule commit_delivery [OF c wf])
  show "db_wf d" using reachable_wf c wf(1) by blast
  show "outbox_behind d" using commit_outbox [OF c wf] by blast
  fix e assume e: "e \<in> set (outbox d)" "o_state e = OutboxPublished"
  obtain es where es: "outbox d = outbox (w_db w) @ es" "list_all pending es"
    using commit_appends [OF c wf] by blast
  then have "e \<in> set (outbox (w_db w))" using e by (auto simp: list_all_iff pending_def)
  then show "event_content e \<in> set (w_sent w)" using ok e(2) by (simp add: world_ok_def list_all_iff)
qed

lemma platform_step_ok: "platform_step w w' \<Longrightarrow> world_ok w \<Longrightarrow> world_ok w'"
proof (induction rule: platform_step.induct)
  case (step_claim locked now limit lease w es d)
  show ?case
    by (rule world_ok_unpublished [OF step_claim(2) claim_pending_update [OF step_claim(1)]])
      (use claim_pending_keeps [OF step_claim(1)] step_claim(2) in \<open>auto simp: world_ok_def\<close>)
qed (auto intro: commit_sent world_ok_send world_ok_ack world_ok_mark)

lemma platform_steps_ok: "platform_steps w w' \<Longrightarrow> world_ok w \<Longrightarrow> world_ok w'"
  by (induction rule: rtranclp_induct) (auto intro: platform_step_ok)

section \<open>The implementations keep the contract\<close>

lemma platform_delivery: "platform_step w w' \<Longrightarrow> world_ok w \<Longrightarrow> delivery_step (w_db w) (w_db w')"
proof (induction rule: platform_step.induct)
  case (step_commit w d)
  then show ?case using commit_delivery by (simp add: world_ok_def)
next
  case (step_claim locked now limit lease w es d)
  then show ?case using claim_pending_delivery by simp
next
  case (step_ack t e' w n d)
  have "delivery_step (w_db w) d"
    by (rule mark_update_delivery [OF step_ack(1)]) (use sent_row [OF step_ack(3,2)] in auto)
  then show ?case by simp
next
  case (step_retry t c eid w n d)
  have "delivery_step (w_db w) d"
    by (rule mark_update_delivery [OF step_retry(1)]) (auto simp: pending_def)
  then show ?case by simp
next
  case (step_quarantine c eid w n d)
  have "delivery_step (w_db w) d"
    by (rule mark_update_delivery [OF step_quarantine(1)]) auto
  then show ?case by simp
qed simp

lemma ready_step:
  assumes "platform_step w w'" "world_ok w" "ready_event w e"
  shows "ready_event w' e"
  using ready_delivery [OF platform_delivery [OF assms(1,2)] assms(3)] by (simp add: ready_event_def)

lemma event_kept_step:
  assumes "platform_step w w'" "world_ok w" "e \<in> set (outbox (w_db w))"
  shows "\<exists>e'\<in>set (outbox (w_db w')). event_kept e e'"
proof -
  obtain ys zs where "outbox (w_db w') = ys @ zs" "list_all2 (delivered_pair (outbox (w_db w))) (outbox (w_db w)) ys"
    using platform_delivery [OF assms(1,2)] by (auto simp: delivery_step_def)
  then show ?thesis using list_all2_to assms(3) by (fastforce simp: delivered_pair_def)
qed

lemma event_kept_steps:
  "platform_steps w w' \<Longrightarrow> world_ok w \<Longrightarrow> e \<in> set (outbox (w_db w)) \<Longrightarrow> \<exists>e'\<in>set (outbox (w_db w')). event_kept e e'"
proof (induction rule: rtranclp_induct)
  case (step w1 w2)
  then obtain e1 where e1: "e1 \<in> set (outbox (w_db w1))" "event_kept e e1" by blast
  obtain e2 where "e2 \<in> set (outbox (w_db w2))" "event_kept e1 e2"
    using event_kept_step [OF step(2) platform_steps_ok [OF step(1,4)] e1(1)] by blast
  then show ?case using event_kept_trans [OF e1(2)] by blast
qed (blast intro: event_kept_refl)

lemma quarantine_blocks_batch:
  assumes "platform_steps w w'" "world_ok w" "e \<in> set (outbox (w_db w))" "o_state e = OutboxQuarantined"
    and "o_batch_id x = o_batch_id e"
  shows "\<not> claimable now locked (outbox (w_db w')) x"
proof -
  obtain e' where e': "e' \<in> set (outbox (w_db w'))" "event_kept e e'"
    using event_kept_steps [OF assms(1-3)] by blast
  have "o_state e' = OutboxQuarantined" "o_batch_id e' = o_batch_id e"
    using e'(2) event_kept_fields [OF e'(2)] assms(4) by (auto simp: event_kept_def)
  then show ?thesis using e'(1) assms(5) by (auto simp: claimable_def batch_blocked_def list_ex_iff)
qed

lemma ready_steps: "platform_steps w w' \<Longrightarrow> world_ok w \<Longrightarrow> ready_event w e \<Longrightarrow> ready_event w' e"
  by (induction rule: rtranclp_induct) (auto intro: ready_step platform_steps_ok)

lemma sent_grows: "platform_steps w w' \<Longrightarrow> prefix (w_sent w) (w_sent w')"
  by (induction rule: rtranclp_induct)
    (auto elim!: platform_step.cases intro: prefix_order.trans)

lemma on_db_steps:
  assumes "on_db m w = (r, w')" "\<And>a d. m (w_db w) = Inr (a, d) \<Longrightarrow> platform_step w (w\<lparr>w_db := d\<rparr>)"
  shows "platform_steps w w'"
  using assms by (auto simp: on_db_def run_tx_def split: sum.splits)

lemma faulty_steps:
  assumes "faulty f m w = (r, w')" "platform_steps w (snd (m w))"
  shows "platform_steps w w'"
  using assms by (cases f) auto

lemma faulty_Inr: "faulty f m w = (Inr a, w') \<Longrightarrow> m w = (Inr a, w')"
  by (cases f) auto

lemma mark_event_steps:
  assumes "\<And>n d. mark_update f eid (w_db w) = Inr (n, d) \<Longrightarrow> platform_step w (w\<lparr>w_db := d\<rparr>)"
    and "\<And>w. platform_steps w (others w)"
  shows "platform_steps w (snd (mark_event others done_state f eid w))"
proof -
  obtain r w1 where m: "on_db (mark_update f eid) w = (r, w1)" by fastforce
  have s1: "platform_steps w w1" by (rule on_db_steps [OF m assms(1)])
  have "snd (on_db (mark_state done_state eid) (others w1)) = others w1"
    by (auto simp: on_db_def run_tx_def mark_state_def tx_success split: sum.splits)
  then have "platform_steps w (snd (on_db (mark_state done_state eid) (others w1)))"
    using s1 assms(2) [of w1] by (metis rtranclp_trans)
  then show ?thesis using s1 m by (auto simp: mark_event_def split: sum.splits)
qed

lemma send_steps:
  assumes "ready_event w e"
  shows "platform_steps w (w\<lparr>w_sent := w_sent w @ replicate n (event_content e)\<rparr>)"
proof (induction n)
  case (Suc n)
  let ?w = "w\<lparr>w_sent := w_sent w @ replicate n (event_content e)\<rparr>"
  have "ready_event ?w e" using assms by (simp add: ready_event_def)
  then have "platform_step ?w (w\<lparr>w_sent := w_sent w @ replicate (Suc n) (event_content e)\<rparr>)"
    using platform_step.step_send [of ?w e] by (simp add: replicate_append_same)
  then show ?case using Suc by (rule rtranclp.rtrancl_into_rtrancl [rotated])
qed simp

lemma claim_pending_ready:
  assumes c: "claim_pending locked now limit lease (w_db w) = Inr (es, d)" and e: "e \<in> set es"
  shows "ready_event (w\<lparr>w_db := d\<rparr>) e"
proof -
  have "e \<in> set (candidates now locked limit (outbox (w_db w)))" using c e by (simp add: claim_pending_Inr)
  then have "e \<in> set (outbox (w_db w))" "settled_before (outbox (w_db w)) e"
    using set_candidates claimable_settled by blast+
  then have "ready_event w e" by (auto simp: ready_event_def list_ex_iff)
  then show ?thesis by (rule ready_delivery [OF claim_pending_delivery [OF c]])
qed

definition event_sent :: "world \<Rightarrow> outbox_event \<Rightarrow> bool" where
  "event_sent w e = List.member (w_sent w) (event_content e)"

interpretation kafka_relay: outbox_contract gorm_outbox kafka_publish lawful_sessions platform_steps world_ok ready_event event_sent
proof
  fix se w w' e i outcome
  show "platform_steps w w" by simp
  show "platform_steps w w' \<Longrightarrow> platform_steps w' w'' \<Longrightarrow> platform_steps w w''" for w'' by (rule rtranclp_trans)
  show "platform_steps w w' \<Longrightarrow> world_ok w \<Longrightarrow> world_ok w'" by (rule platform_steps_ok)
  show "platform_steps w w' \<Longrightarrow> world_ok w \<Longrightarrow> ready_event w e \<Longrightarrow> ready_event w' e" by (rule ready_steps)
  show "platform_steps w w' \<Longrightarrow> event_sent w e \<Longrightarrow> event_sent w' e"
    using sent_grows set_mono_prefix by (fastforce simp: event_sent_def)
  show "kafka_publish se e i w = (outcome, w') \<Longrightarrow> ready_event w e \<Longrightarrow> platform_steps w w'"
    by (auto simp: kafka_publish_def intro: send_steps split: sum.splits)
  show "kafka_publish se e i w = (None, w') \<Longrightarrow> event_sent w' e"
    by (auto simp: kafka_publish_def broker_copies_def event_sent_def split: sum.splits broker_reply.splits)
next
  fix se :: session_env and now limit lease i w w' and r :: "error + outbox_event list"
  assume l: "lawful_sessions se"
  show "or_claim_pending (gorm_outbox se) now limit lease i w = (r, w') \<Longrightarrow> platform_steps w w'"
    by (auto simp: gorm_outbox_def elim!: faulty_steps intro: on_db_steps [OF prod.collapse [symmetric]] platform_step.step_claim)
  show "ready_event w' e" if "or_claim_pending (gorm_outbox se) now limit lease i w = (Inr es, w')" "e \<in> set es" for es e
    using that claim_pending_ready by (auto simp: gorm_outbox_def on_db_def run_tx_cases dest!: faulty_Inr split: prod.splits)
next
  fix se :: session_env and e now i w w' and r :: "error + unit" and eid at_time code
  assume l: "lawful_sessions se"
  then have o: "platform_steps w (se_others se i w)" for w by (simp add: lawful_sessions_def)
  show "or_mark_published (gorm_outbox se) (o_event_id e) now i w = (r, w') \<Longrightarrow> event_sent w e \<Longrightarrow> platform_steps w w'"
    by (auto simp: gorm_outbox_def mark_published_def event_sent_def elim!: faulty_steps
        intro: mark_event_steps o platform_step.step_ack)
  show "or_mark_retry (gorm_outbox se) eid at_time code i w = (r, w') \<Longrightarrow> platform_steps w w'"
    by (auto simp: gorm_outbox_def mark_retry_def elim!: faulty_steps intro: mark_event_steps o platform_step.step_retry)
  show "or_mark_quarantined (gorm_outbox se) eid code i w = (r, w') \<Longrightarrow> platform_steps w w'"
    by (auto simp: gorm_outbox_def mark_quarantined_def elim!: faulty_steps intro: mark_event_steps o platform_step.step_quarantine)
qed

end
