(* ===== verification/Progress.thy ===== *)
theory Progress
  imports Delivery
begin

text \<open>
  What a round of the relay achieves when nothing disturbs it: no cancellation, no lost request or reply, a
  broker that takes every message, no other session in between.  Then every claimed event ends published, if
  the publisher accepts it, and quarantined otherwise, and the broker gets exactly the accepted ones.
\<close>

definition undisturbed :: "session_env \<Rightarrow> world relay_env \<Rightarrow> bool" where
  "undisturbed se env \<longleftrightarrow>
     (\<forall>i. se_fault se i = NoFault \<and> se_broker se i = BrokerAck 0 \<and> \<not> re_cancelled env i) \<and>
     (\<forall>i w. re_others env i w = w)"

definition accepted :: "session_env \<Rightarrow> outbox_event \<Rightarrow> bool" where
  "accepted se e = (validate_event (se_schema se) (se_uuid se) e = Inr ())"

definition final_state :: "session_env \<Rightarrow> outbox_event \<Rightarrow> publish_state" where
  "final_state se e = (if accepted se e then OutboxPublished else OutboxQuarantined)"

definition logged :: "session_env \<Rightarrow> outbox_event \<Rightarrow> observation" where
  "logged se e =
     (if accepted se e then observe e ''outbox_published'' [] ''SUCCEEDED''
      else observe e ''outbox_quarantined'' ''OUTBOX_EVENT_INVALID'' ''QUARANTINED'')"

text \<open>The outbox after the events \<open>es\<close> were settled: contents and order stay, the states of \<open>es\<close> are final.\<close>

definition settled_rows :: "session_env \<Rightarrow> outbox_event list \<Rightarrow> outbox_event list \<Rightarrow> outbox_event list \<Rightarrow> bool" where
  "settled_rows se es rows rows' \<longleftrightarrow>
     list_all2 (\<lambda>x x'. event_content x' = event_content x \<and>
       o_state x' = (if List.member (map o_event_id es) (o_event_id x) then final_state se x else o_state x)) rows rows'"

lemma validate_content:
  assumes "event_content x = event_content e"
  shows "validate_event schema uuid x = validate_event schema uuid e"
proof -
  have "validate_event schema uuid (event_content y) = validate_event schema uuid y" for y
    by (simp add: validate_event_def validate_envelope_def validate_processing_envelope_def
        validate_workflow_envelope_def envelope_agrees_def event_content_def Let_def cong: if_cong option.case_cong)
  then show ?thesis using assms by metis
qed

lemma accepted_content: "event_content x = event_content e \<Longrightarrow> accepted se x = accepted se e"
  unfolding accepted_def by (simp add: validate_content [of x e])

lemma invalid_permanent: "validate_event schema uuid e = Inl err \<Longrightarrow> permanent err"
  by (auto simp: validate_event_def validate_envelope_def validate_processing_envelope_def
      validate_workflow_envelope_def permanent_def Let_def split: if_splits option.splits)

lemma mark_event_pending:
  assumes wf: "db_wf (w_db w)" and x: "x \<in> set (outbox (w_db w))" "pending x" "o_event_id x = eid"
    and chk: "\<And>y. check_outbox y \<Longrightarrow> pending y \<Longrightarrow> check_outbox (f y)"
  shows "mark_event others done_state f eid w =
    (Inr (), w\<lparr>w_db := (w_db w)\<lparr>outbox := tbl_update (\<lambda>y. o_event_id y = eid \<and> pending y) f (outbox (w_db w))\<rparr>\<rparr>)"
proof -
  have "\<forall>y\<in>set (outbox (w_db w)). o_event_id y = eid \<and> pending y \<longrightarrow> check_outbox (f y)"
    using wf chk by (auto simp: db_wf_defs list_all_iff)
  moreover have "tbl_count (\<lambda>y. o_event_id y = eid \<and> pending y) (outbox (w_db w)) = 1"
  proof (rule le_antisym)
    show "tbl_count (\<lambda>y. o_event_id y = eid \<and> pending y) (outbox (w_db w)) \<le> 1"
      by (rule tbl_count_key_le1) (use wf in \<open>simp add: db_wf_defs\<close>)
    show "1 \<le> tbl_count (\<lambda>y. o_event_id y = eid \<and> pending y) (outbox (w_db w))"
      using x tbl_count_0_iff [of "\<lambda>y. o_event_id y = eid \<and> pending y" "outbox (w_db w)"] by auto
  qed
  ultimately have "mark_update f eid (w_db w) =
      Inr (1, (w_db w)\<lparr>outbox := tbl_update (\<lambda>y. o_event_id y = eid \<and> pending y) f (outbox (w_db w))\<rparr>)"
    by (auto simp: mark_update_def tx_success)
  then show ?thesis by (simp add: mark_event_def on_db_def run_tx_def)
qed

lemma published_check: "check_outbox y \<Longrightarrow> pending y \<Longrightarrow> check_outbox (published t y)"
  and quarantined_check: "check_outbox y \<Longrightarrow> pending y \<Longrightarrow> check_outbox (quarantined c y)"
  by (simp_all add: check_outbox_def published_def quarantined_def pending_def)

text \<open>One undisturbed delivery.\<close>

definition settle_row :: "session_env \<Rightarrow> int \<Rightarrow> outbox_event \<Rightarrow> outbox_event \<Rightarrow> outbox_event" where
  "settle_row se t e x =
     (if o_event_id x = o_event_id e \<and> pending x
      then (if accepted se e then published t x else quarantined ''OUTBOX_EVENT_INVALID'' x) else x)"

lemma deliver_one:
  assumes u: "undisturbed se env" and wf: "db_wf (w_db w)"
    and x: "x \<in> set (outbox (w_db w))" "pending x" "event_content x = event_content e"
  shows "\<exists>outcome. kafka_publish se e i w = (outcome, w\<lparr>w_sent := w_sent w @ (if accepted se e then [event_content e] else [])\<rparr>) \<and>
    settle_event (gorm_outbox se) cfg t e outcome i (w\<lparr>w_sent := s\<rparr>) =
      (logged se e, w\<lparr>w_sent := s, w_db := (w_db w)\<lparr>outbox := map (settle_row se t e) (outbox (w_db w))\<rparr>\<rparr>)"
proof -
  have id: "o_event_id x = o_event_id e" by (rule content_fields(1) [OF x(3)])
  have nf: "se_fault se i = NoFault" "se_broker se i = BrokerAck 0" using u by (auto simp: undisturbed_def)
  let ?w = "w\<lparr>w_sent := s\<rparr>"
  note M = mark_event_pending [of ?w x "o_event_id e"]
  show ?thesis
  proof (cases "validate_event (se_schema se) (se_uuid se) e")
    case (Inl err)
    then have "\<not> accepted se e" "permanent err" by (auto simp: accepted_def invalid_permanent)
    then show ?thesis
      using M [OF _ _ x(2) id quarantined_check] wf x(1) Inl nf
      by (auto simp: kafka_publish_def settle_event_def gorm_outbox_def mark_quarantined_def logged_def succeeded_io_def
          settle_row_def tbl_update_def)
  next
    case (Inr v)
    then have "accepted se e" by (simp add: accepted_def)
    then show ?thesis
      using M [OF _ _ x(2) id published_check] wf x(1) Inr nf
      by (auto simp: kafka_publish_def settle_event_def gorm_outbox_def mark_published_def logged_def succeeded_io_def
          settle_row_def tbl_update_def broker_copies_def)
  qed
qed

lemma settle_row_fields [simp]:
  "event_content (settle_row se t e x) = event_content x" "o_event_id (settle_row se t e x) = o_event_id x"
  "o_command_id (settle_row se t e x) = o_command_id x" "o_sequence (settle_row se t e x) = o_sequence x"
  by (simp_all add: settle_row_def content_fields [OF content_of_marks(2)] content_fields [OF content_of_marks(4)])

lemma settle_row_check: "check_outbox x \<Longrightarrow> check_outbox (settle_row se t e x)"
  by (simp add: settle_row_def published_check quarantined_check)

lemma settle_row_wf: "db_wf d \<Longrightarrow> db_wf (d\<lparr>outbox := map (settle_row se t e) (outbox d)\<rparr>)"
  by (auto simp: db_wf_defs list_all_iff o_def settle_row_check)

lemma settle_row_state:
  assumes "event_content x = event_content e" "pending x"
  shows "o_state (settle_row se t e x) = final_state se x"
  using assms content_fields(1) [OF assms(1)] accepted_content [OF assms(1)]
  by (simp add: settle_row_def final_state_def)

lemma settle_row_other: "o_event_id x \<noteq> o_event_id e \<Longrightarrow> settle_row se t e x = x"
  by (simp add: settle_row_def)

text \<open>All claimed events, one after the other.\<close>

lemma deliver_all:
  assumes u: "undisturbed se env" and wf: "db_wf (w_db w)" and dist: "distinct (map o_event_id es)"
    and rows: "\<And>e. e \<in> set es \<Longrightarrow> \<exists>x\<in>set (outbox (w_db w)). pending x \<and> event_content x = event_content e"
  shows "\<exists>w'. relay_events (gorm_outbox se) (kafka_publish se) cfg env i es w = (map (logged se) es, w') \<and>
    w_sent w' = w_sent w @ map event_content (filter (accepted se) es) \<and>
    settled_rows se es (outbox (w_db w)) (outbox (w_db w'))"
  using wf dist rows
proof (induction es arbitrary: i w)
  case Nil
  then show ?case by (auto simp: settled_rows_def list_all2_refl)
next
  case (Cons e es)
  obtain x where x: "x \<in> set (outbox (w_db w))" "pending x" "event_content x = event_content e"
    using Cons.prems(3) [of e] by auto
  let ?s = "w_sent w @ (if accepted se e then [event_content e] else [])"
  let ?rows = "map (settle_row se (re_now env i) e) (outbox (w_db w))"
  let ?w2 = "w\<lparr>w_sent := ?s, w_db := (w_db w)\<lparr>outbox := ?rows\<rparr>\<rparr>"
  obtain outcome where p: "kafka_publish se e i w = (outcome, w\<lparr>w_sent := ?s\<rparr>)"
    "settle_event (gorm_outbox se) cfg (re_now env i) e outcome i (w\<lparr>w_sent := ?s\<rparr>) = (logged se e, ?w2)"
    using deliver_one [OF u Cons.prems(1) x] by blast
  have wf2: "db_wf (w_db ?w2)" using settle_row_wf [OF Cons.prems(1)] by simp
  have "\<exists>x\<in>set (outbox (w_db ?w2)). pending x \<and> event_content x = event_content f" if f: "f \<in> set es" for f
  proof -
    obtain y where y: "y \<in> set (outbox (w_db w))" "pending y" "event_content y = event_content f"
      using Cons.prems(3) [of f] f by auto
    have "o_event_id y \<noteq> o_event_id e" using Cons.prems(2) f content_fields(1) [OF y(3)] by (metis distinct.simps(2) image_eqI list.set_map list.simps(9))
    then have "settle_row se (re_now env i) e y = y" by (rule settle_row_other)
    then show ?thesis using y by force
  qed
  then obtain w' where w': "relay_events (gorm_outbox se) (kafka_publish se) cfg env (i + 1) es ?w2 = (map (logged se) es, w')"
    "w_sent w' = ?s @ map event_content (filter (accepted se) es)" "settled_rows se es ?rows (outbox (w_db w'))"
    using Cons.IH [OF wf2, of "i + 1"] Cons.prems(2) by auto
  have "relay_events (gorm_outbox se) (kafka_publish se) cfg env i (e # es) w = (map (logged se) (e # es), w')"
    using p w'(1) u by (simp add: undisturbed_def)
  moreover have "settled_rows se (e # es) (outbox (w_db w)) (outbox (w_db w'))"
    unfolding settled_rows_def
  proof (rule list_all2_all_nthI)
    show l: "length (outbox (w_db w)) = length (outbox (w_db w'))"
      using w'(3) by (auto simp: settled_rows_def dest: list_all2_lengthD)
    fix n assume n: "n < length (outbox (w_db w))"
    let ?y = "outbox (w_db w) ! n" and ?z = "outbox (w_db w') ! n"
    have r: "event_content ?z = event_content ?y"
      "o_state ?z = (if List.member (map o_event_id es) (o_event_id ?y)
                     then final_state se (settle_row se (re_now env i) e ?y) else o_state (settle_row se (re_now env i) e ?y))"
      using list_all2_nthD [OF w'(3) [unfolded settled_rows_def], of n] n by auto
    have f: "final_state se (settle_row se (re_now env i) e ?y) = final_state se ?y"
      by (simp add: final_state_def accepted_content [of "settle_row se (re_now env i) e ?y" ?y])
    show "event_content ?z = event_content ?y \<and>
        o_state ?z = (if List.member (map o_event_id (e # es)) (o_event_id ?y) then final_state se ?y else o_state ?y)"
    proof (cases "o_event_id ?y = o_event_id e")
      case True
      have "?y = x"
        using True Cons.prems(1) x(1) n content_fields(1) [OF x(3)]
          distinct_key_eqD [of o_event_id "outbox (w_db w)" ?y x] by (simp add: db_wf_defs)
      then have "o_state (settle_row se (re_now env i) e ?y) = final_state se ?y"
        using settle_row_state x(2,3) by simp
      then show ?thesis using r True f by simp
    next
      case False
      then show ?thesis using r settle_row_other f by auto
    qed
  qed
  ultimately show ?case using w'(2) by (intro exI [of _ w']) simp
qed

text \<open>An undisturbed claim succeeds, unless an attempt counter is exhausted.\<close>

lemma candidates_distinct: "distinct (map o_event_id rows) \<Longrightarrow> distinct (map o_event_id (candidates now locked limit rows))"
proof -
  assume d: "distinct (map o_event_id rows)"
  have "distinct (map o_event_id (sort_key event_key_of (filter (claimable now locked rows) rows)))"
    using distinct_map_filter [OF d] by (simp add: distinct_map)
  then show ?thesis unfolding candidates_def take_map [symmetric] by (rule distinct_take)
qed

lemma candidates_count:
  assumes d: "distinct (map o_event_id rows)" and es_def: "es = candidates now locked limit rows"
  shows "tbl_count (\<lambda>e. List.member (map o_event_id es) (o_event_id e) \<and> pending e) rows = length es"
proof -
  let ?P = "\<lambda>e. List.member (map o_event_id es) (o_event_id e) \<and> pending e"
  have es: "e \<in> set rows \<and> pending e" if "e \<in> set es" for e
    using set_candidates that by (auto simp: es_def claimable_def due_def)
  have same: "e \<in> set es" if "e \<in> set rows" "f \<in> set es" "o_event_id e = o_event_id f" for e f
    using distinct_key_eqD [OF d that(1) conjunct1 [OF es [OF that(2)]] that(3)] that(2) by (simp only:)
  have "set (filter ?P rows) = set es"
  proof
    show "set es \<subseteq> set (filter ?P rows)" using es by auto
    show "set (filter ?P rows) \<subseteq> set es"
    proof
      fix e assume "e \<in> set (filter ?P rows)"
      then obtain f where "e \<in> set rows" "f \<in> set es" "o_event_id e = o_event_id f" by auto
      then show "e \<in> set es" by (rule same)
    qed
  qed
  moreover have "distinct (filter ?P rows)" "distinct es"
    using d candidates_distinct [OF d] by (auto simp: es_def distinct_map)
  ultimately show ?thesis unfolding tbl_count_def by (metis distinct_card)
qed

lemma claim_succeeds:
  assumes "db_wf d" "0 < limit" "0 < lease"
    and att: "list_all (\<lambda>e. o_attempts e \<noteq> - 1) (candidates now locked limit (outbox d))"
  shows "\<exists>d'. claim_pending locked now limit lease d = Inr (candidates now locked limit (outbox d), d')"
proof (cases "candidates now locked limit (outbox d) = []")
  case False
  let ?es = "candidates now locked limit (outbox d)"
  have "\<forall>r\<in>set (outbox d). pending r \<longrightarrow> check_outbox (leased (now + lease) r)"
    using assms(1) by (auto simp: db_wf_defs list_all_iff intro: leased_check)
  moreover have "distinct (map o_event_id (outbox d))" using assms(1) by (simp add: db_wf_defs)
  ultimately show ?thesis
    using assms(2-) False unfolding claim_pending_Inr update_outbox_Inr candidates_count [OF \<open>distinct (map o_event_id (outbox d))\<close> refl]
    by (intro exI) auto
qed (use assms in \<open>auto simp: claim_pending_Inr\<close>)

lemma undisturbed_round:
  assumes u: "undisturbed se env" and wf: "db_wf (w_db w)"
    and cfg: "0 < cfg_batch_size cfg" "0 < cfg_lease_duration cfg"
  defines "es \<equiv> candidates (re_now env 0) (se_locked se 0) (cfg_batch_size cfg) (outbox (w_db w))"
  assumes att: "list_all (\<lambda>e. o_attempts e \<noteq> - 1) es"
  shows "\<exists>w'. process_once (gorm_outbox se) (kafka_publish se) cfg env w = (map (logged se) es, w') \<and>
    w_sent w' = w_sent w @ map event_content (filter (accepted se) es) \<and>
    settled_rows se es (outbox (w_db w)) (outbox (w_db w'))"
proof -
  let ?now = "re_now env 0" and ?lease = "cfg_lease_duration cfg" and ?rows = "outbox (w_db w)"
  obtain d where c: "claim_pending (se_locked se 0) ?now (cfg_batch_size cfg) ?lease (w_db w) = Inr (es, d)"
    using claim_succeeds [OF wf cfg] att unfolding es_def by blast
  have d: "outbox d = tbl_update (\<lambda>e. List.member (map o_event_id es) (o_event_id e) \<and> pending e) (leased (?now + ?lease)) ?rows"
    using claim_pending_update [OF c] by simp
  have dist: "distinct (map o_event_id es)"
    using candidates_distinct wf by (simp add: es_def db_wf_defs)
  have rows: "\<exists>x\<in>set (outbox d). pending x \<and> event_content x = event_content e" if e: "e \<in> set es" for e
  proof
    have "e \<in> set ?rows \<and> pending e" using set_candidates e by (auto simp: es_def claimable_def due_def)
    then show "leased (?now + ?lease) e \<in> set (outbox d)" using e by (auto simp: d set_tbl_update)
    show "pending (leased (?now + ?lease) e) \<and> event_content (leased (?now + ?lease) e) = event_content e"
      using \<open>e \<in> set ?rows \<and> pending e\<close> by (simp add: pending_def)
  qed
  have wf': "db_wf (w_db (w\<lparr>w_db := d\<rparr>))" using claim_pending_keeps(1) [OF c wf] by simp
  obtain w' where w': "relay_events (gorm_outbox se) (kafka_publish se) cfg env 1 es (w\<lparr>w_db := d\<rparr>) = (map (logged se) es, w')"
    "w_sent w' = w_sent w @ map event_content (filter (accepted se) es)" "settled_rows se es (outbox d) (outbox (w_db w'))"
    using deliver_all [OF u wf' dist, of cfg 1] rows by auto
  have "process_once (gorm_outbox se) (kafka_publish se) cfg env w = (map (logged se) es, w')"
    using u w'(1) c by (simp add: process_once_def undisturbed_def gorm_outbox_def on_db_def run_tx_def)
  moreover have "settled_rows se es ?rows (outbox (w_db w'))"
    using w'(3) unfolding settled_rows_def d
    by (auto simp: tbl_update_def list_all2_map1 final_state_def accepted_content [OF content_of_marks(1)]
        elim!: list_all2_mono)
  ultimately show ?thesis using w'(2) by blast
qed

end
