(* ===== verification/Lease.thy ===== *)
theory Lease
  imports ClaimService
begin

text \<open>
  The two leases over Redis: the claim lease of a batch (\<open>internal/lease/redis.go\<close>) and the leadership of the
  outbox relay (\<open>internal/outbox/lease.go\<close>).  Both set a key to a fresh token when the key is free, and
  renew or delete it by a script that first compares the token.  The server is a parameter, a record of the
  four commands the code uses; \<open>redis_laws\<close> is what the Redis documentation says of them.  A request or its
  reply may be lost.  The locale \<open>lease_service\<close> states what a client may rely on, and gives mutual
  exclusion: at no instant do two holders both believe in their lease.
\<close>

section \<open>The server\<close>

text \<open>Commands take the server's time in milliseconds, a time to live too.\<close>

record 's redis =
  rd_get :: "int \<Rightarrow> string \<Rightarrow> 's \<Rightarrow> string option"
  rd_set_nx :: "int \<Rightarrow> string \<Rightarrow> string \<Rightarrow> int \<Rightarrow> 's \<Rightarrow> bool \<times> 's"
  rd_pexpire :: "int \<Rightarrow> string \<Rightarrow> int \<Rightarrow> 's \<Rightarrow> int \<times> 's"
  rd_del :: "int \<Rightarrow> string \<Rightarrow> 's \<Rightarrow> int \<times> 's"

text \<open>A key that is set with a time to live is there until that time has passed, and then is not.\<close>

definition lives_until :: "'s redis \<Rightarrow> int \<Rightarrow> int \<Rightarrow> string \<Rightarrow> string \<Rightarrow> 's \<Rightarrow> bool" where
  "lives_until srv now deadline key v s \<longleftrightarrow>
     (\<forall>t\<ge>now. rd_get srv t key s = (if t < deadline then Some v else None))"

definition redis_laws :: "'s redis \<Rightarrow> bool" where
  "redis_laws srv \<longleftrightarrow>
     (\<forall>now key v ttl s. 0 < ttl \<longrightarrow> rd_get srv now key s = None \<longrightarrow>
        fst (rd_set_nx srv now key v ttl s) \<and> lives_until srv now (now + ttl) key v (snd (rd_set_nx srv now key v ttl s))) \<and>
     (\<forall>now key v ttl s. rd_get srv now key s \<noteq> None \<longrightarrow> rd_set_nx srv now key v ttl s = (False, s)) \<and>
     (\<forall>now key v ttl s. 0 < ttl \<longrightarrow> rd_get srv now key s = Some v \<longrightarrow>
        fst (rd_pexpire srv now key ttl s) = 1 \<and> lives_until srv now (now + ttl) key v (snd (rd_pexpire srv now key ttl s))) \<and>
     (\<forall>now t key s. rd_get srv now key s \<noteq> None \<longrightarrow> now \<le> t \<longrightarrow> rd_get srv t key (snd (rd_del srv now key s)) = None) \<and>
     (\<forall>now t key v s. now \<le> t \<longrightarrow> rd_get srv t key s = Some v \<longrightarrow> rd_get srv now key s = Some v)"

lemma redis_set:
  assumes "redis_laws srv" "0 < ttl" "rd_get srv now key s = None" "rd_set_nx srv now key v ttl s = (ok, s')"
  shows "ok" "lives_until srv now (now + ttl) key v s'"
proof -
  note assms(1) [unfolded redis_laws_def, THEN conjunct1, rule_format, OF assms(2,3), of v]
  then show "ok" "lives_until srv now (now + ttl) key v s'" by (simp_all add: assms(4))
qed

lemma redis_set_taken:
  "redis_laws srv \<Longrightarrow> rd_get srv now key s = Some u \<Longrightarrow> rd_set_nx srv now key v ttl s = (False, s)"
  unfolding redis_laws_def by (metis option.distinct(1))

lemma redis_expire:
  assumes "redis_laws srv" "0 < ttl" "rd_get srv now key s = Some v" "rd_pexpire srv now key ttl s = (n, s')"
  shows "n = 1" "lives_until srv now (now + ttl) key v s'"
proof -
  note assms(1) [unfolded redis_laws_def, THEN conjunct2, THEN conjunct2, THEN conjunct1, rule_format, OF assms(2,3)]
  then show "n = 1" "lives_until srv now (now + ttl) key v s'" by (simp_all add: assms(4))
qed

lemma redis_fades:
  "redis_laws srv \<Longrightarrow> now \<le> t \<Longrightarrow> rd_get srv t key s = Some v \<Longrightarrow> rd_get srv now key s = Some v"
  unfolding redis_laws_def by blast

text \<open>The scripts run atomically on the server.\<close>

definition renew_script :: "'s redis \<Rightarrow> string \<Rightarrow> string \<Rightarrow> int \<Rightarrow> int \<Rightarrow> 's \<Rightarrow> int \<times> 's" where
  "renew_script srv key token ttl now s =
     (if rd_get srv now key s = Some token then rd_pexpire srv now key ttl s else (0, s))"

definition release_script :: "'s redis \<Rightarrow> string \<Rightarrow> string \<Rightarrow> int \<Rightarrow> 's \<Rightarrow> int \<times> 's" where
  "release_script srv key token now s =
     (if rd_get srv now key s = Some token then rd_del srv now key s else (0, s))"

text \<open>What a client sees of a command: its reply, or that the request or the reply was lost.\<close>

datatype link = LinkUp | RequestDropped string | ReplyDropped string

fun over_link :: "link \<Rightarrow> ('s \<Rightarrow> 'a \<times> 's) \<Rightarrow> 's \<Rightarrow> (string + 'a) \<times> 's" where
  "over_link LinkUp m s = (case m s of (a, s') \<Rightarrow> (Inr a, s'))"
| "over_link (RequestDropped e) m s = (Inl e, s)"
| "over_link (ReplyDropped e) m s = (Inl e, snd (m s))"

definition milliseconds :: "int \<Rightarrow> int" where
  "milliseconds d = d div 1000000"

section \<open>The claim lease\<close>

datatype lease_error = LeaseErrBusy | LeaseErrUnavailable string | LeaseErrLost

record batch_lease =
  bl_prefix :: string
  bl_ttl :: int
  bl_acquire_timeout :: int

definition new_redis_batch_lease :: "int \<Rightarrow> int \<Rightarrow> batch_lease" where
  "new_redis_batch_lease ttl acquire_timeout =
     \<lparr>bl_prefix = ''ewaste:claim:lock:'', bl_ttl = ttl, bl_acquire_timeout = acquire_timeout\<rparr>"

record lease_handle =
  lh_key :: string
  lh_token :: string
  lh_ttl :: int

definition batch_acquire ::
  "'s redis \<Rightarrow> link \<Rightarrow> batch_lease \<Rightarrow> string \<Rightarrow> string \<Rightarrow> int \<Rightarrow> 's \<Rightarrow> (lease_error + lease_handle) \<times> 's"
where
  "batch_acquire srv link l batch_id token now s =
     (if bl_ttl l \<le> 0 \<or> bl_acquire_timeout l \<le> 0 then (Inl (LeaseErrUnavailable []), s)
      else
        let key = bl_prefix l @ batch_id in
        case over_link link (rd_set_nx srv now key token (milliseconds (bl_ttl l))) s of
          (Inl e, s') \<Rightarrow> (Inl (LeaseErrUnavailable e), s')
        | (Inr False, s') \<Rightarrow> (Inl LeaseErrBusy, s')
        | (Inr True, s') \<Rightarrow> (Inr \<lparr>lh_key = key, lh_token = token, lh_ttl = bl_ttl l\<rparr>, s'))"

definition renew_interval :: "int \<Rightarrow> int" where
  "renew_interval ttl =
     (if ttl \<le> 0 then second else if ttl div 3 \<le> 0 then 1000000 else ttl div 3)"

definition batch_renew :: "'s redis \<Rightarrow> link \<Rightarrow> lease_handle \<Rightarrow> int \<Rightarrow> 's \<Rightarrow> (lease_error + unit) \<times> 's" where
  "batch_renew srv link h now s =
     (if lh_ttl h \<le> 0 then (Inl (LeaseErrUnavailable []), s)
      else case over_link link (renew_script srv (lh_key h) (lh_token h) (milliseconds (lh_ttl h)) now) s of
          (Inl e, s') \<Rightarrow> (Inl (LeaseErrUnavailable e), s')
        | (Inr n, s') \<Rightarrow> (if n = 1 then Inr () else Inl LeaseErrLost, s'))"

definition batch_release :: "'s redis \<Rightarrow> link \<Rightarrow> lease_handle \<Rightarrow> int \<Rightarrow> 's \<Rightarrow> (string + unit) \<times> 's" where
  "batch_release srv link h now s =
     (case over_link link (release_script srv (lh_key h) (lh_token h) now) s of
        (Inl e, s') \<Rightarrow> (Inl e, s') | (Inr _, s') \<Rightarrow> (Inr (), s'))"

text \<open>How \<open>Claim\<close> reads the answer of \<open>Acquire\<close>; what becomes of a held lease is \<open>renewal\<close>.\<close>

definition claim_lease_outcome :: "lease_error + lease_handle \<Rightarrow> renewal \<Rightarrow> lease_outcome" where
  "claim_lease_outcome r ren =
     (case r of Inl LeaseErrBusy \<Rightarrow> LeaseBusy | Inl _ \<Rightarrow> LeaseUnavailable | Inr _ \<Rightarrow> LeaseHeld ren)"

section \<open>The leadership of the relay\<close>

definition leader_acquire ::
  "'s redis \<Rightarrow> link \<Rightarrow> string \<Rightarrow> int \<Rightarrow> string \<Rightarrow> int \<Rightarrow> 's \<Rightarrow> (string + lease_handle option) \<times> 's"
where
  "leader_acquire srv link key ttl token now s =
     (if ttl \<le> 0 then (Inl ''outbox leader lease ttl must be positive'', s)
      else case over_link link (rd_set_nx srv now key token (milliseconds ttl)) s of
          (Inl e, s') \<Rightarrow> (Inl e, s')
        | (Inr False, s') \<Rightarrow> (Inr None, s')
        | (Inr True, s') \<Rightarrow> (Inr (Some \<lparr>lh_key = key, lh_token = token, lh_ttl = ttl\<rparr>), s'))"

definition leader_renew :: "'s redis \<Rightarrow> link \<Rightarrow> lease_handle \<Rightarrow> int \<Rightarrow> int \<Rightarrow> 's \<Rightarrow> (string + unit) \<times> 's" where
  "leader_renew srv link h ttl now s =
     (case over_link link (renew_script srv (lh_key h) (lh_token h) (milliseconds ttl) now) s of
        (Inl e, s') \<Rightarrow> (Inl e, s')
      | (Inr n, s') \<Rightarrow> (if n \<noteq> 1 then Inl ''outbox leader lease was lost'' else Inr (), s'))"

definition leader_release :: "'s redis \<Rightarrow> link \<Rightarrow> lease_handle \<Rightarrow> int \<Rightarrow> 's \<Rightarrow> (string + unit) \<times> 's" where
  "leader_release srv link h now s =
     (case over_link link (release_script srv (lh_key h) (lh_token h) now) s of
        (Inl e, s') \<Rightarrow> (Inl e, s') | (Inr _, s') \<Rightarrow> (Inr (), s'))"

section \<open>Mutual exclusion\<close>

text \<open>
  The clients of one lease: the time, the server, and for each token until when its holder relies on it.
  A failed renewal ends the reliance, and so does a release, whatever becomes of its request.
\<close>

record 's clients =
  cs_now :: int
  cs_server :: 's
  cs_until :: "string \<Rightarrow> int option"

text \<open>
  \<open>acquire\<close>, \<open>renew\<close> and \<open>release\<close> are the calls of an implementation over a link with a given token; the
  flag says whether the caller now holds the lease.  Nobody relies on the token of an acquisition yet.
\<close>

inductive lease_step ::
  "(link \<Rightarrow> string \<Rightarrow> int \<Rightarrow> 's \<Rightarrow> bool \<times> 's) \<Rightarrow> (link \<Rightarrow> string \<Rightarrow> int \<Rightarrow> 's \<Rightarrow> bool \<times> 's) \<Rightarrow>
   (link \<Rightarrow> string \<Rightarrow> int \<Rightarrow> 's \<Rightarrow> 's) \<Rightarrow> int \<Rightarrow> 's clients \<Rightarrow> 's clients \<Rightarrow> bool"
  for acquire renew release ttl
where
  lease_tick: "cs_now c \<le> t \<Longrightarrow> lease_step acquire renew release ttl c (c\<lparr>cs_now := t\<rparr>)"
| lease_acquire: "acquire l token (cs_now c) (cs_server c) = (ok, s') \<Longrightarrow> cs_until c token = None \<Longrightarrow>
    lease_step acquire renew release ttl c
      (c\<lparr>cs_server := s', cs_until := (if ok then (cs_until c)(token \<mapsto> cs_now c + ttl) else cs_until c)\<rparr>)"
| lease_renew: "renew l token (cs_now c) (cs_server c) = (ok, s') \<Longrightarrow> cs_until c token \<noteq> None \<Longrightarrow>
    lease_step acquire renew release ttl c
      (c\<lparr>cs_server := s', cs_until := (cs_until c)(token := if ok then Some (cs_now c + ttl) else None)\<rparr>)"
| lease_release: "release l token (cs_now c) (cs_server c) = s' \<Longrightarrow>
    lease_step acquire renew release ttl c (c\<lparr>cs_server := s', cs_until := (cs_until c)(token := None)\<rparr>)"

text \<open>The token has the lease in the server at every instant at which its holder relies on it.\<close>

definition leases_sound :: "(int \<Rightarrow> 's \<Rightarrow> string option) \<Rightarrow> 's clients \<Rightarrow> bool" where
  "leases_sound owner c \<longleftrightarrow>
     (\<forall>token u t. cs_until c token = Some u \<longrightarrow> cs_now c \<le> t \<longrightarrow> t < u \<longrightarrow> owner t (cs_server c) = Some token)"

locale lease_service =
  fixes acquire :: "'v \<Rightarrow> link \<Rightarrow> string \<Rightarrow> int \<Rightarrow> 's \<Rightarrow> bool \<times> 's" and renew :: "'v \<Rightarrow> link \<Rightarrow> string \<Rightarrow> int \<Rightarrow> 's \<Rightarrow> bool \<times> 's"
    and release :: "'v \<Rightarrow> link \<Rightarrow> string \<Rightarrow> int \<Rightarrow> 's \<Rightarrow> 's" and owner :: "'v \<Rightarrow> int \<Rightarrow> 's \<Rightarrow> string option"
    and ttl :: "'v \<Rightarrow> int" and lawful :: "'v \<Rightarrow> bool"
  assumes acquire_free: "lawful v \<Longrightarrow> acquire v l token now s = (ok, s') \<Longrightarrow> owner v now s = None \<Longrightarrow>
      ok \<longrightarrow> (\<forall>t. now \<le> t \<longrightarrow> t < now + ttl v \<longrightarrow> owner v t s' = Some token)"
    and acquire_taken: "lawful v \<Longrightarrow> acquire v l token now s = (ok, s') \<Longrightarrow> owner v now s = Some u \<Longrightarrow> \<not> ok \<and> s' = s"
    and renew_own: "lawful v \<Longrightarrow> renew v l token now s = (ok, s') \<Longrightarrow> owner v now s = Some token \<Longrightarrow>
      ok \<longrightarrow> (\<forall>t. now \<le> t \<longrightarrow> t < now + ttl v \<longrightarrow> owner v t s' = Some token)"
    and renew_other: "lawful v \<Longrightarrow> renew v l token now s = (ok, s') \<Longrightarrow> owner v now s \<noteq> Some token \<Longrightarrow> \<not> ok \<and> s' = s"
    and release_other: "lawful v \<Longrightarrow> owner v now s \<noteq> Some token \<Longrightarrow> release v l token now s = s"
    and fades: "lawful v \<Longrightarrow> now \<le> t \<Longrightarrow> owner v t s = Some token \<Longrightarrow> owner v now s = Some token"
begin

lemma sound_step:
  assumes v: "lawful v" and s: "lease_step (acquire v) (renew v) (release v) (ttl v) c c'" and i: "leases_sound (owner v) c"
  shows "leases_sound (owner v) c'"
  using s
proof cases
  case (lease_tick t)
  then show ?thesis using i by (auto simp: leases_sound_def)
next
  case (lease_acquire l token ok s')
  show ?thesis
  proof (cases "owner v (cs_now c) (cs_server c)")
    case (Some u)
    then show ?thesis using acquire_taken [OF v lease_acquire(2) Some] i lease_acquire(1) by (auto simp: leases_sound_def)
  next
    case None
    have none: "u \<le> cs_now c" if "cs_until c x = Some u" for x u
      using i that None by (force simp: leases_sound_def)
    show ?thesis
      unfolding leases_sound_def
    proof (intro allI impI)
      fix x u t assume x: "cs_until c' x = Some u" "cs_now c' \<le> t" "t < u"
      then have "ok \<and> x = token \<and> u = cs_now c + ttl v"
        using lease_acquire(1) none [of x u] by (auto split: if_splits)
      then show "owner v t (cs_server c') = Some x"
        using acquire_free [OF v lease_acquire(2) None] x lease_acquire(1) by auto
    qed
  qed
next
  case (lease_renew l token ok s')
  show ?thesis
  proof (cases "owner v (cs_now c) (cs_server c) = Some token")
    case False
    then show ?thesis using renew_other [OF v lease_renew(2) False] i lease_renew(1) by (auto simp: leases_sound_def)
  next
    case True
    have none: "u \<le> cs_now c" if "cs_until c x = Some u" "x \<noteq> token" for x u
      using i that True by (force simp: leases_sound_def)
    show ?thesis
      unfolding leases_sound_def
    proof (intro allI impI)
      fix x u t assume x: "cs_until c' x = Some u" "cs_now c' \<le> t" "t < u"
      then have "ok \<and> x = token \<and> u = cs_now c + ttl v"
        using lease_renew(1) none [of x u] by (auto split: if_splits)
      then show "owner v t (cs_server c') = Some x"
        using renew_own [OF v lease_renew(2) True] x lease_renew(1) by auto
    qed
  qed
next
  case (lease_release l token s')
  show ?thesis
  proof (cases "owner v (cs_now c) (cs_server c) = Some token")
    case False
    then show ?thesis using release_other [OF v False] i lease_release by (auto simp: leases_sound_def)
  next
    case True
    have "u \<le> cs_now c" if "cs_until c x = Some u" "x \<noteq> token" for x u
      using i that True by (force simp: leases_sound_def)
    then show ?thesis using lease_release by (fastforce simp: leases_sound_def)
  qed
qed

lemma sound_steps:
  assumes v: "lawful v" and s: "(lease_step (acquire v) (renew v) (release v) (ttl v))\<^sup>*\<^sup>* c c'" and i: "leases_sound (owner v) c"
  shows "leases_sound (owner v) c'"
  using s by (induction rule: rtranclp_induct) (auto intro: i sound_step [OF v])

text \<open>No two holders rely on the lease at the same time.\<close>

lemma one_holder:
  assumes "lawful v" "(lease_step (acquire v) (renew v) (release v) (ttl v))\<^sup>*\<^sup>* c c'" "cs_until c = (\<lambda>_. None)"
    and "cs_until c' x = Some u" "cs_now c' < u" "cs_until c' y = Some w" "cs_now c' < w"
  shows "x = y"
proof -
  have "leases_sound (owner v) c" using assms(3) by (simp add: leases_sound_def)
  then have s: "leases_sound (owner v) c'" by (rule sound_steps [OF assms(1,2)])
  have "owner v (cs_now c') (cs_server c') = Some x" "owner v (cs_now c') (cs_server c') = Some y"
    using s assms(4-7) unfolding leases_sound_def by blast+
  then show ?thesis by simp
qed

end

section \<open>Both leases keep the contract\<close>

record 's lease_env =
  le_server :: "'s redis"
  le_ttl :: int
  le_key :: string

text \<open>A time to live below a millisecond would reach Redis as zero.\<close>

definition lawful_lease :: "'s lease_env \<Rightarrow> bool" where
  "lawful_lease v = (redis_laws (le_server v) \<and> 0 < milliseconds (le_ttl v))"

definition env_handle :: "'s lease_env \<Rightarrow> string \<Rightarrow> lease_handle" where
  "env_handle v token = \<lparr>lh_key = le_key v, lh_token = token, lh_ttl = le_ttl v\<rparr>"

definition holds :: "'e + 'a \<Rightarrow> bool" where
  "holds r = (case r of Inl _ \<Rightarrow> False | Inr _ \<Rightarrow> True)"

definition leader_call :: "'s lease_env \<Rightarrow> link \<Rightarrow> string \<Rightarrow> int \<Rightarrow> 's \<Rightarrow> bool \<times> 's" where
  "leader_call v l token now s =
     (case leader_acquire (le_server v) l (le_key v) (le_ttl v) token now s of
        (r, s') \<Rightarrow> (case r of Inr (Some _) \<Rightarrow> True | _ \<Rightarrow> False, s'))"

definition leader_renewal :: "'s lease_env \<Rightarrow> link \<Rightarrow> string \<Rightarrow> int \<Rightarrow> 's \<Rightarrow> bool \<times> 's" where
  "leader_renewal v l token now s =
     (case leader_renew (le_server v) l (env_handle v token) (le_ttl v) now s of (r, s') \<Rightarrow> (holds r, s'))"

definition leader_end :: "'s lease_env \<Rightarrow> link \<Rightarrow> string \<Rightarrow> int \<Rightarrow> 's \<Rightarrow> 's" where
  "leader_end v l token now s = snd (leader_release (le_server v) l (env_handle v token) now s)"

text \<open>The claim lease of the batch whose key is \<open>le_key\<close>.\<close>

definition env_lease :: "'s lease_env \<Rightarrow> batch_lease" where
  "env_lease v = \<lparr>bl_prefix = le_key v, bl_ttl = le_ttl v, bl_acquire_timeout = 1\<rparr>"

definition batch_call :: "'s lease_env \<Rightarrow> link \<Rightarrow> string \<Rightarrow> int \<Rightarrow> 's \<Rightarrow> bool \<times> 's" where
  "batch_call v l token now s =
     (case batch_acquire (le_server v) l (env_lease v) [] token now s of (r, s') \<Rightarrow> (holds r, s'))"

definition batch_renewal :: "'s lease_env \<Rightarrow> link \<Rightarrow> string \<Rightarrow> int \<Rightarrow> 's \<Rightarrow> bool \<times> 's" where
  "batch_renewal v l token now s =
     (case batch_renew (le_server v) l (env_handle v token) now s of (r, s') \<Rightarrow> (holds r, s'))"

definition batch_end :: "'s lease_env \<Rightarrow> link \<Rightarrow> string \<Rightarrow> int \<Rightarrow> 's \<Rightarrow> 's" where
  "batch_end v l token now s = snd (batch_release (le_server v) l (env_handle v token) now s)"

definition key_owner :: "'s lease_env \<Rightarrow> int \<Rightarrow> 's \<Rightarrow> string option" where
  "key_owner v t s = rd_get (le_server v) t (le_key v) s"

definition lease_ms :: "'s lease_env \<Rightarrow> int" where
  "lease_ms v = milliseconds (le_ttl v)"

lemma over_link_Inr: "over_link l m s = (Inr a, s') \<longleftrightarrow> l = LinkUp \<and> m s = (a, s')"
  by (cases l) (auto split: prod.splits)

lemma over_link_same: "snd (m s) = s \<Longrightarrow> snd (over_link l m s) = s"
  by (cases l) (auto split: prod.splits)

lemma leader_call_eq:
  assumes "lawful_lease v"
  shows "leader_call v l token now s =
    (case over_link l (rd_set_nx (le_server v) now (le_key v) token (lease_ms v)) s of
       (r, s') \<Rightarrow> (r = Inr True, s'))"
  using assms
  by (auto simp: lawful_lease_def milliseconds_def leader_call_def leader_acquire_def lease_ms_def
      split: sum.splits prod.splits bool.splits)

lemma batch_call_eq:
  assumes "lawful_lease v"
  shows "batch_call v l token now s = leader_call v l token now s"
  unfolding leader_call_eq [OF assms]
  using assms
  by (auto simp: lawful_lease_def milliseconds_def batch_call_def batch_acquire_def env_lease_def holds_def lease_ms_def Let_def
      split: sum.splits prod.splits bool.splits)

lemma leader_renewal_eq:
  "leader_renewal v l token now s =
    (case over_link l (renew_script (le_server v) (le_key v) token (lease_ms v) now) s of
       (r, s') \<Rightarrow> (r = Inr 1, s'))"
  by (auto simp: leader_renewal_def leader_renew_def env_handle_def holds_def lease_ms_def split: sum.splits prod.splits)

lemma batch_renewal_eq: "lawful_lease v \<Longrightarrow> batch_renewal v l token now s = leader_renewal v l token now s"
  unfolding leader_renewal_eq
  by (auto simp: lawful_lease_def milliseconds_def batch_renewal_def batch_renew_def env_handle_def holds_def lease_ms_def
      split: sum.splits prod.splits)

lemma batch_end_eq: "batch_end v l token now s = leader_end v l token now s"
  by (auto simp: batch_end_def leader_end_def batch_release_def leader_release_def split: sum.splits prod.splits)

lemma leader_end_eq:
  "leader_end v l token now s =
     snd (over_link l (release_script (le_server v) (le_key v) token now) s)"
  by (auto simp: leader_end_def leader_release_def env_handle_def split: sum.splits prod.splits)

interpretation leadership: lease_service leader_call leader_renewal leader_end key_owner lease_ms lawful_lease
proof
  fix v :: "'s lease_env" and l token now s ok s' u
  assume v: "lawful_lease v"
  then have r: "redis_laws (le_server v)" and pos: "0 < lease_ms v" by (simp_all add: lawful_lease_def lease_ms_def)
  show "leader_call v l token now s = (ok, s') \<Longrightarrow> key_owner v now s = None \<Longrightarrow>
      ok \<longrightarrow> (\<forall>t. now \<le> t \<longrightarrow> t < now + lease_ms v \<longrightarrow> key_owner v t s' = Some token)"
    unfolding leader_call_eq [OF v] key_owner_def
    by (auto simp: over_link_Inr lives_until_def dest: redis_set(2) [OF r pos] split: prod.splits)
  show "leader_call v l token now s = (ok, s') \<Longrightarrow> key_owner v now s = Some u \<Longrightarrow> \<not> ok \<and> s' = s"
    unfolding leader_call_eq [OF v] key_owner_def
    using redis_set_taken [OF r, of now "le_key v" s u token "lease_ms v"]
    by (cases "l") auto
  show "leader_renewal v l token now s = (ok, s') \<Longrightarrow> key_owner v now s = Some token \<Longrightarrow>
      ok \<longrightarrow> (\<forall>t. now \<le> t \<longrightarrow> t < now + lease_ms v \<longrightarrow> key_owner v t s' = Some token)"
    unfolding leader_renewal_eq key_owner_def
    using redis_expire(2) [OF r pos, of now "le_key v" s token 1 s']
    by (auto simp: over_link_Inr renew_script_def lives_until_def split: prod.splits)
  show "leader_renewal v l token now s = (ok, s') \<Longrightarrow> key_owner v now s \<noteq> Some token \<Longrightarrow> \<not> ok \<and> s' = s"
    unfolding leader_renewal_eq key_owner_def
    by (cases "l") (auto simp: renew_script_def)
  show "key_owner v now s \<noteq> Some token \<Longrightarrow> leader_end v l token now s = s"
    unfolding leader_end_eq key_owner_def by (rule over_link_same) (simp add: release_script_def)
  show "now \<le> t \<Longrightarrow> key_owner v t s = Some token \<Longrightarrow> key_owner v now s = Some token" for t
    unfolding key_owner_def by (rule redis_fades [OF r])
qed

interpretation claim_lease: lease_service batch_call batch_renewal batch_end key_owner lease_ms lawful_lease
proof
  fix v :: "'s lease_env" and l token now s ok s' u
  assume v: "lawful_lease v"
  note eqs = batch_call_eq [OF v] batch_renewal_eq [OF v] batch_end_eq
  show "batch_call v l token now s = (ok, s') \<Longrightarrow> key_owner v now s = None \<Longrightarrow>
      ok \<longrightarrow> (\<forall>t. now \<le> t \<longrightarrow> t < now + lease_ms v \<longrightarrow> key_owner v t s' = Some token)"
    unfolding eqs by (rule leadership.acquire_free [OF v])
  show "batch_call v l token now s = (ok, s') \<Longrightarrow> key_owner v now s = Some u \<Longrightarrow> \<not> ok \<and> s' = s"
    unfolding eqs by (rule leadership.acquire_taken [OF v])
  show "batch_renewal v l token now s = (ok, s') \<Longrightarrow> key_owner v now s = Some token \<Longrightarrow>
      ok \<longrightarrow> (\<forall>t. now \<le> t \<longrightarrow> t < now + lease_ms v \<longrightarrow> key_owner v t s' = Some token)"
    unfolding eqs by (rule leadership.renew_own [OF v])
  show "batch_renewal v l token now s = (ok, s') \<Longrightarrow> key_owner v now s \<noteq> Some token \<Longrightarrow> \<not> ok \<and> s' = s"
    unfolding eqs by (rule leadership.renew_other [OF v])
  show "key_owner v now s \<noteq> Some token \<Longrightarrow> batch_end v l token now s = s"
    unfolding eqs by (rule leadership.release_other [OF v])
  show "now \<le> t \<Longrightarrow> key_owner v t s = Some token \<Longrightarrow> key_owner v now s = Some token" for t
    by (rule leadership.fades [OF v])
qed

section \<open>Renewal in time\<close>

text \<open>
  A holder renews at a third of the time to live.  For a time to live of at least three nanoseconds two
  renewals fit in before the lease expires; below that the interval is a millisecond, longer than the lease.
\<close>

lemma renew_interval_positive: "0 < renew_interval ttl"
  by (simp add: renew_interval_def second_def)

lemma renew_interval_in_time: "3 \<le> ttl \<Longrightarrow> 3 * renew_interval ttl \<le> ttl"
  by (auto simp: renew_interval_def)

section \<open>A server\<close>

text \<open>A map from keys to a value and its deadline satisfies the laws.\<close>

definition memory_redis :: "(string \<Rightarrow> (string \<times> int) option) redis" where
  "memory_redis =
     (let get = (\<lambda>now key s. case s key of None \<Rightarrow> None | Some (v, deadline) \<Rightarrow> if now < deadline then Some v else None) in
     \<lparr>rd_get = get,
      rd_set_nx = (\<lambda>now key v ttl s. if get now key s = None then (True, s(key \<mapsto> (v, now + ttl))) else (False, s)),
      rd_pexpire = (\<lambda>now key ttl s. case get now key s of None \<Rightarrow> (0, s) | Some v \<Rightarrow> (1, s(key \<mapsto> (v, now + ttl)))),
      rd_del = (\<lambda>now key s. case get now key s of None \<Rightarrow> (0, s) | Some v \<Rightarrow> (1, s(key := None)))\<rparr>)"

lemma memory_redis_laws: "redis_laws memory_redis"
  unfolding redis_laws_def lives_until_def memory_redis_def Let_def
  by (auto split: option.splits if_splits)

end
