(* ===== verification/Samples.thy ===== *)
theory Samples
  imports Platform
begin

text \<open>
  A concrete tenant and one batch at every stage of its life, on which the properties are applied.
  \<open>sample_db\<close> holds a donor, a recycler with one capacity pool and a collector; \<open>sample_text\<close> stands
  for the digest of a document.
\<close>

fun sample_text :: "json \<Rightarrow> string" and sample_texts :: "json list \<Rightarrow> string"
  and sample_members :: "(string \<times> json) list \<Rightarrow> string"
where
  "sample_text JNull = ''n''"
| "sample_text (JBool b) = (if b then ''t'' else ''f'')"
| "sample_text (JInt i) = show_int i"
| "sample_text (JRat q) = format_float2 q"
| "sample_text (JStr s) = s"
| "sample_text (JTime t) = ''@''"
| "sample_text (JStamp t) = ''@''"
| "sample_text (JArr js) = sample_texts js"
| "sample_text (JObj fs) = sample_members fs"
| "sample_texts [] = []"
| "sample_texts (j # js) = sample_text j @ CHR '','' # sample_texts js"
| "sample_members [] = []"
| "sample_members ((k, j) # fs) = sample_text j @ CHR '','' # sample_members fs"

definition sample_now :: int where "sample_now = 1800000000 * second"

definition sample_env :: "string \<Rightarrow> call_env" where
  "sample_env call =
     \<lparr>env_id = (\<lambda>i. call @ CHR ''-'' # show_nat i), env_clock = (\<lambda>i. sample_now), env_auto_now = sample_now,
      env_db_now = sample_now, env_sha256 = sample_text, env_others = (\<lambda>i d. d)\<rparr>"

definition sample_metadata :: "string \<Rightarrow> string \<Rightarrow> string \<Rightarrow> int \<Rightarrow> metadata" where
  "sample_metadata user organisation role version =
     \<lparr>md_actor = \<lparr>act_user_id = user, act_organisation_id = organisation, act_role_code = role\<rparr>,
      md_correlation_id = ''corr'', md_actor_scope = [], md_command_name = [],
      md_idempotency_key = ''key-0123456789abcdef'', md_request_hash = [], md_expected_version = version\<rparr>"

definition donor :: "int \<Rightarrow> metadata" where "donor = sample_metadata ''dan'' ''school'' ''donor''"
definition recycler :: "int \<Rightarrow> metadata" where "recycler = sample_metadata ''rita'' ''plant'' '' RECYCLER''"
definition collector :: "int \<Rightarrow> metadata" where "collector = sample_metadata ''carl'' ''vans'' ''COLLECTOR''"

definition sample_db :: db where
  "sample_db = empty_db
     \<lparr>users := [\<lparr>u_id = ''dan'', u_role_code = ''DONOR'', u_organisation_id = ''school'', u_status = ''ACTIVE''\<rparr>,
                \<lparr>u_id = ''rita'', u_role_code = ''RECYCLER'', u_organisation_id = ''plant'', u_status = ''ACTIVE''\<rparr>,
                \<lparr>u_id = ''carl'', u_role_code = ''COLLECTOR'', u_organisation_id = ''vans'', u_status = ''ACTIVE''\<rparr>],
      roles := [\<lparr>ro_code = ''DONOR'', ro_allowed_type = ''DONOR'', ro_active = True\<rparr>,
                \<lparr>ro_code = ''RECYCLER'', ro_allowed_type = ''PROCESSING_FACILITY'', ro_active = True\<rparr>,
                \<lparr>ro_code = ''COLLECTOR'', ro_allowed_type = ''COLLECTION_OPERATOR'', ro_active = True\<rparr>],
      organisations := [\<lparr>org_id = ''school'', org_type = ''DONOR'', org_status = ''ACTIVE''\<rparr>,
                \<lparr>org_id = ''plant'', org_type = ''PROCESSING_FACILITY'', org_status = ''ACTIVE''\<rparr>,
                \<lparr>org_id = ''vans'', org_type = ''COLLECTION_OPERATOR'', org_status = ''ACTIVE''\<rparr>],
      scopes := [\<lparr>s_id = ''scope'', s_recycler_org_id = ''plant'', s_collector_org_id = ''vans'', s_zone = ''CENTRAL'',
                  s_active = True, s_version = 1, s_valid_from = 0, s_valid_until = None\<rparr>],
      pools := [\<lparr>p_id = ''pool'', p_recycler_org_id = ''plant'', p_total = 100000, p_reserved = 0, p_active = True,
                 p_version = 1, p_updated_at = 0\<rparr>],
      profiles := [\<lparr>pf_recycler_org_id = ''plant'', pf_active = True\<rparr>],
      capabilities := [\<lparr>cp_recycler_org_id = ''plant'', cp_category = ''BATTERIES'', cp_conditions = [''FUNCTIONAL'', ''END_OF_LIFE''],
                 cp_data_bearing = True, cp_active = True, cp_pool_id = ''pool''\<rparr>],
      zones := [\<lparr>z_recycler_org_id = ''plant'', z_zone = ''CENTRAL'', z_lead_minutes = 60, z_active = True\<rparr>]\<rparr>"

definition sample_draft :: draft_request where
  "sample_draft =
     \<lparr>dr_category = Some '' batteries'', dr_quantity = Some 10, dr_weight = Some (125 / 10),
      dr_condition = Some ''functional'', dr_data_bearing = Some False, dr_zone = Some ''central'',
      dr_deadline = Some (sample_now + 240 * hour), dr_notes = None\<rparr>"

section \<open>One batch at every stage\<close>

text \<open>
  \<open>sample_state st v\<close> is the database with the batch \<open>''b1''\<close> in status \<open>st\<close> at version \<open>v\<close>, and the
  claim, the assignment and the receipt that this status requires.
\<close>

definition sample_batch :: "batch_status \<Rightarrow> 32 word \<Rightarrow> batch" where
  "sample_batch st v =
     \<lparr>b_id = ''b1'', b_organization_id = ''school'', b_created_by = ''dan'', b_status = st,
      b_category = Some ''BATTERIES'', b_quantity = Some 10, b_weight = Some ''12.50'',
      b_condition = Some ''FUNCTIONAL'', b_data_bearing = False, b_zone = Some ''CENTRAL'',
      b_deadline = Some (sample_now + 240 * hour), b_notes = None, b_claim_epoch = 1,
      b_claim_id = (if unclaimed st then None else Some ''c1''),
      b_assignment_id = (if unassigned st then None else Some ''a1''), b_collector_scope_id = None,
      b_version = v, b_submitted_at = (if st = BatchStatusDraft then None else Some (sample_now - hour)),
      b_created_at = sample_now - 2 * hour, b_updated_at = sample_now - hour\<rparr>"

definition sample_claim :: claim where
  "sample_claim =
     \<lparr>cl_id = ''c1'', cl_batch_id = ''b1'', cl_epoch = 1, cl_recycler_org_id = ''plant'', cl_claimed_by = ''rita'',
      cl_status = ''ACCEPTED'', cl_idempotency_key = ''earlier-key-0001'', cl_claimed_at = sample_now - hour,
      cl_superseded_at = None, cl_notes = None, cl_created_at = sample_now - hour\<rparr>"

definition sample_reservation :: reservation where
  "sample_reservation =
     \<lparr>r_id = ''r1'', r_batch_id = ''b1'', r_claim_id = ''c1'', r_pool_id = ''pool'', r_reserved_kg = ''12.50'',
      r_status = ''RESERVED'', r_reserved_at = sample_now - hour, r_released_at = None, r_release_reason = None,
      r_release_command_id = None, r_version = 1\<rparr>"

definition sample_assignment :: "assignment_status \<Rightarrow> assignment" where
  "sample_assignment st =
     \<lparr>a_id = ''a1'', a_batch_id = ''b1'', a_claim_id = ''c1'', a_recycler_org_id = ''plant'',
      a_collector_org_id = ''vans'', a_collector_user_id = ''carl'', a_collector_scope_id = ''scope'',
      a_sequence = 1, a_claim_epoch = 1, a_previous_id = None, a_status = st, a_rejection_reason = None,
      a_reassignment_reason = None, a_assigned_at = sample_now - hour, a_responded_at = None,
      a_closed_at = (if st = AssignmentStatusAccepted then None else Some sample_now), a_closure_reason = None,
      a_version = 1, a_created_at = sample_now - hour, a_updated_at = sample_now - hour\<rparr>"

definition sample_assignment_status :: "batch_status \<Rightarrow> assignment_status" where
  "sample_assignment_status st =
     (if st = BatchStatusAssigned then AssignmentStatusAccepted
      else if st = BatchStatusFailedCollection then AssignmentStatusFailed else AssignmentStatusCompleted)"

definition sample_receipt_row :: receipt where
  "sample_receipt_row =
     \<lparr>rc_id = ''rc1'', rc_batch_id = ''b1'', rc_facility_org_id = ''plant'', rc_verified_by = ''rita'',
      rc_category = ''BATTERIES'', rc_item_count = 10, rc_weight = ''12.50'', rc_command_id = ''cmd0'',
      rc_correlation_id = ''corr'', rc_version = 1, rc_verified_at = sample_now, rc_created_at = sample_now\<rparr>"

definition sample_state :: "batch_status \<Rightarrow> 32 word \<Rightarrow> db" where
  "sample_state st v = sample_db
     \<lparr>batches := [sample_batch st v],
      decisions := [\<lparr>d_id = ''d1'', d_batch_id = ''b1'', d_batch_version = 2, d_claim_epoch = 1, d_outcome = ''MATCHED''\<rparr>],
      matched_results := [\<lparr>m_id = ''m1'', m_decision_id = ''d1'', m_batch_id = ''b1'', m_recycler_org_id = ''plant'',
                     m_pool_id = ''pool'', m_category_match = True, m_capability_match = True,
                     m_capacity_available = True, m_zone_match = True, m_deadline_viable = True, m_is_matched = True\<rparr>],
      claims := (if unclaimed st then [] else [sample_claim]),
      reservations := (if unclaimed st then [] else [sample_reservation]),
      assignments := (if unassigned st then [] else [sample_assignment (sample_assignment_status st)]),
      receipts := (if st = BatchStatusVerified then [sample_receipt_row] else [])\<rparr>"

section \<open>Requests\<close>

definition sample_claim_request :: claim_request where
  "sample_claim_request = \<lparr>cq_expected_version = 3, cq_claim_epoch = ''1'', cq_notes = None\<rparr>"

definition held :: lease_outcome where "held = LeaseHeld RenewalsOk"

definition sample_selection :: selection_request where
  "sample_selection = \<lparr>sq_expected_version = 4, sq_claim_epoch = ''1'', sq_scope_id = ''scope''\<rparr>"

definition sample_handoff :: handoff_request where
  "sample_handoff = \<lparr>hq_pickup_at = sample_now, hq_donor_name = ''Dan'', hq_item_count = 10,
     hq_hash = replicate 64 (CHR ''A''), hq_notes = None\<rparr>"

definition sample_failure :: failure_request where
  "sample_failure = \<lparr>fq_reason = ''ACCESS_DENIED'', fq_details = None\<rparr>"

definition sample_receipt :: receipt_request where
  "sample_receipt = \<lparr>rq_category = ''batteries'', rq_item_count = 10, rq_weight = ''12.5''\<rparr>"

definition sample_treatment :: treatment_request where
  "sample_treatment = \<lparr>tq_reused = Some ''5'', tq_recycled = Some ''6.25'', tq_disposed = Some ''1.00'',
     tq_evidence_id = None\<rparr>"

definition digest :: string where "digest = replicate 64 (CHR ''a'')"

definition worker_env :: "string \<Rightarrow> call_env" where
  "worker_env call = (sample_env call)\<lparr>env_sha256 := \<lambda>_. digest\<rparr>"

definition worker :: "int \<Rightarrow> metadata" where
  "worker version = (sample_metadata [] [] [] version)\<lparr>md_actor_scope := ''service:worker''\<rparr>"

definition sample_ack :: acknowledgement where
  "sample_ack =
     \<lparr>aq_source_event_id = ''x-3'', aq_source_version = 8, aq_run_id = ''run-1'', aq_input_hash = digest,
      aq_rule_version = ''rules-1'', aq_quality = ''PARTIAL'',
      aq_metrics = \<lparr>mt_declared_weight = Some ''12.50'', mt_actual_weight = Some ''12.50'', mt_reused = Some ''5.00'',
        mt_recycled = Some ''6.25'', mt_disposed = Some ''1.00'', mt_unknown = Some ''0.25'', mt_diverted = Some ''11.25'',
        mt_declared_quantity = Some 10, mt_actual_count = Some 10, mt_category_match = Some True,
        mt_weight_delta = Some ''0.00'', mt_count_delta = Some 0\<rparr>,
      aq_codes = Some [''UNALLOCATED_WEIGHT'']\<rparr>"

definition sample_upload :: evidence_upload where
  "sample_upload = \<lparr>up_filename = ''scans/weight note.png'', up_stage = Some EvidenceLifecycleTreatment,
     up_content = png_signature @ ''pixels''\<rparr>"

definition sample_files :: "directory storage" where
  "sample_files = local_storage ''/data'' 1000 (\<lambda>_ _. None)"

section \<open>What the handlers answer on them\<close>

definition succeeded :: "('e + 'a) \<times> 's \<Rightarrow> bool" where
  "succeeded x = (case fst x of Inl _ \<Rightarrow> False | Inr _ \<Rightarrow> True)"

lemma succeededD: "succeeded x \<Longrightarrow> \<exists>r d'. x = (Inr r, d')"
  by (cases x; cases "fst x") (auto simp: succeeded_def)

definition run_create where "run_create = create_draft (sample_env ''x'') sample_draft (donor 0) sample_db"
definition run_edit where
  "run_edit = edit_draft (sample_env ''x'') ''b1'' sample_draft (donor 1) (sample_state BatchStatusDraft 1)"
definition run_submit where
  "run_submit = submit (sample_env ''x'') ''b1'' (donor 1) (sample_state BatchStatusDraft 1)"
definition run_claim where
  "run_claim = claim (sample_env ''x'') held ''b1'' sample_claim_request (recycler 3) (sample_state BatchStatusMatched 3)"
definition run_select where
  "run_select = select (sample_env ''x'') ''b1'' sample_selection (collector 4) (sample_state BatchStatusApproved 4)"
definition run_reject where
  "run_reject = reject (sample_env ''x'') ''a1'' ''too far'' (collector 5) (sample_state BatchStatusAssigned 5)"
definition run_handoff where
  "run_handoff = handoff_assignment (sample_env ''x'') ''a1'' sample_handoff (collector 5) (sample_state BatchStatusAssigned 5)"
definition run_fail where
  "run_fail = fail_assignment (sample_env ''x'') ''a1'' sample_failure (collector 5) (sample_state BatchStatusAssigned 5)"
definition run_recover where
  "run_recover = recover_failed_collection (sample_env ''x'') ''a1'' ''ops'' ''corr'' (sample_state BatchStatusFailedCollection 6)"
definition run_receipt where
  "run_receipt = verify_receipt (sample_env ''x'') ''b1'' sample_receipt (recycler 6) (sample_state BatchStatusCollected 6)"
definition run_treatment where
  "run_treatment = record_treatment (sample_env ''x'') ''rules-1'' ''b1'' sample_treatment (recycler 7) (sample_state BatchStatusVerified 7)"

definition run_analytics where
  "run_analytics = acknowledge_analytics (worker_env ''y'') ''b1'' sample_ack (worker 8) (snd run_treatment)"
definition run_upload where
  "run_upload = upload (Some sample_files) (\<lambda>_. digest) 0 None (sample_env ''u'') ''b1'' sample_upload (recycler 0)
     (sample_state BatchStatusCollected 6) Map.empty"

definition uploaded :: "'a outcome \<times> db \<times> 'o \<Rightarrow> bool" where
  "uploaded x = (case fst x of Answers (Inr _) \<Rightarrow> True | _ \<Rightarrow> False)"

definition run_download where
  "run_download = (case run_upload of (_, d, s) \<Rightarrow>
     download (Some sample_files) (\<lambda>_. digest) (sample_env ''v'') ''b1'' ''u-1''
       \<lparr>act_user_id = ''rita'', act_organisation_id = ''plant'', act_role_code = ''recycler''\<rparr> ''corr'' d s)"

lemma run_create_succeeds: "succeeded run_create" by code_simp
lemma run_edit_succeeds: "succeeded run_edit" by code_simp
lemma run_submit_succeeds: "succeeded run_submit" by code_simp
lemma run_claim_succeeds: "succeeded run_claim" by code_simp
lemma run_select_succeeds: "succeeded run_select" by code_simp
lemma run_reject_succeeds: "succeeded run_reject" by code_simp
lemma run_handoff_succeeds: "succeeded run_handoff" by code_simp
lemma run_fail_succeeds: "succeeded run_fail" by code_simp
lemma run_recover_succeeds: "succeeded run_recover" by code_simp
lemma run_receipt_succeeds: "succeeded run_receipt" by code_simp
lemma run_treatment_succeeds: "succeeded run_treatment" by code_simp
lemma run_analytics_succeeds: "succeeded run_analytics" by code_simp
lemma run_upload_succeeds: "uploaded run_upload" by code_simp
lemma run_download_succeeds: "succeeded run_download" by code_simp

lemmas runs_succeed =
  run_create_succeeds run_edit_succeeds run_submit_succeeds run_claim_succeeds run_select_succeeds run_reject_succeeds
  run_handoff_succeeds run_fail_succeeds run_recover_succeeds run_receipt_succeeds run_treatment_succeeds

lemma sample_db_wf: "db_wf sample_db" by code_simp
lemma sample_draft_wf: "db_wf (sample_state BatchStatusDraft 1)" by code_simp
lemma sample_matched_wf: "db_wf (sample_state BatchStatusMatched 3)" by code_simp
lemma sample_approved_wf: "db_wf (sample_state BatchStatusApproved 4)" by code_simp
lemma sample_assigned_wf: "db_wf (sample_state BatchStatusAssigned 5)" by code_simp
lemma sample_failedcollection_wf: "db_wf (sample_state BatchStatusFailedCollection 6)" by code_simp
lemma sample_collected_wf: "db_wf (sample_state BatchStatusCollected 6)" by code_simp
lemma sample_verified_wf: "db_wf (sample_state BatchStatusVerified 7)" by code_simp

lemmas samples_wf = sample_db_wf sample_draft_wf sample_matched_wf sample_approved_wf sample_assigned_wf sample_failedcollection_wf sample_collected_wf sample_verified_wf

end
