(* ===== verification/Spec2Isabelle.thy ===== *)
theory Spec2Isabelle
  imports Retries Progress Lease Samples
begin

text \<open>
  The workflow core of the e-waste platform's Go backend (\<open>src/src/backend/internal\<close>): donors save and
  submit batches, recyclers claim matched batches against the capacity of their pools, collectors
  select, pick up or fail collections, facilities verify receipts, record treatments and attach evidence,
  and the analytics worker completes batches.  Every mutating command is one handler of a service that prepares its metadata (actor scope, command name,
  SHA-256 of the canonical request), opens one database transaction, looks for the recorded answer of
  the same command, checks the guards, writes the command row, the domain rows, an audit row and an
  outbox event, and completes the command with its response.

  \<^bold>\<open>Theories\<close>
  \<^item> \<open>Prelude\<close>: transactions (state passing, rollback on error), table operations, the collection
    \<open>tx_success\<close> (when a step returns).
  \<^item> \<open>GoStrings\<close>, \<open>Weights\<close>: what the code uses of \<open>strings\<close>, \<open>unicode/utf8\<close> and \<open>strconv\<close>; weights as
    decimals, as stored (\<open>normalizeStoredWeight\<close>) and as hundredths (\<open>parseTreatmentCents\<close>).
  \<^item> \<open>Errors\<close>, \<open>Entities\<close>: the sentinel errors of services and repositories with \<open>errors.Is\<close>; the rows of
    \<open>internal/model\<close>, JSON documents, the database as a record of tables, the environment of a call.
  \<^item> \<open>Store\<close>: inserts and updates under the unique keys and CHECKs of \<open>database/changes\<close>, the
    well-formedness \<open>db_wf\<close>, and the locale \<open>step_relation\<close>.
  \<^item> \<open>BatchRepo\<close>, \<open>ClaimRepo\<close>, \<open>AssignmentRepo\<close>: the three GORM repositories, one definition per method, with
    the optimistic-lock contract \<open>optimistic_update\<close>.
  \<^item> \<open>Lifecycle\<close>, \<open>Histories\<close>: the allowed status changes; the relations every repository write keeps
    (\<open>core_steps\<close>, \<open>workflow_steps\<close>), interpreted for well-formedness and for append-only histories.
  \<^item> \<open>Commands\<close>: metadata, command, audit and outbox rows, replay (\<open>loadReplay\<close>), and the idempotency
    contract \<open>replay_contract\<close>, interpreted for each of the transactions.
  \<^item> \<open>BatchService\<close>, \<open>ClaimService\<close>, \<open>AssignmentService\<close>, \<open>ReceiptTreatment\<close>: the handlers of
    \<open>internal/service\<close>, each as its checks, its transaction and the composition of both, with a lemma
    that says what a success did.
  \<^item> \<open>Analytics\<close>: the preparation and the acknowledgement of a run (\<open>service/analytics.go\<close>,
    \<open>analytics_prepare.go\<close>), the anomaly codes a frozen input determines and their order.
  \<^item> \<open>ObjectStore\<close>, \<open>Evidence\<close>: the object store of the evidence files with its contract \<open>evidence_storage\<close>,
    interpreted for the directory and the disabled adapter; upload and download (\<open>service/evidence.go\<close>).
  \<^item> \<open>Platform\<close>: the transition system of committed transactions and its invariants; \<open>Retries\<close>: what a
    retried call sees, and what a refused one leaves.
  \<^item> \<open>Decoding\<close>, \<open>Kafka\<close>: reading JSON fields; the validation of a persisted event and its message
    (\<open>eventbus/kafka.go\<close>, \<open>matchingcontract/schema.go\<close>).
  \<^item> \<open>Outbox\<close>, \<open>Relay\<close>: the outbox repository; the relay against the interfaces it uses, with the locale
    \<open>outbox_contract\<close>.  \<open>Delivery\<close> interprets it on the repository and the publisher, in an environment
    that loses requests and replies and interleaves other sessions; \<open>Progress\<close> is the undisturbed round.
  \<^item> \<open>Lease\<close>: the Redis leases of claims and of the relay's leadership, the locale \<open>lease_service\<close> with
    mutual exclusion, interpreted for both.
  \<^item> \<open>Samples\<close>: concrete requests and database states on which the handlers are evaluated.

  \<^bold>\<open>State and interleaving\<close>  A transaction is atomic (the code locks the rows it changes, \<open>FOR UPDATE\<close>).
  A handler that opens several transactions (a claim, the collector's commands) sees between them what
  other sessions commit, the parameter \<open>env_others\<close>; the properties about it assume only that others
  commit workflow transactions (\<open>reachable\<close>).

  The relay adds its own steps (\<open>platform_step\<close>): its invariant \<open>world_ok\<close> relates the outbox to the
  broker's log and holds under every interleaving of commands and relays.

  \<^bold>\<open>Parameters\<close>  Generated identifiers, clocks and the SHA-256 digest are functions in \<open>call_env\<close>; no law
  is assumed of them.  The compiled JSON schemas, \<open>uuid.Parse\<close> and the replies of the broker are functions in
  \<open>session_env\<close>.  The Redis server is a record of commands under \<open>redis_laws\<close>, its documented behaviour.
  \<open>sha\<close> is the digest of a file, \<open>io\<close> what the file system refuses, \<open>commit\<close> whether the database rolled an
  upload back.  No fuel is needed: every modelled loop is structural.

  \<^bold>\<open>Simplifications\<close>  \<open>float64\<close> weights are rationals; JSON text is its document; foreign keys, and the
  CHECKs of tables written once, are not modelled; a context that is cancelled appears only as the loss
  of a claim's lease and at the checks of the relay; a lease holder reads the clock of the Redis server.

  \<^bold>\<open>Not modelled\<close>  A commit that takes effect although its reply is lost; the Azure adapter; the HTTP layer, the read-only queries, configuration, logging, the Kafka and Redis
  clients, matching in Python.
\<close>

section \<open>Single commands\<close>

text \<open>
  C1 A successful \<open>Submit\<close> either repeats the committed answer of the same command without a write, or
  in one transaction moves the caller's own draft, at exactly the expected version and with every
  required field valid, to SUBMITTED with the next version, and adds one completed command, one audit
  row and one pending RequestSubmitted event, leaving every other batch alone.
\<close>

theorem submit_outcome:
  assumes "db_wf d" "submit env bid m d = (Inr r, d')"
  shows "\<exists>pm. prepare_metadata env m ''SubmitBatch'' bid (JObj [(''batch_id'', JStr bid)]) = Inr pm \<and>
    (recorded decode_batch_result pm r d \<and> d' = d \<or>
     stored_command pm d = None \<and>
     (\<exists>b e. b_id b = bid \<and> owned_by_actor pm b \<and> uint (b_version b) = md_expected_version m \<and>
        validate_stored_batch b (env_clock env 0) = Inr () \<and>
        transition pm (encode_batch_result r) BatchStatusDraft BatchStatusSubmitted b
          (submitted_batch env b (env_clock env 0)) [e] d d' \<and>
        o_event_type e = ''RequestSubmitted'' \<and> br_event_id r = o_event_id e))"
proof -
  obtain pm where p: "prepare_metadata env m ''SubmitBatch'' bid (JObj [(''batch_id'', JStr bid)]) = Inr pm"
    and s: "submit_tx env bid pm d = Inr (r, d')"
    using assms(2) by (auto simp: submit_def run_tx_Inr split: sum.splits if_splits)
  have "md_expected_version pm = md_expected_version m"
    using p by (auto simp: prepare_metadata_def Let_def split: sum.splits if_splits)
  then show ?thesis using p submit_tx_outcome [OF assms(1) s] by fastforce
qed

theorem submit_outcome_witness:
  "\<exists>r d'. run_submit = (Inr r, d') \<and>
     (\<exists>pm. prepare_metadata (sample_env ''x'') (donor 1) ''SubmitBatch'' ''b1'' (JObj [(''batch_id'', JStr ''b1'')]) = Inr pm)"
  using succeededD [OF run_submit_succeeds] submit_outcome [OF sample_draft_wf]
  unfolding run_submit_def by blast


text \<open>The claim of the sample recycler, prepared.\<close>

definition sample_claim_metadata :: metadata where
  "sample_claim_metadata = (recycler 3)\<lparr>md_actor_scope := ''user:rita|org:plant'',
     md_command_name := ''ClaimOpportunity'', md_request_hash := ''h''\<rparr>"

definition run_claim_tx where
  "run_claim_tx = run_tx (claim_tx (sample_env ''x'') ''b1'' sample_claim_request 1 sample_claim_metadata)
     (sample_state BatchStatusMatched 3)"

lemma run_claim_tx_succeeds: "succeeded run_claim_tx" by code_simp

lemma run_claim_txD:
  "\<exists>r d'. claim_tx (sample_env ''x'') ''b1'' sample_claim_request 1 sample_claim_metadata
     (sample_state BatchStatusMatched 3) = Inr (r, d')"
  using succeededD [OF run_claim_tx_succeeds] by (auto simp: run_claim_tx_def run_tx_Inr)


text \<open>
  C3 Whatever sessions run in whatever order, no capacity pool is ever reserved beyond its total or below
  zero, and what a pool has reserved moves exactly with the sum of the reservations on it.
\<close>

theorem pools_stay_balanced:
  assumes "reachable d d'" "db_wf d"
  shows "pool_balance pid d' = pool_balance pid d \<and>
    list_all (\<lambda>p. 0 \<le> p_reserved p \<and> p_reserved p \<le> p_total p) (pools d')"
  using reachable_balance [OF assms] reachable_wf [OF assms]
  by (auto simp: db_wf_defs check_pool_def list_all_iff)

lemma sample_claim_reachable:
  "\<exists>r d'. run_claim = (Inr r, d') \<and> reachable (sample_state BatchStatusMatched 3) d'"
proof -
  obtain r d' where c: "run_claim = (Inr r, d')" using succeededD [OF run_claim_succeeds] by blast
  have "reachable e (env_others (sample_env ''x'') i e)" for i e by (simp add: sample_env_def)
  then have "reachable (sample_state BatchStatusMatched 3) (snd run_claim)"
    unfolding run_claim_def by (rule claim_reachable)
  then have "reachable (sample_state BatchStatusMatched 3) d'" unfolding c snd_conv .
  then show ?thesis using c by blast
qed

theorem pools_stay_balanced_witness:
  "\<exists>r d'. run_claim = (Inr r, d') \<and> pool_balance ''pool'' d' = pool_balance ''pool'' (sample_state BatchStatusMatched 3)"
  using sample_claim_reachable pools_stay_balanced [OF _ sample_matched_wf] by blast

text \<open>
  C4 Once a claim on a batch has committed, a second one, by whoever and with whatever request, is
  refused unless it is the answer of a command already recorded.
\<close>

theorem batch_claimed_once:
  assumes "db_wf d" "claim_tx env bid cq epoch m d = Inr (r, d1)" "d1 \<noteq> d"
    and "claim_tx env2 bid cq2 epoch2 m2 d1 = Inr (r2, d2)"
  shows "recorded decode_claim_result m2 r2 d1 \<and> d2 = d1"
  by (rule second_claim_refused [OF assms])

theorem batch_claimed_once_witness:
  "\<exists>r d1 r2 d2. claim_tx (sample_env ''x'') ''b1'' sample_claim_request 1 sample_claim_metadata
       (sample_state BatchStatusMatched 3) = Inr (r, d1) \<and>
     claim_tx (sample_env ''y'') ''b1'' sample_claim_request 1 sample_claim_metadata d1 = Inr (r2, d2) \<and> d2 = d1"
proof -
  obtain r d1 where c: "claim_tx (sample_env ''x'') ''b1'' sample_claim_request 1 sample_claim_metadata
       (sample_state BatchStatusMatched 3) = Inr (r, d1)"
    using run_claim_txD by blast
  have st: "stored_command sample_claim_metadata (sample_state BatchStatusMatched 3) = None" by code_simp
  have rec: "recorded decode_claim_result sample_claim_metadata r d1"
    by (rule claim_replay.commit [OF sample_matched_wf c])
  have new: "d1 \<noteq> sample_state BatchStatusMatched 3" using st rec by (auto simp: recorded_def)
  have "d1 = snd run_claim_tx" using c by (simp add: run_claim_tx_def run_tx_def)
  then have "length (actor_rows ''RECYCLER'' ''PROCESSING_FACILITY'' (act_user_id (md_actor sample_claim_metadata))
     (act_organisation_id (md_actor sample_claim_metadata)) d1) = 1"
    by (simp only:) code_simp
  then have "claim_tx (sample_env ''y'') ''b1'' sample_claim_request 1 sample_claim_metadata d1 = Inr (r, d1)"
    using claim_replay.replay rec by blast
  then show ?thesis using c batch_claimed_once [OF sample_matched_wf c new] by blast
qed


text \<open>
  C5 Under any interleaving of other sessions, every answer of the claim handler, also the one it gives
  after losing a race or its lease, is the committed response of its own command in a consistent
  database.
\<close>

theorem claim_answer_committed:
  assumes "db_wf d" "\<forall>i e. reachable e (env_others env i e)"
    and "claim env lease bid request m d = (Inr r, d')"
  shows "db_wf d' \<and> reachable d d' \<and>
    (\<exists>epoch pm. validate_claim_request request (md_expected_version m) = Inr epoch \<and>
       prepare_claim_metadata env m bid epoch (cq_notes request) = Inr pm \<and> recorded decode_claim_result pm r d')"
proof -
  have "reachable d (snd (claim env lease bid request m d))" using assms(2) by (intro claim_reachable) blast
  then have "reachable d d'" by (simp add: assms(3))
  moreover have "\<forall>i e. db_wf e \<longrightarrow> db_wf (env_others env i e)" using assms(2) reachable_wf by blast
  ultimately show ?thesis using claim_answer_recorded [OF assms(1) _ assms(3)] reachable_wf [OF _ assms(1)] by blast
qed

lemma sample_env_others: "\<forall>i e. reachable e (env_others (sample_env c) i e)"
  by (simp add: sample_env_def)

theorem claim_answer_committed_witness:
  "\<exists>r d'. run_claim = (Inr r, d') \<and> db_wf d'"
  using succeededD [OF run_claim_succeeds] claim_answer_committed [OF sample_matched_wf sample_env_others]
  unfolding run_claim_def by blast





text \<open>
  C8 A batch never disappears, never changes its owner, creator, creation time or claim epoch, and only
  moves along the lifecycle, never to an earlier stage; COMPLETED is final.
\<close>

theorem batch_lifecycle:
  assumes "reachable d d'" "find (\<lambda>b. b_id b = bid) (batches d) = Some b"
  shows "\<exists>b'. find (\<lambda>b. b_id b = bid) (batches d') = Some b' \<and>
     b_organization_id b' = b_organization_id b \<and> b_created_by b' = b_created_by b \<and>
     b_created_at b' = b_created_at b \<and> b_claim_epoch b' = b_claim_epoch b \<and>
     lifecycle_path (b_status b) (b_status b') \<and> stage (b_status b) \<le> stage (b_status b') \<and>
     (b_status b' = BatchStatusDraft \<longrightarrow> b_status b = BatchStatusDraft) \<and>
     (b_status b = BatchStatusCompleted \<longrightarrow> b_status b' = BatchStatusCompleted)"
proof -
  obtain b' where b': "find (\<lambda>b. b_id b = bid) (batches d') = Some b'" "batch_kept b b'"
    using history_batch [OF reachable_history [OF assms(1)] assms(2)] by blast
  then have p: "lifecycle_path (b_status b) (b_status b')" by (simp add: batch_kept_def)
  have "b_status b' = BatchStatusDraft \<longrightarrow> b_status b = BatchStatusDraft"
    using p never_back_to_draft by metis
  moreover have "b_status b = BatchStatusCompleted \<longrightarrow> b_status b' = BatchStatusCompleted"
    using p completed_final by metis
  ultimately show ?thesis using b' p lifecycle_path_stage [OF p] by (auto simp: batch_kept_def)
qed

theorem batch_lifecycle_witness:
  "\<exists>b'. find (\<lambda>b. b_id b = ''b1'') (batches (snd run_claim)) = Some b' \<and> b_created_by b' = ''dan'' \<and> 2 \<le> stage (b_status b')"
proof -
  have f: "find (\<lambda>b. b_id b = ''b1'') (batches (sample_state BatchStatusMatched 3)) = Some (sample_batch BatchStatusMatched 3)"
    by (simp add: sample_state_def sample_batch_def)
  have "reachable (sample_state BatchStatusMatched 3) (snd run_claim)"
    unfolding run_claim_def using sample_env_others by (intro claim_reachable) blast
  from batch_lifecycle [OF this f] show ?thesis by (auto simp: sample_batch_def)
qed

text \<open>
  C9 Audit rows, claims, reservations, handoffs, assignment actions, receipts, treatments, files, analytics
  results and anomalies are append-only; outbox events keep their content; the response of a completed command never changes.
\<close>

theorem history_append_only:
  assumes "reachable d d'"
  shows "prefix (audits d) (audits d') \<and> prefix (claims d) (claims d') \<and> prefix (reservations d) (reservations d') \<and>
    prefix (handoffs d) (handoffs d') \<and> prefix (actions d) (actions d') \<and> prefix (receipts d) (receipts d') \<and>
    prefix (treatments d) (treatments d') \<and> prefix (evidences d) (evidences d') \<and>
    prefix (analytics d) (analytics d') \<and> prefix (anomalies d) (anomalies d') \<and> kept event_kept (outbox d) (outbox d') \<and>
    kept command_kept (commands d) (commands d')"
  using reachable_history [OF assms] by (simp add: history_step_def)

theorem history_append_only_witness:
  "prefix [sample_claim] (claims (snd run_select))"
proof -
  have "reachable (sample_state BatchStatusApproved 4) (snd run_select)"
    unfolding run_select_def using sample_env_others by (intro select_reachable) blast
  from history_append_only [OF this] show ?thesis by (simp add: sample_state_def unclaimed_def)
qed




text \<open>
  C11 A donor's or recycler's command, or the upload of a file, sent again with the same key and request, at any later time and
  after any other commits, gets the first answer again and writes nothing.
\<close>

theorem retry_same_answer:
  assumes "db_wf d" "env_sha256 env2 = env_sha256 env" "reachable d1 d2"
  shows "(submit env bid m d = (Inr rb, d1) \<longrightarrow> submit env2 bid m d2 = (Inr rb, d2)) \<and>
    (verify_receipt env bid rq m d = (Inr rr, d1) \<longrightarrow> verify_receipt env2 bid rq m d2 = (Inr rr, d2)) \<and>
    (record_treatment env rule bid tq m d = (Inr rt, d1) \<longrightarrow> record_treatment env2 rule2 bid tq m d2 = (Inr rt, d2)) \<and>
    (upload st sha max_bytes commit env bid uq m d s = (Answers (Inr ru), d1, s1) \<longrightarrow>
       upload st2 sha max_bytes None env2 bid uq m d2 s2 = (Answers (Inr ru), d2, s2))"
proof (intro conjI impI)
  note sha = prepare_metadata_sha [OF assms(2)] and h = reachable_history [OF assms(3)]
  show "submit env2 bid m d2 = (Inr rb, d2)" if "submit env bid m d = (Inr rb, d1)"
    using that unfolding submit_Inr sha
    by (blast intro: submit_replay.replay [OF TrueI recorded_history [OF submit_replay.commit [OF assms(1)] h]])
  show "verify_receipt env2 bid rq m d2 = (Inr rr, d2)" if "verify_receipt env bid rq m d = (Inr rr, d1)"
    using that unfolding verify_receipt_Inr sha
    by (blast intro: receipt_replay.replay [OF TrueI recorded_history [OF receipt_replay.commit [OF assms(1)] h]])
  show "record_treatment env2 rule2 bid tq m d2 = (Inr rt, d2)" if "record_treatment env rule bid tq m d = (Inr rt, d1)"
    using that unfolding record_treatment_Inr sha
    by (blast intro: treatment_replay.replay [OF TrueI recorded_history [OF treatment_replay.commit [OF assms(1)] h]])
  show "upload st2 sha max_bytes None env2 bid uq m d2 s2 = (Answers (Inr ru), d2, s2)"
    if "upload st sha max_bytes commit env bid uq m d s = (Answers (Inr ru), d1, s1)"
    using upload_D [OF that] unfolding sha [symmetric]
    by (blast intro: upload_replayed recorded_history [OF upload_replay.commit [OF assms(1)] h])
qed

theorem retry_same_answer_witness:
  "\<exists>r d'. run_submit = (Inr r, d') \<and> submit (sample_env ''y'') ''b1'' (donor 1) d' = (Inr r, d')"
proof -
  obtain r d' where r: "submit (sample_env ''x'') ''b1'' (donor 1) (sample_state BatchStatusDraft 1) = (Inr r, d')"
    using succeededD [OF run_submit_succeeds] unfolding run_submit_def by blast
  have "env_sha256 (sample_env ''y'') = env_sha256 (sample_env ''x'')" by (simp add: sample_env_def)
  from retry_same_answer [OF sample_draft_wf this, of d' d', where st = "Some sample_files" and ?st2.0 = "Some sample_files"] r
  show ?thesis unfolding run_submit_def by blast
qed

text \<open>
  C12 The same for the commands that run under races: while the caller is still eligible, a retry of a
  claim, whatever its lease, or of a collector's command, after any commits, repeats the first answer.
\<close>

theorem retry_same_answer_raced:
  assumes "db_wf d" "\<forall>i e. reachable e (env_others env i e)" "env_sha256 env2 = env_sha256 env" "reachable d1 d2"
  shows "(claim env lease bid cq m d = (Inr rc, d1) \<and>
      length (actor_rows ''RECYCLER'' ''PROCESSING_FACILITY'' (act_user_id (md_actor m))
                   (act_organisation_id (md_actor m)) d2) = 1 \<longrightarrow> claim env2 lease2 bid cq m d2 = (Inr rc, d2)) \<and>
    (eligible_collector m d2 \<longrightarrow>
      (select env bid sq m d = (Inr ra, d1) \<longrightarrow> select env2 bid sq m d2 = (Inr ra, d2)) \<and>
      (change_assignment env aid ch m d = (Inr ra, d1) \<longrightarrow> change_assignment env2 aid ch m d2 = (Inr ra, d2)) \<and>
      (record_pickup env aid p m d = (Inr ra, d1) \<longrightarrow> record_pickup env2 aid p m d2 = (Inr ra, d2)))"
proof (intro conjI impI)
  note sha = prepare_assignment_metadata_sha [OF assms(3)]
  assume c: "claim env lease bid cq m d = (Inr rc, d1) \<and>
      length (actor_rows ''RECYCLER'' ''PROCESSING_FACILITY'' (act_user_id (md_actor m))
                   (act_organisation_id (md_actor m)) d2) = 1"
  have "\<forall>i e. db_wf e \<longrightarrow> db_wf (env_others env i e)" using assms(2) reachable_wf by blast
  from claim_answer_recorded [OF assms(1) this conjunct1 [OF c]] obtain epoch pm
    where 1: "validate_claim_request cq (md_expected_version m) = Inr epoch"
      "prepare_claim_metadata env m bid epoch (cq_notes cq) = Inr pm" "recorded decode_claim_result pm rc d1"
    by blast
  show "claim env2 lease2 bid cq m d2 = (Inr rc, d2)"
    by (rule claim_eligible_replay [where pm = pm])
      (use c 1 claim_admits recorded_history [OF 1(3) reachable_history [OF assms(4)]]
        prepare_claim_metadata_sha [OF assms(3)] in auto)
next
  note sha = prepare_assignment_metadata_sha [OF assms(3)]
  assume el: "eligible_collector m d2"
  note again = assignment_execute_again [OF _ _ _ assms(1,2,4) el]
  show "select env2 bid sq m d2 = (Inr ra, d2)" if "select env bid sq m d = (Inr ra, d1)"
    using that unfolding select_def sha by (auto split: sum.splits if_splits intro: again select_replay.commit)
  show "change_assignment env2 aid ch m d2 = (Inr ra, d2)" if "change_assignment env aid ch m d = (Inr ra, d1)"
    using that unfolding change_assignment_def sha by (auto split: sum.splits intro: again change_replay.commit)
  show "record_pickup env2 aid p m d2 = (Inr ra, d2)" if "record_pickup env aid p m d = (Inr ra, d1)"
    using that unfolding record_pickup_def sha by (auto split: sum.splits intro: again pickup_replay.commit)
qed

lemma run_select_eligible: "eligible_collector (collector 4) (snd run_select)" by code_simp

theorem retry_same_answer_raced_witness:
  "\<exists>r d'. run_select = (Inr r, d') \<and> select (sample_env ''y'') ''b1'' sample_selection (collector 4) d' = (Inr r, d')"
proof -
  obtain r d' where r: "run_select = (Inr r, d')" using succeededD [OF run_select_succeeds] by blast
  have s: "select (sample_env ''x'') ''b1'' sample_selection (collector 4) (sample_state BatchStatusApproved 4) = (Inr r, d')"
    using r unfolding run_select_def .
  have el: "eligible_collector (collector 4) d'" using run_select_eligible unfolding r snd_conv .
  have sh: "env_sha256 (sample_env ''y'') = env_sha256 (sample_env ''x'')" by (simp add: sample_env_def)
  have "select (sample_env ''y'') ''b1'' sample_selection (collector 4) d' = (Inr r, d')"
    using retry_same_answer_raced [OF sample_approved_wf sample_env_others sh rtranclp.rtrancl_refl] s el by blast
  then show ?thesis using r by blast
qed




lemma sample_no_commands: "stored_command m (sample_state st v) = None"
  by (simp add: stored_command_def sample_state_def sample_db_def empty_db_def)

lemma sample_env_alone: "env_others (sample_env c) i e = e"
  by (simp add: sample_env_def)

text \<open>
  C14 A successful \<open>CreateDraft\<close> repeats a recorded answer, or appends one new DRAFT at version 1, owned by
  the caller, with the normalized request values and no event; nothing else of any batch changes.
\<close>

theorem create_draft_outcome:
  assumes "create_draft env draft m d = (Inr r, d')"
  shows "validate_draft draft False (env_clock env 0) = Inr () \<and>
    (\<exists>pm. prepare_metadata env m ''CreateBatchDraft'' [] (draft_request_json draft) = Inr pm \<and>
      (recorded decode_batch_result pm r d \<and> d' = d \<or>
       stored_command pm d = None \<and> find (\<lambda>b. b_id b = env_id env 0) (batches d) = None \<and>
       batches d' = batches d @ [created_batch env draft pm] \<and> outbox d' = outbox d \<and>
       check_batch (created_batch env draft pm) \<and> owned_by_actor pm (created_batch env draft pm) \<and>
       r = \<lparr>br_batch = batch_to_dto (created_batch env draft pm), br_correlation_id = md_correlation_id pm,
            br_event_id = [], br_event_state = []\<rparr>))"
proof -
  obtain pm where 1: "validate_draft draft False (env_clock env 0) = Inr ()"
    "prepare_metadata env m ''CreateBatchDraft'' [] (draft_request_json draft) = Inr pm"
    "create_draft_tx env draft pm d = Inr (r, d')"
    using assms by (auto simp: create_draft_def run_tx_Inr split: sum.splits)
  have "owned_by_actor pm (created_batch env draft pm)"
    by (simp add: owned_by_actor_def created_batch_def apply_draft_to_batch_def new_draft_def)
  then show ?thesis using 1 create_draft_tx_outcome [OF 1(3)] by blast
qed

theorem create_draft_outcome_witness:
  "\<exists>r d' pm. run_create = (Inr r, d') \<and>
     prepare_metadata (sample_env ''x'') (donor 0) ''CreateBatchDraft'' [] (draft_request_json sample_draft) = Inr pm"
  using succeededD [OF run_create_succeeds] create_draft_outcome unfolding run_create_def by blast

text \<open>
  C15 A successful \<open>EditDraft\<close> repeats a recorded answer, or replaces the given fields of the caller's own
  DRAFT, at exactly the expected version, and moves it to the next version without an event.
\<close>

theorem edit_draft_outcome:
  assumes "db_wf d" "edit_draft env bid draft m d = (Inr r, d')"
  shows "draft_changes draft \<noteq> [] \<and>
    (\<exists>pm. prepare_metadata env m ''EditBatchDraft'' bid (draft_request_json draft) = Inr pm \<and>
      (recorded decode_batch_result pm r d \<and> d' = d \<or>
       stored_command pm d = None \<and>
       (\<exists>b. b_id b = bid \<and> owned_by_actor pm b \<and> uint (b_version b) = md_expected_version m \<and>
         transition pm (encode_batch_result r) BatchStatusDraft BatchStatusDraft b (edited_batch env draft b) [] d d' \<and>
         br_batch r = batch_to_dto (edited_batch env draft b))))"
proof -
  obtain pm where 1: "draft_changes draft \<noteq> []"
    "prepare_metadata env m ''EditBatchDraft'' bid (draft_request_json draft) = Inr pm"
    "edit_draft_tx env bid draft pm d = Inr (r, d')"
    using assms(2) by (auto simp: edit_draft_def run_tx_Inr split: sum.splits if_splits)
  have "md_expected_version pm = md_expected_version m"
    using 1(2) by (auto simp: prepare_metadata_def Let_def split: sum.splits if_splits)
  then show ?thesis using 1 edit_draft_tx_outcome [OF assms(1) 1(3)] by fastforce
qed

theorem edit_draft_outcome_witness:
  "draft_changes sample_draft \<noteq> [] \<and> succeeded run_edit"
  using succeededD [OF run_edit_succeeds] edit_draft_outcome [OF sample_draft_wf] run_edit_succeeds
  unfolding run_edit_def by blast

text \<open>
  C16 A collector's selection assigns an APPROVED, unassigned batch at the expected version and epoch to
  a collector who did not hold its latest assignment: the assignment row has the next sequence number,
  the batch points at it and is ASSIGNED, and one CollectorAssigned event is enqueued.
\<close>

theorem select_outcome:
  assumes "db_wf d" "select_tx env bid sq epoch m d = Inr (r, d')"
  shows "eligible_collector m d \<and>
    (recorded decode_mutation_result m r d \<and> d' = d \<or>
     stored_command m d = None \<and>
     (\<exists>b c scope previous e. b_id b = bid \<and> b_version b = word_of_int (md_expected_version m) \<and>
       b_claim_epoch b = epoch \<and> b_assignment_id b = None \<and>
       previous = latest_by_sequence (filter (\<lambda>a. a_batch_id a = bid) (assignments d)) \<and>
       (case previous of None \<Rightarrow> True | Some p \<Rightarrow> \<not> same_collector m p) \<and>
       transition m (encode_mutation_result r) BatchStatusApproved BatchStatusAssigned b
         (moved_batch BatchStatusAssigned (Some (env_id env 1)) (truncate_us (env_clock env 1)) b) [e] d d' \<and>
       o_event_type e = ''CollectorAssigned'' \<and>
       assignments d' = assignments d @
         [new_assignment (env_id env 1) m b c scope previous (truncate_us (env_clock env 1))]))"
proof -
  consider "eligible_collector m d" "recorded decode_mutation_result m r d" "d' = d"
    | "eligible_collector m d" "stored_command m d = None" "select_body env bid sq epoch m d = Inr (r, d')"
    using assms(2) unfolding select_tx_def collector_tx_Inr by auto
  then show ?thesis
  proof cases
    case 2
    obtain b c scope previous where f: "find (\<lambda>b. b_id b = bid) (batches d) = Some b"
      and g: "b_version b = word_of_int (md_expected_version m)" "b_claim_epoch b = epoch" "b_assignment_id b = None"
        "previous = latest_by_sequence (filter (\<lambda>a. a_batch_id a = b_id b) (assignments d))"
        "(case previous of None \<Rightarrow> True | Some p \<Rightarrow> \<not> same_collector m p)"
      and s: "select_assign_tx env m b c scope previous d = Inr (r, d')"
      using select_body_D [OF 2(3)] by blast
    have "b_id b = bid" using find_Some_memD [OF f] by simp
    then show ?thesis using 2 g select_assign_tx_outcome [OF assms(1) f s] by blast
  qed simp
qed

lemma sample_select_tx:
  "\<exists>pm r d'. select_tx (sample_env ''x'') ''b1'' sample_selection 1 pm (sample_state BatchStatusApproved 4) = Inr (r, d')"
proof -
  obtain r d' where r: "run_select = (Inr r, d')" using succeededD [OF run_select_succeeds] by blast
  have "parse_positive_uint (sq_claim_epoch sample_selection) = Inr 1" by code_simp
  then obtain pm where "assignment_execute (sample_env ''x'') pm
      (select_tx (sample_env ''x'') ''b1'' sample_selection 1 pm) (sample_state BatchStatusApproved 4) = (Inr r, d')"
    using select_D [OF r [unfolded run_select_def]] by auto
  then show ?thesis using assignment_execute_alone [OF _ sample_env_alone sample_no_commands] by blast
qed

theorem select_outcome_witness:
  "\<exists>pm r d'. select_tx (sample_env ''x'') ''b1'' sample_selection 1 pm (sample_state BatchStatusApproved 4) = Inr (r, d') \<and>
     eligible_collector pm (sample_state BatchStatusApproved 4)"
  using sample_select_tx select_outcome [OF sample_approved_wf] by blast

text \<open>
  C17 Accepting moves the caller's own current PENDING assignment to ACCEPTED; rejecting supersedes a
  PENDING or ACCEPTED one and returns the batch to APPROVED without an assignment; neither enqueues an
  event, both take the batch to its next version.
\<close>

theorem change_outcome:
  assumes "db_wf d" "change_tx env aid ch m d = Inr (r, d')"
  shows "recorded decode_mutation_result m r d \<and> d' = d \<or>
    stored_command m d = None \<and>
    (\<exists>a b. a_id a = aid \<and> same_collector m a \<and> change_from ch (a_status a) \<and>
       b_version b = word_of_int (md_expected_version m) \<and> b_assignment_id b = Some aid \<and> b_id b = a_batch_id a \<and>
       transition m (encode_mutation_result r) BatchStatusAssigned (change_target ch) b
         (moved_batch (change_target ch) (change_pointer ch a) (truncate_us (env_clock env 0)) b) [] d d' \<and>
       assignment_changed a (changed_assignment ch (truncate_us (env_clock env 0)) a) d d')"
  using assms(2) change_body_outcome [OF assms(1)] unfolding change_tx_def collector_tx_Inr by blast

lemma sample_change_tx:
  "\<exists>pm r d'. change_tx (sample_env ''x'') ''a1'' (RejectChange ''too far'') pm (sample_state BatchStatusAssigned 5) = Inr (r, d')"
proof -
  obtain r d' where r: "run_reject = (Inr r, d')" using succeededD [OF run_reject_succeeds] by blast
  obtain pm where "assignment_execute (sample_env ''x'') pm
      (change_tx (sample_env ''x'') ''a1'' (RejectChange ''too far'') pm) (sample_state BatchStatusAssigned 5) = (Inr r, d')"
    using change_assignment_D [OF reject_D [OF r [unfolded run_reject_def]]] by blast
  then show ?thesis using assignment_execute_alone [OF _ sample_env_alone sample_no_commands] by blast
qed

theorem change_outcome_witness:
  "\<exists>pm r d' b b'. change_tx (sample_env ''x'') ''a1'' (RejectChange ''too far'') pm (sample_state BatchStatusAssigned 5) = Inr (r, d') \<and>
     transition pm (encode_mutation_result r) BatchStatusAssigned BatchStatusApproved b b' [] (sample_state BatchStatusAssigned 5) d'"
proof -
  obtain pm r d' where c: "change_tx (sample_env ''x'') ''a1'' (RejectChange ''too far'') pm (sample_state BatchStatusAssigned 5) = Inr (r, d')"
    using sample_change_tx by blast
  then have "\<exists>b b'. transition pm (encode_mutation_result r) BatchStatusAssigned BatchStatusApproved b b' []
      (sample_state BatchStatusAssigned 5) d'"
    using change_outcome [OF sample_assigned_wf c] by (auto simp: recorded_def sample_no_commands)
  then show ?thesis using c by blast
qed




text \<open>
  C19 Recovery of a failed collection returns the batch to APPROVED and clears only its assignment
  pointer: the failed assignment, the handoffs, the claims and the reservations stay as they are.
\<close>

theorem recovery_outcome:
  assumes "db_wf d" "recover_tx env aid svc m d = Inr (r, d')"
  shows "recorded decode_mutation_result m r d \<and> d' = d \<or>
    stored_command m d = None \<and> assignments d' = assignments d \<and> handoffs d' = handoffs d \<and>
    claims d' = claims d \<and> reservations d' = reservations d \<and> outbox d' = outbox d \<and>
    (\<exists>(a :: assignment) b. a_id a = aid \<and> a_status a = AssignmentStatusFailed \<and> b_id b = a_batch_id a \<and>
       b_assignment_id b = Some aid \<and>
       transition m (encode_mutation_result r) BatchStatusFailedCollection BatchStatusApproved b
         (moved_batch BatchStatusApproved None (truncate_us (env_clock env 0)) b) [] d d')"
proof (cases "recorded decode_mutation_result m r d \<and> d' = d")
  case False
  then obtain a :: assignment and b where 1: "stored_command m d = None" "a_id a = aid" "a_status a = AssignmentStatusFailed"
    "b_id b = a_batch_id a" "b_assignment_id b = Some aid" "assignments d' = assignments d"
    "handoffs d' = handoffs d" "claims d' = claims d" "reservations d' = reservations d"
    and t: "transition m (encode_mutation_result r) BatchStatusFailedCollection BatchStatusApproved b
         (moved_batch BatchStatusApproved None (truncate_us (env_clock env 0)) b) [] d d'"
    using recover_tx_outcome [OF assms] by blast
  have "outbox d' = outbox d" using t by (auto simp: transition_def events_added_def)
  then show ?thesis using 1 t by blast
qed blast

theorem recovery_outcome_witness:
  "\<exists>m r d'. recover_tx (sample_env ''x'') ''a1'' ''ops'' m (sample_state BatchStatusFailedCollection 6) = Inr (r, d') \<and>
     handoffs d' = handoffs (sample_state BatchStatusFailedCollection 6)"
proof -
  obtain r d' where r: "run_recover = (Inr r, d')" using succeededD [OF run_recover_succeeds] by blast
  have "trim_space ''ops'' = ''ops''" by code_simp
  then obtain m r2 where c: "recover_tx (sample_env ''x'') ''a1'' ''ops'' m (sample_state BatchStatusFailedCollection 6)
      = Inr (r2, d')"
    using recover_D [OF r [unfolded run_recover_def]] by auto
  from recovery_outcome [OF sample_failedcollection_wf c]
  have "handoffs d' = handoffs (sample_state BatchStatusFailedCollection 6)"
    by (auto simp: recorded_def sample_no_commands)
  then show ?thesis using c by blast
qed

text \<open>
  C20 A facility's receipt is recorded once per batch: the COLLECTED batch at the expected version, whose
  claim, assignment and scope belong to the caller's organisation, becomes VERIFIED, and exactly the
  normalized actual category, count and weight are stored and answered.
\<close>

theorem receipt_outcome:
  assumes "db_wf d" "verify_receipt_tx env bid nr m d = Inr (r, d')"
  shows "recorded decode_receipt_result m r d \<and> d' = d \<or>
    stored_command m d = None \<and> find (\<lambda>x. rc_batch_id x = bid) (receipts d) = None \<and>
    (\<exists>b e. b_id b = bid \<and> uint (b_version b) = md_expected_version m \<and> processing_allowed m b d \<and>
       transition m (encode_receipt_result r) BatchStatusCollected BatchStatusVerified b
         (advanced_batch BatchStatusVerified (truncate_us (env_clock env 0)) b) [e] d d' \<and>
       o_event_type e = ''ReceiptVerified'' \<and>
       receipts d' = receipts d @ [new_receipt (env_id env 1) m (env_id env 0) nr b (truncate_us (env_clock env 0))]) \<and>
    rv_category (rr_data r) = rq_category nr \<and> rv_item_count (rr_data r) = rq_item_count nr \<and>
    rv_weight (rr_data r) = rq_weight nr"
  using verify_receipt_tx_outcome [OF assms]
  by (auto simp: receipt_response_def new_receipt_def)

theorem receipt_outcome_witness:
  "\<exists>nr pm r d'. verify_receipt_tx (sample_env ''x'') ''b1'' nr pm (sample_state BatchStatusCollected 6) = Inr (r, d') \<and>
     rv_weight (rr_data r) = rq_weight nr"
proof -
  obtain r d' where "run_receipt = (Inr r, d')" using succeededD [OF run_receipt_succeeds] by blast
  then obtain nr pm where c: "verify_receipt_tx (sample_env ''x'') ''b1'' nr pm (sample_state BatchStatusCollected 6) = Inr (r, d')"
    unfolding run_receipt_def verify_receipt_Inr by blast
  then show ?thesis using receipt_outcome [OF sample_collected_wf c] by (auto simp: recorded_def sample_no_commands)
qed

text \<open>
  C21 A recorded treatment accounts for exactly the weight of the batch's receipt: reused, recycled,
  disposed and unknown are non-negative hundredths of a kilogram that add up to it, diverted is reused
  plus recycled, and the quality is COMPLETE just when nothing is unknown; the batch becomes RECYCLED.
\<close>

theorem treatment_outcome:
  assumes "db_wf d" "record_treatment_tx env rule bid tq m d = Inr (r, d')"
  shows "recorded decode_treatment_result m r d \<and> d' = d \<or>
    stored_command m d = None \<and>
    (\<exists>b rc v received e. b_id b = bid \<and> uint (b_version b) = md_expected_version m \<and> processing_allowed m b d \<and>
       find (\<lambda>x. rc_batch_id x = bid) (receipts d) = Some rc \<and>
       parse_treatment_cents (rc_weight rc) ''received_weight_kg'' = Inr received \<and> 1 \<le> received \<and> balanced v received \<and>
       transition m (encode_treatment_result r) BatchStatusVerified BatchStatusRecycled b
         (advanced_batch BatchStatusRecycled (truncate_us (env_clock env 0)) b) [e] d d' \<and>
       o_event_type e = ''RecyclingCompleted'' \<and>
       treatments d' = treatments d @ [new_treatment (env_id env 1) m (env_id env 0) v b rc (truncate_us (env_clock env 0))])"
proof (cases "recorded decode_treatment_result m r d \<and> d' = d")
  case False
  then obtain b rc v e where 1: "stored_command m d = None" "b_id b = bid" "uint (b_version b) = md_expected_version m"
    "processing_allowed m b d" "find (\<lambda>x. rc_batch_id x = bid) (receipts d) = Some rc"
    and n: "normalize_treatment_request tq (rc_weight rc) = Inr v"
    and 2: "transition m (encode_treatment_result r) BatchStatusVerified BatchStatusRecycled b
         (advanced_batch BatchStatusRecycled (truncate_us (env_clock env 0)) b) [e] d d'"
      "o_event_type e = ''RecyclingCompleted''"
      "treatments d' = treatments d @ [new_treatment (env_id env 1) m (env_id env 0) v b rc (truncate_us (env_clock env 0))]"
    using record_treatment_tx_outcome [OF assms] by fastforce
  obtain received where "parse_treatment_cents (rc_weight rc) ''received_weight_kg'' = Inr received" "1 \<le> received"
    "balanced v received"
    using normalize_treatment_balanced [OF n] by blast
  then show ?thesis using 1 2 by blast
qed blast

theorem treatment_outcome_witness:
  "\<exists>pm r d' v. record_treatment_tx (sample_env ''x'') ''rules-1'' ''b1'' sample_treatment pm (sample_state BatchStatusVerified 7)
       = Inr (r, d') \<and> balanced v 1250"
proof -
  obtain r d' where "run_treatment = (Inr r, d')" using succeededD [OF run_treatment_succeeds] by blast
  then obtain pm where c: "record_treatment_tx (sample_env ''x'') ''rules-1'' ''b1'' sample_treatment pm
      (sample_state BatchStatusVerified 7) = Inr (r, d')"
    unfolding run_treatment_def record_treatment_Inr by blast
  have p: "parse_treatment_cents (rc_weight sample_receipt_row) ''received_weight_kg'' = Inr 1250" by code_simp
  have f: "find (\<lambda>x. rc_batch_id x = ''b1'') (receipts (sample_state BatchStatusVerified 7)) = Some sample_receipt_row"
    by (simp add: sample_state_def sample_receipt_row_def)
  obtain v received rc where "find (\<lambda>x. rc_batch_id x = ''b1'') (receipts (sample_state BatchStatusVerified 7)) = Some rc"
    "parse_treatment_cents (rc_weight rc) ''received_weight_kg'' = Inr received" "balanced v received"
    using treatment_outcome [OF sample_verified_wf c] sample_no_commands by (auto simp: recorded_def)
  then show ?thesis using c f p by auto
qed

text \<open>
  C22 A refused command leaves no trace: whatever the reason, the database is as before; also for a claim
  whose lease is lost after its transaction committed, because then the committed answer is found and
  returned instead of the refusal.
\<close>

theorem refused_no_trace:
  assumes "db_wf d" "\<forall>i e. env_others env i e = e"
  shows "(case fst (create_draft env draft m d) of Inl _ \<Rightarrow> snd (create_draft env draft m d) = d | Inr _ \<Rightarrow> True) \<and>
    (case fst (edit_draft env bid draft m d) of Inl _ \<Rightarrow> snd (edit_draft env bid draft m d) = d | Inr _ \<Rightarrow> True) \<and>
    (case fst (submit env bid m d) of Inl _ \<Rightarrow> snd (submit env bid m d) = d | Inr _ \<Rightarrow> True) \<and>
    (case fst (claim env lease bid cq m d) of Inl _ \<Rightarrow> snd (claim env lease bid cq m d) = d | Inr _ \<Rightarrow> True) \<and>
    (case fst (select env bid sq m d) of Inl _ \<Rightarrow> snd (select env bid sq m d) = d | Inr _ \<Rightarrow> True) \<and>
    (case fst (change_assignment env aid ch m d) of Inl _ \<Rightarrow> snd (change_assignment env aid ch m d) = d | Inr _ \<Rightarrow> True) \<and>
    (case fst (record_pickup env aid p m d) of Inl _ \<Rightarrow> snd (record_pickup env aid p m d) = d | Inr _ \<Rightarrow> True) \<and>
    (case fst (recover_failed_collection env aid svc co d) of
       Inl _ \<Rightarrow> snd (recover_failed_collection env aid svc co d) = d | Inr _ \<Rightarrow> True) \<and>
    (case fst (verify_receipt env bid rq m d) of Inl _ \<Rightarrow> snd (verify_receipt env bid rq m d) = d | Inr _ \<Rightarrow> True) \<and>
    (case fst (record_treatment env rule bid tq m d) of
       Inl _ \<Rightarrow> snd (record_treatment env rule bid tq m d) = d | Inr _ \<Rightarrow> True) \<and>
    (case fst (acknowledge_analytics env bid aq m d) of
       Inl _ \<Rightarrow> snd (acknowledge_analytics env bid aq m d) = d | Inr _ \<Rightarrow> True) \<and>
    (case fst (upload st sha max_bytes commit env bid uq m d s) of
       Answers (Inr _) \<Rightarrow> True | _ \<Rightarrow> fst (snd (upload st sha max_bytes commit env bid uq m d s)) = d) \<and>
    (case fst (download st sha env bid ei a co d s) of
       Inl _ \<Rightarrow> snd (download st sha env bid ei a co d s) = d | Inr _ \<Rightarrow> True)"
proof -
  have al: "env_others env i e = e" for i e using assms(2) by blast
  have ex: "snd (assignment_execute env pm body d) = d" if "fst (assignment_execute env pm body d) = Inl e" for pm body e
    using that assignment_execute_rolled_back [of env pm body d e "snd (assignment_execute env pm body d)"]
    by (cases "assignment_execute env pm body d") (auto simp: al)
  have cl: "snd (claim env lease bid cq m d) = d" if "fst (claim env lease bid cq m d) = Inl e" for e
    using that claim_refused_no_trace [OF assms(1) al, of lease bid cq m e "snd (claim env lease bid cq m d)"]
    by (cases "claim env lease bid cq m d") auto
  show ?thesis
  proof (intro conjI)
    show "case fst (claim env lease bid cq m d) of Inl _ \<Rightarrow> snd (claim env lease bid cq m d) = d | Inr _ \<Rightarrow> True"
      using cl by (simp split: sum.split)
    show "case fst (upload st sha max_bytes commit env bid uq m d s) of
        Answers (Inr _) \<Rightarrow> True | _ \<Rightarrow> fst (snd (upload st sha max_bytes commit env bid uq m d s)) = d"
      using upload_refused [of st sha max_bytes commit env bid uq m d s]
      by (cases "upload st sha max_bytes commit env bid uq m d s") (auto split: outcome.split sum.split)
    show "case fst (download st sha env bid ei a co d s) of
        Inl _ \<Rightarrow> snd (download st sha env bid ei a co d s) = d | Inr _ \<Rightarrow> True"
      using download_refused [OF _ al]
      by (cases "download st sha env bid ei a co d s") (auto split: sum.split)
  qed (auto simp: create_draft_def edit_draft_def submit_def verify_receipt_def record_treatment_def acknowledge_analytics_def
      recover_failed_collection_def Let_def select_def change_assignment_def record_pickup_def run_tx_def
      split: sum.splits dest: ex)
qed

theorem refused_no_trace_witness:
  "snd (claim (sample_env ''x'') LeaseBusy ''b1'' sample_claim_request (recycler 3) (sample_state BatchStatusMatched 3))
     = sample_state BatchStatusMatched 3"
proof -
  let ?c = "claim (sample_env ''x'') LeaseBusy ''b1'' sample_claim_request (recycler 3) (sample_state BatchStatusMatched 3)"
  have "\<not> succeeded ?c" by code_simp
  moreover have al: "\<forall>i e. env_others (sample_env ''x'') i e = e" by (simp add: sample_env_def)
  have "case fst ?c of Inl _ \<Rightarrow> snd ?c = sample_state BatchStatusMatched 3 | Inr _ \<Rightarrow> True"
    by (rule refused_no_trace [OF sample_matched_wf al, THEN conjunct2, THEN conjunct2, THEN conjunct2, THEN conjunct1])
  ultimately show ?thesis by (simp add: succeeded_def split: sum.splits)
qed

text \<open>
  C23 Of two commands a donor sends against the same version of a draft, at most one takes effect: once an
  edit or a submission has moved the batch, another edit or submission with the old version is refused
  unless it is the replay of a recorded answer.
\<close>

theorem no_lost_update:
  assumes "db_wf d" "edit_draft_tx env bid req m d = Inr (r, d1) \<or> submit_tx env bid m d = Inr (r, d1)" "d1 \<noteq> d"
    and "md_expected_version m2 = md_expected_version m"
    and "edit_draft_tx env2 bid req2 m2 d1 = Inr (r2, d2) \<or> submit_tx env2 bid m2 d1 = Inr (r2, d2)"
  shows "recorded decode_batch_result m2 r2 d1 \<and> d2 = d1"
proof (rule ccontr)
  assume no: "\<not> ?thesis"
  obtain b b' j dst es where id: "b_id b = bid" and v: "uint (b_version b) = md_expected_version m"
    and t: "transition m j BatchStatusDraft dst b b' es d d1"
    using assms(2) edit_draft_tx_outcome [OF assms(1)] submit_tx_outcome [OF assms(1)] assms(3) by metis
  have wf1: "db_wf d1"
    using assms(1,2) commit_edit commit_submit reachable_wf [OF r_into_rtranclp [of workflow_commit]] by blast
  have "find (\<lambda>x. b_id x = b_id b') (batches d1) = Some b'" "b_version b' = b_version b + 1" "b_id b' = bid"
    using t id by (auto simp: transition_def batch_moved_def dest: find_Some_memD)
  moreover obtain b2 where "find (\<lambda>x. b_id x = bid) (batches d1) = Some b2" "uint (b_version b2) = md_expected_version m2"
    using assms(5) no unfolding edit_draft_tx_cases submit_tx_cases by blast
  ultimately have "uint (b_version b + 1) = uint (b_version b)" using assms(4) v by simp
  then show False by (simp add: word_uint_eq_iff [symmetric])
qed

theorem no_lost_update_witness:
  "\<exists>pm r d1. edit_draft_tx (sample_env ''x'') ''b1'' sample_draft pm (sample_state BatchStatusDraft 1) = Inr (r, d1) \<and>
     edit_draft_tx (sample_env ''y'') ''b1'' sample_draft pm d1 = Inr (r, d1) \<and> recorded decode_batch_result pm r d1"
proof -
  obtain r d1 where "run_edit = (Inr r, d1)" using succeededD [OF run_edit_succeeds] by blast
  then obtain pm where e: "edit_draft_tx (sample_env ''x'') ''b1'' sample_draft pm (sample_state BatchStatusDraft 1) = Inr (r, d1)"
    using edit_draft_Inr unfolding run_edit_def by blast
  have rec: "recorded decode_batch_result pm r d1" by (rule edit_draft_replay.commit [OF sample_draft_wf e])
  then have new: "d1 \<noteq> sample_state BatchStatusDraft 1" using sample_no_commands [of pm] by (auto simp: recorded_def)
  have e2: "edit_draft_tx (sample_env ''y'') ''b1'' sample_draft pm d1 = Inr (r, d1)"
    by (rule edit_draft_replay.replay [OF TrueI rec])
  show ?thesis using e e2 no_lost_update [OF sample_draft_wf disjI1 [OF e] new refl disjI1 [OF e2]] by blast
qed

text \<open>
  C24 Treatment weights: every accepted text denotes between 0 and 50000000.99 kg in whole hundredths, so
  the sums of the balance stay far inside \<open>int64\<close>; formatting it and parsing it again gives the same value.
\<close>

theorem treatment_cents_round_trip:
  assumes "parse_treatment_cents raw field = Inr c"
  shows "0 \<le> c \<and> c \<le> 5000000099 \<and> parse_treatment_cents (format_treatment_cents c) field2 = Inr c"
proof -
  have b: "0 \<le> c" "c \<le> max_weight_whole * 100 + 99" using parse_treatment_cents_bounds [OF assms] by auto
  then have "c div 100 \<le> max_weight_whole" by linarith
  then show ?thesis using b parse_format_treatment_cents [of c field2] by (simp add: max_weight_whole_def)
qed

theorem treatment_cents_round_trip_witness:
  "format_treatment_cents 650 = ''6.50'' \<and> parse_treatment_cents (format_treatment_cents 650) ''x'' = Inr 650"
proof -
  have "parse_treatment_cents '' 6.5'' ''x'' = Inr 650" by code_simp
  then show ?thesis using treatment_cents_round_trip by (simp add: format_treatment_cents_def) code_simp
qed

text \<open>
  C25 A treatment that accounts for more than the receipt's weight is refused before anything is written,
  however the three amounts are spelled.
\<close>

theorem excess_treatment_refused:
  assumes "stored_command m d = None" "find (\<lambda>x. rc_batch_id x = bid) (receipts d) = Some rc"
    and "parse_treatment_cents (rc_weight rc) ''received_weight_kg'' = Inr received" "1 \<le> received"
    and "tq_reused tq = Some ru" "tq_recycled tq = Some ry" "tq_disposed tq = Some di"
    and "parse_treatment_cents ru ''reused_kg'' = Inr a" "parse_treatment_cents ry ''recycled_kg'' = Inr b"
      "parse_treatment_cents di ''disposed_kg'' = Inr c"
    and "a + b + c > received"
  shows "normalize_treatment_request tq (rc_weight rc) =
      Inl (ErrBatchFields [(''treatment'', ''treatment totals must not exceed actual received weight'')]) \<and>
    (\<nexists>r d'. record_treatment_tx env rule bid tq m d = Inr (r, d'))"
proof -
  have n: "normalize_treatment_request tq (rc_weight rc) =
      Inl (ErrBatchFields [(''treatment'', ''treatment totals must not exceed actual received weight'')])"
    by (rule treatment_excess_refused [OF assms(3-11)])
  have "\<nexists>r d'. record_treatment_tx env rule bid tq m d = Inr (r, d')"
  proof
    assume "\<exists>r d'. record_treatment_tx env rule bid tq m d = Inr (r, d')"
    then obtain r d' where "record_treatment_tx env rule bid tq m d = Inr (r, d')" by blast
    then obtain b where f: "find (\<lambda>b. b_id b = bid) (batches d) = Some b"
      and v: "\<exists>v rc. find (\<lambda>x. rc_batch_id x = b_id b) (receipts d) = Some rc \<and> normalize_treatment_request tq (rc_weight rc) = Inr v"
      using assms(1) unfolding record_treatment_tx_def treatment_replay_or_fresh
      by (auto simp: tx_success find_receipt_def recorded_def)
    have "b_id b = bid" using find_Some_memD [OF f] by simp
    then show False using v assms(2) n by auto
  qed
  then show ?thesis using n by blast
qed

theorem excess_treatment_refused_witness:
  "\<nexists>r d'. record_treatment_tx (sample_env ''x'') ''rules-1'' ''b1''
     (sample_treatment\<lparr>tq_disposed := Some ''1.26''\<rparr>) sample_claim_metadata (sample_state BatchStatusVerified 7) = Inr (r, d')"
proof -
  have f: "find (\<lambda>x. rc_batch_id x = ''b1'') (receipts (sample_state BatchStatusVerified 7)) = Some sample_receipt_row"
    by (simp add: sample_state_def sample_receipt_row_def)
  have p: "parse_treatment_cents (rc_weight sample_receipt_row) ''received_weight_kg'' = Inr 1250"
    "parse_treatment_cents ''5'' ''reused_kg'' = Inr 500" "parse_treatment_cents ''6.25'' ''recycled_kg'' = Inr 625"
    "parse_treatment_cents ''1.26'' ''disposed_kg'' = Inr 126" by code_simp+
  show ?thesis
    using excess_treatment_refused [OF sample_no_commands f p(1), of _ _ _ _ 500 625 126] p
    by (simp add: sample_treatment_def)
qed



section \<open>The outbox relay\<close>

text \<open>The sample system with one submitted batch, its event still pending, and a relay nothing disturbs.\<close>

definition sample_world :: world where
  "sample_world = \<lparr>w_db = snd run_submit, w_sent = []\<rparr>"

definition sample_sessions :: session_env where
  "sample_sessions = \<lparr>se_fault = (\<lambda>_. NoFault), se_locked = (\<lambda>_ _. False), se_others = (\<lambda>_ w. w),
     se_broker = (\<lambda>_. BrokerAck 0), se_schema = (\<lambda>_ _. True), se_uuid = Some\<rparr>"

definition sample_relay :: "world relay_env" where
  "sample_relay = \<lparr>re_now = (\<lambda>_. sample_now + hour), re_cancelled = (\<lambda>_. False), re_others = (\<lambda>_ w. w)\<rparr>"

definition sample_config :: relay_config where
  "sample_config = new_relay_config \<lparr>cfg_poll_interval = 0, cfg_batch_size = 0, cfg_max_attempts = 0,
     cfg_lease_duration = 0, cfg_leader_lease_duration = 0, cfg_retry_backoff = 0, cfg_publish_timeout = 0\<rparr>"

lemma sample_world_ok: "world_ok sample_world" by code_simp

lemma sample_sessions_lawful: "lawful_sessions sample_sessions"
  by (simp add: lawful_sessions_def sample_sessions_def)

text \<open>
  C28 A leader's rounds do nothing but what any session of the platform may do, one atomic step after the
  other, whatever is lost on the way to the database and the broker, however often the broker takes a
  message, whenever the lease is lost and whatever other sessions do in between; and an event is only
  reported published when the broker has it.
\<close>

theorem relay_refines_platform:
  assumes "lawful_sessions se" "\<And>env i w. env \<in> set envs \<Longrightarrow> platform_steps w (re_others env i w)" "world_ok w"
    and "leader_rounds (gorm_outbox se) (kafka_publish se) cfg envs w = (obs, w')"
  shows "platform_steps w w' \<and>
    (\<forall>ob\<in>set obs. ob_observation ob = ''outbox_published'' \<longrightarrow> event_content (ob_event ob) \<in> set (w_sent w'))"
  using kafka_relay.leader_rounds_step [OF assms(1,4,2,3)] by (simp add: event_sent_def)

theorem relay_refines_platform_witness:
  "platform_steps sample_world
     (snd (leader_rounds (gorm_outbox sample_sessions) (kafka_publish sample_sessions) sample_config [sample_relay] sample_world))"
proof -
  have o: "platform_steps w (re_others env i w)" if "env \<in> set [sample_relay]" for env i w
    using that by (simp add: sample_relay_def)
  show ?thesis
    using relay_refines_platform [OF sample_sessions_lawful o sample_world_ok surjective_pairing] by blast
qed



text \<open>
  C30 A successful claim returns, in order and up to the limit, events that are due, unlocked, the first
  pending event of their batch and in no batch with a quarantined event; it counts the attempt and leases
  exactly those events, and none of them is due again before its lease has run out.
\<close>

theorem claim_takes_heads:
  assumes "claim_pending locked now limit lease d = Inr (es, d')" "db_wf d"
  shows "es = candidates now locked limit (outbox d) \<and> length es \<le> nat limit \<and> sorted (map event_key_of es) \<and>
    list_all (\<lambda>e. due now e \<and> \<not> locked (o_event_id e) \<and> settled_before (outbox d) e) es \<and>
    d' = d\<lparr>outbox := map (\<lambda>x. if List.member es x then leased (now + lease) x else x) (outbox d)\<rparr> \<and>
    (\<forall>t<now + lease. list_all (\<lambda>x. List.member (map o_event_id es) (o_event_id x) \<longrightarrow> \<not> due t x) (outbox d'))"
proof -
  have es: "es = candidates now locked limit (outbox d)" using assms(1) by (simp add: claim_pending_Inr)
  have ids: "List.member (map o_event_id es) (o_event_id x) \<and> pending x \<longleftrightarrow> List.member es x" if "x \<in> set (outbox d)" for x
  proof
    assume "List.member es x"
    then show "List.member (map o_event_id es) (o_event_id x) \<and> pending x"
      using set_candidates [of x now locked limit "outbox d"] by (auto simp: es claimable_def due_def)
  next
    assume "List.member (map o_event_id es) (o_event_id x) \<and> pending x"
    then obtain e where e: "e \<in> set es" "o_event_id x = o_event_id e" by auto
    then have "e \<in> set (outbox d)" using set_candidates [of e now locked limit "outbox d"] by (simp add: es)
    then have "x = e" using distinct_key_eqD [of o_event_id "outbox d" x e] assms(2) that e(2) by (simp add: db_wf_defs)
    then show "List.member es x" using e(1) by simp
  qed
  have "map (\<lambda>x. if List.member (map o_event_id es) (o_event_id x) \<and> pending x then leased (now + lease) x else x) (outbox d) =
      map (\<lambda>x. if List.member es x then leased (now + lease) x else x) (outbox d)"
    by (rule map_cong [OF refl]) (simp only: ids)
  then have "d' = d\<lparr>outbox := map (\<lambda>x. if List.member es x then leased (now + lease) x else x) (outbox d)\<rparr>"
    unfolding claim_pending_update [OF assms(1)] tbl_update_def by (simp only:)
  moreover have "list_all (\<lambda>e. due now e \<and> \<not> locked (o_event_id e) \<and> settled_before (outbox d) e) es"
    unfolding list_all_iff
  proof
    fix e assume "e \<in> set es"
    then have "claimable now locked (outbox d) e" using set_candidates [of e now locked limit "outbox d"] by (simp add: es)
    then show "due now e \<and> \<not> locked (o_event_id e) \<and> settled_before (outbox d) e"
      using claimable_settled by (auto simp: claimable_def)
  qed
  moreover have "list_all (\<lambda>x. List.member (map o_event_id es) (o_event_id x) \<longrightarrow> \<not> due t x) (outbox d')"
    if "t < now + lease" for t
    using claimed_not_due [OF assms(1) _ _ _ that] by (auto simp: list_all_iff)
  ultimately show ?thesis using candidates_length [of now locked limit "outbox d"] candidates_sorted es by auto
qed

definition sample_due :: "(error + (outbox_event list \<times> db))" where
  "sample_due = claim_pending (\<lambda>_. False) (sample_now + hour) 50 (30 * second) (w_db sample_world)"

lemma sample_due_claims: "case sample_due of Inl _ \<Rightarrow> False | Inr (es, _) \<Rightarrow> length es = 1"
  by code_simp

lemma sample_world_wf: "db_wf (w_db sample_world)"
  using sample_world_ok by (simp add: world_ok_def)

theorem claim_takes_heads_witness:
  "\<exists>e d'. claim_pending (\<lambda>_. False) (sample_now + hour) 50 (30 * second) (w_db sample_world) = Inr ([e], d') \<and>
     settled_before (outbox (w_db sample_world)) e"
proof -
  obtain e d' where c: "claim_pending (\<lambda>_. False) (sample_now + hour) 50 (30 * second) (w_db sample_world) = Inr ([e], d')"
    using sample_due_claims unfolding sample_due_def
    by (auto simp: length_Suc_conv split: sum.splits prod.splits)
  have "settled_before (outbox (w_db sample_world)) e"
    using claim_takes_heads [OF c sample_world_wf] by simp
  then show ?thesis using c by blast
qed

text \<open>
  C31 A quarantined event stays quarantined and closes its batch: whatever the platform does afterwards, no
  event of the batch is claimed any more.
\<close>

theorem quarantine_closes_batch:
  assumes "world_ok w" "platform_steps w w'" "e \<in> set (outbox (w_db w))" "o_state e = OutboxQuarantined"
  shows "(\<exists>e'\<in>set (outbox (w_db w')). o_event_id e' = o_event_id e \<and> o_state e' = OutboxQuarantined) \<and>
    (\<forall>x locked now limit lease es d'. claim_pending locked now limit lease (w_db w') = Inr (es, d') \<longrightarrow> x \<in> set es \<longrightarrow>
       o_batch_id x \<noteq> o_batch_id e)"
proof -
  obtain e' where e': "e' \<in> set (outbox (w_db w'))" "event_kept e e'"
    using event_kept_steps [OF assms(2,1,3)] by blast
  have "o_event_id e' = o_event_id e \<and> o_state e' = OutboxQuarantined"
    using event_kept_fields(1) [OF e'(2)] e'(2) assms(4) by (simp add: event_kept_def)
  moreover have "o_batch_id x \<noteq> o_batch_id e"
    if "claim_pending locked now limit lease (w_db w') = Inr (es, d')" "x \<in> set es" for x locked now limit lease es d'
  proof
    assume "o_batch_id x = o_batch_id e"
    then have "\<not> claimable now locked (outbox (w_db w')) x" by (rule quarantine_blocks_batch [OF assms(2,1,3,4)])
    moreover have "x \<in> set (candidates now locked limit (outbox (w_db w')))" using that by (simp add: claim_pending_Inr)
    ultimately show False using set_candidates by blast
  qed
  ultimately show ?thesis using e'(1) by blast
qed

text \<open>The same event under a publisher that finds it invalid.\<close>

definition strict_sessions :: session_env where
  "strict_sessions = sample_sessions\<lparr>se_schema := (\<lambda>_ _. False)\<rparr>"

definition quarantined_world :: world where
  "quarantined_world =
     snd (process_once (gorm_outbox strict_sessions) (kafka_publish strict_sessions) sample_config sample_relay sample_world)"

lemma quarantined_world_state: "map o_state (outbox (w_db quarantined_world)) = [OutboxQuarantined]" by code_simp

lemma quarantined_world_ok: "world_ok quarantined_world"
proof -
  have l: "lawful_sessions strict_sessions"
    by (simp add: lawful_sessions_def strict_sessions_def sample_sessions_def)
  have o: "platform_steps w (re_others sample_relay i w)" for i w by (simp add: sample_relay_def)
  have "platform_steps sample_world quarantined_world"
    unfolding quarantined_world_def
    using kafka_relay.process_once_step [OF l surjective_pairing o sample_world_ok] by blast
  then show ?thesis using platform_steps_ok sample_world_ok by blast
qed

theorem quarantine_closes_batch_witness:
  "\<exists>e. o_state e = OutboxQuarantined \<and> outbox (w_db quarantined_world) = [e] \<and>
     (\<forall>x es d'. claim_pending (\<lambda>_. False) (sample_now + 2 * hour) 50 second (w_db quarantined_world) = Inr (es, d') \<longrightarrow>
        x \<in> set es \<longrightarrow> o_batch_id x \<noteq> o_batch_id e)"
proof -
  obtain e where e: "outbox (w_db quarantined_world) = [e]" "o_state e = OutboxQuarantined"
    using quarantined_world_state by (auto simp: map_eq_Cons_conv)
  show ?thesis using quarantine_closes_batch [OF quarantined_world_ok rtranclp.rtrancl_refl, of e] e by auto
qed

text \<open>
  C32 Every event the commands enqueue passes the checks of the publisher: its payload decodes to the metadata
  of its row, on the topic of its type.  From an outbox of such events, whatever the sessions do, every event
  is one, so it is only quarantined for its identifiers, for a correlation identifier that is too long, or by
  the schema.
\<close>

theorem emitted_events_publishable:
  assumes "reachable d d'" "db_wf d" "outbox_behind d" "list_all routed (outbox d)"
  shows "list_all routed (outbox d') \<and>
    (\<forall>e\<in>set (outbox d'). schema (o_event_type e) (o_payload e) \<longrightarrow>
       uuid (o_event_id e) = Some (o_event_id e) \<longrightarrow> uuid (o_command_id e) = Some (o_command_id e) \<longrightarrow>
       uuid (o_batch_id e) = Some (o_batch_id e) \<longrightarrow> uuid [] \<noteq> Some [] \<longrightarrow>
       o_correlation_id e \<noteq> [] \<longrightarrow> rune_count (o_correlation_id e) \<le> 128 \<longrightarrow>
       validate_event schema uuid e = Inr ())"
proof -
  have rt: "list_all routed (outbox d')" by (rule reachable_routed [OF assms])
  have "validate_event schema uuid e = Inr ()"
    if "e \<in> set (outbox d')" "schema (o_event_type e) (o_payload e)" "uuid (o_event_id e) = Some (o_event_id e)"
      "uuid (o_command_id e) = Some (o_command_id e)" "uuid (o_batch_id e) = Some (o_batch_id e)" "uuid [] \<noteq> Some []"
      "o_correlation_id e \<noteq> []" "rune_count (o_correlation_id e) \<le> 128" for e
    by (rule validate_routed) (use that rt in \<open>auto simp: list_all_iff\<close>)
  then show ?thesis using rt by blast
qed

theorem emitted_events_publishable_witness:
  "\<exists>r d1. run_claim = (Inr r, d1) \<and>
     (\<forall>e\<in>set (outbox d1). o_correlation_id e \<noteq> [] \<longrightarrow> rune_count (o_correlation_id e) \<le> 128 \<longrightarrow> o_event_id e \<noteq> [] \<longrightarrow>
        o_command_id e \<noteq> [] \<longrightarrow> o_batch_id e \<noteq> [] \<longrightarrow>
        validate_event (\<lambda>_ _. True) (\<lambda>s. if s = [] then None else Some s) e = Inr ())"
proof -
  have ob: "outbox_behind (sample_state BatchStatusMatched 3)" by code_simp
  have rt: "list_all routed (outbox (sample_state BatchStatusMatched 3))" by (simp add: sample_state_def sample_db_def empty_db_def)
  obtain r d1 where c: "run_claim = (Inr r, d1)" "reachable (sample_state BatchStatusMatched 3) d1"
    using sample_claim_reachable by blast
  show ?thesis
    using c(1) emitted_events_publishable [OF c(2) sample_matched_wf ob rt, of "\<lambda>_ _. True" "\<lambda>s. if s = [] then None else Some s"]
    by (intro exI [of _ r] exI [of _ d1]) simp
qed

text \<open>
  C33 A round that nothing disturbs makes progress: every event that heads its batch and is due ends
  published, if the publisher accepts it, and quarantined otherwise; the broker gets the accepted ones in
  order; no other event changes its state, and no content changes.
\<close>

theorem undisturbed_round_settles:
  assumes "undisturbed se env" "db_wf (w_db w)" "0 < cfg_batch_size cfg" "0 < cfg_lease_duration cfg"
    and "es = candidates (re_now env 0) (se_locked se 0) (cfg_batch_size cfg) (outbox (w_db w))"
    and "list_all (\<lambda>e. o_attempts e \<noteq> - 1) es"
  shows "\<exists>w'. process_once (gorm_outbox se) (kafka_publish se) cfg env w = (map (logged se) es, w') \<and>
    w_sent w' = w_sent w @ map event_content (filter (accepted se) es) \<and>
    list_all2 (\<lambda>x x'. event_content x' = event_content x \<and>
       o_state x' = (if List.member (map o_event_id es) (o_event_id x) then final_state se x else o_state x))
      (outbox (w_db w)) (outbox (w_db w'))"
  using undisturbed_round [OF assms(1-4)] assms(5,6) unfolding settled_rows_def by blast

theorem undisturbed_round_settles_witness:
  "\<exists>w'. process_once (gorm_outbox sample_sessions) (kafka_publish sample_sessions) sample_config sample_relay sample_world =
      (map (logged sample_sessions) (candidates (sample_now + hour) (\<lambda>_. False) 50 (outbox (w_db sample_world))), w')"
proof -
  have u: "undisturbed sample_sessions sample_relay" by (simp add: undisturbed_def sample_sessions_def sample_relay_def)
  have c: "cfg_batch_size sample_config = 50" "0 < cfg_lease_duration sample_config"
    by (simp_all add: sample_config_def new_relay_config_def positive_or_def second_def)
  have a: "list_all (\<lambda>e. o_attempts e \<noteq> - 1) (candidates (sample_now + hour) (\<lambda>_. False) 50 (outbox (w_db sample_world)))"
    by code_simp
  show ?thesis
    using undisturbed_round_settles [OF u sample_world_wf, of sample_config] c a
    by (auto simp: sample_sessions_def sample_relay_def)
qed

section \<open>The leases\<close>

text \<open>
  C34 Mutual exclusion: over every sequence of acquisitions, renewals and releases of a lease by any clients,
  with lost requests and lost replies, no two tokens are relied on at the same instant; for the claim lease
  of a batch and for the leadership of the relay, on any server that keeps the documented laws of Redis.
\<close>

theorem leases_exclusive:
  assumes "lawful_lease v" "cs_until c = (\<lambda>_. None)"
    and "cs_until c' x = Some u" "cs_now c' < u" "cs_until c' y = Some w" "cs_now c' < w"
  shows "((lease_step (leader_call v) (leader_renewal v) (leader_end v) (lease_ms v))\<^sup>*\<^sup>* c c' \<longrightarrow> x = y) \<and>
    ((lease_step (batch_call v) (batch_renewal v) (batch_end v) (lease_ms v))\<^sup>*\<^sup>* c c' \<longrightarrow> x = y)"
  using leadership.one_holder [OF assms(1) _ assms(2-6)] claim_lease.one_holder [OF assms(1) _ assms(2-6)] by blast

definition sample_lease :: "(string \<Rightarrow> (string \<times> int) option) lease_env" where
  "sample_lease = \<lparr>le_server = memory_redis, le_ttl = 30 * second, le_key = ''lock''\<rparr>"

theorem leases_exclusive_witness:
  "\<exists>c'. (lease_step (leader_call sample_lease) (leader_renewal sample_lease) (leader_end sample_lease) (lease_ms sample_lease))\<^sup>*\<^sup>*
      \<lparr>cs_now = 0, cs_server = (\<lambda>_. None), cs_until = (\<lambda>_. None)\<rparr> c' \<and>
    cs_until c' ''tk'' = Some 30000 \<and> (\<forall>y w. cs_until c' y = Some w \<longrightarrow> 0 < w \<longrightarrow> ''tk'' = y)"
proof -
  let ?R = "lease_step (leader_call sample_lease) (leader_renewal sample_lease) (leader_end sample_lease) (lease_ms sample_lease)"
  let ?c = "\<lparr>cs_now = 0, cs_server = (\<lambda>_. None), cs_until = (\<lambda>_. None)\<rparr> :: (string \<Rightarrow> (string \<times> int) option) clients"
  have l: "lawful_lease sample_lease" "lease_ms sample_lease = 30000"
    by (simp_all add: lawful_lease_def sample_lease_def memory_redis_laws milliseconds_def second_def lease_ms_def)
  obtain s' where a: "leader_call sample_lease LinkUp ''tk'' 0 (\<lambda>_. None) = (True, s')"
    unfolding leader_call_eq [OF l(1)] by (simp add: sample_lease_def memory_redis_def)
  let ?c' = "?c\<lparr>cs_server := s', cs_until := [''tk'' \<mapsto> 30000]\<rparr>"
  have "?R ?c ?c'"
    using lease_step.lease_acquire [of "leader_call sample_lease" LinkUp "''tk''" ?c True s'] a l(2) by simp
  then have s: "?R\<^sup>*\<^sup>* ?c ?c'" by (rule r_into_rtranclp)
  have "\<forall>y w. cs_until ?c' y = Some w \<longrightarrow> 0 < w \<longrightarrow> ''tk'' = y"
    using leases_exclusive [OF l(1), of ?c ?c' "''tk''" 30000] s by fastforce
  then show ?thesis using s by (intro exI [of _ ?c']) simp
qed

section \<open>Completion and evidence\<close>

text \<open>
  C35 An acknowledgement that succeeds repeats its recorded answer, or finds its run already stored for the
  completed batch, or completes the batch: the source event is the RecyclingCompleted event of exactly this
  version, its frozen input has the quoted hash, the metrics and flags are the ones the input determines, and
  one result with one anomaly per flag is stored with the event and the audit row of the completion.
\<close>

theorem acknowledgement_outcome:
  assumes "db_wf d" "acknowledge_tx env bid rq m d = Inr (r, d')"
  shows "(\<exists>r0. recorded decode_completion_result m r0 d \<and> r = replayed r0 \<and> d' = d) \<or>
    stored_command m d = None \<and> run_recovered bid rq m r d \<and> d' = d \<or>
    stored_command m d = None \<and> batch_completed env bid rq m r d d' \<and>
    (\<exists>x as data. analytics d' = analytics d @ [x] \<and> ar_batch_id x = bid \<and> ar_input_hash x = aq_input_hash rq \<and>
       ar_source_event_id x = aq_source_event_id rq \<and> ar_id x = cv_result_id (co_data r) \<and>
       anomalies d' = anomalies d @ as \<and> list_all (\<lambda>a. an_result_id a = ar_id x \<and> an_batch_id a = bid) as \<and>
       map an_code as = ack_codes rq \<and> expected_analytics_anomaly_codes data = Inr (ack_codes rq) \<and>
       ar_reused x = nullable_event_string (json_field ''reused_kg'' data) \<and>
       ar_recycled x = nullable_event_string (json_field ''recycled_kg'' data) \<and>
       ar_disposed x = nullable_event_string (json_field ''disposed_kg'' data))"
  using acknowledge_tx_outcome [OF assms] batch_completed_rows [of env bid rq m r d d'] by blast

lemma sample_treated_wf: "db_wf (snd run_treatment)"
  using record_treatment_reachable reachable_wf sample_verified_wf unfolding run_treatment_def by blast

lemma sample_ack_tx:
  "\<exists>pm r d'. acknowledge_tx (worker_env ''y'') ''b1'' sample_ack pm (snd run_treatment) = Inr (r, d') \<and>
     run_analytics = (Inr r, d') \<and> analytics (snd run_treatment) = [] \<and> map an_code (anomalies d') = [''UNALLOCATED_WEIGHT'']"
proof -
  obtain r d' where r: "run_analytics = (Inr r, d')" using succeededD [OF run_analytics_succeeds] by blast
  moreover have "analytics (snd run_treatment) = []" by code_simp
  moreover have "map an_code (anomalies (snd run_analytics)) = [''UNALLOCATED_WEIGHT'']" by code_simp
  then have "map an_code (anomalies d') = [''UNALLOCATED_WEIGHT'']" unfolding r by simp
  moreover obtain pm where "acknowledge_tx (worker_env ''y'') ''b1'' sample_ack pm (snd run_treatment) = Inr (r, d')"
    using r unfolding run_analytics_def by (auto simp: acknowledge_analytics_def run_tx_Inr split: sum.splits if_splits)
  ultimately show ?thesis by (intro exI [of _ pm] exI [of _ r] exI [of _ d']) simp
qed

theorem acknowledgement_outcome_witness:
  "\<exists>r d' x. run_analytics = (Inr r, d') \<and> analytics d' = [x] \<and> ar_batch_id x = ''b1'' \<and> ar_id x = cv_result_id (co_data r)"
proof -
  obtain pm r d' where c: "acknowledge_tx (worker_env ''y'') ''b1'' sample_ack pm (snd run_treatment) = Inr (r, d')"
    "run_analytics = (Inr r, d')" "analytics (snd run_treatment) = []" "map an_code (anomalies d') = [''UNALLOCATED_WEIGHT'']"
    using sample_ack_tx by (elim exE conjE) (rule that)
  have "anomalies (snd run_treatment) = []" by code_simp
  then have "d' \<noteq> snd run_treatment" using c(4) by auto
  then show ?thesis using acknowledgement_outcome [OF sample_treated_wf c(1)] c by auto
qed

text \<open>
  C36 A batch is completed once: after an acknowledgement has completed it, another one for the batch, with
  whatever key, run and request, writes nothing, and if it succeeds answers its own recorded command or the
  result that is stored.
\<close>

theorem batch_completed_once:
  assumes "db_wf d" "acknowledge_tx env bid rq m d = Inr (r, d1)" "d1 \<noteq> d"
    and "acknowledge_tx env2 bid rq2 m2 d1 = Inr (r2, d2)"
  shows "d2 = d1 \<and> ((\<exists>r0. recorded decode_completion_result m2 r0 d1 \<and> r2 = replayed r0) \<or>
    cv_result_id (co_data r2) = cv_result_id (co_data r))"
  by (rule second_acknowledgement [OF assms])

text \<open>The same run acknowledged again under another key.\<close>

definition run_analytics_again where
  "run_analytics_again = acknowledge_analytics (worker_env ''z'') ''b1'' sample_ack
     ((worker 8)\<lparr>md_idempotency_key := ''another-key''\<rparr>) (snd run_analytics)"

lemma run_analytics_again_succeeds: "succeeded run_analytics_again" by code_simp

theorem batch_completed_once_witness:
  "\<exists>r r2. fst run_analytics = Inr r \<and> run_analytics_again = (Inr r2, snd run_analytics) \<and>
     ((\<exists>m r0. recorded decode_completion_result m r0 (snd run_analytics) \<and> r2 = replayed r0) \<or>
      cv_result_id (co_data r2) = cv_result_id (co_data r))"
proof -
  obtain pm r d' where c: "acknowledge_tx (worker_env ''y'') ''b1'' sample_ack pm (snd run_treatment) = Inr (r, d')"
    "run_analytics = (Inr r, d')" "map an_code (anomalies d') = [''UNALLOCATED_WEIGHT'']"
    using sample_ack_tx by (elim exE conjE) (rule that)
  have "anomalies (snd run_treatment) = []" by code_simp
  then have ne: "d' \<noteq> snd run_treatment" using c(3) by auto
  obtain r2 d2 where r2: "run_analytics_again = (Inr r2, d2)" using succeededD [OF run_analytics_again_succeeds] by blast
  then obtain pm2 where c2: "acknowledge_tx (worker_env ''z'') ''b1'' sample_ack pm2 d' = Inr (r2, d2)"
    unfolding run_analytics_again_def c(2) by (auto simp: acknowledge_analytics_def run_tx_Inr split: sum.splits if_splits)
  have "snd run_analytics = d'" "fst run_analytics = Inr r" unfolding c(2) by simp_all
  then show ?thesis using batch_completed_once [OF sample_treated_wf c(1) ne c2] r2 by auto
qed

text \<open>
  C37 Recording a treatment hands the batch to the analytics: the treatment's RecyclingCompleted event can be
  prepared at once, with the version and the rule of the treatment, a canonical input that carries the weights,
  quality and receipt stored in its row, and the digest of that input; and a request that quotes the
  preparation passes the checks of its source event, over the same input.
\<close>

theorem treatment_prepares_analytics:
  assumes "db_wf d" "record_treatment_tx env rule bid tq m d = Inr (r, d')" "stored_command m d = None"
    and "trim_space rule \<noteq> []"
  shows "\<exists>t p. treatments d' = treatments d @ [t] \<and> prepare_analytics_tx env2 bid (tr_event_id r) d' = Inr (p, d') \<and>
    uint (ap_source_version p) = tv_version (tr_data r) \<and> ap_rule_version p = rule \<and>
    ap_correlation_id p = md_correlation_id m \<and> ap_input_hash p = env_sha256 env2 (ap_input p) \<and>
    json_field ''reused_kg'' (ap_input p) = Some (json_opt JStr (t_reused t)) \<and>
    json_field ''recycled_kg'' (ap_input p) = Some (json_opt JStr (t_recycled t)) \<and>
    json_field ''disposed_kg'' (ap_input p) = Some (json_opt JStr (t_disposed t)) \<and>
    json_field ''unknown_kg'' (ap_input p) = Some (json_opt JStr (t_unknown t)) \<and>
    json_field ''data_quality'' (ap_input p) = Some (JStr (data_quality_string (t_quality t))) \<and>
    json_field ''receipt_id'' (ap_input p) = Some (JStr (t_receipt_id t)) \<and>
    (\<forall>rq. aq_source_event_id rq = tr_event_id r \<and> aq_source_version rq = ap_source_version p \<and>
       aq_rule_version rq = ap_rule_version p \<and> aq_input_hash rq = ap_input_hash p \<longrightarrow>
       (\<exists>payload. source_payload_tx env2 bid rq d' = Inr (payload, d') \<and>
          analytics_canonical_input payload = Inr (ap_input p)))"
  using treatment_prepares [OF assms, of env2]
  by (elim exE conjE) ((rule exI)+, intro conjI allI impI, assumption+, elim conjE, rule prepared_accepted, assumption+)

lemma sample_treatment_tx:
  "\<exists>pm r d'. record_treatment_tx (sample_env ''x'') ''rules-1'' ''b1'' sample_treatment pm (sample_state BatchStatusVerified 7) = Inr (r, d') \<and>
     run_treatment = (Inr r, d') \<and> stored_command pm (sample_state BatchStatusVerified 7) = None"
proof -
  obtain r d' where r: "run_treatment = (Inr r, d')" using succeededD [OF run_treatment_succeeds] by blast
  obtain pm where "record_treatment_tx (sample_env ''x'') ''rules-1'' ''b1'' sample_treatment pm (sample_state BatchStatusVerified 7) = Inr (r, d')"
    using r unfolding run_treatment_def by (auto simp: record_treatment_def sample_env_others run_tx_Inr split: sum.splits if_splits)
  then show ?thesis using sample_no_commands r by blast
qed

theorem treatment_prepares_analytics_witness:
  "\<exists>r d' t p. run_treatment = (Inr r, d') \<and> treatments d' = [t] \<and>
     prepare_analytics_tx (worker_env ''y'') ''b1'' (tr_event_id r) d' = Inr (p, d') \<and> ap_rule_version p = ''rules-1'' \<and>
     json_field ''reused_kg'' (ap_input p) = Some (json_opt JStr (t_reused t))"
proof -
  obtain pm r d' where c: "record_treatment_tx (sample_env ''x'') ''rules-1'' ''b1'' sample_treatment pm (sample_state BatchStatusVerified 7) = Inr (r, d')"
    "run_treatment = (Inr r, d')" "stored_command pm (sample_state BatchStatusVerified 7) = None"
    using sample_treatment_tx by (elim exE conjE) (rule that)
  have "treatments (sample_state BatchStatusVerified 7) = []" "trim_space ''rules-1'' \<noteq> []" by code_simp+
  then show ?thesis using treatment_prepares_analytics [OF sample_verified_wf c(1,3), of "worker_env ''y''"] c(2) by auto
qed




text \<open>
  C39 Uploads to the directory keep rows and objects together: when every row has its object, with the size,
  digest and type of the row, this still holds after an upload, whatever the commit and the file system
  answer.  A refused upload changes no row, and no object either unless the removal of its own object failed;
  one that succeeds repeats its recorded answer or adds one row and the object of its content.
\<close>

theorem upload_outcome:
  assumes "upload (Some (local_storage dir limit io)) sha max_bytes commit env bid rq m d s = (out, d', s')"
    and "local_objects dir s (evidence_object_key bid (env_id env 1)) = None"
    and "evidence_backed sha (local_objects dir s) d"
  shows "evidence_backed sha (local_objects dir s') d' \<and>
    (case out of
       Panics \<Rightarrow> False
     | Answers (Inl e) \<Rightarrow> d' = d \<and>
         (local_objects dir s' = local_objects dir s \<or>
          (\<exists>e s1. delete_object (local_storage dir limit io) (evidence_object_key bid (env_id env 1)) s1 = (Inl e, s')) \<and>
          (\<forall>j. j \<noteq> evidence_object_key bid (env_id env 1) \<longrightarrow> local_objects dir s' j = local_objects dir s j))
     | Answers (Inr r) \<Rightarrow> \<exists>pm v. normalize_evidence_upload sha rq max_bytes = Inr v \<and>
         (recorded decode_evidence_result pm r d \<and> d' = d \<and> s' = s \<or>
          stored_command pm d = None \<and> evidence_added env bid v pm r d d' \<and>
          local_objects dir s' = (local_objects dir s)(evidence_object_key bid (env_id env 1) \<mapsto> up_content rq)))"
  by (rule local_files.upload_result [OF assms])

lemma uploadedD: "uploaded x \<Longrightarrow> \<exists>r d s. x = (Answers (Inr r), d, s)"
  by (cases x; cases "fst x") (auto simp: uploaded_def split: sum.splits)

lemma sample_files_empty: "evidence_backed sha objs (sample_state BatchStatusCollected 6)"
  "evidences (sample_state BatchStatusCollected 6) = []"
  by (simp_all add: evidence_backed_def sample_state_def sample_db_def empty_db_def)

theorem upload_outcome_witness:
  "\<exists>r d s. run_upload = (Answers (Inr r), d, s) \<and> evidence_backed (\<lambda>_. digest) (local_objects ''/data'' s) d \<and>
     evidences d \<noteq> []"
proof -
  obtain r d s where r: "run_upload = (Answers (Inr r), d, s)" using uploadedD [OF run_upload_succeeds] by blast
  have "evidence_backed (\<lambda>_. digest) (local_objects ''/data'' s) d"
    using upload_outcome [OF r [unfolded run_upload_def sample_files_def], THEN conjunct1] sample_files_empty(1)
    by (simp add: local_objects_def)
  moreover have "evidences (fst (snd run_upload)) \<noteq> []" by code_simp
  then have "evidences d \<noteq> []" unfolding r by simp
  ultimately show ?thesis using r by blast
qed

text \<open>
  C40 What was uploaded is what is served: after an upload that stored an object, and any commands of the
  platform that leave that object in place, a download of its evidence identifier that succeeds returns the
  uploaded bytes under the cleaned name and the detected type, to the uploading recycler organisation or an
  auditor, and has recorded the access.
\<close>

theorem upload_download_round_trip:
  assumes "db_wf d" "upload (Some (local_storage dir limit io)) sha max_bytes None env bid rq m d s = (Answers (Inr r), d1, s1)"
    and "d1 \<noteq> d" "local_objects dir s (evidence_object_key bid (env_id env 1)) = None"
    and "reachable d1 d2" "local_objects dir s2 (evidence_object_key bid (env_id env 1)) = local_objects dir s1 (evidence_object_key bid (env_id env 1))"
    and "download (Some (local_storage dir limit2 io2)) sha env2 bid (ev_id (er_data r)) a co d2 s2 = (Inr x, d3)"
  shows "dl_content x = up_content rq \<and> dl_mime_type x = detect_content_type (up_content rq) \<and>
    dl_filename x = safe_evidence_filename (up_filename rq) \<and>
    (act_organisation_id a = act_organisation_id (md_actor m) \<or> to_upper (trim_space (act_role_code a)) = ''AUDITOR'') \<and>
    (\<exists>b. b_id b = bid \<and> access_recorded (ev_id (er_data r)) b (env_others env2 0 d2) d3)"
proof -
  let ?k = "evidence_object_key bid (env_id env 1)"
  obtain v pm b where v: "normalize_evidence_upload sha rq max_bytes = Inr v" and b: "b_id b = bid"
    and ev: "evidences d1 = evidences d @ [new_evidence (env_id env 1) pm v b (env_clock env 0)]"
    and r: "r = upload_response pm (new_evidence (env_id env 1) pm v b (env_clock env 0))"
    and o: "local_objects dir s1 ?k = Some (up_content rq)" and ac: "md_actor pm = md_actor m"
  proof -
    obtain v pm where u: "normalize_evidence_upload sha rq max_bytes = Inr v"
      "prepare_metadata env m ''UploadEvidence'' bid (upload_payload v) = Inr pm" "evidence_added env bid v pm r d d1"
      "local_objects dir s1 = (local_objects dir s)(?k \<mapsto> up_content rq)"
      using local_files.upload_stored [OF assms(2,3)] by blast
    obtain b where "b_id b = bid" "evidences d1 = evidences d @ [new_evidence (env_id env 1) pm v b (env_clock env 0)]"
      "r = upload_response pm (new_evidence (env_id env 1) pm v b (env_clock env 0))"
      using u(3) by (auto simp: evidence_added_def Let_def dest!: find_Some_memD)
    then show ?thesis using that [of v b pm] u by (simp add: prepare_metadata_actor)
  qed
  let ?e = "new_evidence (env_id env 1) pm v b (env_clock env 0)"
  have wf: "db_wf d2" using reachable_wf [OF assms(5)] upload_reachable [OF assms(2)] reachable_wf assms(1) by blast
  have pre: "prefix (evidences d1) (evidences d2)" using reachable_history [OF assms(5)] by (simp add: history_step_def)
  obtain b2 e ops where D: "ops = local_storage dir limit2 io2" "e \<in> set (evidences d2)" "e_id e = e_id ?e" "b_id b2 = bid"
    "get_object ops (e_object_key e) s2 = Inr (dl_content x)" "dl_filename x = e_file_name e" "dl_mime_type x = e_mime_type e"
    "to_upper (trim_space (act_role_code a)) = ''RECYCLER'' \<and> e_organisation_id e = act_organisation_id a \<or>
     to_upper (trim_space (act_role_code a)) = ''AUDITOR''"
    "access_recorded (ev_id (er_data r)) b2 (env_others env2 0 d2) d3"
    using download_outcome_D [OF assms(7)] by (auto simp: r upload_response_def evidence_view_of_def dest!: find_Some_memD)
  have "?e \<in> set (evidences d2)" using pre ev by (auto simp: prefix_def)
  then have e: "e = ?e" using D(2,3) wf by (auto simp: db_wf_defs dest: inj_onD distinct_map [THEN iffD1])
  have "local_objects dir s2 ?k = Some (dl_content x)"
    using local_files.get_reads [OF D(5) [unfolded D(1)]] by (simp add: e b new_evidence_def)
  then show ?thesis using D e o assms(6) ac normalize_upload_D [OF v]
    by (auto simp: new_evidence_def b normalize_upload_name [OF v])
qed


lemma sample_upload_answer: "map_option (\<lambda>r. ev_id (er_data r)) (case fst run_upload of Answers (Inr r) \<Rightarrow> Some r | _ \<Rightarrow> None) = Some ''u-1''"
  by code_simp

theorem upload_download_round_trip_witness:
  "\<exists>x d. run_download = (Inr x, d) \<and> dl_content x = up_content sample_upload \<and> dl_mime_type x = ''image/png'' \<and>
     dl_filename x = ''weight note.png''"
proof -
  obtain r d1 s1 where r: "run_upload = (Answers (Inr r), d1, s1)" using uploadedD [OF run_upload_succeeds] by blast
  obtain x d3 where x: "run_download = (Inr x, d3)" using succeededD [OF run_download_succeeds] by blast
  have "evidences (fst (snd run_upload)) \<noteq> []" by code_simp
  then have "evidences d1 \<noteq> []" unfolding r by simp
  then have ne: "d1 \<noteq> sample_state BatchStatusCollected 6" using sample_files_empty(2) by auto
  have i: "ev_id (er_data r) = ''u-1''" using sample_upload_answer unfolding r by simp
  have fr: "local_objects ''/data'' Map.empty k = None" for k by (simp add: local_objects_def)
  have v: "detect_content_type (up_content sample_upload) = ''image/png''"
    "safe_evidence_filename (up_filename sample_upload) = ''weight note.png''" by code_simp+
  show ?thesis
    using upload_download_round_trip [OF sample_collected_wf r [unfolded run_upload_def sample_files_def] ne fr rtranclp.rtrancl_refl refl
        x [unfolded run_download_def r prod.case, folded i, unfolded sample_files_def]] v x
    by (intro exI [of _ x] exI [of _ d3]) simp
qed

end
